(* ===== verification/Prelude.thy ===== *)
theory Prelude
  imports Main
begin

text \<open>
  Shared vocabulary of the development: the JavaScript primitives the sources call
  (string indexing that yields \<open>undefined\<close> out of range, \<open>String.prototype.substring\<close>,
  \<open>toUpperCase\<close> on ASCII, \<open>Array.prototype[i]\<close>), the collection \<open>js_simps\<close> of their
  evaluation rules, and the generic list lemmas the component theories share.
  A JavaScript string is a list of code units, modelled as \<open>char list\<close>; a JavaScript
  number used as an index or a length is an \<open>int\<close> where the code can make it negative
  and a \<open>nat\<close> where it cannot.
\<close>

named_theorems js_simps "evaluation rules for the JavaScript primitives of the model"

type_synonym js_string = string

subsection \<open>JavaScript primitives\<close>

definition js_at :: "'a list \<Rightarrow> int \<Rightarrow> 'a option" where
  "js_at xs i = (if 0 \<le> i \<and> i < int (length xs) then Some (xs ! nat i) else None)"

text \<open>\<open>String(input[i])\<close>: a one-character string, or the text \<open>undefined\<close>.\<close>

definition js_str_of :: "char option \<Rightarrow> js_string" where
  "js_str_of c = (case c of None \<Rightarrow> ''undefined'' | Some ch \<Rightarrow> [ch])"

text \<open>A template-literal interpolation of a string that may be \<open>undefined\<close>.\<close>

definition js_to_string :: "js_string option \<Rightarrow> js_string" where
  "js_to_string v = (case v of None \<Rightarrow> ''undefined'' | Some s \<Rightarrow> s)"

text \<open>
  \<open>String.prototype.substring\<close>: ECMAScript clamps both arguments into \<open>[0, length]\<close> and swaps them when the start
  exceeds the end.
\<close>

definition js_clamp :: "int \<Rightarrow> nat \<Rightarrow> nat" where
  "js_clamp i n = nat (min (max i 0) (int n))"

definition js_substring :: "js_string \<Rightarrow> int \<Rightarrow> int \<Rightarrow> js_string" where
  "js_substring s a b =
     (let x = js_clamp a (length s); y = js_clamp b (length s)
      in take (max x y - min x y) (drop (min x y) s))"

definition js_substring_from :: "js_string \<Rightarrow> int \<Rightarrow> js_string" where
  "js_substring_from s a = js_substring s a (int (length s))"

text \<open>\<open>String.prototype.toUpperCase\<close> on ASCII.\<close>

definition ascii_lower :: js_string where
  "ascii_lower = ''abcdefghijklmnopqrstuvwxyz''"

definition ascii_upper :: js_string where
  "ascii_upper = ''ABCDEFGHIJKLMNOPQRSTUVWXYZ''"

text \<open>Each of \<open>a..z\<close> goes to its capital; every other code unit is left alone.\<close>

definition js_upper_char :: "char \<Rightarrow> char" where
  "js_upper_char c = (case map_of (zip ascii_lower ascii_upper) c of None \<Rightarrow> c | Some u \<Rightarrow> u)"

definition js_upper :: "js_string \<Rightarrow> js_string" where
  "js_upper s = map js_upper_char s"

text \<open>\<open>String.prototype.split\<close> with a one-character separator.\<close>

fun js_split :: "char \<Rightarrow> js_string \<Rightarrow> js_string list" where
  "js_split c [] = [[]]"
| "js_split c (x # xs) =
     (let r = js_split c xs in if x = c then [] # r else (x # hd r) # tl r)"

text \<open>Joining with a separator, the inverse of \<open>js_split\<close> (\<open>Array.prototype.join\<close>).\<close>

fun join_with :: "char \<Rightarrow> js_string list \<Rightarrow> js_string" where
  "join_with c [] = []"
| "join_with c [w] = w"
| "join_with c (w # ws) = w @ c # join_with c ws"

text \<open>\<open>String.prototype.trim\<close>: white space and line terminators are removed at both
  ends; these are the ones among the model's 8-bit code units.\<close>

definition js_trim_chars :: "char list" where
  "js_trim_chars = [CHR 0x09, CHR 0x0A, CHR 0x0B, CHR 0x0C, CHR 0x0D, CHR 0x20, CHR 0xA0]"

definition js_trim :: "js_string \<Rightarrow> js_string" where
  "js_trim s = rev (dropWhile (\<lambda>c. c \<in> set js_trim_chars) (rev (dropWhile (\<lambda>c. c \<in> set js_trim_chars) s)))"

text \<open>\<open>String.prototype.replaceAll\<close> with a string pattern: the occurrences found left to
  right, each after the previous one, are replaced; the empty pattern matches before every
  code unit and at the end.\<close>

function js_replace_all :: "js_string \<Rightarrow> js_string \<Rightarrow> js_string \<Rightarrow> js_string" where
  "js_replace_all pat rep [] = (if pat = [] then rep else [])"
| "js_replace_all pat rep (c # cs) =
     (if pat = [] then rep @ concat (map (\<lambda>x. x # rep) (c # cs))
      else if take (length pat) (c # cs) = pat then rep @ js_replace_all pat rep (drop (length pat) (c # cs))
      else c # js_replace_all pat rep cs)"
  by pat_completeness auto
termination
  by (relation "measure (\<lambda>(pat, rep, s). length s)") auto

text \<open>\<open>String(n)\<close> and template-literal interpolation of a non-negative integer: its decimal
  digits without leading zeros.\<close>

fun js_nat_str :: "nat \<Rightarrow> js_string" where
  "js_nat_str n =
     (if n < 10 then [char_of (48 + n)] else js_nat_str (n div 10) @ [char_of (48 + n mod 10)])"

declare js_nat_str.simps [simp del]

text \<open>Reading decimal digits back, as \<open>parseInt(s, 10)\<close> reads a string of digits.\<close>

definition parse_decimal :: "js_string \<Rightarrow> nat" where
  "parse_decimal s = foldl (\<lambda>acc c. 10 * acc + (of_char c - 48)) 0 s"

subsection \<open>Evaluation rules and shared lemmas\<close>

lemma js_to_string_simps [simp, js_simps]:
  "js_to_string None = ''undefined''" "js_to_string (Some s) = s"
  by (simp_all add: js_to_string_def)

lemma js_at_nat [js_simps]:
  "js_at xs (int i) = (if i < length xs then Some (xs ! i) else None)"
  by (simp add: js_at_def)

lemma js_at_beyond [js_simps]: "int (length xs) \<le> i \<Longrightarrow> js_at xs i = None"
  by (simp add: js_at_def)

lemma js_str_of_simps [simp, js_simps]:
  "js_str_of None = ''undefined''" "js_str_of (Some c) = [c]"
  by (simp_all add: js_str_of_def)

lemma js_substring_nat [js_simps]:
  assumes "a \<le> b" and "b \<le> length s"
  shows "js_substring s (int a) (int b) = take (b - a) (drop a s)"
proof -
  have "js_clamp (int a) (length s) = a" "js_clamp (int b) (length s) = b"
    using assms by (simp_all add: js_clamp_def)
  with assms show ?thesis by (simp add: js_substring_def)
qed

lemma js_clamp_nat [simp, js_simps]: "i \<le> n \<Longrightarrow> js_clamp (int i) n = i"
  by (simp add: js_clamp_def)

lemma js_substring_prefix [js_simps]:
  "i \<le> length s \<Longrightarrow> js_substring s 0 (int i) = take i s"
  by (simp add: js_substring_def js_clamp_def)

lemma js_substring_from_nat [js_simps]:
  "js_substring_from s (int i) = drop i s"
proof (cases "i \<le> length s")
  case True
  then show ?thesis by (simp add: js_substring_from_def js_substring_def)
next
  case False
  then have "js_clamp (int i) (length s) = length s" by (simp add: js_clamp_def)
  with False show ?thesis by (simp add: js_substring_from_def js_substring_def)
qed

lemma length_js_upper [simp]: "length (js_upper s) = length s"
  by (simp add: js_upper_def)

lemma js_upper_append [simp]: "js_upper (xs @ ys) = js_upper xs @ js_upper ys"
  by (simp add: js_upper_def)

lemma js_upper_Nil [simp]: "js_upper [] = []"
  by (simp add: js_upper_def)

lemma take_append_drop_splice:
  "i \<le> length s \<Longrightarrow> take i s @ w @ drop (i + n) s = take i s @ w @ drop n (drop i s)"
  by (simp add: add.commute)

lemma concat_replicate_snoc: "concat (replicate k u) @ u = concat (replicate (Suc k) u)"
  by (induction k) simp_all

lemma rev_takeWhile_suffix:
  "\<exists>p. xs = p @ rev (takeWhile P (rev xs))"
proof -
  have "rev xs = takeWhile P (rev xs) @ dropWhile P (rev xs)" by simp
  then have "xs = rev (dropWhile P (rev xs)) @ rev (takeWhile P (rev xs))"
    by (metis rev_append rev_rev_ident)
  then show ?thesis by blast
qed

lemma dropWhile_neq_absent: "c \<notin> set xs \<Longrightarrow> dropWhile (\<lambda>x. x \<noteq> c) xs = []"
  by (induction xs) auto

lemma fold_map_upd_lookup:
  "fold (\<lambda>x m. m(f x \<mapsto> g x)) xs m0 k =
     (if \<exists>x\<in>set xs. f x = k then Some (g (last (filter (\<lambda>x. f x = k) xs))) else m0 k)"
  by (induction xs arbitrary: m0) (auto simp: filter_empty_conv)

text \<open>
  Potential arguments over \<open>fold\<close>, for loops that walk an array with \<open>forEach\<close>: when
  every step changes a quantity by a known amount (or at most by it), the whole walk
  changes it by the sum.
\<close>

lemma fold_potential:
  assumes "\<And>st x. x \<in> set xs \<Longrightarrow> \<Phi> (f x st) = \<Phi> st + g x"
  shows "\<Phi> (fold f xs st) = \<Phi> st + sum_list (map g xs)"
  using assms by (induction xs arbitrary: st) (simp_all add: add.assoc)

lemma fold_potential_le:
  assumes "\<And>st x. x \<in> set xs \<Longrightarrow> \<Phi> (f x st) \<le> \<Phi> st + g x"
  shows "\<Phi> (fold f xs st) \<le> \<Phi> st + (sum_list (map g xs) :: nat)"
  using assms
proof (induction xs arbitrary: st)
  case Nil
  then show ?case by simp
next
  case (Cons x xs)
  have "\<Phi> (fold f xs (f x st)) \<le> \<Phi> (f x st) + sum_list (map g xs)"
    using Cons.prems by (intro Cons.IH) simp
  moreover have "\<Phi> (f x st) \<le> \<Phi> st + g x" using Cons.prems by simp
  ultimately show ?case by simp
qed

lemma js_split_nonempty [simp]: "js_split c s \<noteq> []"
  by (induction s) (simp_all add: Let_def)

lemma js_split_concat:
  "join_with c (js_split c s) = s \<and> length (js_split c s) = Suc (count_list s c)"
proof (induction s)
  case Nil
  then show ?case by simp
next
  case (Cons x xs)
  obtain w ws where r: "js_split c xs = w # ws"
    by (cases "js_split c xs") simp_all
  with Cons.IH show ?case
    by (cases ws) (auto simp: Let_def)
qed

lemma js_split_tail:
  assumes "js_split c xs = w # ws"
  shows "ws \<noteq> [] \<longleftrightarrow> c \<in> set xs"
proof -
  have "length ws = count_list xs c" using js_split_concat [of c xs] assms by simp
  then show ?thesis by (metis count_list_0_iff length_0_conv)
qed

lemma js_split_last:
  "last (js_split c s) = rev (takeWhile (\<lambda>x. x \<noteq> c) (rev s))"
proof (induction s)
  case Nil
  then show ?case by simp
next
  case (Cons x xs)
  obtain w ws where r: "js_split c xs = w # ws"
    by (cases "js_split c xs") simp_all
  show ?case
  proof (cases "c \<in> set xs")
    case True
    then have "takeWhile (\<lambda>y. y \<noteq> c) (rev xs @ [x]) = takeWhile (\<lambda>y. y \<noteq> c) (rev xs)"
      by (simp add: takeWhile_append1 [of c])
    moreover have "ws \<noteq> []" using js_split_tail [OF r] True by simp
    ultimately show ?thesis using Cons.IH r by (auto simp: Let_def)
  next
    case False
    have ws: "ws = []" using js_split_tail [OF r] False by simp
    have all: "takeWhile (\<lambda>y. y \<noteq> c) (rev xs) = rev xs"
      using False by (auto simp: takeWhile_eq_all_conv)
    have "w = rev (takeWhile (\<lambda>y. y \<noteq> c) (rev xs))" using Cons.IH r ws by simp
    then have w: "w = xs" by (simp only: all rev_rev_ident)
    have tw: "takeWhile (\<lambda>y. y \<noteq> c) (rev xs @ [x]) = rev xs @ takeWhile (\<lambda>y. y \<noteq> c) [x]"
      using False by (subst takeWhile_append2) auto
    show ?thesis using r ws w tw by (simp add: Let_def)
  qed
qed

lemma js_split_append_plain:
  "c \<notin> set w \<Longrightarrow> js_split c (w @ s) = (w @ hd (js_split c s)) # tl (js_split c s)"
  by (induction w) (auto simp: Let_def)

lemma js_split_join:
  "ws \<noteq> [] \<Longrightarrow> \<forall>w\<in>set ws. c \<notin> set w \<Longrightarrow> js_split c (join_with c ws) = ws"
proof (induction ws)
  case Nil
  then show ?case by simp
next
  case (Cons w ws)
  show ?case
  proof (cases ws)
    case Nil
    then show ?thesis using Cons.prems js_split_append_plain [of c w "[]"] by simp
  next
    case (Cons v vs)
    then have "js_split c (join_with c ws) = ws" using Cons.IH \<open>Cons w ws \<noteq> []\<close> Cons.prems
      by (metis list.distinct(1) list.set_intros(2))
    then show ?thesis
      using Cons Cons.prems js_split_append_plain [of c w "c # join_with c ws"] by (simp add: Let_def)
  qed
qed

lemma js_split_no_sep: "w \<in> set (js_split c s) \<Longrightarrow> c \<notin> set w"
proof (induction s arbitrary: w)
  case Nil
  then show ?case by simp
next
  case (Cons x xs)
  obtain v vs where r: "js_split c xs = v # vs" by (cases "js_split c xs") simp_all
  then have "c \<notin> set v" "\<forall>u\<in>set vs. c \<notin> set u" using Cons.IH by auto
  then show ?case using Cons.prems r by (auto simp: Let_def split: if_splits)
qed

lemma length_filter_index_eq:
  "length (filter (\<lambda>i. k = int i) [0..<n]) = (if 0 \<le> k \<and> k < int n then 1 else 0)"
proof -
  have "set (filter (\<lambda>i. k = int i) [0..<n]) = (if 0 \<le> k \<and> k < int n then {nat k} else {})"
    by auto
  moreover have "card (set (filter (\<lambda>i. k = int i) [0..<n])) = length (filter (\<lambda>i. k = int i) [0..<n])"
    by (rule distinct_card) simp
  ultimately show ?thesis
    by (metis card.empty is_singleton_altdef is_singleton_def)
qed

lemma count_js_replace_all:
  assumes "a \<notin> set pat" and "a \<notin> set rep" and "pat \<noteq> []"
  shows "count_list (js_replace_all pat rep s) a = count_list s a"
  using assms
proof (induction pat rep s rule: js_replace_all.induct)
  case (2 pat rep c cs)
  show ?case
  proof (cases "take (length pat) (c # cs) = pat")
    case True
    have "count_list (c # cs) a = count_list (take (length pat) (c # cs)) a + count_list (drop (length pat) (c # cs)) a"
      by (simp flip: count_list_append)
    moreover have "count_list pat a = 0" using "2.prems"(1) by (simp add: count_list_0_iff)
    ultimately show ?thesis using 2 True by simp
  next
    case False
    then show ?thesis using 2 by simp
  qed
qed simp

lemma takeWhile_neq_swap:
  "b \<in> set (takeWhile (\<lambda>x. x \<noteq> a) t) \<Longrightarrow> a \<notin> set (takeWhile (\<lambda>x. x \<noteq> b) t)"
  by (induction t) auto

lemma length_js_split: "length (js_split c s) = Suc (count_list s c)"
  using js_split_concat [of c s] by simp

lemma parse_decimal_js_nat_str [simp]: "parse_decimal (js_nat_str n) = n"
proof (induction n rule: js_nat_str.induct)
  case (1 n)
  show ?case
  proof (cases "n < 10")
    case True
    then show ?thesis by (simp add: js_nat_str.simps parse_decimal_def)
  next
    case False
    then have "parse_decimal (js_nat_str n) = 10 * parse_decimal (js_nat_str (n div 10)) + n mod 10"
      by (simp add: js_nat_str.simps [of n] parse_decimal_def)
    then show ?thesis using 1 False by simp
  qed
qed

lemma js_nat_str_inj: "js_nat_str m = js_nat_str n \<longleftrightarrow> m = n"
  by (metis parse_decimal_js_nat_str)

end
