(* ===== verification/WordExtract.thy ===== *)
theory WordExtract
  imports Prelude
begin

text \<open>
  The Word Extractor: \<open>isWhiteSpace\<close> and \<open>getWordBackwards\<close> of
  \<open>src/src/components/autocomplete/autocomplete.component.tsx\<close> (lines 52--74), with the
  \<open>WordExtraction\<close> and \<open>WordData\<close> shapes they return. The backward \<open>for\<close> loop is
  the structural recursion \<open>get_word_scan\<close> on the loop index. Reading \<open>input[i]\<close>
  past the end of the text yields \<open>undefined\<close>, which the loop body turns into the
  nine characters \<open>undefined\<close>; the model keeps that path.
\<close>

subsection \<open>Data\<close>

record word_data =
  start_index :: int
  wd_length :: int

record word_extraction =
  word :: js_string
  word_data :: word_data

subsection \<open>\<open>isWhiteSpace\<close>: the regular expression \<open>/[\s \r\n]/\<close>\<close>

text \<open>
  Among the code units of the model's 8-bit strings the class \<open>\s\<close> is tab, line feed,
  vertical tab, form feed, carriage return, space and the no-break space U+00A0; its other
  members (U+1680, U+2000 to U+200A, U+2028, U+2029, U+202F, U+205F, U+3000, U+FEFF) lie
  above U+00FF and are not code units of the model. \<open>RegExp.prototype.test\<close> looks for one matching code unit
  anywhere in its (string-converted) argument.
\<close>

definition white_space_chars :: "char list" where
  "white_space_chars = [CHR 0x09, CHR 0x0A, CHR 0x0B, CHR 0x0C, CHR 0x0D, CHR 0x20, CHR 0xA0]"

definition is_space_char :: "char \<Rightarrow> bool" where
  "is_space_char c \<longleftrightarrow> c \<in> set white_space_chars"

definition is_white_space :: "js_string \<Rightarrow> bool" where
  "is_white_space s \<longleftrightarrow> list_ex is_space_char s"

subsection \<open>\<open>getWordBackwards\<close>\<close>

text \<open>
  \<open>get_word_scan input i word lastIndex\<close> is the loop state before the iteration with
  index \<open>i - 1\<close>: the loop stops at \<open>i = 0\<close> or at the first white space.
\<close>

fun get_word_scan :: "js_string \<Rightarrow> nat \<Rightarrow> js_string \<Rightarrow> nat \<Rightarrow> js_string \<times> nat" where
  "get_word_scan input 0 w lastIndex = (w, lastIndex)"
| "get_word_scan input (Suc i) w lastIndex =
     (let c = js_str_of (js_at input (int i))
      in if is_white_space c then (w, lastIndex) else get_word_scan input i (c @ w) i)"

definition get_word_backwards :: "js_string \<Rightarrow> nat \<Rightarrow> word_extraction" where
  "get_word_backwards input startIndex =
     (let (w, lastIndex) = get_word_scan input startIndex [] startIndex
      in \<lparr>word = w,
          word_data = \<lparr>start_index = int lastIndex, wd_length = int startIndex - int lastIndex\<rparr>\<rparr>)"

subsection \<open>Reference: the white-space-free suffix before the caret\<close>

definition word_before :: "js_string \<Rightarrow> nat \<Rightarrow> js_string" where
  "word_before s n = rev (takeWhile (\<lambda>c. \<not> is_space_char c) (rev (take n s)))"

subsection \<open>Lemmas\<close>

lemma is_white_space_single [simp]: "is_white_space [c] = is_space_char c"
  by (simp add: is_white_space_def)

lemma is_white_space_undefined [simp]: "\<not> is_white_space ''undefined''"
  by (simp add: is_white_space_def is_space_char_def white_space_chars_def)

lemma word_before_0 [simp]: "word_before s 0 = []"
  by (simp add: word_before_def)

lemma word_before_Suc:
  "i < length s \<Longrightarrow> word_before s (Suc i) =
     (if is_space_char (s ! i) then [] else word_before s i @ [s ! i])"
  by (simp add: word_before_def take_Suc_conv_app_nth)

lemma length_word_before: "length (word_before s n) \<le> min n (length s)"
proof -
  have "length (takeWhile (\<lambda>c. \<not> is_space_char c) (rev (take n s))) \<le> length (rev (take n s))"
    by (rule length_takeWhile_le)
  then show ?thesis by (simp add: word_before_def)
qed

lemma word_before_no_space: "c \<in> set (word_before s n) \<Longrightarrow> \<not> is_space_char c"
  by (auto simp: word_before_def dest: set_takeWhileD)

text \<open>The loop on in-range indices computes the reference suffix.\<close>

lemma get_word_scan_in_range:
  "i \<le> length s \<Longrightarrow> get_word_scan s i w l =
     (word_before s i @ w, if word_before s i = [] then l else i - length (word_before s i))"
proof (induction i arbitrary: w l)
  case 0
  then show ?case by simp
next
  case (Suc i)
  then have i: "i < length s" by simp
  show ?case
  proof (cases "is_space_char (s ! i)")
    case True
    with i show ?thesis by (simp add: js_at_nat word_before_Suc)
  next
    case False
    have le: "length (word_before s i) \<le> i" using length_word_before [of s i] by simp
    from False i Suc.IH [of "[s ! i] @ w" i] le show ?thesis
      by (auto simp: js_at_nat word_before_Suc)
  qed
qed

text \<open>Out-of-range indices contribute the text \<open>undefined\<close> each and never stop the loop.\<close>

lemma get_word_scan_beyond:
  "get_word_scan s (length s + k) w l =
     get_word_scan s (length s) (concat (replicate k ''undefined'') @ w)
       (if k = 0 then l else length s)"
proof (induction k arbitrary: w l)
  case 0
  then show ?case by simp
next
  case (Suc k)
  have "get_word_scan s (length s + Suc k) w l =
          get_word_scan s (length s + k) (''undefined'' @ w) (length s + k)"
    by (simp add: js_at_beyond Let_def)
  also have "\<dots> = get_word_scan s (length s)
                    (concat (replicate k ''undefined'') @ ''undefined'' @ w) (length s)"
    by (simp add: Suc.IH)
  also have "concat (replicate k ''undefined'') @ ''undefined'' @ w =
             concat (replicate (Suc k) ''undefined'') @ w"
    by (simp only: append_assoc [symmetric] concat_replicate_snoc)
  finally show ?case by simp
qed

lemma word_before_split:
  "take n s = take (min n (length s) - length (word_before s n)) s @ word_before s n"
proof -
  obtain p where p: "take n s = p @ word_before s n"
    using rev_takeWhile_suffix [of "take n s"] by (auto simp: word_before_def)
  have len: "length p = min n (length s) - length (word_before s n)"
    using arg_cong [OF p, of length] by simp
  have le: "length p \<le> n" using len by simp
  have "p = take (length p) (take n s)" using p by simp
  also have "\<dots> = take (length p) s" using le by (simp add: min_absorb1)
  finally have "p = take (length p) s" .
  with p len show ?thesis by simp
qed

lemma word_before_stop:
  assumes "length (word_before s n) < n" and "n \<le> length s"
  shows "is_space_char (s ! (n - length (word_before s n) - 1))"
proof -
  let ?P = "\<lambda>c. \<not> is_space_char c" and ?r = "rev (take n s)"
  have k: "length (takeWhile ?P ?r) = length (word_before s n)"
    by (simp add: word_before_def)
  with assms have lt: "length (takeWhile ?P ?r) < length ?r" by simp
  then have "\<not> ?P (?r ! length (takeWhile ?P ?r))"
    using nth_length_takeWhile by blast
  with lt k assms show ?thesis by (simp add: rev_nth)
qed

lemma get_word_scan_last_le: "snd (get_word_scan s i w l) \<le> max i l"
  by (induction s i w l rule: get_word_scan.induct) (auto simp: Let_def)

lemma get_word_backwards_in_range:
  "n \<le> length s \<Longrightarrow> get_word_backwards s n =
     \<lparr>word = word_before s n,
      word_data = \<lparr>start_index = int (n - length (word_before s n)),
                   wd_length = int (length (word_before s n))\<rparr>\<rparr>"
  using length_word_before [of s n] by (auto simp: get_word_backwards_def get_word_scan_in_range)

lemma get_word_backwards_beyond:
  "length s \<le> n \<Longrightarrow> get_word_backwards s n =
     \<lparr>word = word_before s (length s) @ concat (replicate (n - length s) ''undefined''),
      word_data = \<lparr>start_index = int (length s - length (word_before s (length s))),
                   wd_length = int (n - length s + length (word_before s (length s)))\<rparr>\<rparr>"
proof -
  assume le: "length s \<le> n"
  define k where "k = n - length s"
  with le have n: "n = length s + k" by simp
  have w: "length (word_before s (length s)) \<le> length s"
    using length_word_before [of s "length s"] by simp
  show ?thesis
    using w by (auto simp: n get_word_backwards_def get_word_scan_beyond get_word_scan_in_range)
qed

subsection \<open>Properties of \<open>getWordBackwards\<close>\<close>

text \<open>
  Claim C1: with the caret inside the text, \<open>getWordBackwards\<close> returns exactly the
  longest white-space-free run that ends at the caret; its span starts where that run
  starts and its length is the run's length.
\<close>

theorem get_word_backwards_spec:
  assumes "n \<le> length s"
  shows "word (get_word_backwards s n) = word_before s n \<and>
         start_index (word_data (get_word_backwards s n)) = int n - int (length (word_before s n)) \<and>
         wd_length (word_data (get_word_backwards s n)) = int (length (word_before s n))"
  using assms length_word_before [of s n] by (simp add: get_word_backwards_in_range)

lemma get_word_backwards_spec_witness:
  "3 \<le> length ''x ab'' \<and>
   word (get_word_backwards ''x ab'' 3) = word_before ''x ab'' 3 \<and>
   start_index (word_data (get_word_backwards ''x ab'' 3)) =
     int 3 - int (length (word_before ''x ab'' 3)) \<and>
   wd_length (word_data (get_word_backwards ''x ab'' 3)) = int (length (word_before ''x ab'' 3))"
  using get_word_backwards_spec [of 3 "''x ab''"] by simp

text \<open>
  The extracted word never contains a white-space code unit, wherever the
  caret is, including past the end of the text.
\<close>

theorem get_word_backwards_no_space:
  "\<forall>c \<in> set (word (get_word_backwards s n)). \<not> is_space_char c"
proof (cases "n \<le> length s")
  case True
  then show ?thesis by (simp add: get_word_backwards_in_range word_before_no_space)
next
  case False
  define k where "k = n - length s"
  with False have n: "n = length s + k" by simp
  have u: "\<forall>c \<in> set ''undefined''. \<not> is_space_char c"
    by (simp add: is_space_char_def white_space_chars_def)
  have "word (get_word_backwards s n) =
          word_before s (length s) @ concat (replicate k ''undefined'')"
    by (simp add: n get_word_backwards_def get_word_scan_beyond get_word_scan_in_range
             split: prod.splits)
  with u show ?thesis by (auto simp: word_before_no_space)
qed

text \<open>
  Claim C2: with the caret inside the text, the span is the word's place in the text:
  \<open>text.substring(startIndex, startIndex + length)\<close> is the word, the span ends at
  the caret, and the code unit just before the span is white space unless the span starts
  the text.
\<close>

theorem get_word_backwards_span:
  assumes "n \<le> length s"
  shows "js_substring s (start_index (word_data (get_word_backwards s n)))
            (start_index (word_data (get_word_backwards s n)) +
             wd_length (word_data (get_word_backwards s n)))
           = word (get_word_backwards s n) \<and>
         start_index (word_data (get_word_backwards s n)) +
           wd_length (word_data (get_word_backwards s n)) = int n \<and>
         (start_index (word_data (get_word_backwards s n)) = 0 \<or>
          is_space_char (s ! nat (start_index (word_data (get_word_backwards s n)) - 1)))"
proof -
  let ?w = "word_before s n" and ?k = "length (word_before s n)"
  have k: "?k \<le> n" using length_word_before [of s n] by simp
  have split: "take n s = take (n - ?k) s @ ?w"
    using word_before_split [of n s] assms by (simp add: min_absorb1)
  have nk: "n - ?k \<le> length s" using assms by simp
  have "drop (n - ?k) (take n s) = ?w"
    by (subst split) (simp add: nk min_absorb2)
  then have sub: "take ?k (drop (n - ?k) s) = ?w"
    using k by (simp add: drop_take)
  have stop: "n - ?k = 0 \<or> is_space_char (s ! (n - ?k - 1))"
    using word_before_stop [of s n] assms k by (cases "?k < n") auto
  let ?a = "int (n - ?k)"
  have sum: "?a + int ?k = int n" using k by simp
  have "js_substring s ?a (int n) = take (n - (n - ?k)) (drop (n - ?k) s)"
    by (rule js_substring_nat) (use assms in simp_all)
  moreover have "n - (n - ?k) = ?k" using k by simp
  ultimately have A: "js_substring s ?a (?a + int ?k) = ?w"
    using sub by (simp only: sum)
  have B: "nat (?a - 1) = n - ?k - 1" by simp
  have C: "?a = 0 \<longleftrightarrow> n - ?k = 0" by simp
  have gw: "get_word_backwards s n = \<lparr>word = ?w, word_data = \<lparr>start_index = ?a, wd_length = int ?k\<rparr>\<rparr>"
    by (rule get_word_backwards_in_range [OF assms])
  show ?thesis
    unfolding gw using A B C sum stop by (simp only: word_extraction.simps word_data.simps)
qed

lemma get_word_backwards_span_witness:
  "js_substring ''x ab'' (start_index (word_data (get_word_backwards ''x ab'' 4)))
     (start_index (word_data (get_word_backwards ''x ab'' 4)) +
      wd_length (word_data (get_word_backwards ''x ab'' 4))) = ''ab'' \<and>
   start_index (word_data (get_word_backwards ''x ab'' 4)) = 2"
proof -
  have e: "get_word_backwards ''x ab'' 4 =
             \<lparr>word = ''ab'', word_data = \<lparr>start_index = 2, wd_length = 2\<rparr>\<rparr>"
    by code_simp
  have "4 \<le> length ''x ab''" by simp
  from get_word_backwards_span [OF this] e show ?thesis by simp
qed

text \<open>
  Claim C3: with the caret past the end of the text (the text was replaced by a shorter
  one, for instance by an example click, without a caret update), each missing index
  contributes the nine characters \<open>undefined\<close> to the word while the span only counts one
  position for it: the word and its span disagree.
\<close>

theorem get_word_backwards_past_end:
  assumes "length s < n"
  shows "word (get_word_backwards s n) =
           word_before s (length s) @ concat (replicate (n - length s) ''undefined'') \<and>
         int (length (word (get_word_backwards s n))) =
           wd_length (word_data (get_word_backwards s n)) + 8 * int (n - length s)"
  using assms by (simp add: get_word_backwards_beyond length_concat sum_list_replicate)

lemma get_word_backwards_past_end_witness:
  "word (get_word_backwards ''ab'' 3) = ''abundefined'' \<and>
   wd_length (word_data (get_word_backwards ''ab'' 3)) = 3"
proof -
  have "length ''ab'' < (3::nat)" by simp
  from get_word_backwards_past_end [OF this] show ?thesis
    by (simp add: get_word_backwards_beyond word_before_def is_space_char_def white_space_chars_def)
qed

lemma get_word_backwards_no_space_witness:
  "word (get_word_backwards ''a bc'' 4) = ''bc'' \<and>
   \<not> is_space_char (CHR ''b'') \<and> \<not> is_space_char (CHR ''c'')"
proof -
  have e: "word (get_word_backwards ''a bc'' 4) = ''bc''" by code_simp
  from e get_word_backwards_no_space [of "''a bc''" 4] show ?thesis by simp
qed

text \<open>
  The word data are indices. Whatever the text and the caret, the start index
  and the length \<open>getWordBackwards\<close> returns are non-negative integers that add up to the
  caret offset.
\<close>

theorem get_word_backwards_data_type:
  "0 \<le> start_index (word_data (get_word_backwards s n)) \<and>
   0 \<le> wd_length (word_data (get_word_backwards s n)) \<and>
   start_index (word_data (get_word_backwards s n)) + wd_length (word_data (get_word_backwards s n)) = int n"
proof -
  obtain w l where g: "get_word_scan s n [] n = (w, l)" by fastforce
  then have "l \<le> n" using get_word_scan_last_le [of s n "[]" n] by simp
  then show ?thesis by (simp add: get_word_backwards_def g)
qed

end
