(* ===== verification/Similarity.thy ===== *)
theory Similarity
  imports Complex_Main "HOL-Library.Multiset" Prelude
begin

text \<open>
  The Similarity Ranker: \<open>calculateAccuracy\<close>, \<open>assemblySuggestionForWords\<close> and
  \<open>findSimilarWords\<close> of \<open>src/src/components/autocomplete/autocomplete.component.tsx\<close>
  (lines 76--100). A JavaScript \<open>Set\<close> built from a string keeps the first occurrence of
  each code unit in order, which is \<open>remdups\<close>; its \<open>size\<close> is the length of that
  list. Scores are JavaScript doubles; they are modelled as exact rationals
  (see the header of \<open>Spec2Isabelle\<close> for why the comparisons agree); the one
  score they disagree on is two empty words, \<open>NaN\<close> in JavaScript and 0 here, which the
  program never computes. The engine's
  \<open>Array.prototype.sort\<close> is stable (ECMAScript 2019), and the comparator
  \<open>b.accuracy - a.accuracy\<close> orders by descending score: \<open>sort_key\<close> on the negated
  score is the stable sort that does this, and \<open>find_similar_words_unique\<close> shows that
  every stable descending sort gives the same list.
\<close>

subsection \<open>Data\<close>

record suggestion_with_accuracy =
  sug_word :: js_string
  accuracy :: rat

subsection \<open>Operations\<close>

definition starts_with :: "js_string \<Rightarrow> js_string \<Rightarrow> bool" where
  "starts_with s p \<longleftrightarrow> take (length p) s = p"

definition calculate_accuracy :: "js_string \<Rightarrow> js_string \<Rightarrow> rat" where
  "calculate_accuracy word1 word2 =
     (let word1Upper = js_upper word1; word2Upper = js_upper word2
      in if length word2 < length word1 \<and> starts_with word1Upper word2Upper
         then (of_nat (length word2) / of_nat (length word1)) * 2
         else (let set1 = remdups word1Upper; set2 = remdups word2Upper;
                   intersection = remdups (filter (\<lambda>c. c \<in> set set2) set1);
                   union = remdups (set1 @ set2)
               in of_nat (length intersection) / of_nat (length union)))"

definition assembly_suggestion_for_words ::
  "js_string \<Rightarrow> js_string \<Rightarrow> suggestion_with_accuracy" where
  "assembly_suggestion_for_words word1 word2 =
     \<lparr>sug_word = word2, accuracy = calculate_accuracy word2 word1\<rparr>"

text \<open>The literal \<open>0.6\<close> of the filter.\<close>

definition accuracy_threshold :: rat where
  "accuracy_threshold = 3 / 5"

definition find_similar_words ::
  "js_string \<Rightarrow> js_string list \<Rightarrow> suggestion_with_accuracy list" where
  "find_similar_words inputWord wordsList =
     filter (\<lambda>s. accuracy_threshold < accuracy s)
       (sort_key (\<lambda>s. - accuracy s) (map (assembly_suggestion_for_words inputWord) wordsList))"

subsection \<open>Reference: Jaccard index and stable descending order\<close>

definition jaccard :: "js_string \<Rightarrow> js_string \<Rightarrow> rat" where
  "jaccard a b = of_nat (card (set a \<inter> set b)) / of_nat (card (set a \<union> set b))"

text \<open>
  What any stable sort by descending score promises: the same elements, in non-increasing
  score, and the elements of one score in their original order.
\<close>

definition stable_desc_sort_of ::
  "('a \<Rightarrow> rat) \<Rightarrow> 'a list \<Rightarrow> 'a list \<Rightarrow> bool" where
  "stable_desc_sort_of f xs ys \<longleftrightarrow>
     mset ys = mset xs \<and> sorted (map (\<lambda>y. - f y) ys) \<and>
     (\<forall>k \<in> set ys. filter (\<lambda>y. f k = f y) ys = filter (\<lambda>y. f k = f y) xs)"

subsection \<open>Lemmas\<close>

lemma length_remdups_card: "length (remdups xs) = card (set xs)"
  by (simp add: length_remdups_card_conv)

lemma calculate_accuracy_jaccard_branch:
  "\<not> (length word2 < length word1 \<and> starts_with (js_upper word1) (js_upper word2)) \<Longrightarrow>
   calculate_accuracy word1 word2 = jaccard (js_upper word1) (js_upper word2)"
proof -
  assume n: "\<not> (length word2 < length word1 \<and> starts_with (js_upper word1) (js_upper word2))"
  have "set (filter (\<lambda>c. c \<in> set (js_upper word2)) (js_upper word1)) =
        set (js_upper word1) \<inter> set (js_upper word2)" by auto
  then show ?thesis
    unfolding calculate_accuracy_def Let_def if_not_P [OF n]
    by (simp add: jaccard_def length_remdups_card)
qed

lemma calculate_accuracy_prefix_branch:
  "length word2 < length word1 \<Longrightarrow> starts_with (js_upper word1) (js_upper word2) \<Longrightarrow>
   calculate_accuracy word1 word2 = of_nat (length word2) / of_nat (length word1) * 2"
  by (simp add: calculate_accuracy_def)

lemma jaccard_bounds: "0 \<le> jaccard a b \<and> jaccard a b \<le> 1"
proof -
  have "card (set a \<inter> set b) \<le> card (set a \<union> set b)"
    by (rule card_mono) auto
  then show ?thesis
    by (cases "card (set a \<union> set b) = 0") (simp_all add: jaccard_def divide_le_eq_1 card_gt_0_iff)
qed

lemma jaccard_self: "a \<noteq> [] \<Longrightarrow> jaccard a a = 1"
  by (simp add: jaccard_def)

lemma accuracy_assembly [simp]:
  "accuracy (assembly_suggestion_for_words w v) = calculate_accuracy v w"
  "sug_word (assembly_suggestion_for_words w v) = v"
  by (simp_all add: assembly_suggestion_for_words_def)

lemma filter_sort_key_comm:
  "filter P (sort_key f xs) = sort_key f (filter P xs)"
  by (rule filter_sort)

lemma find_similar_words_alt:
  "find_similar_words w ws =
     sort_key (\<lambda>s. - accuracy s)
       (filter (\<lambda>s. accuracy_threshold < accuracy s) (map (assembly_suggestion_for_words w) ws))"
  by (simp add: find_similar_words_def filter_sort_key_comm)

lemma stable_desc_sort_of_sort_key:
  "stable_desc_sort_of f xs ys \<longleftrightarrow> ys = sort_key (\<lambda>y. - f y) xs"
proof
  assume a: "stable_desc_sort_of f xs ys"
  have "sort_key (\<lambda>y. - f y) xs = ys"
  proof (rule properties_for_sort_key)
    show "mset ys = mset xs" "sorted (map (\<lambda>y. - f y) ys)"
      using a by (simp_all add: stable_desc_sort_of_def)
    fix k assume "k \<in> set ys"
    with a show "filter (\<lambda>y. - f k = - f y) ys = filter (\<lambda>y. - f k = - f y) xs"
      by (simp add: stable_desc_sort_of_def)
  qed
  then show "ys = sort_key (\<lambda>y. - f y) xs" by simp
next
  assume ys: "ys = sort_key (\<lambda>y. - f y) xs"
  have st: "filter (\<lambda>y. - f y = - f k) ys = filter (\<lambda>y. - f y = - f k) xs" for k
    unfolding ys by (rule sort_key_stable)
  have "filter (\<lambda>y. f k = f y) ys = filter (\<lambda>y. f k = f y) xs" for k
    using st [of k] by (simp add: eq_commute)
  then show "stable_desc_sort_of f xs ys"
    by (simp add: stable_desc_sort_of_def ys)
qed

subsection \<open>Properties of the ranker\<close>

text \<open>
  Claim C4: every score \<open>calculateAccuracy\<close> computes for two words, not both empty,
  lies in \<open>[0, 2)\<close>; the Jaccard branch stays in \<open>[0, 1]\<close>, the prefix branch in
  \<open>(0, 2)\<close>. (For two empty words the code divides \<open>0 / 0\<close> and returns \<open>NaN\<close>, where
  the rational model gives 0; the program never makes that call, since it scores only
  typed words of at least two characters.)
\<close>

theorem calculate_accuracy_bounds:
  assumes "word1 \<noteq> [] \<or> word2 \<noteq> []"
  shows "0 \<le> calculate_accuracy word1 word2 \<and> calculate_accuracy word1 word2 < 2"
proof (cases "length word2 < length word1 \<and> starts_with (js_upper word1) (js_upper word2)")
  case True
  then have lt: "of_nat (length word2) < (of_nat (length word1) :: rat)" by simp
  have pos: "0 < (of_nat (length word1) :: rat)" using True by (cases word1) auto
  from lt pos have "of_nat (length word2) / (of_nat (length word1) :: rat) < 1" by simp
  moreover have "\<And>x::rat. x < 1 \<Longrightarrow> x * 2 < 2" by linarith
  ultimately have r: "of_nat (length word2) / of_nat (length word1) * 2 < (2::rat)" by blast
  have nn: "0 \<le> of_nat (length word2) / (of_nat (length word1) :: rat) * 2" by simp
  have eq: "calculate_accuracy word1 word2 = of_nat (length word2) / of_nat (length word1) * 2"
    using True by (intro calculate_accuracy_prefix_branch) auto
  from r nn eq show ?thesis by linarith
next
  case False
  with jaccard_bounds [of "js_upper word1" "js_upper word2"] show ?thesis
    by (simp add: calculate_accuracy_jaccard_branch)
qed

lemma calculate_accuracy_bounds_witness:
  "0 \<le> calculate_accuracy ''app'' ''apple'' \<and> calculate_accuracy ''app'' ''apple'' < 2"
  using calculate_accuracy_bounds [of "''app''" "''apple''"] by simp

text \<open>
  Claim C5: a keyword that extends the typed word (ignoring case) by fewer characters than
  the typed word has scores strictly above 1: the prefix branch fires when the keyword,
  not the typed word, is the longer one, and its score \<open>2 * |typed| / |keyword|\<close>
  exceeds 1.
\<close>

theorem prefix_score_exceeds_one:
  assumes "length q < length v" and "length v < 2 * length q"
    and "starts_with (js_upper v) (js_upper q)"
  shows "1 < accuracy (assembly_suggestion_for_words q v)"
proof -
  have pos: "0 < (of_nat (length v) :: rat)" using assms(1) by (cases v) auto
  have "(of_nat (length v) :: rat) < of_nat (length q) * 2" using assms(2) by linarith
  then have "1 < of_nat (length q) / (of_nat (length v) :: rat) * 2"
    using pos by (simp add: field_simps)
  with assms show ?thesis by (simp add: calculate_accuracy_prefix_branch)
qed

lemma prefix_score_exceeds_one_witness:
  "accuracy (assembly_suggestion_for_words ''app'' ''apple'') = 6 / 5 \<and>
   1 < accuracy (assembly_suggestion_for_words ''app'' ''apple'')"
proof -
  have h: "length ''app'' < length ''apple''" "length ''apple'' < 2 * length ''app''"
    by simp_all
  have p: "starts_with (js_upper ''apple'') (js_upper ''app'')"
    by (simp add: starts_with_def js_upper_def js_upper_char_def ascii_lower_def ascii_upper_def)
  have e: "accuracy (assembly_suggestion_for_words ''app'' ''apple'') = 6 / 5" by code_simp
  from prefix_score_exceeds_one [OF h p] e show ?thesis by simp
qed

text \<open>
  A keyword equal to the typed word up to case scores exactly 1: the lengths
  are equal, so the prefix branch does not apply and the Jaccard index of a set with
  itself is 1.
\<close>

theorem accuracy_same_word:
  assumes "js_upper v = js_upper q" and "q \<noteq> []"
  shows "accuracy (assembly_suggestion_for_words q v) = 1"
proof -
  have len: "length v = length q" using arg_cong [OF assms(1), of length] by simp
  have "js_upper q \<noteq> []" using assms(2) by (simp add: js_upper_def)
  with len assms(1) show ?thesis
    by (simp add: calculate_accuracy_jaccard_branch jaccard_self)
qed

lemma accuracy_same_word_witness:
  "accuracy (assembly_suggestion_for_words ''Match'' ''MATCH'') = 1"
proof -
  have "js_upper ''MATCH'' = js_upper ''Match''"
    by (simp add: js_upper_def js_upper_char_def ascii_lower_def ascii_upper_def)
  then show ?thesis by (rule accuracy_same_word) simp
qed

text \<open>
  Claim C6: \<open>findSimilarWords\<close> returns suggestions in non-increasing score, each
  scoring above the threshold \<open>0.6\<close>, each a vocabulary entry carrying its own score
  against the typed word.
\<close>

theorem find_similar_words_sound:
  "sorted (map (\<lambda>s. - accuracy s) (find_similar_words w ws)) \<and>
   (\<forall>s \<in> set (find_similar_words w ws).
      accuracy_threshold < accuracy s \<and> sug_word s \<in> set ws \<and>
      accuracy s = calculate_accuracy (sug_word s) w)"
  by (auto simp: find_similar_words_alt assembly_suggestion_for_words_def)

lemma find_similar_words_sound_witness:
  "map sug_word (find_similar_words ''app'' [''apples'', ''banana'', ''apple'']) =
     [''apple'', ''apples''] \<and>
   accuracy_threshold < calculate_accuracy ''apples'' ''app''"
proof -
  have e: "map sug_word (find_similar_words ''app'' [''apples'', ''banana'', ''apple'']) =
             [''apple'', ''apples'']" by code_simp
  have m: "\<lparr>sug_word = ''apples'', accuracy = calculate_accuracy ''apples'' ''app''\<rparr>
             \<in> set (find_similar_words ''app'' [''apples'', ''banana'', ''apple''])"
    by code_simp
  from find_similar_words_sound [of "''app''" "[''apples'', ''banana'', ''apple'']"] m e
  show ?thesis by auto
qed

text \<open>
  The suggestion list does not depend on the sort algorithm the engine uses: a
  list is a stable descending sort of the above-threshold scored vocabulary exactly when
  it is the list \<open>findSimilarWords\<close> returns. Sorting before filtering, as the code
  does, gives the same list as filtering first.
\<close>

theorem find_similar_words_unique:
  "stable_desc_sort_of accuracy
     (filter (\<lambda>s. accuracy_threshold < accuracy s) (map (assembly_suggestion_for_words w) ws)) ys
   \<longleftrightarrow> ys = find_similar_words w ws"
  by (simp add: stable_desc_sort_of_sort_key find_similar_words_alt)

lemma find_similar_words_unique_witness:
  "stable_desc_sort_of accuracy
     (filter (\<lambda>s. accuracy_threshold < accuracy s)
        (map (assembly_suggestion_for_words ''ap'') [''apple'', ''banana'', ''cherry'']))
     (find_similar_words ''ap'' [''apple'', ''banana'', ''cherry''])"
  using find_similar_words_unique by blast

text \<open>
  The spec's end-to-end example: the typed word \<open>ap\<close> against the vocabulary
  \<open>apple, banana, cherry\<close> yields the single suggestion \<open>apple\<close> with score 4/5 (the
  prefix branch), not the empty list the spec's Jaccard reading predicts; \<open>app\<close> yields
  \<open>apple\<close> with score 6/5, as the component test expects.
\<close>

theorem find_similar_words_example:
  "map sug_word (find_similar_words ''ap'' [''apple'', ''banana'', ''cherry'']) = [''apple''] \<and>
   map accuracy (find_similar_words ''ap'' [''apple'', ''banana'', ''cherry'']) = [4 / 5] \<and>
   map accuracy (find_similar_words ''app'' [''apple'', ''banana'', ''cherry'']) = [6 / 5]"
  by code_simp

end
