(* ===== verification/Debounce.thy ===== *)
theory Debounce
  imports Prelude
begin

text \<open>
  The Recompute Scheduler: \<open>useDebouncedEffect\<close> of
  \<open>src/src/hooks/debounce/debounced-effect.ts\<close> with its configuration and effect-data
  records (\<open>src/src/hooks/debounce/types/\<close>). The hook keeps a ref with the
  \<open>firstRender\<close> flag and the destructor the last callback returned, and a ref with the
  pending timer. React runs the hook's effect after a render whose dependency list
  \<open>[callback, delay, ignoreInitialCall, ...deps]\<close> differs from the previous one,
  after running the previous run's cleanup (\<open>clearTimeout\<close>).

  The model is a step function over three events: a committed render (with the render's
  callback closure and its dependency list), the elapse of the armed timer, and unmount.
  A timer is represented by the callback it will call and the destructor value the effect
  read when it armed the timer. The callback's return value (a destructor or nothing) is
  a parameter \<open>call\<close> of the step, so that each use of the hook supplies its callback.
  Steps report what the code calls, in order.
\<close>

subsection \<open>Data\<close>

record debounced_effect_config =
  delay :: nat
  ignore_initial_call :: bool

definition default_effect_config :: debounced_effect_config where
  "default_effect_config = \<lparr>delay = 100, ignore_initial_call = False\<rparr>"

record ('cb, 'd, 'x) debounce_state =
  first_render :: bool
  destructor_callback :: "'x option"
  timer :: "('cb \<times> 'x option) option"
  effect_deps :: "'d option"

definition debounce_init :: "('cb, 'd, 'x) debounce_state" where
  "debounce_init = \<lparr>first_render = True, destructor_callback = None, timer = None, effect_deps = None\<rparr>"

datatype ('cb, 'd) debounce_event = Render 'cb 'd | Elapse | Unmount

datatype ('cb, 'x) debounce_call = Destroy 'x | Run 'cb

subsection \<open>Operations\<close>

text \<open>The effect body (lines 19--37), run when the dependency list changed.\<close>

definition debounce_effect ::
  "debounced_effect_config \<Rightarrow> 'cb \<Rightarrow> ('cb, 'd, 'x) debounce_state \<Rightarrow> ('cb, 'd, 'x) debounce_state" where
  "debounce_effect cfg cb s =
     (let d = destructor_callback s
      in if first_render s
         then (if ignore_initial_call cfg then s\<lparr>first_render := False\<rparr>
               else s\<lparr>first_render := False, timer := Some (cb, d)\<rparr>)
         else s\<lparr>timer := Some (cb, d)\<rparr>)"

text \<open>The timer's callback (lines 30--36): the stored destructor, then the callback.\<close>

definition debounce_fire ::
  "('cb \<Rightarrow> 'x option) \<Rightarrow> ('cb, 'd, 'x) debounce_state \<Rightarrow>
   ('cb, 'd, 'x) debounce_state \<times> ('cb, 'x) debounce_call list" where
  "debounce_fire call s =
     (case timer s of
        None \<Rightarrow> (s, [])
      | Some (cb, d) \<Rightarrow>
          (s\<lparr>timer := None, destructor_callback := call cb\<rparr>,
           (case d of None \<Rightarrow> [] | Some x \<Rightarrow> [Destroy x]) @ [Run cb]))"

fun debounce_step ::
  "debounced_effect_config \<Rightarrow> ('cb \<Rightarrow> 'x option) \<Rightarrow> ('cb, 'd, 'x) debounce_state \<Rightarrow>
   ('cb, 'd) debounce_event \<Rightarrow> ('cb, 'd, 'x) debounce_state \<times> ('cb, 'x) debounce_call list" where
  "debounce_step cfg call s (Render cb deps) =
     (if effect_deps s = Some deps then (s, [])
      else (debounce_effect cfg cb (s\<lparr>timer := None, effect_deps := Some deps\<rparr>), []))"
| "debounce_step cfg call s Elapse = debounce_fire call s"
| "debounce_step cfg call s Unmount = (s\<lparr>timer := None\<rparr>, [])"

fun debounce_run ::
  "debounced_effect_config \<Rightarrow> ('cb \<Rightarrow> 'x option) \<Rightarrow> ('cb, 'd, 'x) debounce_state \<Rightarrow>
   ('cb, 'd) debounce_event list \<Rightarrow> ('cb, 'd, 'x) debounce_state \<times> ('cb, 'x) debounce_call list" where
  "debounce_run cfg call s [] = (s, [])"
| "debounce_run cfg call s (e # es) =
     (let (s', out) = debounce_step cfg call s e; (s'', out') = debounce_run cfg call s' es
      in (s'', out @ out'))"

text \<open>A burst of renders whose dependency lists each differ from the one before.\<close>

fun fresh_deps :: "'d option \<Rightarrow> ('cb \<times> 'd) list \<Rightarrow> bool" where
  "fresh_deps d [] = True"
| "fresh_deps d ((cb, x) # rs) = (d \<noteq> Some x \<and> fresh_deps (Some x) rs)"

subsection \<open>Lemmas\<close>

lemma debounce_effect_armed:
  "\<not> (first_render s \<and> ignore_initial_call cfg) \<Longrightarrow>
   timer (debounce_effect cfg cb s) = Some (cb, destructor_callback s)"
  by (simp add: debounce_effect_def Let_def)

lemma debounce_effect_keeps [simp]:
  "destructor_callback (debounce_effect cfg cb s) = destructor_callback s"
  "effect_deps (debounce_effect cfg cb s) = effect_deps s"
  "\<not> first_render (debounce_effect cfg cb s)"
  by (simp_all add: debounce_effect_def Let_def)

lemma debounce_run_append:
  "debounce_run cfg call s (es @ fs) =
     (let (s', out) = debounce_run cfg call s es; (s'', out') = debounce_run cfg call s' fs
      in (s'', out @ out'))"
  by (induction es arbitrary: s) (auto split: prod.splits)

text \<open>A render with a changed dependency list arms the timer with its own callback.\<close>

lemma debounce_render_changed:
  "effect_deps s \<noteq> Some deps \<Longrightarrow> \<not> (first_render s \<and> ignore_initial_call cfg) \<Longrightarrow>
   debounce_step cfg call s (Render cb deps) =
     (s\<lparr>first_render := False, timer := Some (cb, destructor_callback s), effect_deps := Some deps\<rparr>, [])"
  by (auto simp: debounce_effect_def Let_def)

text \<open>A burst of renders, each with a changed dependency list, leaves one timer armed.\<close>

lemma debounce_burst:
  "rs \<noteq> [] \<Longrightarrow> fresh_deps (effect_deps s) rs \<Longrightarrow> \<not> (first_render s \<and> ignore_initial_call cfg) \<Longrightarrow>
   debounce_run cfg call s (map (\<lambda>(cb, x). Render cb x) rs) =
     (s\<lparr>first_render := False, timer := Some (fst (last rs), destructor_callback s),
        effect_deps := Some (snd (last rs))\<rparr>, [])"
proof (induction rs arbitrary: s)
  case Nil
  then show ?case by simp
next
  case (Cons r rs)
  obtain cb x where r: "r = (cb, x)" by fastforce
  let ?s1 = "s\<lparr>first_render := False, timer := Some (cb, destructor_callback s), effect_deps := Some x\<rparr>"
  have step: "debounce_step cfg call s (Render cb x) = (?s1, [])"
    using Cons.prems r by (intro debounce_render_changed) auto
  show ?case
  proof (cases "rs = []")
    case True
    with step r Cons.prems show ?thesis by simp
  next
    case False
    have "fresh_deps (effect_deps ?s1) rs" using Cons.prems r by simp
    with False Cons.IH [of ?s1] have "debounce_run cfg call ?s1 (map (\<lambda>(cb, x). Render cb x) rs) =
        (?s1\<lparr>first_render := False, timer := Some (fst (last rs), destructor_callback ?s1),
            effect_deps := Some (snd (last rs))\<rparr>, [])"
      by simp
    with step r False Cons.prems show ?thesis by simp
  qed
qed

lemma debounce_run_Elapse_idle:
  "timer s = None \<Longrightarrow> debounce_run cfg call s (replicate n Elapse) = (s, [])"
  by (induction n) (simp_all add: debounce_fire_def)

subsection \<open>Properties of the scheduler\<close>

text \<open>
  Claim C7: coalescing and cancelling. A burst of renders, each with a changed dependency
  list, followed by the timer's elapse runs exactly one computation: the callback of the
  last render, preceded by the destructor the previous computation returned, if it
  returned one. Unmounting instead calls nothing, and no number of timer elapses
  afterwards runs a computation; in particular the destructor the last computation
  returned is never called on disposal.
\<close>

theorem debounce_coalesces:
  assumes "rs \<noteq> []" and "fresh_deps (effect_deps s) rs"
    and "\<not> (first_render s \<and> ignore_initial_call cfg)"
  shows "snd (debounce_run cfg call s (map (\<lambda>(cb, x). Render cb x) rs @ [Elapse])) =
           (case destructor_callback s of None \<Rightarrow> [] | Some x \<Rightarrow> [Destroy x]) @ [Run (fst (last rs))] \<and>
         snd (debounce_step cfg call s Unmount) = [] \<and>
         snd (debounce_run cfg call (fst (debounce_step cfg call s Unmount)) (replicate n Elapse)) = []"
  using debounce_burst [OF assms]
  by (simp add: debounce_run_append debounce_fire_def debounce_run_Elapse_idle split: option.splits)

lemma debounce_coalesces_witness:
  "snd (debounce_run default_effect_config (\<lambda>cb. None) (debounce_init :: (nat, nat, unit) debounce_state)
          (map (\<lambda>(cb, x). Render cb x) [(1, 10), (2, 20), (3, 30)] @ [Elapse])) = [Run 3]"
proof -
  have "snd (debounce_run default_effect_config (\<lambda>cb. None) (debounce_init :: (nat, nat, unit) debounce_state)
          (map (\<lambda>(cb, x). Render cb x) [(1, 10), (2, 20), (3, 30)] @ [Elapse])) =
        (case destructor_callback (debounce_init :: (nat, nat, unit) debounce_state) of
           None \<Rightarrow> [] | Some x \<Rightarrow> [Destroy x]) @ [Run (fst (last [(1::nat, 10::nat), (2, 20), (3, 30)]))]"
    by (rule conjunct1 [OF debounce_coalesces]) (simp_all add: debounce_init_def default_effect_config_def)
  then show ?thesis by (simp add: debounce_init_def)
qed

text \<open>
  With the option \<open>ignoreInitialCall\<close> set, the first render arms no
  timer, so an elapse after it runs nothing; the next render with a changed dependency
  list arms the timer as usual.
\<close>

theorem debounce_ignore_initial:
  assumes "ignore_initial_call cfg" and "d1 \<noteq> d2"
  shows "snd (debounce_run cfg call debounce_init [Render cb1 d1, Elapse]) = [] \<and>
         snd (debounce_run cfg call debounce_init [Render cb1 d1, Render cb2 d2, Elapse]) = [Run cb2]"
  using assms by (simp add: debounce_init_def debounce_effect_def debounce_fire_def)

lemma debounce_ignore_initial_witness:
  "snd (debounce_run \<lparr>delay = 100, ignore_initial_call = True\<rparr> (\<lambda>cb. None)
          (debounce_init :: (nat, nat, unit) debounce_state) [Render 1 10, Render 2 20, Elapse]) = [Run 2]"
  using debounce_ignore_initial [of "\<lparr>delay = 100, ignore_initial_call = True\<rparr>" "10::nat" 20
          "\<lambda>cb. None :: unit option" 1 "2::nat"] by simp

end
