(* ===== verification/Autocomplete.thy ===== *)
theory Autocomplete
  imports WordExtract Similarity Debounce
begin

text \<open>
  The Selection State Machine: the \<open>Autocomplete\<close> component of
  \<open>src/src/components/autocomplete/autocomplete.component.tsx\<close>. Its five \<open>useState\<close>
  hooks (lines 24--28) are the record \<open>ac_state\<close>; the identity of the
  \<open>currentSuggestions\<close> array, which React compares by reference, is the counter
  \<open>suggestions_gen\<close>, bumped by every \<open>setCurrentSuggestions\<close>. The recompute
  callback (lines 102--124), the key handlers (130--208), the option click (31--35) and
  the effect on \<open>currentWordData\<close> (218--224) are functions on that state; what the
  component renders (36--50, 225--250) is the view \<open>ac_render\<close>.

  React semantics kept in the model: a handler reads the values of the render that created
  it (its closure) and its \<open>setState\<close> calls are applied in order after it returns
  (the last write to a hook wins); a render happens when a hook value changed; at a render a
  \<open>useCallback\<close> is re-created only when one of its dependencies changed. The four
  handlers with dependency list \<open>[selectedOption]\<close> (Up, Down, Escape, Ctrl+Enter) therefore
  read the suggestions of the last render at which \<open>selectedOption\<close> changed: the field
  \<open>nav_suggestions\<close> of \<open>ac_memo\<close>. \<open>handleEnterKey\<close> (dependencies
  \<open>[currentSuggestions, currentWordData, selectedOption]\<close>) reads the current values, but its
  \<open>onSuggestionAccept\<close> is the one of the render at which it was re-created: the field
  \<open>enter_code\<close> records the editor text that callback sees.
\<close>

subsection \<open>Data\<close>

record caret_position =
  pos_x :: int
  pos_y :: int

record caret_data =
  caret_position :: caret_position
  caret_index :: nat

definition default_caret_data :: caret_data where
  "default_caret_data = \<lparr>caret_position = \<lparr>pos_x = 0, pos_y = 0\<rparr>, caret_index = 0\<rparr>"

record ac_props =
  ac_caret :: caret_data
  ac_code :: js_string
  ac_keywords :: "js_string list"

record ac_state =
  current_suggestions :: "js_string list"
  suggestions_gen :: nat
  current_word_data :: "word_data option"
  should_show_modal :: bool
  selected_option :: int
  should_skip_next_change :: bool

definition ac_init :: ac_state where
  "ac_init = \<lparr>current_suggestions = [], suggestions_gen = 0, current_word_data = None,
              should_show_modal = False, selected_option = -1, should_skip_next_change = False\<rparr>"

record ac_memo =
  nav_suggestions :: "js_string list"
  enter_code :: js_string

datatype key = KeyEnter | KeyArrowUp | KeyArrowDown | KeyEscape | KeyOther

record key_event =
  ev_key :: key
  ev_ctrl :: bool

datatype ac_output =
    PreventDefault
  | AcceptSuggestion "js_string option" "word_data option" js_string
  | FocusTextArea

subsection \<open>The recompute callback\<close>

definition set_current_suggestions :: "js_string list \<Rightarrow> ac_state \<Rightarrow> ac_state" where
  "set_current_suggestions xs s = s\<lparr>current_suggestions := xs, suggestions_gen := Suc (suggestions_gen s)\<rparr>"

text \<open>
  \<open>recompute p c s\<close>: the callback of a render with props \<open>p\<close> and state \<open>c\<close> (its
  closure), applied to the current state \<open>s\<close>.
\<close>

definition recompute :: "ac_props \<Rightarrow> ac_state \<Rightarrow> ac_state \<Rightarrow> ac_state" where
  "recompute p c s =
     (let s1 = (set_current_suggestions [] s)\<lparr>should_show_modal := False\<rparr>
      in if should_skip_next_change c
         then s1\<lparr>should_skip_next_change := False, current_word_data := None\<rparr>
         else (let ext = get_word_backwards (ac_code p) (caret_index (ac_caret p))
               in if length (word ext) \<le> 1 then s1
                  else (let suggestions = map sug_word (find_similar_words (word ext) (ac_keywords p))
                        in (set_current_suggestions suggestions s1)\<lparr>
                             selected_option := (if suggestions \<noteq> [] then 0 else -1),
                             current_word_data := Some (word_data ext),
                             should_show_modal := (suggestions \<noteq> [])\<rparr>)))"

subsection \<open>Keyboard and click handlers\<close>

text \<open>
  \<open>handleEnterKey\<close> calls \<open>onSuggestionAccept\<close> before it sets the suppression flag. The
  only \<open>onSuggestionAccept\<close> of the program is the editor's \<open>handleSuggestionAccept\<close>
  (\<open>code-editor.tsx\<close>), which returns at once without word data and otherwise reads
  \<open>suggestion.length\<close>, so it throws a \<open>TypeError\<close> exactly when the highlighted
  suggestion is \<open>undefined\<close> and there is word data; the exception leaves the handler
  before \<open>setShouldSkipNextChange(true)\<close>.
\<close>

definition accept_throws :: "js_string option \<Rightarrow> word_data option \<Rightarrow> bool" where
  "accept_throws sug wd \<longleftrightarrow> sug = None \<and> wd \<noteq> None"

definition handle_enter_key :: "ac_memo \<Rightarrow> ac_state \<Rightarrow> ac_state \<times> ac_output list" where
  "handle_enter_key m s =
     (if accept_throws (js_at (current_suggestions s) (selected_option s)) (current_word_data s)
      then s else s\<lparr>should_skip_next_change := True\<rparr>,
      [PreventDefault,
       AcceptSuggestion (js_at (current_suggestions s) (selected_option s)) (current_word_data s)
         (enter_code m)])"

definition handle_up_key :: "ac_memo \<Rightarrow> ac_state \<Rightarrow> ac_state \<times> ac_output list" where
  "handle_up_key m s =
     (let newSelectedOption = selected_option s - 1
      in (s\<lparr>selected_option := (if newSelectedOption < 0
                                then int (length (nav_suggestions m)) - 1 else newSelectedOption)\<rparr>,
          [PreventDefault]))"

definition handle_down_key :: "ac_memo \<Rightarrow> ac_state \<Rightarrow> ac_state \<times> ac_output list" where
  "handle_down_key m s =
     (let newSelectedOption = selected_option s + 1
      in (s\<lparr>selected_option := (if newSelectedOption > int (length (nav_suggestions m)) - 1
                                then 0 else newSelectedOption)\<rparr>,
          [PreventDefault]))"

definition handle_escape_key :: "ac_state \<Rightarrow> ac_state \<times> ac_output list" where
  "handle_escape_key s = (s\<lparr>should_show_modal := False\<rparr>, [PreventDefault])"

definition handle_ctrl_enter_key :: "ac_memo \<Rightarrow> ac_state \<Rightarrow> ac_state \<times> ac_output list" where
  "handle_ctrl_enter_key m s =
     (s\<lparr>should_show_modal := (nav_suggestions m \<noteq> [])\<rparr>, [PreventDefault])"

text \<open>
  \<open>handleKeyDownEvent\<close>: four independent \<open>if\<close>s on \<open>event.key\<close> while the popup
  is shown (at most one matches), otherwise Ctrl+Enter only.
\<close>

definition handle_key_down_event ::
  "ac_memo \<Rightarrow> ac_state \<Rightarrow> key_event \<Rightarrow> ac_state \<times> ac_output list" where
  "handle_key_down_event m s ev =
     (if should_show_modal s then
        (case ev_key ev of
           KeyEnter \<Rightarrow> handle_enter_key m s
         | KeyArrowUp \<Rightarrow> handle_up_key m s
         | KeyArrowDown \<Rightarrow> handle_down_key m s
         | KeyEscape \<Rightarrow> handle_escape_key s
         | KeyOther \<Rightarrow> (s, []))
      else if ev_ctrl ev \<and> ev_key ev = KeyEnter then handle_ctrl_enter_key m s
      else (s, []))"

definition handle_option_click :: "ac_props \<Rightarrow> ac_state \<Rightarrow> nat \<Rightarrow> ac_state \<times> ac_output list" where
  "handle_option_click p s i =
     (s\<lparr>should_skip_next_change := True\<rparr>,
      [AcceptSuggestion (js_at (current_suggestions s) (int i)) (current_word_data s) (ac_code p),
       FocusTextArea])"

subsection \<open>Rendering: memoised closures\<close>

text \<open>
  \<open>memo_update p s0 s m\<close>: the closures after a render with props \<open>p\<close> that moves the
  state from \<open>s0\<close> (the previous render) to \<open>s\<close>.
\<close>

definition memo_update :: "ac_props \<Rightarrow> ac_state \<Rightarrow> ac_state \<Rightarrow> ac_memo \<Rightarrow> ac_memo" where
  "memo_update p s0 s m =
     \<lparr>nav_suggestions =
        (if selected_option s \<noteq> selected_option s0 then current_suggestions s else nav_suggestions m),
      enter_code =
        (if suggestions_gen s \<noteq> suggestions_gen s0 \<or> current_word_data s \<noteq> current_word_data s0
            \<or> selected_option s \<noteq> selected_option s0
         then ac_code p else enter_code m)\<rparr>"

text \<open>The effect on \<open>currentWordData\<close>: it clears the suggestions when the word data became \<open>undefined\<close>.\<close>

definition word_data_effect :: "ac_state \<Rightarrow> ac_state \<Rightarrow> ac_state option" where
  "word_data_effect s0 s =
     (if current_word_data s \<noteq> current_word_data s0 \<and> current_word_data s = None
      then Some (set_current_suggestions [] s) else None)"

subsection \<open>The mounted component\<close>

text \<open>
  The component as React runs it: the last render's props, hook state and memoised
  closures, a render counter, and the debounce hook of \<open>Debounce\<close>. The callback handed
  to \<open>useDebouncedEffect\<close> is a fresh arrow function at every render, so the hook's
  dependency list \<open>[callback, 100, false, caretData, keywords, code]\<close> changes at every
  render; the render counter stands for the callback's identity and the callback itself is
  its closure, the render's props and state.
\<close>

type_synonym ac_closure = "ac_props \<times> ac_state"
type_synonym ac_deps = "nat \<times> caret_data \<times> js_string list \<times> js_string"

record ac_sys =
  sys_props :: ac_props
  sys_state :: ac_state
  sys_memo :: ac_memo
  sys_render :: nat
  sys_timer :: "(ac_closure, ac_deps, unit) debounce_state"

definition ac_deps_of :: "nat \<Rightarrow> ac_props \<Rightarrow> ac_deps" where
  "ac_deps_of r p = (r, ac_caret p, ac_keywords p, ac_code p)"

text \<open>The callback returns nothing, so no destructor is ever stored.\<close>

definition ac_callback_result :: "ac_closure \<Rightarrow> unit option" where
  "ac_callback_result c = None"

text \<open>A committed render with props \<open>p\<close> and state \<open>s\<close>.\<close>

definition ac_commit :: "ac_props \<Rightarrow> ac_state \<Rightarrow> ac_sys \<Rightarrow> ac_sys" where
  "ac_commit p s S =
     (let r = Suc (sys_render S)
      in S\<lparr>sys_props := p, sys_state := s,
           sys_memo := memo_update p (sys_state S) s (sys_memo S),
           sys_render := r,
           sys_timer := fst (debounce_step default_effect_config ac_callback_result (sys_timer S)
                               (Render (p, s) (ac_deps_of r p)))\<rparr>)"

text \<open>
  Mounting: the first render with the initial state arms the timer; then the effect on
  \<open>currentWordData\<close> runs for the first time and, the word data being \<open>undefined\<close>,
  stores a new empty suggestions array, which causes a second render.
\<close>

definition ac_mount :: "ac_props \<Rightarrow> ac_sys" where
  "ac_mount p =
     ac_commit p (set_current_suggestions [] ac_init)
       \<lparr>sys_props = p, sys_state = ac_init,
        sys_memo = \<lparr>nav_suggestions = current_suggestions ac_init, enter_code = ac_code p\<rparr>,
        sys_render = 0,
        sys_timer = fst (debounce_step default_effect_config ac_callback_result debounce_init
                           (Render (p, ac_init) (ac_deps_of 0 p)))\<rparr>"

text \<open>
  After a handler: no render if no hook changed; otherwise a render, and a second one when
  the \<open>currentWordData\<close> effect clears the suggestions.
\<close>

definition ac_settle :: "ac_state \<Rightarrow> ac_sys \<Rightarrow> ac_sys" where
  "ac_settle s S =
     (if s = sys_state S then S
      else (let S1 = ac_commit (sys_props S) s S
            in case word_data_effect (sys_state S) s of
                 None \<Rightarrow> S1
               | Some s' \<Rightarrow> ac_commit (sys_props S) s' S1))"

definition apply_calls ::
  "(ac_closure, unit) debounce_call list \<Rightarrow> ac_state \<Rightarrow> ac_state" where
  "apply_calls cs s =
     fold (\<lambda>c s. case c of Run (p0, c0) \<Rightarrow> recompute p0 c0 s | Destroy _ \<Rightarrow> s) cs s"

datatype ac_event = NewProps ac_props | Tick | KeyDown key_event | ClickOption nat

fun ac_step :: "ac_sys \<Rightarrow> ac_event \<Rightarrow> ac_sys \<times> ac_output list" where
  "ac_step S (NewProps p) = (ac_commit p (sys_state S) S, [])"
| "ac_step S Tick =
     (let (db, calls) = debounce_step default_effect_config ac_callback_result (sys_timer S) Elapse
      in (ac_settle (apply_calls calls (sys_state S)) (S\<lparr>sys_timer := db\<rparr>), []))"
| "ac_step S (KeyDown ev) =
     (let (s, out) = handle_key_down_event (sys_memo S) (sys_state S) ev in (ac_settle s S, out))"
| "ac_step S (ClickOption i) =
     (if should_show_modal (sys_state S) \<and> i < length (current_suggestions (sys_state S))
      then (let (s, out) = handle_option_click (sys_props S) (sys_state S) i in (ac_settle s S, out))
      else (S, []))"

fun ac_run :: "ac_sys \<Rightarrow> ac_event list \<Rightarrow> ac_sys \<times> ac_output list" where
  "ac_run S [] = (S, [])"
| "ac_run S (e # es) =
     (let (S', out) = ac_step S e; (S'', out') = ac_run S' es in (S'', out @ out'))"

inductive ac_reachable :: "ac_sys \<Rightarrow> bool" where
  mount: "ac_reachable (ac_mount p)"
| step: "ac_reachable S \<Longrightarrow> ac_reachable (fst (ac_step S e))"

subsection \<open>Invariant\<close>

text \<open>
  What every reachable mounted component satisfies: the debounce hook is past its first
  render, holds no destructor, has seen the current render's dependency list, and its timer
  is armed with the current render's closure; the selection index is at least \<open>-1\<close>; and
  without word data there are no suggestions.
\<close>

definition ac_timer_base :: "ac_sys \<Rightarrow> bool" where
  "ac_timer_base S \<longleftrightarrow>
     \<not> first_render (sys_timer S) \<and> destructor_callback (sys_timer S) = None \<and>
     effect_deps (sys_timer S) = Some (ac_deps_of (sys_render S) (sys_props S))"

definition ac_timer_current :: "ac_sys \<Rightarrow> bool" where
  "ac_timer_current S \<longleftrightarrow>
     ac_timer_base S \<and> timer (sys_timer S) = Some ((sys_props S, sys_state S), None)"

definition ac_state_wf :: "ac_state \<Rightarrow> bool" where
  "ac_state_wf s \<longleftrightarrow>
     -1 \<le> selected_option s \<and> (current_word_data s = None \<longrightarrow> current_suggestions s = [])"

definition ac_invariant :: "ac_sys \<Rightarrow> bool" where
  "ac_invariant S \<longleftrightarrow> ac_timer_current S \<and> ac_state_wf (sys_state S)"

subsection \<open>The popup\<close>

text \<open>
  What the component renders (lines 36--50 and 225--250): a \<open>div\<close>, hidden unless
  \<open>shouldShowModal\<close>, placed by \<open>getModalStyles\<close>, holding one \<open>li\<close> per current
  suggestion. \<open>getBoundingClientRect()\<close> of the text area is layout the browser
  computes: its top and left edges are an argument, \<open>None\<close> when \<open>textAreaElement\<close> is
  \<open>undefined\<close>. The CSS lengths \<open>calc(N px + 10px)\<close> are the numbers they denote, computed
  in exact rationals: the double rounding of \<open>y * 7.2\<close> is below \<open>10^-12\<close> pixel.
  An option is its text, whether it carries the selected class, and the index its key,
  test id and click handler use.
\<close>

record client_rect =
  rect_top :: rat
  rect_left :: rat

record ac_option_view =
  opt_text :: js_string
  opt_selected :: bool
  opt_index :: nat

record ac_view =
  modal_hidden :: bool
  modal_top :: rat
  modal_left :: rat
  modal_options :: "ac_option_view list"

definition assembly_option :: "ac_state \<Rightarrow> js_string \<Rightarrow> nat \<Rightarrow> ac_option_view" where
  "assembly_option s value index =
     \<lparr>opt_text = value, opt_selected = (selected_option s = int index), opt_index = index\<rparr>"

definition ac_get_options :: "ac_state \<Rightarrow> ac_option_view list" where
  "ac_get_options s = map (\<lambda>(index, suggestion). assembly_option s suggestion index)
                         (enumerate 0 (current_suggestions s))"

definition get_text_area_top :: "client_rect option \<Rightarrow> rat" where
  "get_text_area_top r = (case r of None \<Rightarrow> 0 | Some b \<Rightarrow> rect_top b)"

definition get_text_area_left :: "client_rect option \<Rightarrow> rat" where
  "get_text_area_left r = (case r of None \<Rightarrow> 0 | Some b \<Rightarrow> rect_left b)"

definition get_modal_styles :: "client_rect option \<Rightarrow> caret_data \<Rightarrow> rat \<times> rat" where
  "get_modal_styles r c =
     (get_text_area_top r + of_int (pos_x (caret_position c)) * 20 + 10,
      get_text_area_left r + of_int (pos_y (caret_position c)) * (36 / 5) + 60)"

definition ac_render :: "client_rect option \<Rightarrow> ac_props \<Rightarrow> ac_state \<Rightarrow> ac_view" where
  "ac_render r p s =
     (let (top, left) = get_modal_styles r (ac_caret p)
      in \<lparr>modal_hidden = (\<not> should_show_modal s), modal_top = top, modal_left = left,
          modal_options = ac_get_options s\<rparr>)"

subsection \<open>Scenarios\<close>

text \<open>
  Props with the vocabulary \<open>apple, apples, zebra\<close>, and two event sequences the
  properties run from mounting with the text \<open>app\<close> and the caret after it: typing on to
  \<open>app zebr\<close> and pressing ArrowUp; accepting with Enter, a tick, and Ctrl+Enter.
\<close>

definition demo_props :: "js_string \<Rightarrow> nat \<Rightarrow> ac_props" where
  "demo_props c i =
     \<lparr>ac_caret = \<lparr>caret_position = \<lparr>pos_x = 0, pos_y = 0\<rparr>, caret_index = i\<rparr>, ac_code = c,
      ac_keywords = [''apple'', ''apples'', ''zebra'']\<rparr>"

definition stale_nav_events :: "ac_event list" where
  "stale_nav_events =
     [Tick, NewProps (demo_props ''app zebr'' 8), Tick, KeyDown \<lparr>ev_key = KeyArrowUp, ev_ctrl = False\<rparr>]"

definition empty_popup_events :: "ac_event list" where
  "empty_popup_events =
     [Tick, KeyDown \<lparr>ev_key = KeyEnter, ev_ctrl = False\<rparr>, Tick, KeyDown \<lparr>ev_key = KeyEnter, ev_ctrl = True\<rparr>]"

lemma ac_commit_fields [simp]:
  "sys_state (ac_commit p s S) = s" "sys_props (ac_commit p s S) = p"
  "sys_render (ac_commit p s S) = Suc (sys_render S)"
  by (simp_all add: ac_commit_def Let_def)

lemma ac_commit_current:
  "ac_timer_base S \<Longrightarrow> ac_timer_current (ac_commit p s S)"
  by (simp add: ac_timer_base_def ac_timer_current_def ac_commit_def ac_deps_of_def
                debounce_effect_def Let_def)

lemma ac_timer_current_base: "ac_timer_current S \<Longrightarrow> ac_timer_base S"
  by (simp add: ac_timer_current_def)

lemma ac_settle_state:
  "sys_state (ac_settle s S) =
     (if s = sys_state S then s
      else case word_data_effect (sys_state S) s of None \<Rightarrow> s | Some s' \<Rightarrow> s')"
  by (simp add: ac_settle_def Let_def split: option.splits)

lemma ac_settle_props [simp]: "sys_props (ac_settle s S) = sys_props S"
  by (simp add: ac_settle_def Let_def split: option.splits)

lemma ac_settle_current:
  assumes "ac_timer_base S" and "s = sys_state S \<longrightarrow> ac_timer_current S"
  shows "ac_timer_current (ac_settle s S)"
proof (cases "s = sys_state S")
  case True
  from True assms(2) have "ac_timer_current S" by simp
  moreover have "ac_settle s S = S" using True by (simp add: ac_settle_def)
  ultimately show ?thesis by simp
next
  case False
  have c1: "ac_timer_current (ac_commit (sys_props S) s S)"
    using assms(1) by (rule ac_commit_current)
  have c2: "ac_timer_current (ac_commit (sys_props S) s' (ac_commit (sys_props S) s S))" for s'
    by (rule ac_commit_current [OF ac_timer_current_base [OF c1]])
  have "ac_settle s S =
          (case word_data_effect (sys_state S) s of
             None \<Rightarrow> ac_commit (sys_props S) s S
           | Some s' \<Rightarrow> ac_commit (sys_props S) s' (ac_commit (sys_props S) s S))"
    using False by (simp add: ac_settle_def Let_def)
  with c1 c2 show ?thesis by (simp split: option.splits)
qed

lemma set_current_suggestions_fields [simp]:
  "current_suggestions (set_current_suggestions xs s) = xs"
  "suggestions_gen (set_current_suggestions xs s) = Suc (suggestions_gen s)"
  "current_word_data (set_current_suggestions xs s) = current_word_data s"
  "selected_option (set_current_suggestions xs s) = selected_option s"
  "should_show_modal (set_current_suggestions xs s) = should_show_modal s"
  "should_skip_next_change (set_current_suggestions xs s) = should_skip_next_change s"
  by (simp_all add: set_current_suggestions_def)

lemma recompute_gen: "suggestions_gen s < suggestions_gen (recompute p c s)"
  by (simp add: recompute_def Let_def)

lemma recompute_changes: "recompute p c s \<noteq> s"
  using recompute_gen [of s p c] by auto

lemma recompute_wf: "ac_state_wf s \<Longrightarrow> ac_state_wf (recompute p c s)"
  by (simp add: recompute_def Let_def ac_state_wf_def)

lemma word_data_effect_wf:
  "word_data_effect s0 s = Some s' \<Longrightarrow> ac_state_wf s \<Longrightarrow> ac_state_wf s'"
  by (auto simp: word_data_effect_def ac_state_wf_def split: if_splits)

lemma ac_settle_wf: "ac_state_wf s \<Longrightarrow> ac_state_wf (sys_state (ac_settle s S))"
  by (auto simp: ac_settle_state word_data_effect_wf split: option.splits)

lemma handle_key_down_event_wf:
  "ac_state_wf s \<Longrightarrow> ac_state_wf (fst (handle_key_down_event m s ev))"
  by (auto simp: handle_key_down_event_def handle_enter_key_def handle_up_key_def
                 handle_down_key_def handle_escape_key_def handle_ctrl_enter_key_def
                 ac_state_wf_def Let_def split: key.splits)

lemma ac_tick_current:
  assumes "ac_timer_current S"
  shows "ac_step S Tick =
           (ac_settle (recompute (sys_props S) (sys_state S) (sys_state S))
              (S\<lparr>sys_timer := (sys_timer S)\<lparr>timer := None, destructor_callback := None\<rparr>\<rparr>), [])"
  using assms
  by (simp add: ac_timer_current_def debounce_fire_def apply_calls_def ac_callback_result_def)

lemma ac_mount_invariant: "ac_invariant (ac_mount p)"
proof -
  have "ac_timer_base
          \<lparr>sys_props = p, sys_state = ac_init,
           sys_memo = \<lparr>nav_suggestions = current_suggestions ac_init, enter_code = ac_code p\<rparr>,
           sys_render = 0,
           sys_timer = fst (debounce_step default_effect_config ac_callback_result debounce_init
                              (Render (p, ac_init) (ac_deps_of 0 p)))\<rparr>"
    by (simp add: ac_timer_base_def debounce_init_def debounce_effect_def default_effect_config_def)
  then have "ac_timer_current (ac_mount p)"
    unfolding ac_mount_def by (rule ac_commit_current)
  moreover have "ac_state_wf (sys_state (ac_mount p))"
    by (simp add: ac_mount_def ac_state_wf_def ac_init_def)
  ultimately show ?thesis by (simp add: ac_invariant_def)
qed

lemma ac_step_invariant:
  assumes "ac_invariant S"
  shows "ac_invariant (fst (ac_step S e))"
proof (cases e)
  case (NewProps p)
  with assms show ?thesis
    by (simp add: ac_invariant_def ac_commit_current ac_timer_current_base)
next
  case Tick
  let ?S' = "S\<lparr>sys_timer := (sys_timer S)\<lparr>timer := None, destructor_callback := None\<rparr>\<rparr>"
  have base: "ac_timer_base ?S'"
    using assms by (simp add: ac_invariant_def ac_timer_current_def ac_timer_base_def)
  have "recompute (sys_props S) (sys_state S) (sys_state S) \<noteq> sys_state ?S'"
    by (simp add: recompute_changes)
  then have cur: "ac_timer_current (ac_settle (recompute (sys_props S) (sys_state S) (sys_state S)) ?S')"
    using base by (intro ac_settle_current) auto
  have "ac_state_wf (recompute (sys_props S) (sys_state S) (sys_state S))"
    using assms by (simp add: ac_invariant_def recompute_wf)
  then have "ac_state_wf (sys_state (ac_settle (recompute (sys_props S) (sys_state S) (sys_state S)) ?S'))"
    by (rule ac_settle_wf)
  moreover have "ac_step S Tick =
           (ac_settle (recompute (sys_props S) (sys_state S) (sys_state S)) ?S', [])"
    using assms by (simp only: ac_invariant_def ac_tick_current)
  ultimately show ?thesis using cur Tick by (simp add: ac_invariant_def)
next
  case (KeyDown ev)
  obtain s out where h: "handle_key_down_event (sys_memo S) (sys_state S) ev = (s, out)"
    by fastforce
  have "ac_state_wf s"
    using handle_key_down_event_wf [of "sys_state S" "sys_memo S" ev] h assms
    by (simp add: ac_invariant_def)
  with assms h KeyDown show ?thesis
    by (auto simp: ac_invariant_def ac_timer_current_base intro: ac_settle_current ac_settle_wf)
next
  case (ClickOption i)
  have "ac_state_wf ((sys_state S)\<lparr>should_skip_next_change := True\<rparr>)"
    using assms by (simp add: ac_invariant_def ac_state_wf_def)
  with assms ClickOption show ?thesis
    by (auto simp: ac_invariant_def handle_option_click_def ac_timer_current_base
             intro: ac_settle_current ac_settle_wf)
qed

lemma ac_reachable_invariant: "ac_reachable S \<Longrightarrow> ac_invariant S"
  by (induction rule: ac_reachable.induct) (simp_all add: ac_mount_invariant ac_step_invariant)

lemma ac_run_Cons_fst: "fst (ac_run S (e # es)) = fst (ac_run (fst (ac_step S e)) es)"
  by (simp add: case_prod_beta)

lemma ac_run_Cons_snd: "snd (ac_run S (e # es)) = snd (ac_step S e) @ snd (ac_run (fst (ac_step S e)) es)"
  by (simp add: case_prod_beta)

lemma ac_run_reachable: "ac_reachable S \<Longrightarrow> ac_reachable (fst (ac_run S es))"
proof (induction es arbitrary: S)
  case Nil
  then show ?case by simp
next
  case (Cons e es)
  from Cons.prems have "ac_reachable (fst (ac_step S e))" by (rule ac_reachable.step)
  then have "ac_reachable (fst (ac_run (fst (ac_step S e)) es))" by (rule Cons.IH)
  then show ?case by (simp only: ac_run_Cons_fst)
qed

lemma ac_tick_state:
  assumes "ac_timer_current S"
  shows "sys_state (fst (ac_step S Tick)) =
           (case word_data_effect (sys_state S) (recompute (sys_props S) (sys_state S) (sys_state S)) of
              None \<Rightarrow> recompute (sys_props S) (sys_state S) (sys_state S)
            | Some s' \<Rightarrow> s')"
  using recompute_changes [of "sys_props S" "sys_state S" "sys_state S"]
  by (subst ac_tick_current [OF assms]) (simp add: ac_settle_state)

lemma ac_reachable_current: "ac_reachable S \<Longrightarrow> ac_timer_current S"
  using ac_reachable_invariant by (simp add: ac_invariant_def)

lemma ac_key_settle_state:
  "handle_key_down_event m s ev = (s', out) \<Longrightarrow> current_word_data s' = current_word_data s"
  by (auto simp: handle_key_down_event_def handle_enter_key_def handle_up_key_def
                 handle_down_key_def handle_escape_key_def handle_ctrl_enter_key_def Let_def
           split: key.splits if_splits)

lemma ac_step_key_state:
  "sys_state (fst (ac_step S (KeyDown ev))) = fst (handle_key_down_event (sys_memo S) (sys_state S) ev)"
proof -
  obtain s' out where h: "handle_key_down_event (sys_memo S) (sys_state S) ev = (s', out)"
    by fastforce
  then have "word_data_effect (sys_state S) s' = None"
    by (simp add: word_data_effect_def ac_key_settle_state)
  with h show ?thesis by (simp add: ac_settle_state)
qed

lemma ac_run_Nil_fst: "fst (ac_run S []) = S"
  by simp

lemmas ac_run_steps = ac_run_Nil_fst ac_run_Cons_fst

lemma ac_render_options:
  "map opt_text (modal_options (ac_render r p s)) = current_suggestions s \<and>
   map opt_selected (modal_options (ac_render r p s)) =
     map (\<lambda>i. selected_option s = int i) [0..<length (current_suggestions s)]"
proof -
  have "modal_options (ac_render r p s) =
        map2 (\<lambda>i v. assembly_option s v i) [0..<length (current_suggestions s)] (current_suggestions s)"
    by (simp add: ac_render_def ac_get_options_def enumerate_eq_zip case_prod_unfold Let_def)
  then show ?thesis
    by (simp add: assembly_option_def split_def o_def map_snd_zip) (intro nth_equalityI; simp)
qed

lemma ac_render_selected:
  "length (filter opt_selected (modal_options (ac_render r p s))) =
     (if 0 \<le> selected_option s \<and> selected_option s < int (length (current_suggestions s)) then 1 else 0)"
proof -
  have "length (filter opt_selected (modal_options (ac_render r p s))) =
        length (filter (\<lambda>i. selected_option s = int i) [0..<length (current_suggestions s)])"
    using arg_cong [OF conjunct2 [OF ac_render_options [of r p s]], of "\<lambda>bs. length (filter id bs)"]
    by (simp add: filter_map o_def)
  also have "\<dots> = (if 0 \<le> selected_option s \<and> selected_option s < int (length (current_suggestions s)) then 1 else 0)"
    by (rule length_filter_index_eq)
  finally show ?thesis .
qed

text \<open>Enter on a shown popup emits what \<open>handleEnterKey\<close> emits.\<close>

lemma ac_step_enter_output:
  "should_show_modal (sys_state S) \<Longrightarrow>
   snd (ac_step S (KeyDown \<lparr>ev_key = KeyEnter, ev_ctrl = c\<rparr>)) = snd (handle_enter_key (sys_memo S) (sys_state S))"
  by (simp add: handle_key_down_event_def case_prod_beta ac_step.simps)

declare ac_step.simps [simp del] ac_run.simps [simp del]

subsection \<open>Properties of the selection state machine\<close>

text \<open>
  Claim C8: in every state the mounted component reaches, the selection index is at least
  \<open>-1\<close>, there are no suggestions without word data, and the debounce timer is armed with
  the closure of the current render.
\<close>

theorem ac_reachable_wf:
  assumes "ac_reachable S"
  shows "-1 \<le> selected_option (sys_state S) \<and>
         (current_word_data (sys_state S) = None \<longrightarrow> current_suggestions (sys_state S) = []) \<and>
         timer (sys_timer S) = Some ((sys_props S, sys_state S), None)"
  using ac_reachable_invariant [OF assms]
  by (simp add: ac_invariant_def ac_state_wf_def ac_timer_current_def)

lemma ac_reachable_wf_witness:
  "-1 \<le> selected_option (sys_state (ac_mount (demo_props ''app'' 3))) \<and>
   timer (sys_timer (ac_mount (demo_props ''app'' 3))) =
     Some ((demo_props ''app'' 3, set_current_suggestions [] ac_init), None)"
  using ac_reachable_wf [OF ac_reachable.mount [of "demo_props ''app'' 3"]]
  by (simp add: ac_mount_def)

text \<open>
  Claim C9: the recomputation never settles. Because the callback is a new closure at
  every render and every run calls \<open>setCurrentSuggestions\<close> with a new array, each timer
  elapse changes the state and re-arms the timer, with the props unchanged: the word is
  re-extracted and re-ranked every 100 time units for as long as the component is mounted,
  not only after the text, caret or vocabulary changed.
\<close>

theorem ac_recompute_never_settles:
  assumes "ac_reachable S"
  shows "sys_state (fst (ac_step S Tick)) \<noteq> sys_state S \<and>
         sys_props (fst (ac_step S Tick)) = sys_props S \<and>
         timer (sys_timer (fst (ac_step S Tick))) =
           Some ((sys_props S, sys_state (fst (ac_step S Tick))), None)"
proof -
  have cur: "ac_timer_current S" using assms by (rule ac_reachable_current)
  have nxt: "ac_timer_current (fst (ac_step S Tick))"
    using ac_reachable.step [OF assms, of Tick] by (rule ac_reachable_current)
  have props: "sys_props (fst (ac_step S Tick)) = sys_props S"
    by (subst ac_tick_current [OF cur]) simp
  have gen: "suggestions_gen (sys_state S) < suggestions_gen (sys_state (fst (ac_step S Tick)))"
    using recompute_gen [of "sys_state S" "sys_props S" "sys_state S"]
    unfolding ac_tick_state [OF cur]
    by (auto simp: word_data_effect_def split: option.splits if_splits)
  from gen props nxt show ?thesis by (auto simp: ac_timer_current_def)
qed

lemma ac_recompute_never_settles_witness:
  "sys_state (fst (ac_step (ac_mount (demo_props ''app'' 3)) Tick)) \<noteq> set_current_suggestions [] ac_init"
  using ac_recompute_never_settles [OF ac_reachable.mount [of "demo_props ''app'' 3"]]
  by (simp add: ac_mount_def)

text \<open>
  Claim C10: a timer elapse with no suppression pending and a word of at least two code
  units before the caret replaces the suggestions by the ranked vocabulary words, shows the
  popup exactly when there is one, and then highlights the first and stores the word's span.
\<close>

theorem ac_tick_recomputes:
  assumes "ac_reachable S" and "\<not> should_skip_next_change (sys_state S)"
    and "1 < length (word (get_word_backwards (ac_code (sys_props S)) (caret_index (ac_caret (sys_props S)))))"
  shows "current_suggestions (sys_state (fst (ac_step S Tick))) =
           map sug_word (find_similar_words
             (word (get_word_backwards (ac_code (sys_props S)) (caret_index (ac_caret (sys_props S)))))
             (ac_keywords (sys_props S))) \<and>
         should_show_modal (sys_state (fst (ac_step S Tick))) =
           (current_suggestions (sys_state (fst (ac_step S Tick))) \<noteq> []) \<and>
         (current_suggestions (sys_state (fst (ac_step S Tick))) \<noteq> [] \<longrightarrow>
            selected_option (sys_state (fst (ac_step S Tick))) = 0 \<and>
            current_word_data (sys_state (fst (ac_step S Tick))) =
              Some (word_data (get_word_backwards (ac_code (sys_props S)) (caret_index (ac_caret (sys_props S))))))"
proof -
  have cur: "ac_timer_current S" using assms(1) by (rule ac_reachable_current)
  let ?r = "recompute (sys_props S) (sys_state S) (sys_state S)"
  have "current_word_data ?r \<noteq> None"
    using assms(2,3) by (simp add: recompute_def Let_def)
  then have "word_data_effect (sys_state S) ?r = None" by (simp add: word_data_effect_def)
  then have st: "sys_state (fst (ac_step S Tick)) = ?r" unfolding ac_tick_state [OF cur] by simp
  show ?thesis unfolding st using assms(2,3) by (simp add: recompute_def Let_def)
qed

lemma ac_tick_recomputes_witness:
  "map sug_word (find_similar_words ''app'' [''apple'', ''apples'', ''zebra'']) = [''apple'', ''apples''] \<and>
   current_suggestions (sys_state (fst (ac_step (ac_mount (demo_props ''app'' 3)) Tick))) =
     [''apple'', ''apples'']"
proof -
  have w: "word (get_word_backwards ''app'' 3) = ''app''" by code_simp
  have m: "map sug_word (find_similar_words ''app'' [''apple'', ''apples'', ''zebra'']) = [''apple'', ''apples'']"
    by code_simp
  have "1 < length (word (get_word_backwards (ac_code (sys_props (ac_mount (demo_props ''app'' 3))))
                 (caret_index (ac_caret (sys_props (ac_mount (demo_props ''app'' 3)))))))"
    using w by (simp add: ac_mount_def demo_props_def)
  from ac_tick_recomputes [OF ac_reachable.mount _ this] w m show ?thesis
    by (simp add: ac_mount_def demo_props_def ac_init_def)
qed

text \<open>
  Claim C11: the suppression contract. Accepting with Enter while the popup is shown and a
  suggestion is highlighted emits that suggestion with the stored span, and the next timer
  elapse shows no suggestions, hides the popup, clears the suppression flag and drops the
  span. (With no highlighted suggestion the editor's accept handler throws before the flag
  is set; see \<open>accept_throws\<close>.)
\<close>

theorem ac_accept_suppresses_next_tick:
  assumes "ac_reachable S" and "should_show_modal (sys_state S)"
    and "js_at (current_suggestions (sys_state S)) (selected_option (sys_state S)) \<noteq> None"
  shows "snd (ac_step S (KeyDown \<lparr>ev_key = KeyEnter, ev_ctrl = c\<rparr>)) =
           [PreventDefault,
            AcceptSuggestion (js_at (current_suggestions (sys_state S)) (selected_option (sys_state S)))
              (current_word_data (sys_state S)) (enter_code (sys_memo S))] \<and>
         current_suggestions (sys_state (fst (ac_step (fst (ac_step S (KeyDown \<lparr>ev_key = KeyEnter, ev_ctrl = c\<rparr>))) Tick))) = [] \<and>
         \<not> should_show_modal (sys_state (fst (ac_step (fst (ac_step S (KeyDown \<lparr>ev_key = KeyEnter, ev_ctrl = c\<rparr>))) Tick))) \<and>
         \<not> should_skip_next_change (sys_state (fst (ac_step (fst (ac_step S (KeyDown \<lparr>ev_key = KeyEnter, ev_ctrl = c\<rparr>))) Tick))) \<and>
         current_word_data (sys_state (fst (ac_step (fst (ac_step S (KeyDown \<lparr>ev_key = KeyEnter, ev_ctrl = c\<rparr>))) Tick))) = None"
proof -
  let ?ev = "\<lparr>ev_key = KeyEnter, ev_ctrl = c\<rparr>"
  let ?S1 = "fst (ac_step S (KeyDown ?ev))"
  have h: "handle_key_down_event (sys_memo S) (sys_state S) ?ev = handle_enter_key (sys_memo S) (sys_state S)"
    using assms(2) by (simp add: handle_key_down_event_def)
  have out: "snd (ac_step S (KeyDown ?ev)) = snd (handle_enter_key (sys_memo S) (sys_state S))"
    using assms(2) by (rule ac_step_enter_output)
  have st1: "sys_state ?S1 = (sys_state S)\<lparr>should_skip_next_change := True\<rparr>"
    unfolding ac_step_key_state h using assms(3) by (auto simp: handle_enter_key_def accept_throws_def)
  have cur1: "ac_timer_current ?S1"
    using ac_reachable.step [OF assms(1)] by (rule ac_reachable_current)
  let ?r = "recompute (sys_props ?S1) (sys_state ?S1) (sys_state ?S1)"
  have r: "current_suggestions ?r = [] \<and> \<not> should_show_modal ?r \<and> \<not> should_skip_next_change ?r \<and>
           current_word_data ?r = None"
    by (simp add: recompute_def Let_def st1)
  have "current_suggestions s' = [] \<and> \<not> should_show_modal s' \<and> \<not> should_skip_next_change s' \<and>
        current_word_data s' = None" if "word_data_effect (sys_state ?S1) ?r = Some s'" for s'
    using that r by (auto simp: word_data_effect_def split: if_splits)
  with r have "current_suggestions (sys_state (fst (ac_step ?S1 Tick))) = [] \<and>
        \<not> should_show_modal (sys_state (fst (ac_step ?S1 Tick))) \<and>
        \<not> should_skip_next_change (sys_state (fst (ac_step ?S1 Tick))) \<and>
        current_word_data (sys_state (fst (ac_step ?S1 Tick))) = None"
    unfolding ac_tick_state [OF cur1] by (auto split: option.splits)
  with out show ?thesis by (simp add: handle_enter_key_def)
qed

lemma ac_accept_suppresses_next_tick_witness:
  "current_suggestions (sys_state (fst (ac_run (ac_mount (demo_props ''app'' 3))
      [Tick, KeyDown \<lparr>ev_key = KeyEnter, ev_ctrl = False\<rparr>, Tick]))) = []"
proof -
  let ?S = "fst (ac_step (ac_mount (demo_props ''app'' 3)) Tick)"
  have r: "ac_reachable ?S" by (rule ac_reachable.step [OF ac_reachable.mount])
  have v: "should_show_modal (sys_state ?S)" by code_simp
  have h: "js_at (current_suggestions (sys_state ?S)) (selected_option (sys_state ?S)) \<noteq> None"
    by code_simp
  from ac_accept_suppresses_next_tick [OF r v h, of False] show ?thesis
    by (simp only: ac_run_steps)
qed

text \<open>
  Claim C12: with handlers created at the current render (their captured suggestions are
  the current ones) and a highlighted index in range, Up and Down are the single modular
  steps \<open>(i - 1) mod n\<close> and \<open>(i + 1) mod n\<close> of the spec: the code's two wrap-around
  branches agree with one non-negative remainder.
\<close>

theorem ac_navigation_cyclic:
  assumes "nav_suggestions m = current_suggestions s"
    and "0 \<le> selected_option s" and "selected_option s < int (length (current_suggestions s))"
  shows "selected_option (fst (handle_up_key m s)) =
           (selected_option s - 1) mod int (length (current_suggestions s)) \<and>
         selected_option (fst (handle_down_key m s)) =
           (selected_option s + 1) mod int (length (current_suggestions s))"
proof -
  let ?n = "int (length (current_suggestions s))" and ?i = "selected_option s"
  have n: "0 < ?n" using assms(2,3) by linarith
  have up: "selected_option (fst (handle_up_key m s)) = (?i - 1) mod ?n"
  proof (cases "?i = 0")
    case True
    with n assms(1) show ?thesis by (simp add: handle_up_key_def zmod_minus1)
  next
    case False
    with assms show ?thesis by (simp add: handle_up_key_def)
  qed
  have down: "selected_option (fst (handle_down_key m s)) = (?i + 1) mod ?n"
  proof (cases "?i + 1 = ?n")
    case True
    with n assms(1) show ?thesis by (simp add: handle_down_key_def)
  next
    case False
    with assms show ?thesis by (simp add: handle_down_key_def)
  qed
  from up down show ?thesis ..
qed

lemma ac_navigation_cyclic_witness:
  "selected_option (fst (handle_up_key \<lparr>nav_suggestions = [''a'', ''b'', ''c''], enter_code = []\<rparr>
       (ac_init\<lparr>current_suggestions := [''a'', ''b'', ''c''], selected_option := 0\<rparr>))) = 2"
proof -
  have "selected_option (fst (handle_up_key \<lparr>nav_suggestions = [''a'', ''b'', ''c''], enter_code = []\<rparr>
       (ac_init\<lparr>current_suggestions := [''a'', ''b'', ''c''], selected_option := 0\<rparr>))) = (0 - 1) mod 3"
    using ac_navigation_cyclic [of "\<lparr>nav_suggestions = [''a'', ''b'', ''c''], enter_code = []\<rparr>"
            "ac_init\<lparr>current_suggestions := [''a'', ''b'', ''c''], selected_option := 0\<rparr>"]
    by simp
  then show ?thesis by simp
qed

text \<open>
  Claim C13: stale navigation closure. Typing \<open>app\<close> offers \<open>apple, apples\<close> with the
  first highlighted; typing on to \<open>zebr\<close> offers only \<open>zebra\<close>, still highlighting
  index 0, so \<open>handleUpKey\<close> (dependencies \<open>[selectedOption]\<close>) is not re-created and
  still sees two suggestions. ArrowUp then highlights index 1 of a one-element list: the
  rendered popup shows \<open>zebra\<close> with no option marked selected, and Enter hands
  \<open>undefined\<close> to \<open>onSuggestionAccept\<close>.
\<close>

theorem ac_stale_selection_out_of_range:
  "ac_reachable (fst (ac_run (ac_mount (demo_props ''app'' 3)) stale_nav_events)) \<and>
   should_show_modal (sys_state (fst (ac_run (ac_mount (demo_props ''app'' 3)) stale_nav_events))) \<and>
   current_suggestions (sys_state (fst (ac_run (ac_mount (demo_props ''app'' 3)) stale_nav_events))) = [''zebra''] \<and>
   selected_option (sys_state (fst (ac_run (ac_mount (demo_props ''app'' 3)) stale_nav_events))) = 1 \<and>
   map opt_text (modal_options (ac_render r (sys_props (fst (ac_run (ac_mount (demo_props ''app'' 3)) stale_nav_events)))
     (sys_state (fst (ac_run (ac_mount (demo_props ''app'' 3)) stale_nav_events))))) = [''zebra''] \<and>
   filter opt_selected (modal_options (ac_render r (sys_props (fst (ac_run (ac_mount (demo_props ''app'' 3)) stale_nav_events)))
     (sys_state (fst (ac_run (ac_mount (demo_props ''app'' 3)) stale_nav_events))))) = [] \<and>
   snd (ac_step (fst (ac_run (ac_mount (demo_props ''app'' 3)) stale_nav_events))
          (KeyDown \<lparr>ev_key = KeyEnter, ev_ctrl = False\<rparr>)) =
     [PreventDefault, AcceptSuggestion None (Some \<lparr>start_index = 4, wd_length = 4\<rparr>) ''app zebr'']"
proof -
  define S where "S = fst (ac_run (ac_mount (demo_props ''app'' 3)) stale_nav_events)"
  have r: "ac_reachable S"
    unfolding S_def by (rule ac_run_reachable [OF ac_reachable.mount])
  have c: "should_show_modal (sys_state S) \<and> current_suggestions (sys_state S) = [''zebra''] \<and>
   selected_option (sys_state S) = 1 \<and>
   snd (ac_step S (KeyDown \<lparr>ev_key = KeyEnter, ev_ctrl = False\<rparr>)) =
     [PreventDefault, AcceptSuggestion None (Some \<lparr>start_index = 4, wd_length = 4\<rparr>) ''app zebr'']"
    unfolding S_def by code_simp
  have v: "map opt_text (modal_options (ac_render r (sys_props S) (sys_state S))) = [''zebra''] \<and>
           filter opt_selected (modal_options (ac_render r (sys_props S) (sys_state S))) = []"
    using c ac_render_options [of r "sys_props S" "sys_state S"]
      ac_render_selected [of r "sys_props S" "sys_state S"] by simp
  from r c v show ?thesis unfolding S_def by blast
qed

text \<open>
  An empty popup. After an accepted suggestion the suppressed tick empties the
  list but leaves the highlighted index unchanged, so \<open>handleCtrlEnterKey\<close> (dependencies
  \<open>[selectedOption]\<close>) still sees the old suggestions and Ctrl+Enter shows the popup with
  no suggestions, against the spec's invariant that a visible popup is never empty; Enter
  then accepts \<open>undefined\<close>.
\<close>

theorem ac_ctrl_enter_shows_empty_popup:
  "ac_reachable (fst (ac_run (ac_mount (demo_props ''app'' 3)) empty_popup_events)) \<and>
   should_show_modal (sys_state (fst (ac_run (ac_mount (demo_props ''app'' 3)) empty_popup_events))) \<and>
   current_suggestions (sys_state (fst (ac_run (ac_mount (demo_props ''app'' 3)) empty_popup_events))) = [] \<and>
   snd (ac_step (fst (ac_run (ac_mount (demo_props ''app'' 3)) empty_popup_events))
          (KeyDown \<lparr>ev_key = KeyEnter, ev_ctrl = False\<rparr>)) =
     [PreventDefault, AcceptSuggestion None None ''app'']"
proof -
  have r: "ac_reachable (fst (ac_run (ac_mount (demo_props ''app'' 3)) empty_popup_events))"
    by (rule ac_run_reachable [OF ac_reachable.mount])
  have c: "should_show_modal (sys_state (fst (ac_run (ac_mount (demo_props ''app'' 3)) empty_popup_events))) \<and>
   current_suggestions (sys_state (fst (ac_run (ac_mount (demo_props ''app'' 3)) empty_popup_events))) = [] \<and>
   snd (ac_step (fst (ac_run (ac_mount (demo_props ''app'' 3)) empty_popup_events))
          (KeyDown \<lparr>ev_key = KeyEnter, ev_ctrl = False\<rparr>)) =
     [PreventDefault, AcceptSuggestion None None ''app'']"
    by code_simp
  from r c show ?thesis by blast
qed

text \<open>
  Keyboard events. An event the component does not handle changes nothing and
  emits nothing; every handled one starts by preventing the key's default action; while the
  popup is hidden only Ctrl+Enter is handled.
\<close>

theorem ac_key_handling:
  assumes "handle_key_down_event m s ev = (s', out)"
  shows "(out = [] \<longrightarrow> s' = s) \<and> (out \<noteq> [] \<longrightarrow> hd out = PreventDefault) \<and>
         (\<not> should_show_modal s \<and> \<not> (ev_ctrl ev \<and> ev_key ev = KeyEnter) \<longrightarrow> out = [] \<and> s' = s)"
  using assms
  by (auto simp: handle_key_down_event_def handle_enter_key_def handle_up_key_def
                 handle_down_key_def handle_escape_key_def handle_ctrl_enter_key_def Let_def
           split: key.splits if_splits)

lemma ac_key_handling_witness:
  "handle_key_down_event \<lparr>nav_suggestions = [], enter_code = []\<rparr> ac_init
     \<lparr>ev_key = KeyArrowDown, ev_ctrl = False\<rparr> = (ac_init, [])"
proof -
  obtain s' out where h: "handle_key_down_event \<lparr>nav_suggestions = [], enter_code = []\<rparr> ac_init
     \<lparr>ev_key = KeyArrowDown, ev_ctrl = False\<rparr> = (s', out)" by fastforce
  have "\<not> should_show_modal ac_init" by (simp add: ac_init_def)
  with ac_key_handling [OF h] h show ?thesis by simp
qed

text \<open>
  Dismiss and reveal. With handlers created at the current render, Escape hides
  the popup but keeps the suggestions and the highlighted index, and Ctrl+Enter then shows
  the same popup again: the two keys restore the state exactly.
\<close>

theorem ac_dismiss_reveal:
  assumes "nav_suggestions m = current_suggestions s" and "current_suggestions s \<noteq> []"
    and "should_show_modal s"
  shows "fst (handle_key_down_event m s \<lparr>ev_key = KeyEscape, ev_ctrl = c\<rparr>) = s\<lparr>should_show_modal := False\<rparr> \<and>
         fst (handle_key_down_event m (fst (handle_key_down_event m s \<lparr>ev_key = KeyEscape, ev_ctrl = c\<rparr>))
                \<lparr>ev_key = KeyEnter, ev_ctrl = True\<rparr>) = s"
  using assms
  by (simp add: handle_key_down_event_def handle_escape_key_def handle_ctrl_enter_key_def)

lemma ac_dismiss_reveal_witness:
  "fst (handle_key_down_event \<lparr>nav_suggestions = [''apple''], enter_code = []\<rparr>
      (fst (handle_key_down_event \<lparr>nav_suggestions = [''apple''], enter_code = []\<rparr>
         (ac_init\<lparr>current_suggestions := [''apple''], should_show_modal := True\<rparr>)
         \<lparr>ev_key = KeyEscape, ev_ctrl = False\<rparr>))
      \<lparr>ev_key = KeyEnter, ev_ctrl = True\<rparr>) =
   ac_init\<lparr>current_suggestions := [''apple''], should_show_modal := True\<rparr>"
proof -
  let ?m = "\<lparr>nav_suggestions = [''apple''], enter_code = []\<rparr>"
  let ?s = "ac_init\<lparr>current_suggestions := [''apple''], should_show_modal := True\<rparr>"
  have h: "nav_suggestions ?m = current_suggestions ?s" "current_suggestions ?s \<noteq> []"
    "should_show_modal ?s" by simp_all
  from ac_dismiss_reveal [OF h, of False] show ?thesis by (rule conjunct2)
qed

end
