(* ===== verification/CodeEditor.thy ===== *)
theory CodeEditor
  imports Autocomplete
begin

text \<open>
  The Acceptance Handler and caret tracking of \<open>src/src/components/code-editor/code-editor.tsx\<close>:
  \<open>getCaretCoordinates\<close>, \<open>handleCaretChange\<close>, \<open>handleValueChange\<close>,
  \<open>handleSuggestionAccept\<close> and \<open>handleSelectCapture\<close> (lines 36--86). The editor's text is
  the \<open>query\<close> state of \<open>App\<close> (\<open>src/src/app.tsx\<close>), changed through
  \<open>onValueChange = setQuery\<close>; the DOM text area is a record with its value and selection.
  A handler's \<open>setState\<close> calls are queued and applied in order after it returns (React
  batching), so a handler is modelled as the list of updates it queues, and an exception
  (reading \<open>length\<close> of \<open>undefined\<close>) as an error value next to the updates queued
  before it. \<open>String.prototype.split\<close> with a one-character separator is the
  Prelude's \<open>js_split\<close>.
\<close>

subsection \<open>Data\<close>

record text_area =
  ta_value :: js_string
  ta_selection_start :: nat

datatype js_error = TypeError

datatype editor_update =
    SetQuery js_string
  | SetCaretData caret_data
  | SetNewCaretIndex int

record editor_state =
  query :: js_string
  ed_caret_data :: caret_data
  new_caret_index :: int

subsection \<open>Operations\<close>

definition get_caret_coordinates :: "text_area \<Rightarrow> caret_position" where
  "get_caret_coordinates t =
     (let linesInTextArea = js_split CHR ''\<newline>'' (js_substring (ta_value t) 0 (int (ta_selection_start t)))
      in \<lparr>pos_x = int (length linesInTextArea), pos_y = int (length (last linesInTextArea))\<rparr>)"

definition handle_caret_change :: "text_area \<Rightarrow> editor_update list" where
  "handle_caret_change t =
     [SetCaretData \<lparr>caret_position = get_caret_coordinates t, caret_index = ta_selection_start t\<rparr>]"

definition handle_value_change :: "text_area option \<Rightarrow> js_string \<Rightarrow> editor_update list" where
  "handle_value_change ta targetValue =
     (case ta of None \<Rightarrow> [] | Some t \<Rightarrow> SetQuery targetValue # handle_caret_change t)"

text \<open>
  \<open>handle_suggestion_accept ta value suggestion wordData\<close>: \<open>value\<close> is the editor text the
  handler's closure holds; \<open>suggestion\<close> is \<open>None\<close> for \<open>undefined\<close>, which the template
  literal prints as \<open>undefined\<close> and whose \<open>length\<close> throws.
\<close>

definition handle_suggestion_accept ::
  "text_area option \<Rightarrow> js_string \<Rightarrow> js_string option \<Rightarrow> word_data option \<Rightarrow>
   editor_update list \<times> js_error option" where
  "handle_suggestion_accept ta value suggestion wordData =
     (case wordData of
        None \<Rightarrow> ([], None)
      | Some wd \<Rightarrow>
          (let before = js_substring value 0 (start_index wd);
               after = js_substring_from value (start_index wd + wd_length wd);
               spliced = (if start_index wd \<noteq> -1
                          then [SetQuery (before @ js_to_string suggestion @ '' '' @ after)] else [])
           in case suggestion of
                None \<Rightarrow> (spliced, Some TypeError)
              | Some s \<Rightarrow>
                  (spliced @ [SetNewCaretIndex (start_index wd + int (length s) + 1)] @
                   handle_value_change ta value, None)))"

text \<open>
  \<open>handleSelectCapture\<close>: moves the DOM selection to the pending caret index
  (\<open>setSelectionRange\<close> clamps it to the text) and clears it.
\<close>

definition handle_select_capture ::
  "text_area option \<Rightarrow> int \<Rightarrow> text_area option \<times> editor_update list" where
  "handle_select_capture ta newCaretIndex =
     (case ta of
        None \<Rightarrow> (ta, [])
      | Some t \<Rightarrow>
          (if newCaretIndex = -1 then (ta, [])
           else (Some (t\<lparr>ta_selection_start := js_clamp newCaretIndex (length (ta_value t))\<rparr>),
                 [SetNewCaretIndex (-1)])))"

text \<open>Applying the queued updates in order: the last write to a hook wins.\<close>

fun apply_update :: "editor_state \<Rightarrow> editor_update \<Rightarrow> editor_state" where
  "apply_update e (SetQuery v) = e\<lparr>query := v\<rparr>"
| "apply_update e (SetCaretData c) = e\<lparr>ed_caret_data := c\<rparr>"
| "apply_update e (SetNewCaretIndex i) = e\<lparr>new_caret_index := i\<rparr>"

definition apply_updates :: "editor_state \<Rightarrow> editor_update list \<Rightarrow> editor_state" where
  "apply_updates e us = fold (\<lambda>u e. apply_update e u) us e"

subsection \<open>Reference: the splice the spec describes\<close>

definition splice_word :: "js_string \<Rightarrow> nat \<Rightarrow> nat \<Rightarrow> js_string \<Rightarrow> js_string" where
  "splice_word text start len w = take start text @ w @ '' '' @ drop (start + len) text"

subsection \<open>Lemmas\<close>

lemma apply_updates_append [simp]:
  "apply_updates e (us @ vs) = apply_updates (apply_updates e us) vs"
  by (simp add: apply_updates_def)

lemma apply_updates_simps [simp]:
  "apply_updates e [] = e"
  "apply_updates e (u # us) = apply_updates (apply_update e u) us"
  by (simp_all add: apply_updates_def)

lemma accept_span_nat:
  assumes "start_index wd = int a" and "wd_length wd = int l" and "a + l \<le> length value"
  shows "js_substring value 0 (start_index wd) = take a value"
    and "js_substring_from value (start_index wd + wd_length wd) = drop (a + l) value"
    and "start_index wd \<noteq> -1"
proof -
  show "js_substring value 0 (start_index wd) = take a value"
    using assms by (simp add: js_substring_prefix)
  have e: "start_index wd + wd_length wd = int (a + l)" using assms by simp
  show "js_substring_from value (start_index wd + wd_length wd) = drop (a + l) value"
    unfolding e by (rule js_substring_from_nat)
  show "start_index wd \<noteq> -1" using assms(1) by simp
qed

subsection \<open>Properties of the acceptance handler\<close>

text \<open>
  Claim C14: accepting a suggestion \<open>s\<close> for a span inside the text queues the text with
  the span replaced by \<open>s\<close> and one space, then the caret index just after that space,
  then what \<open>handleValueChange(value)\<close> queues; nothing is thrown. Accepting
  \<open>undefined\<close> for the same span queues the text with the span replaced by the nine
  characters \<open>undefined\<close> and a space, and then throws a \<open>TypeError\<close> on
  \<open>suggestion.length\<close>, before the update that would overwrite it.
\<close>

theorem accept_splices:
  assumes "start_index wd = int a" and "wd_length wd = int l" and "a + l \<le> length value"
  shows "handle_suggestion_accept ta value (Some s) (Some wd) =
           ([SetQuery (splice_word value a l s), SetNewCaretIndex (int (a + length s + 1))] @
            handle_value_change ta value, None) \<and>
         handle_suggestion_accept ta value None (Some wd) =
           ([SetQuery (splice_word value a l ''undefined'')], Some TypeError) \<and>
         query (apply_updates e (fst (handle_suggestion_accept ta value None (Some wd)))) =
           take a value @ ''undefined '' @ drop (a + l) value"
  using accept_span_nat [OF assms] assms
  by (simp add: handle_suggestion_accept_def splice_word_def Let_def)

lemma accept_splices_witness:
  "handle_suggestion_accept None ''app rest'' (Some ''apple'') (Some \<lparr>start_index = 0, wd_length = 3\<rparr>) =
     ([SetQuery ''apple  rest'', SetNewCaretIndex 6], None)"
proof -
  have "handle_suggestion_accept None ''app rest'' (Some ''apple'') (Some \<lparr>start_index = int 0, wd_length = int 3\<rparr>) =
     ([SetQuery (splice_word ''app rest'' 0 3 ''apple''), SetNewCaretIndex (int (0 + length ''apple'' + 1))] @
      handle_value_change None ''app rest'', None)"
    by (rule conjunct1 [OF accept_splices]) simp_all
  then show ?thesis by (simp add: splice_word_def handle_value_change_def)
qed

text \<open>
  The editor's handler throws exactly when the autocomplete model says it does: the
  autocomplete's \<open>handleEnterKey\<close> sets its suppression flag only when this call returns.
\<close>

lemma accept_throws_agrees:
  "(snd (handle_suggestion_accept ta value suggestion wordData) \<noteq> None) =
     accept_throws suggestion wordData"
  by (simp add: handle_suggestion_accept_def accept_throws_def Let_def split: option.splits)

text \<open>
  The accepted text is lost. Once the text area is known, the handler queues the
  spliced text and then, through \<open>handleValueChange(value)\<close>, the text it started from;
  the later update wins, so the editor text is unchanged, while the caret index is set to
  where the suggestion would have ended.
\<close>

theorem accept_overwritten:
  assumes "start_index wd = int a" and "wd_length wd = int l" and "a + l \<le> length value"
  shows "query (apply_updates e (fst (handle_suggestion_accept (Some t) value (Some s) (Some wd)))) = value \<and>
         new_caret_index (apply_updates e (fst (handle_suggestion_accept (Some t) value (Some s) (Some wd)))) =
           int (a + length s + 1)"
  using accept_span_nat [OF assms] assms
  by (simp add: handle_suggestion_accept_def handle_value_change_def handle_caret_change_def Let_def)

lemma accept_overwritten_witness:
  "query (apply_updates \<lparr>query = ''app'', ed_caret_data = default_caret_data, new_caret_index = -1\<rparr>
     (fst (handle_suggestion_accept (Some \<lparr>ta_value = ''app'', ta_selection_start = 3\<rparr>) ''app''
        (Some ''apple'') (Some \<lparr>start_index = 0, wd_length = 3\<rparr>)))) = ''app''"
  using accept_overwritten [of "\<lparr>start_index = 0, wd_length = 3\<rparr>" 0 3 "''app''"
          "\<lparr>query = ''app'', ed_caret_data = default_caret_data, new_caret_index = -1\<rparr>"
          "\<lparr>ta_value = ''app'', ta_selection_start = 3\<rparr>" "''apple''"] by simp

text \<open>
  The caret coordinates. For a selection inside the text, the line number is one
  more than the number of line feeds before the caret and the column is the number of code
  units since the last of them; splitting the prefix on line feeds and joining it back gives
  the prefix.
\<close>

theorem caret_coordinates:
  assumes "ta_selection_start t \<le> length (ta_value t)"
  shows "pos_x (get_caret_coordinates t) =
           int (Suc (count_list (take (ta_selection_start t) (ta_value t)) CHR ''\<newline>'')) \<and>
         pos_y (get_caret_coordinates t) =
           int (length (takeWhile (\<lambda>x. x \<noteq> CHR ''\<newline>'') (rev (take (ta_selection_start t) (ta_value t))))) \<and>
         join_with CHR ''\<newline>'' (js_split CHR ''\<newline>'' (take (ta_selection_start t) (ta_value t))) =
           take (ta_selection_start t) (ta_value t)"
  using assms js_split_concat [of "CHR ''\<newline>''" "take (ta_selection_start t) (ta_value t)"]
  by (simp add: get_caret_coordinates_def js_substring_prefix js_split_last)

lemma caret_coordinates_witness:
  "get_caret_coordinates \<lparr>ta_value = ''ab\<newline>cde'', ta_selection_start = 5\<rparr> = \<lparr>pos_x = 2, pos_y = 2\<rparr>"
proof -
  have "(5::nat) \<le> length ''ab\<newline>cde''" by simp
  from caret_coordinates [of "\<lparr>ta_value = ''ab\<newline>cde'', ta_selection_start = 5\<rparr>"] this
  show ?thesis by simp
qed

text \<open>
  The caret restore is one-shot. A pending caret index moves the text area's
  selection there (clamped to the text) and queues its reset to \<open>-1\<close>; with the index
  reset, a further select event changes nothing.
\<close>

theorem select_capture_once:
  assumes "n \<noteq> -1" and "0 \<le> n"
  shows "handle_select_capture (Some t) n =
           (Some (t\<lparr>ta_selection_start := min (nat n) (length (ta_value t))\<rparr>), [SetNewCaretIndex (-1)]) \<and>
         handle_select_capture (fst (handle_select_capture (Some t) n)) (-1) =
           (fst (handle_select_capture (Some t) n), [])"
  using assms by (auto simp: handle_select_capture_def js_clamp_def min_def)

lemma select_capture_once_witness:
  "handle_select_capture (Some \<lparr>ta_value = ''app'', ta_selection_start = 3\<rparr>) 6 =
     (Some \<lparr>ta_value = ''app'', ta_selection_start = 3\<rparr>, [SetNewCaretIndex (-1)])"
  using select_capture_once [of 6 "\<lparr>ta_value = ''app'', ta_selection_start = 3\<rparr>"] by simp

end
