(* ===== verification/EditorApp.thy ===== *)
theory EditorApp
  imports CodeEditor
begin

text \<open>
  The mounted editor: \<open>CodeEditor\<close> of \<open>src/src/components/code-editor/code-editor.tsx\<close>
  rendered by \<open>App\<close> (\<open>src/src/app.tsx\<close>), whose \<open>query\<close> state is the editor's text and
  whose \<open>setQuery\<close> is \<open>onValueChange\<close>. The system holds the hooks of the editor (its
  view, worker and text-area states; the caret data and pending caret index of
  \<open>editor_state\<close>), the state of \<open>useCodeLoader\<close> and \<open>useWorkers\<close>, the DOM, and the
  dependency lists of the three effects of lines 88--126 at their last run.

  The DOM holds text-area elements by identity: \<open>Editor\<close> (react-simple-code-editor) renders
  a text area with the id \<open>code-textarea--input\<close> while the view is the editor, a new element
  each time it is mounted. A controlled text area whose value differs from the rendered
  text takes the text, and the browser then moves its cursor to the end (the HTML value
  setter). The enum \<open>CodeEditorViewType\<close> is imported from a module that is not in the
  repository; its two members are the datatype \<open>code_editor_view_type\<close>.

  A handler or effect queues its updates; they are applied in order after it returns; when a
  hook changed, React renders again: a commit reconciles the DOM and runs the effects whose
  dependency lists changed, in the order of the source, and a further render is pending
  when their updates changed a hook. \<open>handleCaretChange\<close> has no dependencies, and
  \<open>handleValueChange\<close> depends on \<open>textArea\<close> only (\<open>onValueChange\<close> is React's stable
  \<open>setQuery\<close>), so their identities are those of the text-area state.
\<close>

subsection \<open>Data\<close>

datatype code_editor_view_type = ViewEditor | ViewParseTree

record 'w ce_sys =
  ce_ed :: editor_state
  ce_view :: code_editor_view_type
  ce_current_worker :: "'w option"
  ce_text_area :: "nat option"
  ce_loaded :: "js_string option"
  ce_workers :: "'w list"
  ce_workers_gen :: nat
  ce_elements :: "nat \<Rightarrow> text_area"
  ce_mounted :: "nat option"
  ce_next_el :: nat
  ce_listening :: "nat option"
  ce_deps_dom :: "code_editor_view_type option"
  ce_deps_loaded :: "(nat option \<times> js_string option) option"
  ce_deps_workers :: "nat option"
  ce_pending :: bool

datatype 'w ce_update =
    CeEd editor_update
  | SetTextArea nat
  | SetCurrentWorker "'w option"
  | SetCurrentView code_editor_view_type

datatype 'w ce_event =
    CeType js_string nat
  | CeCaretEvent nat
  | CeExampleClick js_string
  | CeSelectView code_editor_view_type
  | CeLoadedCode js_string
  | CeWorkersLoaded "'w list"
  | CeWorkerChange "'w option"
  | CeSelectCapture
  | CeFrame

subsection \<open>Operations\<close>

text \<open>The hooks whose change makes React render the editor again.\<close>

definition ce_hooks ::
  "'w ce_sys \<Rightarrow> editor_state \<times> code_editor_view_type \<times> 'w option \<times> nat option \<times> js_string option \<times> nat" where
  "ce_hooks S = (ce_ed S, ce_view S, ce_current_worker S, ce_text_area S, ce_loaded S, ce_workers_gen S)"

fun ce_apply_update :: "'w ce_sys \<Rightarrow> 'w ce_update \<Rightarrow> 'w ce_sys" where
  "ce_apply_update S (CeEd u) = S\<lparr>ce_ed := apply_update (ce_ed S) u\<rparr>"
| "ce_apply_update S (SetTextArea el) = S\<lparr>ce_text_area := Some el\<rparr>"
| "ce_apply_update S (SetCurrentWorker w) = S\<lparr>ce_current_worker := w\<rparr>"
| "ce_apply_update S (SetCurrentView v) = S\<lparr>ce_view := v\<rparr>"

definition ce_apply_updates :: "'w ce_update list \<Rightarrow> 'w ce_sys \<Rightarrow> 'w ce_sys" where
  "ce_apply_updates us S = fold (\<lambda>u S. ce_apply_update S u) us S"

text \<open>The DOM state of the text area the \<open>textArea\<close> state refers to.\<close>

definition ce_text_area_dom :: "'w ce_sys \<Rightarrow> text_area option" where
  "ce_text_area_dom S = map_option (ce_elements S) (ce_text_area S)"

text \<open>Reconciling the DOM with a render (lines 145--159): the editor's text area is mounted
  while the view is the editor, and holds the rendered text.\<close>

definition ce_render :: "'w ce_sys \<Rightarrow> 'w ce_sys" where
  "ce_render S =
     (let q = query (ce_ed S); fresh = \<lparr>ta_value = q, ta_selection_start = length q\<rparr>
      in if ce_view S = ViewEditor
         then (case ce_mounted S of
                 None \<Rightarrow> S\<lparr>ce_elements := (ce_elements S)(ce_next_el S := fresh),
                           ce_mounted := Some (ce_next_el S), ce_next_el := Suc (ce_next_el S)\<rparr>
               | Some el \<Rightarrow> if ta_value (ce_elements S el) = q then S
                            else S\<lparr>ce_elements := (ce_elements S)(el := fresh)\<rparr>)
         else S\<lparr>ce_mounted := None\<rparr>)"

text \<open>The effect on \<open>[currentView, handleCaretChange]\<close> (lines 88--110): the previous run's
  cleanup removes the listeners; then the text area found in the DOM, if any, is stored and
  listened to.\<close>

definition dom_effect :: "'w ce_sys \<Rightarrow> 'w ce_sys \<times> 'w ce_update list" where
  "dom_effect S =
     (case ce_mounted S of
        None \<Rightarrow> (S\<lparr>ce_listening := None\<rparr>, [])
      | Some el \<Rightarrow> (S\<lparr>ce_listening := Some el\<rparr>, [SetTextArea el]))"

text \<open>The effect on \<open>[handleValueChange, loadedCode]\<close> (lines 112--118).\<close>

definition loaded_code_effect :: "'w ce_sys \<Rightarrow> 'w ce_update list" where
  "loaded_code_effect S =
     (case ce_loaded S of
        None \<Rightarrow> []
      | Some loadedCode \<Rightarrow> map CeEd (handle_value_change (ce_text_area_dom S) loadedCode))"

text \<open>The effect on \<open>[workers]\<close> (lines 120--126).\<close>

definition workers_effect :: "'w ce_sys \<Rightarrow> 'w ce_update list" where
  "workers_effect S = (if ce_workers S = [] then [] else [SetCurrentWorker (Some (hd (ce_workers S)))])"

definition ce_commit :: "'w ce_sys \<Rightarrow> 'w ce_sys" where
  "ce_commit S0 =
     (let S = ce_render S0;
          (S1, u1) = (if ce_deps_dom S = Some (ce_view S) then (S, []) else dom_effect S);
          u2 = (if ce_deps_loaded S = Some (ce_text_area S, ce_loaded S) then [] else loaded_code_effect S);
          u3 = (if ce_deps_workers S = Some (ce_workers_gen S) then [] else workers_effect S);
          S2 = S1\<lparr>ce_deps_dom := Some (ce_view S), ce_deps_loaded := Some (ce_text_area S, ce_loaded S),
                  ce_deps_workers := Some (ce_workers_gen S)\<rparr>;
          S3 = ce_apply_updates (u1 @ u2 @ u3) S2
      in S3\<lparr>ce_pending := (ce_hooks S3 \<noteq> ce_hooks S)\<rparr>)"

text \<open>After a handler: a commit when a hook changed.\<close>

definition ce_after :: "'w ce_sys \<Rightarrow> 'w ce_update list \<Rightarrow> 'w ce_sys" where
  "ce_after S us =
     (let S' = ce_apply_updates us S in if ce_hooks S' = ce_hooks S then S' else ce_commit S')"

text \<open>Mounting \<open>App\<close> with the initial text \<open>q\<close>: the initial hook values (lines 26--34).\<close>

definition ce_mount :: "js_string \<Rightarrow> 'w ce_sys" where
  "ce_mount q =
     ce_commit
       \<lparr>ce_ed = \<lparr>query = q, ed_caret_data = default_caret_data, new_caret_index = -1\<rparr>,
        ce_view = ViewEditor, ce_current_worker = None, ce_text_area = None, ce_loaded = None,
        ce_workers = [], ce_workers_gen = 0,
        ce_elements = (\<lambda>_. \<lparr>ta_value = [], ta_selection_start = 0\<rparr>), ce_mounted = None, ce_next_el = 0,
        ce_listening = None, ce_deps_dom = None, ce_deps_loaded = None, ce_deps_workers = None,
        ce_pending = False\<rparr>"

text \<open>
  The events: typing in the mounted text area (the browser updates it, then \<open>Editor\<close> calls
  \<open>handleValueChange\<close>, line 150); a click, context menu or key press on it, which reaches
  \<open>handleCaretChange\<close> through a listener of the DOM effect; a click on an example
  (\<open>onExampleClick\<close>, line 183); a view button (line 140); the value of \<open>useCodeLoader\<close>
  and of \<open>useWorkers\<close>; the worker the select passes to \<open>setCurrentWorker\<close> (line 143,
  \<open>undefined\<close> being \<open>None\<close>); the \<open>selectcapture\<close> of the text area (line 156); and a frame in
  which React performs a pending render.
\<close>

fun ce_step :: "'w ce_sys \<Rightarrow> 'w ce_event \<Rightarrow> 'w ce_sys" where
  "ce_step S (CeType v sel) =
     (case ce_mounted S of
        None \<Rightarrow> S
      | Some el \<Rightarrow>
          (let S' = S\<lparr>ce_elements := (ce_elements S)(el := \<lparr>ta_value = v, ta_selection_start = sel\<rparr>)\<rparr>
           in ce_after S' (map CeEd (handle_value_change (ce_text_area_dom S') v))))"
| "ce_step S (CeCaretEvent sel) =
     (case ce_mounted S of
        None \<Rightarrow> S
      | Some el \<Rightarrow>
          (let S' = S\<lparr>ce_elements := (ce_elements S)(el := (ce_elements S el)\<lparr>ta_selection_start := sel\<rparr>)\<rparr>
           in if ce_listening S = Some el
              then ce_after S' (map CeEd (handle_caret_change (ce_elements S' el)))
              else S'))"
| "ce_step S (CeExampleClick code) = ce_after S [CeEd (SetQuery code)]"
| "ce_step S (CeSelectView v) = ce_after S [SetCurrentView v]"
| "ce_step S (CeLoadedCode c) =
     (if ce_loaded S = Some c then S else ce_commit (S\<lparr>ce_loaded := Some c\<rparr>))"
| "ce_step S (CeWorkersLoaded ws) =
     ce_commit (S\<lparr>ce_workers := ws, ce_workers_gen := Suc (ce_workers_gen S)\<rparr>)"
| "ce_step S (CeWorkerChange w) = ce_after S [SetCurrentWorker w]"
| "ce_step S CeSelectCapture =
     (case ce_mounted S of
        None \<Rightarrow> S
      | Some el \<Rightarrow>
          (let (ta, us) = handle_select_capture (ce_text_area_dom S) (new_caret_index (ce_ed S));
               S' = (case (ce_text_area S, ta) of
                       (Some t, Some a) \<Rightarrow> S\<lparr>ce_elements := (ce_elements S)(t := a)\<rparr>
                     | _ \<Rightarrow> S)
           in ce_after S' (map CeEd us)))"
| "ce_step S CeFrame = (if ce_pending S then ce_commit S else S)"

definition ce_run :: "'w ce_sys \<Rightarrow> 'w ce_event list \<Rightarrow> 'w ce_sys" where
  "ce_run S es = fold (\<lambda>e S. ce_step S e) es S"

text \<open>The props the editor renders the popup with (lines 165--171).\<close>

definition ce_popup_props :: "'w ce_sys \<Rightarrow> js_string list \<Rightarrow> ac_props" where
  "ce_popup_props S keywords =
     \<lparr>ac_caret = ed_caret_data (ce_ed S), ac_code = query (ce_ed S), ac_keywords = keywords\<rparr>"

text \<open>Settled dependencies: every effect last ran with the dependency list the next render
  would give it.\<close>

definition ce_deps_current :: "'w ce_sys \<Rightarrow> bool" where
  "ce_deps_current S \<longleftrightarrow>
     ce_deps_dom S = Some (ce_view S) \<and> ce_deps_loaded S = Some (ce_text_area S, ce_loaded S) \<and>
     ce_deps_workers S = Some (ce_workers_gen S)"

subsection \<open>Lemmas: what a commit does\<close>

lemma ce_apply_updates_simps [simp]:
  "ce_apply_updates [] S = S"
  "ce_apply_updates (u # us) S = ce_apply_updates us (ce_apply_update S u)"
  "ce_apply_updates (us @ vs) S = ce_apply_updates vs (ce_apply_updates us S)"
  by (simp_all add: ce_apply_updates_def)

lemma ce_render_fields [simp]:
  "ce_ed (ce_render S) = ce_ed S"
  "ce_view (ce_render S) = ce_view S"
  "ce_text_area (ce_render S) = ce_text_area S"
  "ce_loaded (ce_render S) = ce_loaded S"
  "ce_workers (ce_render S) = ce_workers S"
  "ce_workers_gen (ce_render S) = ce_workers_gen S"
  "ce_current_worker (ce_render S) = ce_current_worker S"
  "ce_deps_dom (ce_render S) = ce_deps_dom S"
  "ce_deps_loaded (ce_render S) = ce_deps_loaded S"
  "ce_deps_workers (ce_render S) = ce_deps_workers S"
  "ce_listening (ce_render S) = ce_listening S"
  "ce_mounted (ce_render S) =
     (if ce_view S = ViewEditor then Some (case ce_mounted S of None \<Rightarrow> ce_next_el S | Some el \<Rightarrow> el) else None)"
  by (simp_all add: ce_render_def Let_def split: option.splits)

lemma ce_apply_updates_CeEd [simp]:
  "ce_apply_updates (map CeEd us) S = S\<lparr>ce_ed := apply_updates (ce_ed S) us\<rparr>"
  by (induction us arbitrary: S) simp_all

lemma ce_commit_fields:
  "ce_view (ce_commit S) = ce_view S"
  "ce_loaded (ce_commit S) = ce_loaded S"
  "ce_deps_loaded (ce_commit S) = Some (ce_text_area S, ce_loaded S)"
  "ce_deps_dom (ce_commit S) = Some (ce_view S)"
  "ce_mounted (ce_commit S) =
     (if ce_view S = ViewEditor then Some (case ce_mounted S of None \<Rightarrow> ce_next_el S | Some el \<Rightarrow> el) else None)"
  by (simp_all add: ce_commit_def Let_def dom_effect_def loaded_code_effect_def workers_effect_def
      split: option.splits prod.splits)

lemma ce_commit_text_area:
  "ce_text_area (ce_commit S) =
     (if ce_deps_dom S \<noteq> Some (ce_view S) \<and> ce_view S = ViewEditor
      then Some (case ce_mounted S of None \<Rightarrow> ce_next_el S | Some el \<Rightarrow> el) else ce_text_area S)"
  by (cases "ce_view S")
    (auto simp: ce_commit_def Let_def dom_effect_def loaded_code_effect_def workers_effect_def
      split: option.splits prod.splits)

lemma ce_commit_query:
  "query (ce_ed (ce_commit S)) =
     (if ce_deps_loaded S \<noteq> Some (ce_text_area S, ce_loaded S) \<and> ce_loaded S \<noteq> None \<and> ce_text_area S \<noteq> None
      then the (ce_loaded S) else query (ce_ed S))"
  by (cases "ce_view S")
    (auto simp: ce_commit_def Let_def dom_effect_def loaded_code_effect_def workers_effect_def
      ce_text_area_dom_def handle_value_change_def handle_caret_change_def split: option.splits prod.splits)

lemma ce_commit_pending:
  "ce_pending (ce_commit S) \<longleftrightarrow> ce_hooks (ce_commit S) \<noteq> ce_hooks S"
  by (simp add: ce_commit_def Let_def ce_hooks_def split: prod.splits)

lemma ce_commit_next_el:
  "ce_next_el (ce_commit S) = (if ce_view S = ViewEditor \<and> ce_mounted S = None then Suc (ce_next_el S) else ce_next_el S)"
  by (simp add: ce_commit_def ce_render_def Let_def dom_effect_def loaded_code_effect_def workers_effect_def
      split: option.splits prod.splits)

lemmas ce_commit_simps = ce_commit_fields ce_commit_text_area ce_commit_query ce_commit_next_el

lemma ce_commit_ed:
  "ce_deps_loaded S = Some (ce_text_area S, ce_loaded S) \<Longrightarrow> ce_ed (ce_commit S) = ce_ed S"
  by (simp add: ce_commit_def Let_def dom_effect_def workers_effect_def split: option.splits prod.splits)

lemma ce_apply_updates_pending [simp]: "ce_pending (ce_apply_updates us S) = ce_pending S"
proof (induction us arbitrary: S)
  case (Cons u us)
  then show ?case by (cases u) simp_all
qed simp

lemma ce_commit_quiet:
  "ce_deps_current S \<Longrightarrow> ce_deps_current (ce_commit S) \<and> \<not> ce_pending (ce_commit S)"
  by (simp add: ce_deps_current_def ce_commit_def Let_def ce_hooks_def split: prod.splits)

lemma ce_commit_deps:
  "ce_deps_dom (ce_commit S) = Some (ce_view (ce_commit S)) \<and>
   ce_deps_workers (ce_commit S) = Some (ce_workers_gen (ce_commit S))"
  by (simp add: ce_commit_def Let_def dom_effect_def loaded_code_effect_def workers_effect_def
      split: option.splits prod.splits)

lemma ce_commit_current:
  assumes "ce_deps_dom S = Some (ce_view S)" and "ce_deps_workers S = Some (ce_workers_gen S)"
  shows "ce_deps_current (ce_commit S)"
  using assms
  by (simp add: ce_deps_current_def ce_commit_def Let_def loaded_code_effect_def split: option.splits prod.splits)

lemma ce_step_commit_or_keep:
  "(\<exists>X. ce_step S e = ce_commit X) \<or> ce_pending (ce_step S e) = ce_pending S"
proof (cases e)
  case (CeSelectCapture)
  then show ?thesis
    by (auto simp: ce_after_def Let_def split: option.splits prod.splits)
qed (auto simp: ce_after_def Let_def split: option.splits)

subsection \<open>Properties of the mounted editor\<close>

lemma ce_caret_event_ed:
  assumes "ce_mounted S = Some el" and "ce_listening S = Some el"
    and "ce_deps_loaded S = Some (ce_text_area S, ce_loaded S)"
  shows "ce_ed (ce_step S (CeCaretEvent sel)) =
           (ce_ed S)\<lparr>ed_caret_data := \<lparr>caret_position = get_caret_coordinates ((ce_elements S el)\<lparr>ta_selection_start := sel\<rparr>),
                                       caret_index = sel\<rparr>\<rparr>"
  using assms by (simp add: ce_after_def ce_commit_ed Let_def handle_caret_change_def)

text \<open>
  Claim C15: switching views discards the user's text. When the page was opened with a
  shared code, the editor shows it; after the user types a text \<open>t\<close>, switching to the
  parse-tree view and back mounts a new text area, which gives \<open>handleValueChange\<close> a new
  identity, which runs the loaded-code effect again: after one frame the text is the loaded
  code again, and \<open>t\<close> is lost. This holds for every initial text, loaded code, typed
  text and caret.
\<close>

theorem view_toggle_restores_loaded_code:
  "query (ce_ed (ce_run (ce_mount q :: 'w ce_sys) [CeLoadedCode c, CeFrame, CeType t sel])) = t \<and>
   query (ce_ed (ce_run (ce_mount q :: 'w ce_sys)
     [CeLoadedCode c, CeFrame, CeType t sel, CeSelectView ViewParseTree, CeSelectView ViewEditor, CeFrame])) = c"
proof -
  define S1 where "S1 = (ce_mount q :: 'w ce_sys)"
  define S2 where "S2 = ce_step S1 (CeLoadedCode c)"
  define S3 where "S3 = ce_step S2 CeFrame"
  define S4 where "S4 = ce_step S3 (CeType t sel)"
  define S5 where "S5 = ce_step S4 (CeSelectView ViewParseTree)"
  define S6 where "S6 = ce_step S5 (CeSelectView ViewEditor)"
  have s1: "ce_view S1 = ViewEditor \<and> ce_loaded S1 = None \<and> ce_text_area S1 = Some 0 \<and>
            ce_mounted S1 = Some 0 \<and> ce_next_el S1 = 1 \<and> ce_deps_dom S1 = Some ViewEditor \<and>
            ce_deps_loaded S1 = Some (None, None)"
    by (simp add: S1_def ce_mount_def ce_commit_simps)
  have s2: "ce_view S2 = ViewEditor \<and> ce_loaded S2 = Some c \<and> ce_text_area S2 = Some 0 \<and>
            ce_mounted S2 = Some 0 \<and> ce_next_el S2 = 1 \<and> ce_deps_dom S2 = Some ViewEditor \<and>
            ce_deps_loaded S2 = Some (Some 0, Some c) \<and> query (ce_ed S2) = c"
    using s1 by (simp add: S2_def ce_commit_simps)
  have s3: "ce_view S3 = ViewEditor \<and> ce_loaded S3 = Some c \<and> ce_text_area S3 = Some 0 \<and>
            ce_mounted S3 = Some 0 \<and> ce_next_el S3 = 1 \<and> ce_deps_dom S3 = Some ViewEditor \<and>
            ce_deps_loaded S3 = Some (Some 0, Some c) \<and> query (ce_ed S3) = c"
    using s2 by (simp add: S3_def ce_commit_simps)
  have s4: "ce_view S4 = ViewEditor \<and> ce_loaded S4 = Some c \<and> ce_text_area S4 = Some 0 \<and>
            ce_mounted S4 = Some 0 \<and> ce_next_el S4 = 1 \<and> ce_deps_dom S4 = Some ViewEditor \<and>
            ce_deps_loaded S4 = Some (Some 0, Some c) \<and> query (ce_ed S4) = t"
    using s3 by (simp add: S4_def ce_commit_simps ce_after_def ce_text_area_dom_def handle_value_change_def
        handle_caret_change_def Let_def)
  have s5: "ce_view S5 = ViewParseTree \<and> ce_loaded S5 = Some c \<and> ce_text_area S5 = Some 0 \<and>
            ce_mounted S5 = None \<and> ce_next_el S5 = 1 \<and> ce_deps_dom S5 = Some ViewParseTree \<and>
            ce_deps_loaded S5 = Some (Some 0, Some c) \<and> query (ce_ed S5) = t"
    using s4 by (simp add: S5_def ce_commit_simps ce_after_def ce_hooks_def)
  have s6: "ce_view S6 = ViewEditor \<and> ce_loaded S6 = Some c \<and> ce_text_area S6 = Some 1 \<and>
            ce_deps_loaded S6 = Some (Some 0, Some c) \<and> query (ce_ed S6) = t \<and> ce_pending S6"
    using s5 by (simp add: S6_def ce_commit_simps ce_after_def ce_hooks_def ce_commit_pending)
  have s7: "query (ce_ed (ce_step S6 CeFrame)) = c"
    using s6 by (simp add: ce_commit_simps)
  show ?thesis
    using s4 s7 by (simp add: ce_run_def S1_def S2_def S3_def S4_def S5_def S6_def del: ce_step.simps)
qed

text \<open>
  Claim C16: an example click leaves the popup a stale caret. Clicking an example replaces
  the text without any caret update, so the props the editor renders the popup with pair
  the new text with the caret of the old one; when that caret lies past the end of the new
  text, the popup's word extraction reads past the end and the word gets the text
  \<open>undefined\<close> once for every missing position.
\<close>

theorem example_click_stale_caret:
  assumes "ce_view S = ViewEditor" and "ce_deps_loaded S = Some (ce_text_area S, ce_loaded S)"
    and "length code < caret_index (ed_caret_data (ce_ed S))"
  shows "ce_popup_props (ce_step S (CeExampleClick code)) keywords =
           \<lparr>ac_caret = ed_caret_data (ce_ed S), ac_code = code, ac_keywords = keywords\<rparr> \<and>
         word (get_word_backwards (ac_code (ce_popup_props (ce_step S (CeExampleClick code)) keywords))
                 (caret_index (ac_caret (ce_popup_props (ce_step S (CeExampleClick code)) keywords)))) =
           word_before code (length code) @
           concat (replicate (caret_index (ed_caret_data (ce_ed S)) - length code) ''undefined'')"
proof -
  have "ce_ed (ce_step S (CeExampleClick code)) = (ce_ed S)\<lparr>query := code\<rparr>"
    using assms(2) by (simp add: ce_after_def ce_commit_ed Let_def)
  then show ?thesis
    using assms(3) by (simp add: ce_popup_props_def get_word_backwards_beyond)
qed

lemma example_click_stale_caret_witness:
  "word (get_word_backwards
     (ac_code (ce_popup_props (ce_step (ce_run (ce_mount ''MATCH (p)'' :: unit ce_sys) [CeFrame, CeCaretEvent 9])
        (CeExampleClick ''ab'')) []))
     (caret_index (ac_caret (ce_popup_props (ce_step (ce_run (ce_mount ''MATCH (p)'' :: unit ce_sys) [CeFrame, CeCaretEvent 9])
        (CeExampleClick ''ab'')) [])))) =
   ''ab'' @ concat (replicate 7 ''undefined'')"
proof -
  define S where "S = ce_run (ce_mount ''MATCH (p)'' :: unit ce_sys) [CeFrame, CeCaretEvent 9]"
  have v: "ce_view S = ViewEditor" unfolding S_def by code_simp
  have d: "ce_deps_loaded S = Some (ce_text_area S, ce_loaded S)" unfolding S_def by code_simp
  have c: "caret_index (ed_caret_data (ce_ed S)) = 9" unfolding S_def by code_simp
  have "length ''ab'' < caret_index (ed_caret_data (ce_ed S))" using c by simp
  note p = example_click_stale_caret [OF v d this, of "[]"]
  show ?thesis
    unfolding S_def [symmetric] using conjunct2 [OF p] c unfolding conjunct1 [OF p]
    by (simp add: word_before_def is_space_char_def white_space_chars_def)
qed

text \<open>
  Claim C17: the editor settles. After any event in a state with no render pending, at most
  two further frames are rendered: a commit can store a new text area, which changes
  \<open>handleValueChange\<close> and runs the loaded-code effect in the next commit, whose text
  change runs no effect. No render is pending after the second frame.
\<close>

theorem editor_settles:
  assumes "\<not> ce_pending S"
  shows "\<not> ce_pending (ce_step (ce_step (ce_step S e) CeFrame) CeFrame)"
proof -
  let ?T = "ce_step S e"
  have frame1: "\<not> ce_pending (ce_step (ce_step T CeFrame) CeFrame)" if "ce_deps_current (ce_step T CeFrame) \<or> \<not> ce_pending (ce_step T CeFrame)" for T :: "'a ce_sys"
    using that ce_commit_quiet [of "ce_step T CeFrame"] by auto
  consider (commit) X where "?T = ce_commit X" | (keep) "ce_pending ?T = ce_pending S"
    using ce_step_commit_or_keep [of S e] by blast
  then show ?thesis
  proof cases
    case commit
    have "ce_deps_current (ce_step ?T CeFrame) \<or> \<not> ce_pending (ce_step ?T CeFrame)"
    proof (cases "ce_pending ?T")
      case True
      then show ?thesis using commit ce_commit_current [of "ce_commit X"] ce_commit_deps [of X] by simp
    next
      case False
      then show ?thesis by simp
    qed
    then show ?thesis by (rule frame1)
  next
    case keep
    then show ?thesis using assms by simp
  qed
qed


lemma editor_settles_witness:
  "\<not> ce_pending (ce_step (ce_step (ce_step (ce_run (ce_mount ''q'' :: unit ce_sys) [CeFrame])
      (CeSelectView ViewParseTree)) CeFrame) CeFrame)"
proof -
  have "\<not> ce_pending (ce_run (ce_mount ''q'' :: unit ce_sys) [CeFrame])" by code_simp
  then show ?thesis by (rule editor_settles)
qed

text \<open>
  Claim C18: a caret move places the popup under the caret's line. After the user moves
  the caret of the mounted text area to an offset inside its text, the popup is rendered
  with the new caret: \<open>getModalStyles\<close> puts its top edge at the text area's top plus
  20 pixels per line up to the caret's line (one more than the line feeds before the caret)
  plus 10, and its left edge at the text area's left plus 7.2 pixels per code unit since
  the last line feed, plus 60. Neither depends on the text area's scroll offset.
\<close>

theorem caret_event_places_popup:
  assumes "ce_mounted S = Some el" and "ce_listening S = Some el"
    and "ce_deps_loaded S = Some (ce_text_area S, ce_loaded S)"
    and "sel \<le> length (ta_value (ce_elements S el))"
  shows "modal_top (ac_render r (ce_popup_props (ce_step S (CeCaretEvent sel)) keywords) s) =
           get_text_area_top r + 20 * of_nat (Suc (count_list (take sel (ta_value (ce_elements S el))) CHR ''\<newline>'')) + 10 \<and>
         modal_left (ac_render r (ce_popup_props (ce_step S (CeCaretEvent sel)) keywords) s) =
           get_text_area_left r +
           36 / 5 * of_nat (length (takeWhile (\<lambda>x. x \<noteq> CHR ''\<newline>'') (rev (take sel (ta_value (ce_elements S el)))))) + 60 \<and>
         caret_index (ac_caret (ce_popup_props (ce_step S (CeCaretEvent sel)) keywords)) = sel"
proof -
  have "ta_selection_start ((ce_elements S el)\<lparr>ta_selection_start := sel\<rparr>)
          \<le> length (ta_value ((ce_elements S el)\<lparr>ta_selection_start := sel\<rparr>))"
    using assms(4) by simp
  note cc = caret_coordinates [OF this]
  show ?thesis
    using cc ce_caret_event_ed [OF assms(1-3), of sel]
    by (simp add: ce_popup_props_def ac_render_def get_modal_styles_def Let_def)
qed

lemma caret_event_places_popup_witness:
  "modal_top (ac_render (Some \<lparr>rect_top = 100, rect_left = 40\<rparr>)
     (ce_popup_props (ce_step (ce_run (ce_mount ''ab\<newline>cde'' :: unit ce_sys) [CeFrame]) (CeCaretEvent 5)) []) ac_init) = 150 \<and>
   modal_left (ac_render (Some \<lparr>rect_top = 100, rect_left = 40\<rparr>)
     (ce_popup_props (ce_step (ce_run (ce_mount ''ab\<newline>cde'' :: unit ce_sys) [CeFrame]) (CeCaretEvent 5)) []) ac_init) = 572 / 5"
proof -
  define S where "S = ce_run (ce_mount ''ab\<newline>cde'' :: unit ce_sys) [CeFrame]"
  have m: "ce_mounted S = Some 0" unfolding S_def by code_simp
  have l: "ce_listening S = Some 0" unfolding S_def by code_simp
  have d: "ce_deps_loaded S = Some (ce_text_area S, ce_loaded S)" unfolding S_def by code_simp
  have v: "ta_value (ce_elements S 0) = ''ab\<newline>cde''" unfolding S_def by code_simp
  have "5 \<le> length (ta_value (ce_elements S 0))" using v by simp
  note p = caret_event_places_popup [OF m l d this, of "Some \<lparr>rect_top = 100, rect_left = 40\<rparr>" "[]" ac_init]
  show ?thesis
    unfolding S_def [symmetric] using p v by (simp add: get_text_area_top_def get_text_area_left_def)
qed

end
