(* ===== verification/ParseTree.thy ===== *)
theory ParseTree
  imports Prelude
begin

text \<open>
  The Parse-Tree Converter: \<open>useParseTreeConverter\<close> of
  \<open>src/src/hooks/parse-tree-converter/parse-tree-converter.ts\<close>. The parse tree the worker
  returns (type \<open>ParseTree\<close> of the \<open>@syntaxica/lib\<close> package) is a list of rule nodes,
  with a name and children, and terminal nodes, with a text. \<open>loadDataFromParseTree\<close>
  flattens it into the node and edge arrays of a \<open>vis-network\<close> graph with an explicit
  stack of frames (tree nodes, level, parent graph node): it pops a frame and, for each of
  its tree nodes in order, appends a graph node whose id is the current number of nodes,
  pushes a frame for the children of a rule node, and appends an edge from the frame's
  parent. A terminal with no parent (at the top level) is skipped.

  The arrays are threaded as explicit state. The stack is a list whose head is the top
  (\<open>push\<close> is \<open>#\<close>, \<open>pop\<close> takes the head), which is the order of the source's
  \<open>push\<close>/\<open>pop\<close> at the array's end. The \<open>while\<close> loop is a \<open>function\<close> whose
  termination is proved with the number of tree nodes still on the stack.
\<close>

subsection \<open>Data\<close>

datatype tree_node =
    is_rule_node: TreeRuleNode (rule_name: js_string) (rule_children: "tree_node list")
  | TreeTerminalNode (terminal_text: js_string)

type_synonym parse_tree = "tree_node list"

record vis_node =
  node_id :: nat
  node_label :: js_string
  node_level :: nat
  node_color :: js_string

record vis_edge =
  edge_from :: nat
  edge_to :: nat

record convert_result =
  cr_nodes :: "vis_node list"
  cr_edges :: "vis_edge list"

record stack_frame =
  frame_tree_nodes :: "tree_node list"
  frame_level :: nat
  frame_parent :: "vis_node option"

type_synonym convert_state = "vis_node list \<times> vis_edge list \<times> stack_frame list"

definition TERMINAL_NODE_COLOR :: js_string where
  "TERMINAL_NODE_COLOR = ''#2270ff''"

definition NON_TERMINAL_NODE_COLOR :: js_string where
  "NON_TERMINAL_NODE_COLOR = ''#00b69d''"

subsection \<open>Operations\<close>

text \<open>The edge from the frame's parent, appended after the node (lines 53--56).\<close>

fun add_parent_edge :: "vis_node option \<Rightarrow> nat \<Rightarrow> vis_edge list \<Rightarrow> vis_edge list" where
  "add_parent_edge None i edges = edges"
| "add_parent_edge (Some p) i edges = edges @ [\<lparr>edge_from = node_id p, edge_to = i\<rparr>]"

text \<open>The body of \<open>treeNodes.forEach\<close> (lines 26--57) for one tree node.\<close>

fun visit_tree_node :: "nat \<Rightarrow> vis_node option \<Rightarrow> convert_state \<Rightarrow> tree_node \<Rightarrow> convert_state" where
  "visit_tree_node level parent (nodes, edges, stack) (TreeTerminalNode text) =
     (case parent of
        None \<Rightarrow> (nodes, edges, stack)
      | Some p \<Rightarrow>
          (let i = length nodes;
               node = \<lparr>node_id = i, node_label = ''(terminal)\<newline>'' @ text, node_level = level,
                       node_color = TERMINAL_NODE_COLOR\<rparr>
           in (nodes @ [node], add_parent_edge parent i edges, stack)))"
| "visit_tree_node level parent (nodes, edges, stack) (TreeRuleNode name children) =
     (let i = length nodes;
          node = \<lparr>node_id = i, node_label = ''(non-terminal)\<newline>'' @ name, node_level = level,
                  node_color = NON_TERMINAL_NODE_COLOR\<rparr>
      in (nodes @ [node], add_parent_edge parent i edges,
          \<lparr>frame_tree_nodes = children, frame_level = Suc level, frame_parent = Some node\<rparr> # stack))"

definition visit_frame :: "stack_frame \<Rightarrow> convert_state \<Rightarrow> convert_state" where
  "visit_frame f st = fold (\<lambda>t st. visit_tree_node (frame_level f) (frame_parent f) st t) (frame_tree_nodes f) st"

text \<open>The number of tree nodes in a subtree, and on the stack: the loop's measure.\<close>

fun tree_count :: "tree_node \<Rightarrow> nat" where
  "tree_count (TreeTerminalNode text) = 1"
| "tree_count (TreeRuleNode name children) = Suc (sum_list (map tree_count children))"

definition stack_measure :: "stack_frame list \<Rightarrow> nat" where
  "stack_measure stack = sum_list (map (\<lambda>f. Suc (sum_list (map tree_count (frame_tree_nodes f)))) stack)"

function load_loop :: "convert_state \<Rightarrow> vis_node list \<times> vis_edge list" where
  "load_loop (nodes, edges, []) = (nodes, edges)"
| "load_loop (nodes, edges, f # stack) = load_loop (visit_frame f (nodes, edges, stack))"
  by pat_completeness auto
termination
proof (relation "measure (\<lambda>(nodes, edges, stack). stack_measure stack)")
  fix nodes edges stack and f :: stack_frame
  have step: "stack_measure (snd (snd (visit_tree_node (frame_level f) (frame_parent f) st t))) \<le>
                stack_measure (snd (snd st)) + tree_count t" for st t
    by (cases st; cases t) (auto simp: stack_measure_def Let_def split: option.splits)
  obtain n' e' s' where v: "visit_frame f (nodes, edges, stack) = (n', e', s')"
    by (cases "visit_frame f (nodes, edges, stack)") auto
  have m: "stack_measure (snd (snd (visit_frame f st))) \<le>
             stack_measure (snd (snd st)) + sum_list (map tree_count (frame_tree_nodes f))" for st
    unfolding visit_frame_def by (rule fold_potential_le) (rule step)
  have "stack_measure s' \<le> stack_measure stack + sum_list (map tree_count (frame_tree_nodes f))"
    using m [of "(nodes, edges, stack)"] v by simp
  then show "(visit_frame f (nodes, edges, stack), nodes, edges, f # stack)
               \<in> measure (\<lambda>(nodes, edges, stack). stack_measure stack)"
    using v by (simp add: stack_measure_def)
qed simp

definition load_data_from_parse_tree :: "vis_node list \<Rightarrow> vis_edge list \<Rightarrow> parse_tree \<Rightarrow> vis_node list \<times> vis_edge list" where
  "load_data_from_parse_tree nodes edges targetTreeNodes =
     load_loop (nodes, edges, [\<lparr>frame_tree_nodes = targetTreeNodes, frame_level = 0, frame_parent = None\<rparr>])"

text \<open>The effect on \<open>parseTree\<close> (lines 61--74): the updates it queues, in order.\<close>

datatype converter_update = SetIsConverting bool | SetConvertResult convert_result

definition convert_effect :: "parse_tree \<Rightarrow> converter_update list" where
  "convert_effect parseTree =
     (if parseTree = [] then [SetConvertResult \<lparr>cr_nodes = [], cr_edges = []\<rparr>]
      else (let (nodes, edges) = load_data_from_parse_tree [] [] parseTree
            in [SetIsConverting True, SetConvertResult \<lparr>cr_nodes = nodes, cr_edges = edges\<rparr>,
                SetIsConverting False]))"

record converter_state =
  is_converting :: bool
  convert_res :: convert_result

fun apply_converter_update :: "converter_state \<Rightarrow> converter_update \<Rightarrow> converter_state" where
  "apply_converter_update s (SetIsConverting b) = s\<lparr>is_converting := b\<rparr>"
| "apply_converter_update s (SetConvertResult r) = s\<lparr>convert_res := r\<rparr>"

definition converter_commit :: "converter_state \<Rightarrow> parse_tree \<Rightarrow> converter_state" where
  "converter_commit s parseTree = fold (\<lambda>u s. apply_converter_update s u) (convert_effect parseTree) s"

subsection \<open>Invariant and counts of the traversal\<close>

text \<open>
  A pending frame is well formed when a frame without parent is at level 0 and the parent
  of any other frame is a non-terminal node already emitted, one level up.
\<close>

definition frame_ok :: "vis_node list \<Rightarrow> nat \<Rightarrow> vis_node option \<Rightarrow> bool" where
  "frame_ok nodes l p =
     (case p of
        None \<Rightarrow> l = 0
      | Some q \<Rightarrow> node_id q < length nodes \<and> nodes ! node_id q = q \<and> l = Suc (node_level q) \<and>
                  node_color q = NON_TERMINAL_NODE_COLOR)"

definition graph_ok :: "vis_node list \<Rightarrow> vis_edge list \<Rightarrow> bool" where
  "graph_ok nodes edges =
     (map node_id nodes = [0..<length nodes] \<and>
      (\<forall>e\<in>set edges. edge_from e < edge_to e \<and> edge_to e < length nodes \<and>
         node_level (nodes ! edge_to e) = Suc (node_level (nodes ! edge_from e)) \<and>
         node_color (nodes ! edge_from e) = NON_TERMINAL_NODE_COLOR) \<and>
      distinct (map edge_to edges) \<and>
      set (map edge_to edges) = {i. i < length nodes \<and> 0 < node_level (nodes ! i)})"

definition convert_ok :: "nat \<Rightarrow> vis_node option \<Rightarrow> convert_state \<Rightarrow> bool" where
  "convert_ok l p st =
     (case st of (nodes, edges, stack) \<Rightarrow>
        graph_ok nodes edges \<and> frame_ok nodes l p \<and>
        (\<forall>f\<in>set stack. frame_ok nodes (frame_level f) (frame_parent f)))"

text \<open>
  What a tree node still to be visited adds: a rule node adds itself and its whole subtree,
  a terminal adds one node unless it is at the top level; every added node but a top-level
  rule node gets one edge.
\<close>

fun visit_count :: "vis_node option \<Rightarrow> tree_node \<Rightarrow> nat" where
  "visit_count None (TreeTerminalNode str) = 0"
| "visit_count (Some p) (TreeTerminalNode str) = 1"
| "visit_count p (TreeRuleNode name children) = tree_count (TreeRuleNode name children)"

definition visit_edge_count :: "vis_node option \<Rightarrow> tree_node \<Rightarrow> nat" where
  "visit_edge_count p t = visit_count p t - (if p = None then 1 else 0)"

definition pending_nodes :: "stack_frame list \<Rightarrow> nat" where
  "pending_nodes stack = sum_list (map (\<lambda>f. sum_list (map (visit_count (frame_parent f)) (frame_tree_nodes f))) stack)"

definition pending_edges :: "stack_frame list \<Rightarrow> nat" where
  "pending_edges stack = sum_list (map (\<lambda>f. sum_list (map (visit_edge_count (frame_parent f)) (frame_tree_nodes f))) stack)"

text \<open>The parse tree of the converter's test (\<open>src/test/hooks/parse-tree-converter.spec.tsx\<close>).\<close>

definition converter_test_tree :: parse_tree where
  "converter_test_tree =
     [TreeRuleNode ''test1'' [TreeTerminalNode ''Test 2'',
        TreeRuleNode ''test1'' [TreeTerminalNode ''Test 2'', TreeTerminalNode ''Test 2'']]]"

definition converter_init :: converter_state where
  "converter_init = \<lparr>is_converting = False, convert_res = \<lparr>cr_nodes = [], cr_edges = []\<rparr>\<rparr>"

subsection \<open>Reading the graph back\<close>

text \<open>
  What the view shows of a graph: a node's label after its prefix \<open>(non-terminal)\<close> or
  \<open>(terminal)\<close> and a line feed, its colour telling a rule from a terminal, and as its
  children the targets of its edges, in the order the edges were emitted. \<open>decode_node\<close>
  reads a tree back from a node that way, following only edges to a larger id of the graph
  (so that it terminates on any graph); \<open>decode_graph\<close> reads one tree per level-0
  node. \<open>mk_vis_node\<close> and \<open>child_frames\<close> describe what one visited frame emits.
\<close>

definition tree_node_label :: "tree_node \<Rightarrow> js_string" where
  "tree_node_label t = (case t of TreeRuleNode name cs \<Rightarrow> ''(non-terminal)\<newline>'' @ name
                                 | TreeTerminalNode s \<Rightarrow> ''(terminal)\<newline>'' @ s)"

definition tree_node_color :: "tree_node \<Rightarrow> js_string" where
  "tree_node_color t = (case t of TreeRuleNode name cs \<Rightarrow> NON_TERMINAL_NODE_COLOR
                                 | TreeTerminalNode s \<Rightarrow> TERMINAL_NODE_COLOR)"

definition mk_vis_node :: "nat \<Rightarrow> nat \<Rightarrow> tree_node \<Rightarrow> vis_node" where
  "mk_vis_node i l t = \<lparr>node_id = i, node_label = tree_node_label t, node_level = l, node_color = tree_node_color t\<rparr>"

definition child_frames :: "nat \<Rightarrow> nat \<Rightarrow> tree_node list \<Rightarrow> stack_frame list" where
  "child_frames k l cs =
     map (\<lambda>j. \<lparr>frame_tree_nodes = rule_children (cs ! j), frame_level = Suc l,
               frame_parent = Some (mk_vis_node (k + j) l (cs ! j))\<rparr>)
       (filter (\<lambda>j. is_rule_node (cs ! j)) [0..<length cs])"

definition children_of :: "vis_edge list \<Rightarrow> nat \<Rightarrow> nat list" where
  "children_of edges i = map edge_to (filter (\<lambda>e. edge_from e = i) edges)"

function decode_node :: "vis_node list \<Rightarrow> vis_edge list \<Rightarrow> nat \<Rightarrow> tree_node" where
  "decode_node nodes edges i =
     (if node_color (nodes ! i) = NON_TERMINAL_NODE_COLOR
      then TreeRuleNode (drop 15 (node_label (nodes ! i)))
             (map (decode_node nodes edges) (filter (\<lambda>c. i < c \<and> c < length nodes) (children_of edges i)))
      else TreeTerminalNode (drop 11 (node_label (nodes ! i))))"
  by pat_completeness auto
termination
  by (relation "measure (\<lambda>(nodes, edges, i). length nodes - i)") auto

declare decode_node.simps [simp del]

definition decode_graph :: "vis_node list \<times> vis_edge list \<Rightarrow> parse_tree" where
  "decode_graph g =
     map (decode_node (fst g) (snd g)) (filter (\<lambda>i. node_level (fst g ! i) = 0) [0..<length (fst g)])"

subsection \<open>Lemmas: the invariant\<close>

lemma frame_ok_append:
  "frame_ok nodes l p \<Longrightarrow> frame_ok (nodes @ ns) l p"
  by (auto simp: frame_ok_def nth_append split: option.splits)

lemma graph_ok_add_node:
  assumes g: "graph_ok nodes edges" and f: "frame_ok nodes (node_level node) p"
    and i: "node_id node = length nodes"
  shows "graph_ok (nodes @ [node]) (add_parent_edge p (length nodes) edges)"
proof -
  have old: "\<forall>e\<in>set edges. edge_from e < length nodes \<and> edge_to e < length nodes"
    using g by (auto simp: graph_ok_def)
  have ids: "map node_id (nodes @ [node]) = [0..<length (nodes @ [node])]"
    using g i by (simp add: graph_ok_def)
  show ?thesis
  proof (cases p)
    case None
    then have "node_level node = 0" using f by (simp add: frame_ok_def)
    with g ids old None show ?thesis
      by (auto simp: graph_ok_def nth_append less_Suc_eq)
  next
    case (Some q)
    then have q: "node_id q < length nodes" "nodes ! node_id q = q"
        "node_level node = Suc (node_level q)" "node_color q = NON_TERMINAL_NODE_COLOR"
      using f by (simp_all add: frame_ok_def)
    have "length nodes \<notin> set (map edge_to edges)" using old by auto
    with g ids old Some q show ?thesis
      by (auto simp: graph_ok_def nth_append less_Suc_eq)
  qed
qed

lemma visit_tree_node_ok:
  "convert_ok l p st \<Longrightarrow> convert_ok l p (visit_tree_node l p st t)"
proof -
  obtain nodes edges stack where fields: "st = (nodes, edges, stack)" by (cases st) auto
  assume ok: "convert_ok l p st"
  then have g: "graph_ok nodes edges" and f: "frame_ok nodes l p"
    and s: "\<forall>f\<in>set stack. frame_ok nodes (frame_level f) (frame_parent f)"
    using fields by (simp_all add: convert_ok_def)
  show ?thesis
  proof (cases t)
    case (TreeRuleNode name children)
    let ?node = "\<lparr>node_id = length nodes, node_label = ''(non-terminal)\<newline>'' @ name, node_level = l,
                  node_color = NON_TERMINAL_NODE_COLOR\<rparr>"
    have "graph_ok (nodes @ [?node]) (add_parent_edge p (length nodes) edges)"
      using g f by (intro graph_ok_add_node) simp_all
    moreover have "frame_ok (nodes @ [?node]) (Suc l) (Some ?node)"
      by (simp add: frame_ok_def)
    ultimately show ?thesis
      using fields TreeRuleNode f s by (simp add: convert_ok_def frame_ok_append Let_def)
  next
    case (TreeTerminalNode str)
    let ?node = "\<lparr>node_id = length nodes, node_label = ''(terminal)\<newline>'' @ str, node_level = l,
                  node_color = TERMINAL_NODE_COLOR\<rparr>"
    have "graph_ok (nodes @ [?node]) (add_parent_edge p (length nodes) edges)"
      using g f by (intro graph_ok_add_node) simp_all
    then show ?thesis
      using fields TreeTerminalNode ok f s
      by (auto simp: convert_ok_def frame_ok_append Let_def split: option.splits)
  qed
qed

lemma visit_frame_ok:
  "convert_ok (frame_level f) (frame_parent f) st \<Longrightarrow>
   convert_ok (frame_level f) (frame_parent f) (visit_frame f st)"
  unfolding visit_frame_def by (rule fold_invariant [where Q = "\<lambda>_. True"]) (simp_all add: visit_tree_node_ok)

lemma load_loop_ok:
  "(case st of (nodes, edges, stack) \<Rightarrow>
      graph_ok nodes edges \<and> (\<forall>f\<in>set stack. frame_ok nodes (frame_level f) (frame_parent f))) \<Longrightarrow>
   load_loop st = (nodes', edges') \<Longrightarrow> graph_ok nodes' edges'"
proof (induction st rule: load_loop.induct)
  case (1 nodes edges)
  then show ?case by simp
next
  case (2 nodes edges f stack)
  have "convert_ok (frame_level f) (frame_parent f) (nodes, edges, stack)"
    using "2.prems"(1) by (simp add: convert_ok_def)
  then have "convert_ok (frame_level f) (frame_parent f) (visit_frame f (nodes, edges, stack))"
    by (rule visit_frame_ok)
  then show ?case
    using "2.IH" "2.prems"(2) by (simp add: convert_ok_def split: prod.splits)
qed

lemma load_data_ok:
  "load_data_from_parse_tree [] [] pt = (nodes, edges) \<Longrightarrow> graph_ok nodes edges"
  unfolding load_data_from_parse_tree_def
  by (erule load_loop_ok [rotated]) (simp add: graph_ok_def frame_ok_def)

subsection \<open>Lemmas: counts\<close>

lemma tree_count_pos: "0 < tree_count t"
  by (cases t) simp_all

lemma visit_count_Some [simp]: "visit_count (Some p) = tree_count"
proof
  fix t show "visit_count (Some p) t = tree_count t" by (cases t) simp_all
qed

lemma visit_edge_count_Some [simp]: "visit_edge_count (Some p) = tree_count"
  by (simp add: visit_edge_count_def [abs_def])

lemma visit_edge_count_None [simp]: "visit_edge_count None = (\<lambda>t. visit_count None t - 1)"
  by (simp add: visit_edge_count_def [abs_def])

lemma visit_tree_node_node_count:
  "visit_tree_node l p (nodes, edges, stack) t = (nodes', edges', stack') \<Longrightarrow>
   length nodes' + pending_nodes stack' = length nodes + pending_nodes stack + visit_count p t"
  by (cases t; cases p) (auto simp: pending_nodes_def Let_def)

lemma visit_tree_node_edge_count:
  "visit_tree_node l p (nodes, edges, stack) t = (nodes', edges', stack') \<Longrightarrow>
   length edges' + pending_edges stack' = length edges + pending_edges stack + visit_edge_count p t"
  by (cases t; cases p) (auto simp: pending_edges_def Let_def)
lemma visit_frame_counts:
  "length (fst (visit_frame f (nodes, edges, stack))) + pending_nodes (snd (snd (visit_frame f (nodes, edges, stack)))) =
     length nodes + pending_nodes (f # stack)"
  "length (fst (snd (visit_frame f (nodes, edges, stack)))) + pending_edges (snd (snd (visit_frame f (nodes, edges, stack)))) =
     length edges + pending_edges (f # stack)"
proof -
  have "length (fst (fold (\<lambda>t st. visit_tree_node (frame_level f) (frame_parent f) st t) (frame_tree_nodes f) st)) +
        pending_nodes (snd (snd (fold (\<lambda>t st. visit_tree_node (frame_level f) (frame_parent f) st t) (frame_tree_nodes f) st))) =
        length (fst st) + pending_nodes (snd (snd st)) + sum_list (map (visit_count (frame_parent f)) (frame_tree_nodes f))"
    for st
  proof (rule fold_potential)
    fix st t
    show "length (fst (visit_tree_node (frame_level f) (frame_parent f) st t)) +
          pending_nodes (snd (snd (visit_tree_node (frame_level f) (frame_parent f) st t))) =
          length (fst st) + pending_nodes (snd (snd st)) + visit_count (frame_parent f) t"
      using visit_tree_node_node_count
      by (cases st rule: prod_cases3; cases "visit_tree_node (frame_level f) (frame_parent f) st t" rule: prod_cases3) auto
  qed
  then show "length (fst (visit_frame f (nodes, edges, stack))) + pending_nodes (snd (snd (visit_frame f (nodes, edges, stack)))) =
     length nodes + pending_nodes (f # stack)"
    by (simp add: visit_frame_def pending_nodes_def)
  have "length (fst (snd (fold (\<lambda>t st. visit_tree_node (frame_level f) (frame_parent f) st t) (frame_tree_nodes f) st))) +
        pending_edges (snd (snd (fold (\<lambda>t st. visit_tree_node (frame_level f) (frame_parent f) st t) (frame_tree_nodes f) st))) =
        length (fst (snd st)) + pending_edges (snd (snd st)) + sum_list (map (visit_edge_count (frame_parent f)) (frame_tree_nodes f))"
    for st
  proof (rule fold_potential)
    fix st t
    show "length (fst (snd (visit_tree_node (frame_level f) (frame_parent f) st t))) +
          pending_edges (snd (snd (visit_tree_node (frame_level f) (frame_parent f) st t))) =
          length (fst (snd st)) + pending_edges (snd (snd st)) + visit_edge_count (frame_parent f) t"
      using visit_tree_node_edge_count
      by (cases st rule: prod_cases3; cases "visit_tree_node (frame_level f) (frame_parent f) st t" rule: prod_cases3) auto
  qed
  then show "length (fst (snd (visit_frame f (nodes, edges, stack)))) + pending_edges (snd (snd (visit_frame f (nodes, edges, stack)))) =
     length edges + pending_edges (f # stack)"
    by (simp add: visit_frame_def pending_edges_def)
qed

lemma load_loop_counts:
  "load_loop st = (nodes', edges') \<Longrightarrow>
   length nodes' = length (fst st) + pending_nodes (snd (snd st)) \<and>
   length edges' = length (fst (snd st)) + pending_edges (snd (snd st))"
proof (induction st rule: load_loop.induct)
  case (1 nodes edges)
  then show ?case by (simp add: pending_nodes_def pending_edges_def)
next
  case (2 nodes edges f stack)
  then show ?case
    using visit_frame_counts [of f nodes edges stack] by (simp split: prod.splits)
qed

lemma visit_counts_top:
  "sum_list (map (visit_count None) pt) = sum_list (map tree_count (filter is_rule_node pt))"
  "sum_list (map (visit_edge_count None) pt) + length (filter is_rule_node pt) =
     sum_list (map (visit_count None) pt)"
proof (induction pt)
  case Nil
  show "sum_list (map (visit_count None) []) = sum_list (map tree_count (filter is_rule_node []))" by simp
  show "sum_list (map (visit_edge_count None) []) + length (filter is_rule_node []) =
     sum_list (map (visit_count None) [])" by simp
next
  case (Cons t pt)
  have "Suc 0 \<le> tree_count t" by (cases t) simp_all
  with Cons show "sum_list (map (visit_count None) (t # pt)) = sum_list (map tree_count (filter is_rule_node (t # pt)))"
    by (cases t) simp_all
  from Cons \<open>Suc 0 \<le> tree_count t\<close>
  show "sum_list (map (visit_edge_count None) (t # pt)) + length (filter is_rule_node (t # pt)) =
     sum_list (map (visit_count None) (t # pt))"
    by (cases t) simp_all
qed

subsection \<open>Lemmas: the round trip\<close>

text \<open>
  One frame's visit in closed form, then the whole loop by its own induction rule: for every
  pending frame, the edges from its parent lead to consecutive new nodes that read back as
  the frame's tree nodes.
\<close>

lemma visit_tree_node_Some:
  "visit_tree_node l (Some q) (n, e, S) t =
     (n @ [mk_vis_node (length n) l t], e @ [\<lparr>edge_from = node_id q, edge_to = length n\<rparr>],
      (if is_rule_node t then [\<lparr>frame_tree_nodes = rule_children t, frame_level = Suc l,
                                frame_parent = Some (mk_vis_node (length n) l t)\<rparr>] else []) @ S)"
  by (cases t) (simp_all add: mk_vis_node_def tree_node_label_def tree_node_color_def Let_def)

lemma child_frames_snoc:
  "child_frames k l (cs @ [t]) =
     child_frames k l cs @
     (if is_rule_node t then [\<lparr>frame_tree_nodes = rule_children t, frame_level = Suc l,
                               frame_parent = Some (mk_vis_node (k + length cs) l t)\<rparr>] else [])"
proof -
  have f: "filter (\<lambda>j. is_rule_node ((cs @ [t]) ! j)) [0..<length cs] =
           filter (\<lambda>j. is_rule_node (cs ! j)) [0..<length cs]"
    by (rule filter_cong) (simp_all add: nth_append)
  have m: "\<And>F. map (\<lambda>j. F j ((cs @ [t]) ! j)) (filter (\<lambda>j. is_rule_node (cs ! j)) [0..<length cs]) =
                 map (\<lambda>j. F j (cs ! j)) (filter (\<lambda>j. is_rule_node (cs ! j)) [0..<length cs])"
    by (rule map_cong) (simp_all add: nth_append)
  show ?thesis
    unfolding child_frames_def length_append_singleton upt_Suc_append [OF le0] filter_append map_append f
    using m [of "\<lambda>j x. \<lparr>frame_tree_nodes = rule_children x, frame_level = Suc l,
               frame_parent = Some (mk_vis_node (k + j) l x)\<rparr>"]
    by simp
qed

lemma fold_visit_Some:
  "fold (\<lambda>t st. visit_tree_node l (Some q) st t) cs (n, e, S) =
     (n @ map (\<lambda>j. mk_vis_node (length n + j) l (cs ! j)) [0..<length cs],
      e @ map (\<lambda>j. \<lparr>edge_from = node_id q, edge_to = length n + j\<rparr>) [0..<length cs],
      rev (child_frames (length n) l cs) @ S)"
proof (induction cs rule: rev_induct)
  case Nil
  then show ?case by (simp add: child_frames_def)
next
  case (snoc t cs)
  have m1: "map (\<lambda>j. mk_vis_node (length n + j) l ((cs @ [t]) ! j)) [0..<length cs] =
            map (\<lambda>j. mk_vis_node (length n + j) l (cs ! j)) [0..<length cs]"
    by (simp add: nth_append)
  show ?case
    using snoc by (simp add: visit_tree_node_Some child_frames_snoc m1 nth_append)
qed

lemma visit_tree_node_None:
  "visit_tree_node l None (n, e, S) t =
     (if is_rule_node t
      then (n @ [mk_vis_node (length n) l t], e,
            \<lparr>frame_tree_nodes = rule_children t, frame_level = Suc l,
             frame_parent = Some (mk_vis_node (length n) l t)\<rparr> # S)
      else (n, e, S))"
  by (cases t) (simp_all add: mk_vis_node_def tree_node_label_def tree_node_color_def Let_def)

lemma fold_visit_None:
  "fold (\<lambda>t st. visit_tree_node l None st t) pt (n, e, S) =
     (n @ map (\<lambda>j. mk_vis_node (length n + j) l (filter is_rule_node pt ! j)) [0..<length (filter is_rule_node pt)],
      e, rev (child_frames (length n) l (filter is_rule_node pt)) @ S)"
proof (induction pt rule: rev_induct)
  case Nil
  then show ?case by (simp add: child_frames_def)
next
  case (snoc t pt)
  have m1: "map (\<lambda>j. mk_vis_node (length n + j) l ((filter is_rule_node pt @ [t]) ! j)) [0..<length (filter is_rule_node pt)] =
            map (\<lambda>j. mk_vis_node (length n + j) l (filter is_rule_node pt ! j)) [0..<length (filter is_rule_node pt)]"
    by (simp add: nth_append)
  show ?case
    using snoc by (simp add: visit_tree_node_None child_frames_snoc m1 nth_append)
qed

lemma children_of_append [simp]: "children_of (xs @ ys) i = children_of xs i @ children_of ys i"
  by (simp add: children_of_def)

lemma decode_terminal:
  assumes "N ! x = mk_vis_node x' l (TreeTerminalNode s)"
  shows "decode_node N E x = TreeTerminalNode s"
  using assms by (simp add: decode_node.simps mk_vis_node_def tree_node_label_def tree_node_color_def
      NON_TERMINAL_NODE_COLOR_def TERMINAL_NODE_COLOR_def)

lemma decode_rule:
  assumes "N ! x = mk_vis_node x' l (TreeRuleNode name cs)"
    and "children_of E x = [a..<a + length cs]"
    and "\<forall>c\<in>set (children_of E x). x < c \<and> c < length N"
    and "\<forall>i<length cs. decode_node N E (a + i) = cs ! i"
  shows "decode_node N E x = TreeRuleNode name cs"
proof -
  have "filter (\<lambda>c. x < c \<and> c < length N) (children_of E x) = children_of E x"
    using assms(3) by simp
  moreover have "map (decode_node N E) [a..<a + length cs] = cs"
    by (rule nth_equalityI) (simp_all add: assms(4))
  ultimately show ?thesis
    using assms(1,2) by (simp add: decode_node.simps mk_vis_node_def tree_node_label_def tree_node_color_def)
qed

lemma map_plus_upt: "map ((+) k) [0..<n] = [k..<k + n]"
  by (induction n) simp_all

lemma child_frames_member:
  "f \<in> set (child_frames k l cs) \<Longrightarrow>
     \<exists>j<length cs. is_rule_node (cs ! j) \<and>
       f = \<lparr>frame_tree_nodes = rule_children (cs ! j), frame_level = Suc l,
            frame_parent = Some (mk_vis_node (k + j) l (cs ! j))\<rparr>"
  by (auto simp: child_frames_def)

lemma child_frames_ids:
  "map (\<lambda>f. node_id (the (frame_parent f))) (child_frames k l cs) =
     map ((+) k) (filter (\<lambda>j. is_rule_node (cs ! j)) [0..<length cs])"
  by (simp add: child_frames_def mk_vis_node_def)

lemma child_frames_pre:
  assumes "\<forall>f\<in>set Q. frame_parent f \<noteq> None \<and> node_id (the (frame_parent f)) < k \<and> 0 < frame_level f"
    and "distinct (map (\<lambda>f. node_id (the (frame_parent f))) Q)"
  shows "\<forall>f\<in>set (rev (child_frames k l cs) @ Q).
           frame_parent f \<noteq> None \<and> node_id (the (frame_parent f)) < k + length cs \<and> 0 < frame_level f"
    and "distinct (map (\<lambda>f. node_id (the (frame_parent f))) (rev (child_frames k l cs) @ Q))"
proof -
  show "\<forall>f\<in>set (rev (child_frames k l cs) @ Q).
           frame_parent f \<noteq> None \<and> node_id (the (frame_parent f)) < k + length cs \<and> 0 < frame_level f"
    using assms(1) by (auto dest!: child_frames_member simp: mk_vis_node_def)
  show "distinct (map (\<lambda>f. node_id (the (frame_parent f))) (rev (child_frames k l cs) @ Q))"
    using assms(2) by (simp add: rev_map [symmetric] child_frames_ids distinct_map inj_on_def)
      (use assms(1) in fastforce)
qed

lemma load_loop_decode:
  assumes "load_loop st = (m', g')" and "st = (m, g, Q)"
    and "\<forall>f\<in>set Q. frame_parent f \<noteq> None \<and> node_id (the (frame_parent f)) < length m \<and> 0 < frame_level f"
    and "distinct (map (\<lambda>f. node_id (the (frame_parent f))) Q)"
    and "\<forall>ed\<in>set g. edge_from ed < length m"
  shows "\<exists>ms gs. m' = m @ ms \<and> g' = g @ gs \<and>
           (\<forall>ed\<in>set gs. (edge_from ed \<in> (\<lambda>f. node_id (the (frame_parent f))) ` set Q \<or> length m \<le> edge_from ed) \<and>
              edge_from ed < edge_to ed \<and> length m \<le> edge_to ed \<and> edge_to ed < length m') \<and>
           (\<forall>x\<in>set ms. 0 < node_level x) \<and>
           (\<forall>f\<in>set Q. \<exists>a. children_of gs (node_id (the (frame_parent f))) = [a..<a + length (frame_tree_nodes f)] \<and>
              (\<forall>i<length (frame_tree_nodes f). decode_node m' g' (a + i) = frame_tree_nodes f ! i))"
  using assms
proof (induction st arbitrary: m g Q rule: load_loop.induct)
  case (1 nodes edges)
  then have "m' = m" "g' = g" "Q = []" by simp_all
  then show ?case by (intro exI [of _ "[]"]) simp
next
  case (2 nodes edges f stack)
  then have st: "m = nodes" "g = edges" "Q = f # stack" by simp_all
  have dist: "distinct (map (\<lambda>f. node_id (the (frame_parent f))) Q)" using 2(5) .
  obtain q where q: "frame_parent f = Some q" using 2(4) st by (cases "frame_parent f") auto
  define cs where "cs = frame_tree_nodes f"
  define l where "l = frame_level f"
  define k where "k = length m"
  define PN where "PN = map (\<lambda>j. mk_vis_node (k + j) l (cs ! j)) [0..<length cs]"
  define PE where "PE = map (\<lambda>j. \<lparr>edge_from = node_id q, edge_to = k + j\<rparr>) [0..<length cs]"
  define CF where "CF = child_frames k l cs"
  let ?pid = "\<lambda>f. node_id (the (frame_parent f))"
  have vf: "visit_frame f (nodes, edges, stack) = (m @ PN, g @ PE, rev CF @ stack)"
    using st q by (simp add: visit_frame_def fold_visit_Some cs_def l_def k_def PN_def PE_def CF_def)
  have qk: "node_id q < k" and l0: "0 < l"
    using 2(4) st q by (auto simp: k_def l_def)
  have pre: "\<forall>f\<in>set (rev CF @ stack). frame_parent f \<noteq> None \<and> ?pid f < length (m @ PN) \<and> 0 < frame_level f"
       "distinct (map ?pid (rev CF @ stack))"
    using child_frames_pre [of stack k "l" cs] 2(4,5) st by (simp_all add: CF_def PN_def k_def)
  have ge: "\<forall>ed\<in>set (g @ PE). edge_from ed < length (m @ PN)"
    using 2(6) st qk by (auto simp: PE_def PN_def k_def)
  obtain ms gs where m': "m' = (m @ PN) @ ms" and g': "g' = (g @ PE) @ gs"
    and B: "\<forall>ed\<in>set gs. (edge_from ed \<in> ?pid ` set (rev CF @ stack) \<or> length (m @ PN) \<le> edge_from ed) \<and>
              edge_from ed < edge_to ed \<and> length (m @ PN) \<le> edge_to ed \<and> edge_to ed < length m'"
    and C: "\<forall>x\<in>set ms. 0 < node_level x"
    and D: "\<forall>f\<in>set (rev CF @ stack). \<exists>a. children_of gs (?pid f) = [a..<a + length (frame_tree_nodes f)] \<and>
              (\<forall>i<length (frame_tree_nodes f). decode_node m' g' (a + i) = frame_tree_nodes f ! i)"
    using 2(1) [OF _ vf pre ge] 2(2) st vf by auto
  have cf_ids: "?pid ` set CF \<subseteq> {k..<k + length cs}"
    using child_frames_ids [of k l cs] unfolding CF_def by (auto dest!: child_frames_member simp: mk_vis_node_def)
  have old_g: "children_of g x = []" if "k \<le> x" for x
    using 2(6) st that by (force simp: children_of_def filter_empty_conv k_def)
  have pe_x: "children_of PE x = (if x = node_id q then [k..<k + length cs] else [])" for x
    by (simp add: PE_def children_of_def filter_map comp_def map_idI map_plus_upt)
  have gs_q: "children_of gs (node_id q) = []"
  proof -
    have "node_id q \<notin> ?pid ` set stack" using 2(5) st q by auto
    then show ?thesis using B cf_ids qk by (force simp: children_of_def filter_empty_conv k_def)
  qed
  have gs_bound: "\<forall>c\<in>set (children_of gs x). x < c \<and> c < length m'" for x
    using B by (auto simp: children_of_def)
  have m'_at: "m' ! (k + i) = mk_vis_node (k + i) l (cs ! i)" if "i < length cs" for i
    using that by (simp add: m' PN_def k_def nth_append)
  have g'_at: "children_of g' (k + i) = children_of gs (k + i)" for i
    using qk by (simp add: g' old_g pe_x)
  have child_dec: "decode_node m' g' (k + i) = cs ! i" if i: "i < length cs" for i
  proof (cases "cs ! i")
    case (TreeRuleNode name cs')
    have "\<lparr>frame_tree_nodes = cs', frame_level = Suc l, frame_parent = Some (mk_vis_node (k + i) l (cs ! i))\<rparr>
            \<in> set (rev CF @ stack)"
      using i TreeRuleNode by (force simp: CF_def child_frames_def)
    from bspec [OF D this] obtain a where "children_of gs (k + i) = [a..<a + length cs']"
        and "\<forall>j<length cs'. decode_node m' g' (a + j) = cs' ! j"
      by (auto simp: mk_vis_node_def)
    then show ?thesis
      using decode_rule [OF m'_at [OF i, unfolded TreeRuleNode], of g' a] gs_bound [of "k + i"] TreeRuleNode
      by (simp add: g'_at)
  next
    case (TreeTerminalNode str)
    then show ?thesis using decode_terminal [OF m'_at [OF i, unfolded TreeTerminalNode]] by simp
  qed
  have B0: "\<forall>ed\<in>set (PE @ gs). (edge_from ed \<in> ?pid ` set Q \<or> length m \<le> edge_from ed) \<and>
              edge_from ed < edge_to ed \<and> length m \<le> edge_to ed \<and> edge_to ed < length m'"
  proof
    fix ed assume "ed \<in> set (PE @ gs)"
    then consider "ed \<in> set PE" | "ed \<in> set gs" by auto
    then show "(edge_from ed \<in> ?pid ` set Q \<or> length m \<le> edge_from ed) \<and>
              edge_from ed < edge_to ed \<and> length m \<le> edge_to ed \<and> edge_to ed < length m'"
    proof cases
      case 1
      then show ?thesis using qk q st(3) m' by (auto simp: PE_def k_def PN_def)
    next
      case 2
      then show ?thesis using B cf_ids st(3) by (fastforce simp: k_def)
    qed
  qed
  have C0: "\<forall>x\<in>set (PN @ ms). 0 < node_level x"
    using C l0 by (auto simp: PN_def mk_vis_node_def)
  have D0: "\<forall>f'\<in>set Q. \<exists>a. children_of (PE @ gs) (?pid f') = [a..<a + length (frame_tree_nodes f')] \<and>
              (\<forall>i<length (frame_tree_nodes f'). decode_node m' g' (a + i) = frame_tree_nodes f' ! i)"
  proof
    fix f' assume "f' \<in> set Q"
    then consider "f' = f" | "f' \<in> set stack" using st(3) by auto
    then show "\<exists>a. children_of (PE @ gs) (?pid f') = [a..<a + length (frame_tree_nodes f')] \<and>
              (\<forall>i<length (frame_tree_nodes f'). decode_node m' g' (a + i) = frame_tree_nodes f' ! i)"
    proof cases
      case 1
      then show ?thesis using child_dec q gs_q by (intro exI [of _ k]) (simp add: pe_x cs_def)
    next
      case 2
      then have "?pid f' \<noteq> node_id q" using dist st(3) q by (force simp: image_iff)
      then show ?thesis using D 2 by (simp add: pe_x)
    qed
  qed
  show ?case
    using m' g' B0 C0 D0 by (intro exI [of _ "PN @ ms"] exI [of _ "PE @ gs"]) simp
qed

subsection \<open>Properties of the converter\<close>

text \<open>
  Node ids are positions. The converter numbers the graph nodes it emits
  \<open>0, 1, 2, ...\<close> in order, so the id of a node is its index in the node array.
\<close>

theorem convert_node_ids:
  "map node_id (fst (load_data_from_parse_tree [] [] pt)) = [0..<length (fst (load_data_from_parse_tree [] [] pt))]"
  using load_data_ok [of pt "fst (load_data_from_parse_tree [] [] pt)" "snd (load_data_from_parse_tree [] [] pt)"]
  by (simp add: graph_ok_def)

text \<open>
  Claim C20: the graph is a forest whose edges point down the tree. Every edge goes from a
  smaller id to a larger one, both ids are nodes of the graph, the source is a
  non-terminal, and the target is one level below it. No node is the target of two edges,
  and the targets are exactly the nodes below level 0, so each of them has one parent and
  the level-0 nodes are the roots.
\<close>

theorem convert_edges_downward:
  "(\<forall>e\<in>set (snd (load_data_from_parse_tree [] [] pt)).
      edge_from e < edge_to e \<and> edge_to e < length (fst (load_data_from_parse_tree [] [] pt)) \<and>
      node_level (fst (load_data_from_parse_tree [] [] pt) ! edge_to e) =
        Suc (node_level (fst (load_data_from_parse_tree [] [] pt) ! edge_from e)) \<and>
      node_color (fst (load_data_from_parse_tree [] [] pt) ! edge_from e) = NON_TERMINAL_NODE_COLOR) \<and>
   distinct (map edge_to (snd (load_data_from_parse_tree [] [] pt))) \<and>
   set (map edge_to (snd (load_data_from_parse_tree [] [] pt))) =
     {i. i < length (fst (load_data_from_parse_tree [] [] pt)) \<and>
         0 < node_level (fst (load_data_from_parse_tree [] [] pt) ! i)}"
  using load_data_ok [of pt "fst (load_data_from_parse_tree [] [] pt)" "snd (load_data_from_parse_tree [] [] pt)"]
  by (simp add: graph_ok_def)

lemma convert_edges_downward_witness:
  "edge_from \<lparr>edge_from = 2, edge_to = 4\<rparr> < edge_to \<lparr>edge_from = 2, edge_to = 4\<rparr> \<and>
   node_level (fst (load_data_from_parse_tree [] [] converter_test_tree) ! 4) = 2"
proof -
  have "\<lparr>edge_from = 2, edge_to = 4\<rparr> \<in> set (snd (load_data_from_parse_tree [] [] converter_test_tree))"
    by (simp add: converter_test_tree_def load_data_from_parse_tree_def visit_frame_def Let_def)
  from bspec [OF conjunct1 [OF convert_edges_downward [of converter_test_tree]] this] show ?thesis
    by (simp add: converter_test_tree_def load_data_from_parse_tree_def visit_frame_def Let_def)
qed

text \<open>
  Nothing but top-level terminals is lost. The converter emits one node for each
  node of every top-level rule's subtree, and one edge for each of them but the top-level
  rule nodes themselves.
\<close>

theorem convert_counts:
  "length (fst (load_data_from_parse_tree [] [] pt)) = sum_list (map tree_count (filter is_rule_node pt)) \<and>
   length (snd (load_data_from_parse_tree [] [] pt)) + length (filter is_rule_node pt) =
     length (fst (load_data_from_parse_tree [] [] pt))"
proof -
  obtain nodes edges where r: "load_data_from_parse_tree [] [] pt = (nodes, edges)" by fastforce
  then have "length nodes = sum_list (map (visit_count None) pt) \<and> length edges = sum_list (map (visit_edge_count None) pt)"
    using load_loop_counts [of "([], [], [\<lparr>frame_tree_nodes = pt, frame_level = 0, frame_parent = None\<rparr>])"]
    unfolding load_data_from_parse_tree_def by (simp add: pending_nodes_def pending_edges_def)
  then show ?thesis using r visit_counts_top [of pt] by simp
qed

lemma converter_commit_result:
  "converter_commit s pt =
     s\<lparr>is_converting := (is_converting s \<and> pt = []), convert_res := \<lparr>cr_nodes = fst (load_data_from_parse_tree [] [] pt),
                        cr_edges = snd (load_data_from_parse_tree [] [] pt)\<rparr>\<rparr>"
  by (simp add: converter_commit_def convert_effect_def load_data_from_parse_tree_def visit_frame_def
      split: prod.splits)

text \<open>
  Claim C19: the graph is the parse tree. Reading the emitted graph back, a tree per
  level-0 node with labels, colours and edges as the view draws them, gives exactly the
  rule nodes of the top level of the parse tree, with all their subtrees; only the top-level
  terminals are lost.
\<close>

theorem convert_roundtrip:
  "decode_graph (load_data_from_parse_tree [] [] pt) = filter is_rule_node pt"
proof -
  define rs where "rs = filter is_rule_node pt"
  define N0 where "N0 = map (\<lambda>j. mk_vis_node j 0 (rs ! j)) [0..<length rs]"
  define CF where "CF = child_frames 0 0 rs"
  obtain m' g' where r: "load_data_from_parse_tree [] [] pt = (m', g')" by fastforce
  have "visit_frame \<lparr>frame_tree_nodes = pt, frame_level = 0, frame_parent = None\<rparr> ([], [], []) = (N0, [], rev CF)"
    by (simp add: visit_frame_def fold_visit_None rs_def N0_def CF_def)
  then have l: "load_loop (N0, [], rev CF) = (m', g')"
    using r by (simp add: load_data_from_parse_tree_def)
  have pre: "\<forall>f\<in>set (rev CF). frame_parent f \<noteq> None \<and> node_id (the (frame_parent f)) < length N0 \<and> 0 < frame_level f"
       "distinct (map (\<lambda>f. node_id (the (frame_parent f))) (rev CF))"
    using child_frames_pre [of "[]" 0 0 rs] by (simp_all add: CF_def N0_def)
  obtain ms gs where m': "m' = N0 @ ms" and g': "g' = gs"
    and B: "\<forall>ed\<in>set gs. edge_from ed < edge_to ed \<and> edge_to ed < length m'"
    and C: "\<forall>x\<in>set ms. 0 < node_level x"
    and D: "\<forall>f\<in>set (rev CF). \<exists>a. children_of gs (node_id (the (frame_parent f))) = [a..<a + length (frame_tree_nodes f)] \<and>
              (\<forall>i<length (frame_tree_nodes f). decode_node m' g' (a + i) = frame_tree_nodes f ! i)"
    using load_loop_decode [OF l refl pre] by auto
  have roots: "filter (\<lambda>i. node_level (m' ! i) = 0) [0..<length m'] = [0..<length rs]"
  proof -
    have "[0..<length m'] = [0..<length rs] @ [length rs..<length rs + length ms]"
      by (simp add: m' N0_def upt_add_eq_append [of 0])
    moreover have "filter (\<lambda>i. node_level (m' ! i) = 0) [length rs..<length rs + length ms] = []"
      using C by (auto simp: filter_empty_conv m' N0_def nth_append)
    moreover have "filter (\<lambda>i. node_level (m' ! i) = 0) [0..<length rs] = [0..<length rs]"
      by (simp add: m' N0_def nth_append mk_vis_node_def)
    ultimately show ?thesis by simp
  qed
  have dec: "decode_node m' g' j = rs ! j" if j: "j < length rs" for j
  proof -
    obtain name cs where rj: "rs ! j = TreeRuleNode name cs"
      using j nth_mem [OF j] by (cases "rs ! j") (auto simp: rs_def)
    have "\<lparr>frame_tree_nodes = cs, frame_level = Suc 0, frame_parent = Some (mk_vis_node j 0 (rs ! j))\<rparr> \<in> set (rev CF)"
      using j rj by (force simp: CF_def child_frames_def)
    from bspec [OF D this] obtain a where "children_of gs j = [a..<a + length cs]"
        and "\<forall>i<length cs. decode_node m' g' (a + i) = cs ! i"
      by (auto simp: mk_vis_node_def)
    moreover have "m' ! j = mk_vis_node j 0 (TreeRuleNode name cs)"
      using j rj by (simp add: m' N0_def nth_append)
    moreover have "\<forall>c\<in>set (children_of g' j). j < c \<and> c < length m'"
      using B by (auto simp: g' children_of_def)
    ultimately show ?thesis
      using decode_rule [of m' j j 0 name cs g' a] rj by (simp add: g')
  qed
  show ?thesis
    unfolding r decode_graph_def fst_conv snd_conv roots rs_def [symmetric]
    by (rule nth_equalityI) (simp_all add: dec)
qed

text \<open>
  The converter's own test (\<open>src/test/hooks/parse-tree-converter.spec.tsx\<close>): on its
  tree the model emits the nodes and edges the test expects.
\<close>

lemma convert_example:
  "load_data_from_parse_tree [] [] converter_test_tree =
    ([\<lparr>node_id = 0, node_label = ''(non-terminal)\<newline>test1'', node_level = 0, node_color = ''#00b69d''\<rparr>,
      \<lparr>node_id = 1, node_label = ''(terminal)\<newline>Test 2'', node_level = 1, node_color = ''#2270ff''\<rparr>,
      \<lparr>node_id = 2, node_label = ''(non-terminal)\<newline>test1'', node_level = 1, node_color = ''#00b69d''\<rparr>,
      \<lparr>node_id = 3, node_label = ''(terminal)\<newline>Test 2'', node_level = 2, node_color = ''#2270ff''\<rparr>,
      \<lparr>node_id = 4, node_label = ''(terminal)\<newline>Test 2'', node_level = 2, node_color = ''#2270ff''\<rparr>],
     [\<lparr>edge_from = 0, edge_to = 1\<rparr>, \<lparr>edge_from = 0, edge_to = 2\<rparr>, \<lparr>edge_from = 2, edge_to = 3\<rparr>,
      \<lparr>edge_from = 2, edge_to = 4\<rparr>])"
  by (simp add: converter_test_tree_def load_data_from_parse_tree_def visit_frame_def Let_def
      TERMINAL_NODE_COLOR_def NON_TERMINAL_NODE_COLOR_def)

text \<open>
  \<open>isConverting\<close> is never seen. The effect sets the flag and clears it in
  the same batch, so from the hook's initial state every committed state has the flag
  false, and the result is the conversion of the last parse tree.
\<close>

theorem converter_never_converting:
  "\<not> is_converting (fold (\<lambda>pt s. converter_commit s pt) pts converter_init) \<and>
   convert_res (fold (\<lambda>pt s. converter_commit s pt) (pts @ [pt]) converter_init) =
     \<lparr>cr_nodes = fst (load_data_from_parse_tree [] [] pt), cr_edges = snd (load_data_from_parse_tree [] [] pt)\<rparr>"
proof -
  have "\<not> is_converting (fold (\<lambda>pt s. converter_commit s pt) pts s)" if "\<not> is_converting s" for s
    using that by (induction pts arbitrary: s) (simp_all add: converter_commit_result)
  then show ?thesis by (simp add: converter_init_def converter_commit_result)
qed

end
