(* ===== verification/Sharing.thy ===== *)
theory Sharing
  imports Complex_Main "HOL-Library.Sublist" Prelude
begin

text \<open>
  Sharing code through the URL: \<open>useEncoding\<close> (\<open>src/src/hooks/encoding/encoding.ts\<close>),
  \<open>useCodeLoader\<close> (\<open>src/src/hooks/code-loader/code-loader.ts\<close>) and the URL that
  \<open>ShareButton\<close>'s click handler builds (\<open>src/src/components/share-button/share-button.tsx\<close>).
  The text is gzip-compressed and base64-encoded by libraries (\<open>pako\<close>, \<open>base64-js\<close>);
  the model keeps them as parameters and translates what the repository's code does around
  them: the repair of missing base64 padding in \<open>decode\<close>, with its floating-point
  arithmetic as rationals (exact here: the fractional part of a length over 4 is a multiple
  of 1/4) and its \<open>for\<close> loop as a terminating function; the length check of
  \<open>base64.toByteArray\<close>, which throws unless the length is a multiple of 4; and the
  first-match \<open>replace\<close> of \<open>/([&?])code=[^&]*(&|$)/\<close> as a recursive scan.
\<close>

subsection \<open>Decoding\<close>

datatype decode_error = InvalidBase64Length

text \<open>\<open>(length - lengthRound) * 4\<close> with \<open>length = validValue.length / 4\<close> (lines 20--22).\<close>

definition missing_signs_count :: "nat \<Rightarrow> rat" where
  "missing_signs_count len =
     (let length = of_nat len / 4; lengthRound = of_int \<lfloor>length\<rfloor> in (length - lengthRound) * 4)"

text \<open>\<open>for (let i = 0; i < missingSignsCount; i += 1) validValue += '='\<close> (lines 24--26).\<close>

function pad_loop :: "nat \<Rightarrow> rat \<Rightarrow> js_string \<Rightarrow> js_string" where
  "pad_loop i missing v = (if of_nat i < missing then pad_loop (Suc i) missing (v @ ''='') else v)"
  by pat_completeness auto
termination
proof (relation "measure (\<lambda>(i, missing, v). nat \<lceil>missing\<rceil> - i)")
  fix i :: nat and missing :: rat and v :: js_string
  assume "of_nat i < missing"
  then have "int i < \<lceil>missing\<rceil>" by linarith
  then show "((Suc i, missing, v @ ''=''), i, missing, v) \<in> measure (\<lambda>(i, missing, v). nat \<lceil>missing\<rceil> - i)"
    by simp
qed simp

definition decode_padding :: "js_string \<Rightarrow> js_string" where
  "decode_padding value =
     (if length value mod 4 \<noteq> 0 then pad_loop 0 (missing_signs_count (length value)) value else value)"

text \<open>
  \<open>decode\<close> (lines 16--32): \<open>inflate\<close> stands for what follows the length check of
  \<open>base64.toByteArray\<close>: the byte decoding, \<open>pako.ungzip\<close> and the text decoder.
\<close>

definition decode :: "(js_string \<Rightarrow> 'r) \<Rightarrow> js_string \<Rightarrow> decode_error + 'r" where
  "decode inflate value =
     (let validValue = decode_padding value
      in if length validValue mod 4 \<noteq> 0 then Inl InvalidBase64Length else Inr (inflate validValue))"

subsection \<open>Loading shared code\<close>

text \<open>
  The effect of \<open>useCodeLoader\<close> (lines 8--20) on the value of the \<open>code\<close> query
  parameter (after \<open>URLSearchParams\<close> and \<open>decodeURIComponent\<close>): nothing without one,
  otherwise the decoded text becomes \<open>loadedCode\<close>; a decoding error escapes the effect.
\<close>

definition code_loader_effect ::
  "(js_string \<Rightarrow> js_string) \<Rightarrow> js_string option \<Rightarrow> decode_error + js_string option" where
  "code_loader_effect inflate encodedCode =
     (case encodedCode of
        None \<Rightarrow> Inr None
      | Some t \<Rightarrow> (case decode inflate t of Inl e \<Rightarrow> Inl e | Inr decodedCode \<Rightarrow> Inr (Some decodedCode)))"

subsection \<open>The shared URL\<close>

text \<open>
  \<open>targetUrl.replace(/([&?])code=[^&]*(&|$)/, '$1')\<close>: the leftmost \<open>&\<close> or \<open>?\<close>
  followed by \<open>code=\<close> is kept, and the parameter's value with the \<open>&\<close> after it, if any,
  is removed; without a match the text is unchanged.
\<close>

fun strip_code_param :: "js_string \<Rightarrow> js_string" where
  "strip_code_param [] = []"
| "strip_code_param (c # rest) =
     (if (c = CHR ''&'' \<or> c = CHR ''?'') \<and> take 5 rest = ''code=''
      then c # drop 1 (dropWhile (\<lambda>x. x \<noteq> CHR ''&'') (drop 5 rest))
      else c # strip_code_param rest)"

definition share_target_url :: "js_string \<Rightarrow> js_string \<Rightarrow> js_string" where
  "share_target_url href codeParamValue =
     (let targetUrl = (if sublist ''code='' href then strip_code_param href else href)
      in if sublist ''?'' targetUrl then targetUrl @ ''&code='' @ codeParamValue
         else targetUrl @ ''?code='' @ codeParamValue)"

text \<open>
  The part of \<open>handleClick\<close> (lines 27--41) before the network: the text is encoded,
  URI-escaped (\<open>uriEscape\<close>) and put in the current URL.
\<close>

definition share_url ::
  "(js_string \<Rightarrow> js_string) \<Rightarrow> (js_string \<Rightarrow> js_string) \<Rightarrow> js_string \<Rightarrow> js_string \<Rightarrow> js_string" where
  "share_url encode uriEscape href code = share_target_url href (uriEscape (encode code))"

subsection \<open>Lemmas\<close>

lemma missing_signs_count_mod: "missing_signs_count len = of_nat (len mod 4)"
proof -
  have f: "\<lfloor>(of_nat len / 4 :: rat)\<rfloor> = int (len div 4)"
    using floor_divide_of_nat_eq [of len 4, where 'a = rat] by simp
  have e: "of_nat len = (4 :: rat) * of_nat (len div 4) + of_nat (len mod 4)"
    by (metis of_nat_add of_nat_mult of_nat_numeral div_mult_mod_eq mult.commute)
  have "missing_signs_count len = (of_nat len / 4 - of_nat (len div 4)) * 4"
    by (simp add: missing_signs_count_def f)
  also have "\<dots> = of_nat len - 4 * of_nat (len div 4)"
    by (simp add: algebra_simps)
  also have "\<dots> = of_nat (len mod 4)"
    using e by simp
  finally show ?thesis .
qed

lemma pad_loop_eq: "pad_loop i missing v = v @ replicate (nat \<lceil>missing\<rceil> - i) (CHR ''='')"
proof (induction i missing v rule: pad_loop.induct)
  case (1 i missing v)
  show ?case
  proof (cases "of_nat i < missing")
    case True
    then have "int i < \<lceil>missing\<rceil>" by linarith
    then have "nat \<lceil>missing\<rceil> - i = Suc (nat \<lceil>missing\<rceil> - Suc i)" by linarith
    with True "1.IH" show ?thesis by (simp add: replicate_app_Cons_same)
  next
    case False
    then have "nat \<lceil>missing\<rceil> - i = 0" by linarith
    with False show ?thesis by simp
  qed
qed

lemma decode_padding_eq: "decode_padding v = v @ replicate (length v mod 4) (CHR ''='')"
proof -
  have "nat \<lceil>(of_nat (length v mod 4) :: rat)\<rceil> = length v mod 4"
    by (simp only: ceiling_of_nat nat_int)
  then show ?thesis
    by (simp only: decode_padding_def pad_loop_eq missing_signs_count_mod diff_zero) simp
qed

lemma strip_code_param_plain:
  "CHR ''&'' \<notin> set xs \<Longrightarrow> CHR ''?'' \<notin> set xs \<Longrightarrow> strip_code_param (xs @ ys) = xs @ strip_code_param ys"
  by (induction xs) auto

lemma strip_code_param_amps:
  "CHR ''&'' \<notin> set p \<Longrightarrow>
   strip_code_param (replicate (Suc k) (CHR ''&'') @ ''code='' @ p) = replicate (Suc k) (CHR ''&'')"
proof (induction k)
  case 0
  have "dropWhile (\<lambda>x. x \<noteq> CHR ''&'') p = []" using 0 by (rule dropWhile_neq_absent)
  then show ?case by (simp del: dropWhile_eq_Nil_conv)
next
  case (Suc k)
  then show ?case by simp
qed

lemma strip_code_param_query:
  "CHR ''&'' \<notin> set p \<Longrightarrow>
   strip_code_param (CHR ''?'' # replicate k (CHR ''&'') @ ''code='' @ p) = CHR ''?'' # replicate k (CHR ''&'')"
proof (cases k)
  case 0
  assume "CHR ''&'' \<notin> set p"
  then have "dropWhile (\<lambda>x. x \<noteq> CHR ''&'') p = []" by (rule dropWhile_neq_absent)
  with 0 show ?thesis by (simp del: dropWhile_eq_Nil_conv)
next
  case (Suc j)
  assume "CHR ''&'' \<notin> set p"
  then show ?thesis using Suc strip_code_param_amps [of p j] by simp
qed

lemma sublist_singleton: "sublist [c] xs \<longleftrightarrow> c \<in> set xs"
  by (induction xs) (auto simp: sublist_Cons_right)

lemma decode_valid_length:
  "length (decode_padding v) mod 4 = 0 \<longleftrightarrow> length v mod 4 = 0 \<or> length v mod 4 = 2"
  by (simp add: decode_padding_eq) presburger

subsection \<open>Properties of sharing\<close>

text \<open>
  Claim C22: the padding repair. \<open>decode\<close> appends as many \<open>=\<close> as the remainder of
  the length by 4, not as many as are missing; so it passes the base64 length check
  exactly when that remainder is 0 or 2, and throws when it is 1 or 3: padding a base64
  writer stripped is restored when two \<open>=\<close> were removed, and not when one was.
\<close>

theorem decode_length_check:
  "decode inflate v =
     (if length v mod 4 = 1 \<or> length v mod 4 = 3 then Inl InvalidBase64Length
      else Inr (inflate (v @ replicate (length v mod 4) (CHR ''=''))))"
proof -
  have "length v mod 4 < 4" by simp
  then have "length v mod 4 = 0 \<or> length v mod 4 = 1 \<or> length v mod 4 = 2 \<or> length v mod 4 = 3" by linarith
  then show ?thesis
    using decode_valid_length [of v] by (auto simp: decode_def decode_padding_eq Let_def)
qed

text \<open>
  Stripped padding. For a well-formed base64 text (length a multiple of 4) whose
  \<open>k \<le> 2\<close> trailing \<open>=\<close> were removed, \<open>decode\<close> restores the text when
  \<open>k\<close> is 0 or 2 and throws when one \<open>=\<close> was removed.
\<close>

theorem decode_stripped_padding:
  assumes "(length u + k) mod 4 = 0" and "k \<le> 2"
  shows "decode inflate u =
           (if k = 1 then Inl InvalidBase64Length else Inr (inflate (u @ replicate k (CHR ''=''))))"
proof -
  have k: "k = 0 \<or> k = 1 \<or> k = 2" using assms(2) by linarith
  then have m: "length u mod 4 = (if k = 1 then 3 else k)" using assms(1) by presburger
  have "length (decode_padding u) mod 4 = 0 \<longleftrightarrow> k \<noteq> 1" using decode_valid_length [of u] m k by auto
  then show ?thesis using m k by (auto simp: decode_def decode_padding_eq Let_def)
qed

lemma decode_stripped_padding_witness:
  "decode (\<lambda>x. x) ''SGVsbG8'' = Inl InvalidBase64Length \<and>
   decode (\<lambda>x. x) ''H4sIAAAAAAAAA0tMAQBY7eB3AgAAAA'' = Inr ''H4sIAAAAAAAAA0tMAQBY7eB3AgAAAA==''"
proof
  show "decode (\<lambda>x. x) ''SGVsbG8'' = Inl InvalidBase64Length"
    using decode_stripped_padding [of "''SGVsbG8''" 1 "\<lambda>x. x"] by simp
  show "decode (\<lambda>x. x) ''H4sIAAAAAAAAA0tMAQBY7eB3AgAAAA'' = Inr ''H4sIAAAAAAAAA0tMAQBY7eB3AgAAAA==''"
    using decode_stripped_padding [of "''H4sIAAAAAAAAA0tMAQBY7eB3AgAAAA''" 2 "\<lambda>x. x"]
    by (simp add: numeral_2_eq_2)
qed

text \<open>
  A URL without a code parameter gets one appended, after \<open>&\<close> when it
  already has a query and after \<open>?\<close> otherwise.
\<close>

theorem share_url_fresh:
  assumes "\<not> sublist ''code='' href"
  shows "share_target_url href p = href @ (if CHR ''?'' \<in> set href then ''&code='' else ''?code='') @ p"
  using assms by (simp add: share_target_url_def sublist_singleton)

lemma share_url_fresh_witness:
  "share_target_url ''https://example.com/'' ''abc123'' = ''https://example.com/?code=abc123''"
proof -
  have "\<not> sublist ''code='' ''https://example.com/''" by code_simp
  from share_url_fresh [OF this, of "''abc123''"] show ?thesis by simp
qed

text \<open>
  Claim C23: separators accumulate. Sharing again from a URL whose query is
  \<open>?&...&code=...\<close> keeps every \<open>&\<close> and adds one, so each share-from-a-share
  lengthens the URL by one empty parameter.
\<close>

theorem share_url_accumulates:
  assumes "CHR ''&'' \<notin> set base" and "CHR ''?'' \<notin> set base" and "CHR ''&'' \<notin> set p1"
  shows "share_target_url (base @ CHR ''?'' # replicate k (CHR ''&'') @ ''code='' @ p1) p2 =
           base @ CHR ''?'' # replicate (Suc k) (CHR ''&'') @ ''code='' @ p2"
proof -
  let ?u = "base @ CHR ''?'' # replicate k (CHR ''&'') @ ''code='' @ p1"
  have "sublist ''code='' ?u"
    using sublist_appendI [of "''code=''" "base @ CHR ''?'' # replicate k (CHR ''&'')" p1] by simp
  moreover have "strip_code_param ?u = base @ strip_code_param (CHR ''?'' # replicate k (CHR ''&'') @ ''code='' @ p1)"
    using assms(1,2) by (rule strip_code_param_plain)
  moreover have "strip_code_param (CHR ''?'' # replicate k (CHR ''&'') @ ''code='' @ p1) =
      CHR ''?'' # replicate k (CHR ''&'')"
    using assms(3) by (rule strip_code_param_query)
  ultimately show ?thesis
    by (simp del: strip_code_param.simps add: share_target_url_def sublist_singleton replicate_app_Cons_same)
qed

lemma share_url_accumulates_witness:
  "share_target_url ''https://example.com/?&code=abc'' ''xyz'' = ''https://example.com/?&&code=xyz''"
  using share_url_accumulates [of "''https://example.com/''" "''abc''" 1 "''xyz''"] by simp

end
