(* ===== verification/Highlights.thy ===== *)
theory Highlights
  imports Prelude
begin

text \<open>
  The pure parts of \<open>useHighlights\<close> (\<open>src/src/hooks/highlights/highlights.tsx\<close>):
  \<open>hasLineAnyError\<close>, the row \<open>assemblyLine\<close> builds for one line, the grammar the effect
  on \<open>specification\<close> assembles for Prism, \<open>splitMultilineNode\<close>, and the split of the
  highlighted HTML into numbered rows, with the replace by \<open>NODE_REGEX\<close> that calls
  \<open>splitMultilineNode\<close> and the whole \<open>highlightCallback\<close>. Prism's tokenizer is library
  code: its output is a parameter. The CSS module's class names are the parameter \<open>css\<close>.
  A row is a record of what the \<open><tr>\<close> element shows: its index (the React key), the
  error flag, the line number and the line's HTML.
\<close>

subsection \<open>Data\<close>

record parse_error =
  error_line_index :: int

record grammar_parse_result =
  pr_errors :: "parse_error list"

record syntax_token =
  tok_pattern :: js_string
  tok_greedy :: bool
  tok_lookbehind :: bool

datatype syntax_pattern = PatternArray "syntax_token list" | PatternObject syntax_token

record syntax_object =
  syntax_type :: js_string
  so_pattern :: syntax_pattern

record code_row =
  row_index :: nat
  row_has_error :: bool
  row_number :: int
  row_content :: js_string

definition NEW_LINE :: char where
  "NEW_LINE = CHR ''\<newline>''"

definition css_class_names :: "(js_string \<Rightarrow> js_string) \<Rightarrow> (js_string \<times> js_string) list" where
  "css_class_names css =
     map (\<lambda>k. (k, css k))
       [''keyword'', ''punctuation'', ''comment'', ''string'', ''boolean'', ''number'',
        ''custom1'', ''custom2'', ''custom3'', ''custom4'']"

subsection \<open>Operations\<close>

definition has_line_any_error :: "grammar_parse_result option \<Rightarrow> int \<Rightarrow> bool" where
  "has_line_any_error parseResult lineIndex =
     list_ex (\<lambda>e. error_line_index e = lineIndex) (case parseResult of None \<Rightarrow> [] | Some r \<Rightarrow> pr_errors r)"

definition assembly_line :: "grammar_parse_result option \<Rightarrow> js_string \<Rightarrow> nat \<Rightarrow> code_row" where
  "assembly_line parseResult line index =
     (let hasError = has_line_any_error parseResult (int index + 1)
      in \<lparr>row_index = index, row_has_error = hasError, row_number = int index + 1, row_content = line\<rparr>)"

definition copy_token :: "syntax_token \<Rightarrow> syntax_token" where
  "copy_token t = \<lparr>tok_pattern = tok_pattern t, tok_greedy = tok_greedy t, tok_lookbehind = tok_lookbehind t\<rparr>"

fun grammar_pattern :: "syntax_pattern \<Rightarrow> syntax_pattern" where
  "grammar_pattern (PatternArray ts) = PatternArray (map copy_token ts)"
| "grammar_pattern (PatternObject t) = PatternObject (copy_token t)"

text \<open>
  The body of the effect on \<open>specification\<close> (lines 63--94): each syntax object is stored
  under its class name; a syntax type without a class name is looked up as
  \<open>undefined\<close>, whose property key is the text \<open>undefined\<close>.
\<close>

definition build_language_grammar ::
  "(js_string \<Rightarrow> js_string) \<Rightarrow> syntax_object list \<Rightarrow> js_string \<rightharpoonup> syntax_pattern" where
  "build_language_grammar css syntaxObjects =
     fold (\<lambda>so languageGrammar.
             languageGrammar(js_to_string (map_of (css_class_names css) (syntax_type so)) \<mapsto>
                             grammar_pattern (so_pattern so)))
       syntaxObjects Map.empty"

definition grammar_effect ::
  "(js_string \<Rightarrow> js_string) \<Rightarrow> syntax_object list option \<Rightarrow> (js_string \<rightharpoonup> syntax_pattern) option" where
  "grammar_effect css specification =
     (case specification of None \<Rightarrow> None | Some syntaxObjects \<Rightarrow> Some (build_language_grammar css syntaxObjects))"

definition split_multiline_node :: "js_string \<Rightarrow> js_string \<Rightarrow> js_string \<Rightarrow> js_string" where
  "split_multiline_node openingTag content closingTag =
     join_with NEW_LINE (map (\<lambda>lineContent. openingTag @ lineContent @ closingTag) (js_split NEW_LINE content))"

text \<open>
  The rows of \<open>highlightCallback\<close> (lines 109--116) for the highlighted HTML:
  \<open>split(NEW_LINE).map(assemblyLine)\<close>, where \<open>map\<close> passes each line with its index.
\<close>

definition highlight_rows :: "grammar_parse_result option \<Rightarrow> js_string \<Rightarrow> code_row list" where
  "highlight_rows parseResult highlighted =
     map (\<lambda>(index, line). assembly_line parseResult line index) (enumerate 0 (js_split NEW_LINE highlighted))"

subsection \<open>The multi-line token split\<close>

text \<open>
  \<open>.replace(NODE_REGEX, splitMultilineNode)\<close> with
  \<open>NODE_REGEX = /(<span[^>]*>)((.|\n)*?)(<\/span>)/gi\<close> (line 18, and line 14 of
  \<open>example-code.tsx\<close>). The flag \<open>i\<close> compares ASCII letters without case. At a
  position where \<open><span\<close> starts, \<open>[^>]*>\<close> takes everything up to the first \<open>>\<close>;
  the lazy \<open>(.|\n)*?\<close> then grows the content one code unit at a time until
  \<open></span>\<close> follows, and fails at a carriage return, which neither \<open>.\<close> nor \<open>\n\<close>
  matches. Without a match at a position the search moves one code unit on; after a match
  it goes on behind it. The callback \<open>f\<close> gets the groups \<open>$1\<close>, \<open>$2\<close> and \<open>$4\<close>
  (the other arguments are unused). \<open>node_match\<close> gives the groups \<open>$1\<close>, \<open>$2\<close>, \<open>$4\<close> of a
  match at the start of its argument and the text behind the match.
\<close>

definition ci_prefix :: "js_string \<Rightarrow> js_string \<Rightarrow> bool" where
  "ci_prefix pat s \<longleftrightarrow> length pat \<le> length s \<and> js_upper (take (length pat) s) = js_upper pat"

definition span_close_tag :: js_string where
  "span_close_tag = ''</span>''"

fun span_close :: "js_string \<Rightarrow> (js_string \<times> js_string) option" where
  "span_close [] = None"
| "span_close (c # cs) =
     (if ci_prefix span_close_tag (c # cs) then Some ([], c # cs)
      else if c = CHR 0x0D then None
      else map_option (\<lambda>(w, r). (c # w, r)) (span_close cs))"

definition node_match :: "js_string \<Rightarrow> (js_string \<times> js_string \<times> js_string \<times> js_string) option" where
  "node_match s =
     (if ci_prefix ''<span'' s \<and> CHR ''>'' \<in> set (drop 5 s) then
        (let attrs = takeWhile (\<lambda>x. x \<noteq> CHR ''>'') (drop 5 s);
             u = drop (Suc (length attrs)) (drop 5 s)
         in case span_close u of
              None \<Rightarrow> None
            | Some (content, r) \<Rightarrow> Some (take 5 s @ attrs @ ''>'', content, take 7 r, drop 7 r))
      else None)"

function replace_nodes :: "(js_string \<Rightarrow> js_string \<Rightarrow> js_string \<Rightarrow> js_string) \<Rightarrow> js_string \<Rightarrow> js_string" where
  "replace_nodes f [] = []"
| "replace_nodes f (c # cs) =
     (case node_match (c # cs) of
        Some (openingTag, content, closingTag, rest) \<Rightarrow>
          f openingTag content closingTag @ replace_nodes f rest
      | None \<Rightarrow> c # replace_nodes f cs)"
  by pat_completeness auto
termination
proof -
  have close: "span_close u = Some (w, r) \<Longrightarrow> u = w @ r \<and> ci_prefix span_close_tag r" for u w r
    by (induction u arbitrary: w) (auto split: if_splits)
  have dec: "length rest < length s" if m: "node_match s = Some (openingTag, content, closingTag, rest)"
    for s openingTag content closingTag rest
  proof -
    define u where "u = drop (Suc (length (takeWhile (\<lambda>x. x \<noteq> CHR ''>'') (drop 5 s)))) (drop 5 s)"
    obtain r0 where c: "span_close u = Some (content, r0)" and r: "rest = drop 7 r0"
      using m by (auto simp: node_match_def Let_def u_def split: if_splits option.splits)
    have "u = content @ r0" and "7 \<le> length r0"
      using close [OF c] by (simp_all add: ci_prefix_def span_close_tag_def)
    moreover have "length u \<le> length s" by (simp add: u_def)
    ultimately have "length r0 \<le> length s" by simp
    then show ?thesis using r \<open>7 \<le> length r0\<close> by simp
  qed
  show ?thesis
    by (relation "measure (\<lambda>(f, s). length s)") (auto dest: dec)
qed

text \<open>
  What \<open>highlightCallback\<close> (lines 109--116) renders for a code: Prism's
  \<open>highlight(code, grammar || {}, 'lang')\<close> is the parameter \<open>prism\<close> (library code), the
  CSS module's \<open>css.token\<close> is \<open>tokenClass\<close>.
\<close>

definition token_class_prefix :: js_string where
  "token_class_prefix = ''class='' @ [CHR 0x22]"

definition highlight_callback ::
  "(js_string \<Rightarrow> js_string) \<Rightarrow> js_string \<Rightarrow> grammar_parse_result option \<Rightarrow> js_string \<Rightarrow> code_row list" where
  "highlight_callback prism tokenClass parseResult code =
     highlight_rows parseResult
       (js_replace_all (token_class_prefix @ ''token'') (token_class_prefix @ tokenClass) (replace_nodes split_multiline_node (prism code)))"

text \<open>
  Prism escapes \<open><\<close> in the text of its tokens, so every \<open><\<close> of its output opens a
  tag, and its tags hold no line feed: every \<open><\<close> is followed by a \<open>>\<close> before the next
  line feed.
\<close>

fun tags_single_line :: "js_string \<Rightarrow> bool" where
  "tags_single_line [] = True"
| "tags_single_line (c # cs) =
     ((c = CHR ''<'' \<longrightarrow> CHR ''>'' \<in> set (takeWhile (\<lambda>x. x \<noteq> NEW_LINE) cs)) \<and> tags_single_line cs)"

subsection \<open>Lemmas\<close>

lemma copy_token_id [simp]: "copy_token = (\<lambda>t. t)"
  by (rule ext) (simp add: copy_token_def)

lemma grammar_pattern_id [simp]: "grammar_pattern p = p"
  by (cases p) simp_all

text \<open>
  The grammar holds, under each key, the pattern of the last syntax object whose class
  name is that key; syntax types without a class name all share the key \<open>undefined\<close>.
\<close>

lemma build_language_grammar_lookup:
  "build_language_grammar css syntaxObjects k =
     (if \<exists>so\<in>set syntaxObjects. js_to_string (map_of (css_class_names css) (syntax_type so)) = k
      then Some (so_pattern (last (filter (\<lambda>so. js_to_string (map_of (css_class_names css) (syntax_type so)) = k)
                                    syntaxObjects)))
      else None)"
  by (simp add: build_language_grammar_def fold_map_upd_lookup)

lemma highlight_rows_nth:
  "highlight_rows parseResult highlighted =
     map (\<lambda>k. assembly_line parseResult (js_split NEW_LINE highlighted ! k) k)
       [0..<length (js_split NEW_LINE highlighted)]"
  by (rule nth_equalityI) (simp_all add: highlight_rows_def nth_enumerate_eq)

text \<open>
  \<open>splitMultilineNode\<close> puts the token's tags around every line of its content, so that
  the later split into rows cuts no element in two.
\<close>

lemma split_multiline_node_lines:
  assumes "NEW_LINE \<notin> set openingTag" and "NEW_LINE \<notin> set closingTag"
  shows "js_split NEW_LINE (split_multiline_node openingTag content closingTag) =
           map (\<lambda>l. openingTag @ l @ closingTag) (js_split NEW_LINE content)"
proof -
  have "\<forall>l\<in>set (js_split NEW_LINE content). NEW_LINE \<notin> set l"
    by (metis js_split_no_sep)
  then show ?thesis
    using assms by (simp add: split_multiline_node_def js_split_join)
qed

text \<open>The split keeps the line feeds of the content and adds none of its own.\<close>

lemma count_split_multiline_node:
  assumes "NEW_LINE \<notin> set openingTag" and "NEW_LINE \<notin> set closingTag"
  shows "count_list (split_multiline_node openingTag content closingTag) NEW_LINE = count_list content NEW_LINE"
proof -
  have "Suc (count_list (split_multiline_node openingTag content closingTag) NEW_LINE) =
        length (js_split NEW_LINE (split_multiline_node openingTag content closingTag))"
    using js_split_concat [of NEW_LINE "split_multiline_node openingTag content closingTag"] by simp
  also have "\<dots> = Suc (count_list content NEW_LINE)"
    using split_multiline_node_lines [OF assms] js_split_concat [of NEW_LINE content] by simp
  finally show ?thesis by simp
qed

lemma upper_map_of_SomeD:
  "map_of (zip ascii_lower ascii_upper) x = Some u \<Longrightarrow> x \<in> set ascii_lower \<and> u \<in> set ascii_upper"
  by (auto dest: map_of_SomeD set_zip_leftD set_zip_rightD)

lemma js_upper_char_other:
  assumes "d \<notin> set ascii_lower" and "d \<notin> set ascii_upper"
  shows "js_upper_char x = d \<longleftrightarrow> x = d"
  using assms upper_map_of_SomeD [of x] by (auto simp: js_upper_char_def split: option.splits)

lemma ci_prefix_not_in:
  assumes "ci_prefix pat s" and "d \<notin> set pat" and "d \<notin> set ascii_lower" and "d \<notin> set ascii_upper"
  shows "d \<notin> set (take (length pat) s)"
proof
  assume "d \<in> set (take (length pat) s)"
  then have "js_upper_char d \<in> set (js_upper pat)"
    using assms(1) by (metis ci_prefix_def image_eqI js_upper_def list.set_map)
  then obtain y where "y \<in> set pat" "js_upper_char y = js_upper_char d"
    by (auto simp: js_upper_def)
  then show False
    using assms(2-4) js_upper_char_other [of d y] js_upper_char_other [of d d] by auto
qed

lemma ci_prefix_no_new_line:
  "ci_prefix pat s \<Longrightarrow> NEW_LINE \<notin> set pat \<Longrightarrow> NEW_LINE \<notin> set (take (length pat) s)"
  by (rule ci_prefix_not_in) (simp_all add: NEW_LINE_def ascii_lower_def ascii_upper_def)

lemma span_close_parts:
  "span_close u = Some (w, r) \<Longrightarrow> u = w @ r \<and> ci_prefix span_close_tag r"
  by (induction u arbitrary: w) (auto split: if_splits)

lemma ci_prefix_char:
  assumes "ci_prefix pat s" and "i < length pat" and "pat ! i \<notin> set ascii_lower" and "pat ! i \<notin> set ascii_upper"
  shows "s ! i = pat ! i"
proof -
  have "js_upper_char (s ! i) = js_upper_char (pat ! i)"
    using assms(1,2) nth_map [of i "take (length pat) s" js_upper_char]
    by (auto simp: ci_prefix_def js_upper_def dest: arg_cong [where f = "\<lambda>xs. xs ! i"])
  moreover have "js_upper_char (pat ! i) = pat ! i"
    using js_upper_char_other [OF assms(3,4)] by simp
  ultimately show ?thesis using js_upper_char_other [OF assms(3,4)] by simp
qed

lemma node_match_parts:
  assumes "node_match s = Some (openingTag, content, closingTag, rest)"
  shows "s = openingTag @ content @ closingTag @ rest \<and> NEW_LINE \<notin> set closingTag \<and>
         (tags_single_line s \<longrightarrow> NEW_LINE \<notin> set openingTag)"
proof -
  define attrs where "attrs = takeWhile (\<lambda>x. x \<noteq> CHR ''>'') (drop 5 s)"
  define u where "u = drop (Suc (length attrs)) (drop 5 s)"
  have ci: "ci_prefix ''<span'' s" and gt: "CHR ''>'' \<in> set (drop 5 s)"
    using assms by (auto simp: node_match_def split: if_splits)
  obtain r where c: "span_close u = Some (content, r)" and o: "openingTag = take 5 s @ attrs @ ''>''"
    and cl: "closingTag = take 7 r" and re: "rest = drop 7 r"
    using assms ci gt by (auto simp: node_match_def Let_def attrs_def u_def split: option.splits)
  have d5: "drop 5 s = attrs @ CHR ''>'' # u"
  proof -
    have "dropWhile (\<lambda>x. x \<noteq> CHR ''>'') (drop 5 s) \<noteq> []"
      using gt by (simp add: dropWhile_eq_Nil_conv)
    then obtain y ys where dw: "dropWhile (\<lambda>x. x \<noteq> CHR ''>'') (drop 5 s) = y # ys"
      by (cases "dropWhile (\<lambda>x. x \<noteq> CHR ''>'') (drop 5 s)") auto
    then have "y = CHR ''>''" using hd_dropWhile [of "\<lambda>x. x \<noteq> CHR ''>''" "drop 5 s"] by auto
    moreover have "drop 5 s = attrs @ y # ys"
      using takeWhile_dropWhile_id [of "\<lambda>x. x \<noteq> CHR ''>''" "drop 5 s"] dw by (simp add: attrs_def)
    ultimately show ?thesis by (simp add: u_def)
  qed
  have sp: "u = content @ r" and cr: "ci_prefix span_close_tag r"
    using span_close_parts [OF c] by simp_all
  have whole: "s = openingTag @ content @ closingTag @ rest"
  proof -
    have "s = take 5 s @ drop 5 s" by simp
    then show ?thesis using d5 sp o cl re by simp
  qed
  have ncl: "NEW_LINE \<notin> set closingTag"
    using ci_prefix_no_new_line [OF cr] by (simp add: cl span_close_tag_def NEW_LINE_def numeral_eq_Suc)
  have "NEW_LINE \<notin> set openingTag" if t: "tags_single_line s"
  proof -
    have l5: "5 \<le> length s" using ci by (simp add: ci_prefix_def numeral_eq_Suc)
    have s0: "s ! 0 = CHR ''<''"
      using ci_prefix_char [OF ci, of 0] by (simp add: ascii_lower_def ascii_upper_def)
    obtain tl' where st: "s = CHR ''<'' # tl'"
      using l5 s0 by (cases s) auto
    have "CHR ''>'' \<in> set (takeWhile (\<lambda>x. x \<noteq> NEW_LINE) tl')" using t st by simp
    then have nl: "NEW_LINE \<notin> set (takeWhile (\<lambda>x. x \<noteq> CHR ''>'') tl')" by (rule takeWhile_neq_swap)
    have "CHR ''>'' \<notin> set (take (length ''<span'') s)"
      by (rule ci_prefix_not_in [OF ci]) (simp_all add: ascii_lower_def ascii_upper_def)
    then have ng: "CHR ''>'' \<notin> set (take 4 tl')" using st by (simp add: numeral_eq_Suc)
    have "takeWhile (\<lambda>x. x \<noteq> CHR ''>'') tl' = takeWhile (\<lambda>x. x \<noteq> CHR ''>'') (take 4 tl' @ drop 4 tl')"
      by simp
    also have "\<dots> = take 4 tl' @ takeWhile (\<lambda>x. x \<noteq> CHR ''>'') (drop 4 tl')"
      by (rule takeWhile_append2) (use ng in auto)
    finally have "takeWhile (\<lambda>x. x \<noteq> CHR ''>'') tl' = take 4 tl' @ attrs"
      using st by (simp add: attrs_def numeral_eq_Suc)
    then have "NEW_LINE \<notin> set attrs" using nl by auto
    moreover have "NEW_LINE \<notin> set (take 5 s)"
      using ci_prefix_no_new_line [OF ci] by (simp add: NEW_LINE_def numeral_eq_Suc)
    ultimately show ?thesis using o by (simp add: NEW_LINE_def)
  qed
  then show ?thesis using whole ncl by blast
qed

lemma tags_single_line_drop: "tags_single_line s \<Longrightarrow> tags_single_line (drop n s)"
  by (induction s arbitrary: n) (auto simp: drop_Cons split: nat.splits)

lemma count_replace_nodes:
  "tags_single_line s \<Longrightarrow> count_list (replace_nodes split_multiline_node s) NEW_LINE = count_list s NEW_LINE"
proof (induction split_multiline_node s rule: replace_nodes.induct)
  case (2 c cs)
  show ?case
  proof (cases "node_match (c # cs)")
    case None
    then show ?thesis using 2 by simp
  next
    case (Some m)
    obtain openingTag content closingTag rest where m: "m = (openingTag, content, closingTag, rest)"
      by (cases m) auto
    note p = node_match_parts [OF Some [unfolded m]]
    have "rest = drop (length (openingTag @ content @ closingTag)) (c # cs)"
      using p by (metis append.assoc append_eq_conv_conj)
    then have t: "tags_single_line rest" using "2.prems" tags_single_line_drop by metis
    have ih: "count_list (replace_nodes split_multiline_node rest) NEW_LINE = count_list rest NEW_LINE"
      using "2.hyps"(2) Some m t by blast
    have no: "NEW_LINE \<notin> set openingTag" "NEW_LINE \<notin> set closingTag"
      using p "2.prems" by blast+
    have cs: "c # cs = openingTag @ content @ closingTag @ rest" using p by simp
    have "count_list (c # cs) NEW_LINE = count_list content NEW_LINE + count_list rest NEW_LINE"
      unfolding cs using no by (simp add: count_list_0_iff)
    moreover have "replace_nodes split_multiline_node (c # cs) =
                   split_multiline_node openingTag content closingTag @ replace_nodes split_multiline_node rest"
      using Some m by simp
    ultimately show ?thesis
      using ih count_split_multiline_node [OF no] by simp
  qed
qed simp

subsection \<open>Properties of the highlighted table\<close>

text \<open>
  One numbered row per line. The table has one row per line of the highlighted
  HTML (one more than its line feeds), in order; the row of line \<open>k\<close> (from 0) shows
  that line, is numbered \<open>k + 1\<close>, and is flagged as an error exactly when the parse
  result has an error whose \<open>lineIndex\<close> is \<open>k + 1\<close>.
\<close>

theorem highlight_rows_lines:
  "map row_content (highlight_rows pr h) = js_split NEW_LINE h \<and>
   map row_number (highlight_rows pr h) = map (\<lambda>k. int k + 1) [0..<Suc (count_list h NEW_LINE)] \<and>
   map row_has_error (highlight_rows pr h) =
     map (\<lambda>k. has_line_any_error pr (int k + 1)) [0..<Suc (count_list h NEW_LINE)]"
proof -
  show ?thesis
    unfolding highlight_rows_nth length_js_split [symmetric]
    by (simp add: assembly_line_def Let_def comp_def map_nth)
qed

end
