(* ===== verification/Parsing.thy ===== *)
theory Parsing
  imports Debounce
begin

text \<open>
  The Parsing hook: \<open>useParsing\<close> of \<open>src/src/hooks/parsing/parsing.ts\<close>, which talks
  to the grammar worker. Its three \<open>useState\<close> hooks are the record \<open>parsing_state\<close>;
  \<open>setParsingData\<close> always stores a new object, so its identity is the counter
  \<open>parsing_data_gen\<close>. The ref \<open>grammarWorkerRef\<close> holds the id of the current worker.
  The worker itself (a script outside this repository) is the environment: the model
  records the messages posted to workers and the workers terminated, and takes the
  worker's replies as events, delivered to the \<open>onmessage\<close> handler the worker has.

  The mounted hook is a step function over new props (\<open>text\<close>, \<open>workerInfo\<close>), the
  elapse of the debounce timer (Theory \<open>Debounce\<close>, delay 800) and the worker's replies.
  A commit renders with the current props and state: the effect on \<open>workerInfo\<close> runs when
  that prop changed (after the previous run's cleanup), and then the debounced effect sees
  its dependency list \<open>[callback, 800, false, text, isInitializing, grammarWorkerRef.current]\<close>,
  read during the render; the callback is a new closure at every render. A handler's or
  effect's \<open>setState\<close> calls are applied after it returns, and a new commit follows when
  the state changed.
\<close>

subsection \<open>Data\<close>

record ('spec, 'res) parsing_data =
  pd_specification :: "'spec option"
  pd_parse_result :: "'res option"

record ('spec, 'res) parsing_state =
  parsing_data :: "('spec, 'res) parsing_data"
  parsing_data_gen :: nat
  is_parsing :: bool
  is_initializing :: bool

definition parsing_init :: "('spec, 'res) parsing_state" where
  "parsing_init =
     \<lparr>parsing_data = \<lparr>pd_specification = None, pd_parse_result = None\<rparr>, parsing_data_gen = 0,
      is_parsing = False, is_initializing = False\<rparr>"

datatype ('spec, 'res) parsing_update =
    SetParsingData "('spec, 'res) parsing_data"
  | SetIsParsing bool
  | SetIsInitializing bool

datatype worker_message = GrammarInitialize | GrammarParse js_string

text \<open>
  The \<open>onmessage\<close> handler of the current worker: \<open>handleInitResponse\<close>, or the
  \<open>handleParseResponse\<close> of some render, with the \<open>parsingData\<close> of that render.
\<close>

datatype ('spec, 'res) message_handler = InitHandler | ParseHandler "('spec, 'res) parsing_data"

text \<open>What the debounced callback of a render reads: \<open>isInitializing\<close>, \<open>text\<close> and
  the \<open>parsingData\<close> its \<open>handleParseResponse\<close> captures.\<close>

type_synonym ('spec, 'res) parse_closure = "bool \<times> js_string \<times> ('spec, 'res) parsing_data"

type_synonym parse_deps = "nat \<times> js_string \<times> bool \<times> nat option"

record ('w, 'spec, 'res) parsing_sys =
  ps_text :: js_string
  ps_worker_info :: "'w option"
  ps_state :: "('spec, 'res) parsing_state"
  ps_worker :: "nat option"
  ps_next_worker :: nat
  ps_onmessage :: "('spec, 'res) message_handler option"
  ps_posted :: "(nat \<times> worker_message) list"
  ps_terminated :: "nat list"
  ps_effect_info :: "'w option option"
  ps_render :: nat
  ps_timer :: "(('spec, 'res) parse_closure, parse_deps, unit) debounce_state"

definition parsing_config :: debounced_effect_config where
  "parsing_config = \<lparr>delay = 800, ignore_initial_call = False\<rparr>"

subsection \<open>Operations\<close>

fun apply_parsing_update :: "('spec, 'res) parsing_state \<Rightarrow> ('spec, 'res) parsing_update \<Rightarrow> ('spec, 'res) parsing_state" where
  "apply_parsing_update s (SetParsingData d) = s\<lparr>parsing_data := d, parsing_data_gen := Suc (parsing_data_gen s)\<rparr>"
| "apply_parsing_update s (SetIsParsing b) = s\<lparr>is_parsing := b\<rparr>"
| "apply_parsing_update s (SetIsInitializing b) = s\<lparr>is_initializing := b\<rparr>"

definition apply_parsing_updates ::
  "('spec, 'res) parsing_state \<Rightarrow> ('spec, 'res) parsing_update list \<Rightarrow> ('spec, 'res) parsing_state" where
  "apply_parsing_updates s us = fold (\<lambda>u s. apply_parsing_update s u) us s"

definition handle_init_response :: "'spec \<Rightarrow> ('spec, 'res) parsing_update list" where
  "handle_init_response data =
     [SetParsingData \<lparr>pd_specification = Some data, pd_parse_result = None\<rparr>, SetIsInitializing False, SetIsParsing True]"

definition handle_parse_response ::
  "('spec, 'res) parsing_data \<Rightarrow> 'res \<Rightarrow> ('spec, 'res) parsing_update list" where
  "handle_parse_response parsingData data =
     [SetParsingData (parsingData\<lparr>pd_parse_result := Some data\<rparr>), SetIsParsing False]"

text \<open>The cleanup of the previous run of the \<open>workerInfo\<close> effect (lines 47--53).\<close>

definition worker_cleanup :: "('w, 'spec, 'res) parsing_sys \<Rightarrow> ('w, 'spec, 'res) parsing_sys" where
  "worker_cleanup S =
     (case ps_effect_info S of
        Some (Some _) \<Rightarrow>
          (case ps_worker S of None \<Rightarrow> S | Some w \<Rightarrow> S\<lparr>ps_terminated := ps_terminated S @ [w]\<rparr>)
      | _ \<Rightarrow> S)"

text \<open>The body of the \<open>workerInfo\<close> effect (lines 32--46).\<close>

definition worker_effect ::
  "'w option \<Rightarrow> ('w, 'spec, 'res) parsing_sys \<Rightarrow> ('w, 'spec, 'res) parsing_sys \<times> ('spec, 'res) parsing_update list" where
  "worker_effect workerInfo S =
     (case workerInfo of
        None \<Rightarrow> (S\<lparr>ps_effect_info := Some None\<rparr>, [])
      | Some _ \<Rightarrow>
          (let S1 = (case ps_worker S of None \<Rightarrow> S | Some w \<Rightarrow> S\<lparr>ps_terminated := ps_terminated S @ [w]\<rparr>);
               i = ps_next_worker S1
           in (S1\<lparr>ps_worker := Some i, ps_next_worker := Suc i,
                  ps_posted := ps_posted S1 @ [(i, GrammarInitialize)],
                  ps_onmessage := Some InitHandler, ps_effect_info := Some workerInfo\<rparr>,
               [SetIsInitializing True])))"

text \<open>The debounced callback (lines 57--65), run from the timer with the closure of its render.\<close>

definition parse_callback ::
  "('spec, 'res) parse_closure \<Rightarrow> ('w, 'spec, 'res) parsing_sys \<Rightarrow>
   ('w, 'spec, 'res) parsing_sys \<times> ('spec, 'res) parsing_update list" where
  "parse_callback c S =
     (case c of (isInitializing, text, parsingData) \<Rightarrow>
        (case ps_worker S of
           None \<Rightarrow> (S, [])
         | Some w \<Rightarrow>
             (if isInitializing then (S, [])
              else (S\<lparr>ps_posted := ps_posted S @ [(w, GrammarParse text)],
                      ps_onmessage := Some (ParseHandler parsingData)\<rparr>,
                    [SetIsParsing True]))))"

text \<open>One render with the current props and state, and its effects in order.\<close>

definition parsing_render ::
  "('w, 'spec, 'res) parsing_sys \<Rightarrow> ('w, 'spec, 'res) parsing_sys \<times> ('spec, 'res) parsing_update list" where
  "parsing_render S =
     (let r = Suc (ps_render S); s = ps_state S;
          deps = (r, ps_text S, is_initializing s, ps_worker S);
          closure = (is_initializing s, ps_text S, parsing_data s);
          (S1, us) = (if ps_effect_info S = Some (ps_worker_info S) then (S, [])
                      else worker_effect (ps_worker_info S) (worker_cleanup S))
      in (S1\<lparr>ps_render := r,
             ps_timer := fst (debounce_step parsing_config (\<lambda>c. None) (ps_timer S1) (Render closure deps))\<rparr>,
          us))"

text \<open>
  A commit: a render, and a second one when its effects changed the state (the second
  render runs no \<open>workerInfo\<close> effect, so it queues nothing).
\<close>

definition parsing_commit :: "('w, 'spec, 'res) parsing_sys \<Rightarrow> ('w, 'spec, 'res) parsing_sys" where
  "parsing_commit S =
     (let (S1, us) = parsing_render S; s' = apply_parsing_updates (ps_state S1) us
      in if s' = ps_state S1 then S1 else fst (parsing_render (S1\<lparr>ps_state := s'\<rparr>)))"

text \<open>After a handler or callback: a commit when the state changed.\<close>

definition parsing_settle ::
  "('w, 'spec, 'res) parsing_sys \<Rightarrow> ('spec, 'res) parsing_update list \<Rightarrow> ('w, 'spec, 'res) parsing_sys" where
  "parsing_settle S us =
     (let s' = apply_parsing_updates (ps_state S) us
      in if s' = ps_state S then S else parsing_commit (S\<lparr>ps_state := s'\<rparr>))"

definition parsing_mount :: "js_string \<Rightarrow> 'w option \<Rightarrow> ('w, 'spec, 'res) parsing_sys" where
  "parsing_mount text workerInfo =
     parsing_commit
       \<lparr>ps_text = text, ps_worker_info = workerInfo, ps_state = parsing_init, ps_worker = None,
        ps_next_worker = 0, ps_onmessage = None, ps_posted = [], ps_terminated = [],
        ps_effect_info = None, ps_render = 0, ps_timer = debounce_init\<rparr>"

datatype ('w, 'spec, 'res) parsing_event =
    ParsingProps js_string "'w option"
  | ParseElapse
  | InitReply 'spec
  | ParseReply 'res

fun parsing_step ::
  "('w, 'spec, 'res) parsing_sys \<Rightarrow> ('w, 'spec, 'res) parsing_event \<Rightarrow> ('w, 'spec, 'res) parsing_sys" where
  "parsing_step S (ParsingProps text workerInfo) =
     parsing_commit (S\<lparr>ps_text := text, ps_worker_info := workerInfo\<rparr>)"
| "parsing_step S ParseElapse =
     (case timer (ps_timer S) of
        None \<Rightarrow> S
      | Some (c, d) \<Rightarrow>
          (let (S1, us) = parse_callback c (S\<lparr>ps_timer := fst (debounce_step parsing_config (\<lambda>c. None) (ps_timer S) Elapse)\<rparr>)
           in parsing_settle S1 us))"
| "parsing_step S (InitReply data) =
     (if ps_onmessage S = Some InitHandler then parsing_settle S (handle_init_response data) else S)"
| "parsing_step S (ParseReply data) =
     (case ps_onmessage S of
        Some (ParseHandler parsingData) \<Rightarrow> parsing_settle S (handle_parse_response parsingData data)
      | _ \<Rightarrow> S)"

definition parsing_run ::
  "('w, 'spec, 'res) parsing_sys \<Rightarrow> ('w, 'spec, 'res) parsing_event list \<Rightarrow> ('w, 'spec, 'res) parsing_sys" where
  "parsing_run S es = fold (\<lambda>e S. parsing_step S e) es S"

text \<open>
  A settled hook with a ready worker: the worker \<open>w\<close> is initialised, the
  \<open>workerInfo\<close> effect is up to date, and the timer is armed with the closure of the
  last render.
\<close>

definition parsing_ready :: "('w, 'spec, 'res) parsing_sys \<Rightarrow> nat \<Rightarrow> bool" where
  "parsing_ready S w \<longleftrightarrow>
     ps_worker S = Some w \<and> \<not> is_initializing (ps_state S) \<and>
     ps_effect_info S = Some (ps_worker_info S) \<and> destructor_callback (ps_timer S) = None \<and>
     timer (ps_timer S) = Some ((False, ps_text S, parsing_data (ps_state S)), None) \<and>
     effect_deps (ps_timer S) = Some (ps_render S, ps_text S, False, Some w)"

subsection \<open>Lemmas\<close>

lemma apply_parsing_updates_simps [simp]:
  "apply_parsing_updates s [] = s"
  "apply_parsing_updates s (u # us) = apply_parsing_updates (apply_parsing_update s u) us"
  by (simp_all add: apply_parsing_updates_def)

text \<open>A render that runs no \<open>workerInfo\<close> effect only re-arms the timer, and queues nothing.\<close>

lemma parsing_commit_quiet:
  assumes "ps_effect_info S = Some (ps_worker_info S)"
    and "effect_deps (ps_timer S) \<noteq> Some (Suc (ps_render S), ps_text S, is_initializing (ps_state S), ps_worker S)"
  shows "parsing_commit S =
           S\<lparr>ps_render := Suc (ps_render S),
             ps_timer := (ps_timer S)\<lparr>first_render := False,
               timer := Some ((is_initializing (ps_state S), ps_text S, parsing_data (ps_state S)),
                              destructor_callback (ps_timer S)),
               effect_deps := Some (Suc (ps_render S), ps_text S, is_initializing (ps_state S), ps_worker S)\<rparr>\<rparr>"
proof -
  have r: "parsing_render S =
           (S\<lparr>ps_render := Suc (ps_render S),
             ps_timer := (ps_timer S)\<lparr>first_render := False,
               timer := Some ((is_initializing (ps_state S), ps_text S, parsing_data (ps_state S)),
                              destructor_callback (ps_timer S)),
               effect_deps := Some (Suc (ps_render S), ps_text S, is_initializing (ps_state S), ps_worker S)\<rparr>\<rparr>, [])"
    using assms debounce_render_changed [of "ps_timer S" _ parsing_config]
    by (simp add: parsing_render_def parsing_config_def Let_def)
  then show ?thesis by (simp add: parsing_commit_def Let_def)
qed

lemma parsing_round:
  assumes "parsing_ready S w"
  shows "parsing_ready (parsing_run S [ParseElapse, ParseReply r]) w \<and>
         ps_posted (parsing_run S [ParseElapse, ParseReply r]) = ps_posted S @ [(w, GrammarParse (ps_text S))] \<and>
         ps_text (parsing_run S [ParseElapse, ParseReply r]) = ps_text S"
proof -
  let ?pd = "parsing_data (ps_state S)"
  define S1 where "S1 = S\<lparr>ps_timer := (ps_timer S)\<lparr>timer := None, destructor_callback := None\<rparr>,
      ps_posted := ps_posted S @ [(w, GrammarParse (ps_text S))], ps_onmessage := Some (ParseHandler ?pd)\<rparr>"
  have e1: "parsing_step S ParseElapse = parsing_settle S1 [SetIsParsing True]"
    using assms by (simp add: parsing_ready_def debounce_fire_def parse_callback_def S1_def)
  obtain S2 where s2: "parsing_settle S1 [SetIsParsing True] = S2"
    and s2p: "ps_posted S2 = ps_posted S1" "ps_text S2 = ps_text S" "ps_worker S2 = Some w"
      "ps_state S2 = (ps_state S)\<lparr>is_parsing := True\<rparr>" "ps_onmessage S2 = Some (ParseHandler ?pd)"
      "ps_effect_info S2 = Some (ps_worker_info S2)" "destructor_callback (ps_timer S2) = None"
      "effect_deps (ps_timer S2) \<noteq> Some (Suc (ps_render S2), ps_text S2, False, Some w)"
  proof (cases "is_parsing (ps_state S)")
    case True
    then have "parsing_settle S1 [SetIsParsing True] = S1"
      by (simp add: parsing_settle_def S1_def Let_def)
    with True assms show ?thesis
      by (intro that [of S1]) (auto simp: S1_def parsing_ready_def)
  next
    case False
    let ?S1' = "S1\<lparr>ps_state := (ps_state S1)\<lparr>is_parsing := True\<rparr>\<rparr>"
    have ne: "(ps_state S)\<lparr>is_parsing := True\<rparr> \<noteq> ps_state S"
      using False by (auto dest: arg_cong [where f = is_parsing])
    have "parsing_settle S1 [SetIsParsing True] = parsing_commit ?S1'"
      using ne by (simp add: parsing_settle_def S1_def Let_def)
    also have "\<dots> = ?S1'\<lparr>ps_render := Suc (ps_render ?S1'),
             ps_timer := (ps_timer ?S1')\<lparr>first_render := False,
               timer := Some ((is_initializing (ps_state ?S1'), ps_text ?S1', parsing_data (ps_state ?S1')),
                              destructor_callback (ps_timer ?S1')),
               effect_deps := Some (Suc (ps_render ?S1'), ps_text ?S1', is_initializing (ps_state ?S1'), ps_worker ?S1')\<rparr>\<rparr>"
      using assms by (intro parsing_commit_quiet) (auto simp: S1_def parsing_ready_def)
    finally have eq: "parsing_settle S1 [SetIsParsing True] = ?S1'\<lparr>ps_render := Suc (ps_render ?S1'),
             ps_timer := (ps_timer ?S1')\<lparr>first_render := False,
               timer := Some ((is_initializing (ps_state ?S1'), ps_text ?S1', parsing_data (ps_state ?S1')),
                              destructor_callback (ps_timer ?S1')),
               effect_deps := Some (Suc (ps_render ?S1'), ps_text ?S1', is_initializing (ps_state ?S1'), ps_worker ?S1')\<rparr>\<rparr>" .
    show ?thesis
      by (rule that [OF eq]) (use assms in \<open>auto simp: S1_def parsing_ready_def\<close>)+
  qed
  let ?pd' = "?pd\<lparr>pd_parse_result := Some r\<rparr>"
  let ?S2' = "S2\<lparr>ps_state := (ps_state S)\<lparr>parsing_data := ?pd', parsing_data_gen := Suc (parsing_data_gen (ps_state S)),
                                             is_parsing := False\<rparr>\<rparr>"
  have ne2: "(ps_state S2)\<lparr>parsing_data := ?pd', parsing_data_gen := Suc (parsing_data_gen (ps_state S2)),
               is_parsing := False\<rparr> \<noteq> ps_state S2"
    by (auto dest: arg_cong [where f = parsing_data_gen])
  have e2: "parsing_step S2 (ParseReply r) = parsing_commit ?S2'"
    using s2p ne2 by (simp add: parsing_settle_def handle_parse_response_def Let_def)
  have c2: "parsing_commit ?S2' = ?S2'\<lparr>ps_render := Suc (ps_render ?S2'),
             ps_timer := (ps_timer ?S2')\<lparr>first_render := False,
               timer := Some ((is_initializing (ps_state ?S2'), ps_text ?S2', parsing_data (ps_state ?S2')),
                              destructor_callback (ps_timer ?S2')),
               effect_deps := Some (Suc (ps_render ?S2'), ps_text ?S2', is_initializing (ps_state ?S2'), ps_worker ?S2')\<rparr>\<rparr>"
    using assms s2p by (intro parsing_commit_quiet) (auto simp: parsing_ready_def)
  have run: "parsing_run S [ParseElapse, ParseReply r] = parsing_commit ?S2'"
    by (simp only: parsing_run_def fold_simps e1 s2 e2)
  show ?thesis
    unfolding run c2 using assms s2p by (simp add: parsing_ready_def S1_def)
qed

lemma parsing_run_append: "parsing_run S (es @ fs) = parsing_run (parsing_run S es) fs"
  by (simp add: parsing_run_def)

subsection \<open>Properties of the parsing hook\<close>

text \<open>
  Claim C28: parsing never settles. Because the debounced callback is a new closure at
  every render and every reply stores a new \<open>parsingData\<close> object, each reply re-arms the
  timer: from a settled hook with a ready worker, every round of a timer elapse and the
  worker's reply posts one more parse request for the same, unchanged text, so the worker
  is asked to re-parse every 800 ms for as long as the editor is mounted.
\<close>

theorem parsing_repeats:
  assumes "parsing_ready S w"
  shows "ps_posted (parsing_run S (concat (map (\<lambda>r. [ParseElapse, ParseReply r]) rs))) =
           ps_posted S @ replicate (length rs) (w, GrammarParse (ps_text S))"
  using assms
proof (induction rs arbitrary: S)
  case Nil
  then show ?case by (simp add: parsing_run_def)
next
  case (Cons r rs)
  let ?S' = "parsing_run S [ParseElapse, ParseReply r]"
  let ?es = "concat (map (\<lambda>r. [ParseElapse, ParseReply r]) rs)"
  have ih: "ps_posted (parsing_run ?S' ?es) = ps_posted ?S' @ replicate (length rs) (w, GrammarParse (ps_text ?S'))"
    using parsing_round [OF Cons.prems] by (intro Cons.IH) simp
  have split: "parsing_run S (concat (map (\<lambda>r. [ParseElapse, ParseReply r]) (r # rs))) = parsing_run ?S' ?es"
    by (simp add: parsing_run_def)
  show ?case
    unfolding split ih using parsing_round [OF Cons.prems, of r] by (simp add: replicate_app_Cons_same)
qed

lemma parsing_repeats_witness:
  "ps_posted (parsing_run (parsing_run (parsing_mount ''q'' (Some ()) :: (unit, nat, nat) parsing_sys)
       [InitReply 7, ParseElapse, ParseReply 1]) (concat (map (\<lambda>r. [ParseElapse, ParseReply r]) [2, 3]))) =
     [(0, GrammarInitialize), (0, GrammarParse ''q''), (0, GrammarParse ''q''), (0, GrammarParse ''q'')]"
proof -
  let ?S0 = "parsing_run (parsing_mount ''q'' (Some ()) :: (unit, nat, nat) parsing_sys)
       [InitReply 7, ParseElapse, ParseReply 1]"
  have ready: "parsing_ready ?S0 0" by code_simp
  have posted: "ps_posted ?S0 = [(0, GrammarInitialize), (0, GrammarParse ''q'')]" by code_simp
  have tq: "ps_text ?S0 = ''q''" by code_simp
  from parsing_repeats [OF ready, of "[2, 3]"] posted tq show ?thesis
    by (simp add: numeral_2_eq_2)
qed

end
