(* ===== verification/ExamplesList.thy ===== *)
theory ExamplesList
  imports Prelude
begin

text \<open>
  The examples list: \<open>ExamplesList\<close> of \<open>src/src/components/examples-list/examples-list.tsx\<close>
  with the click wiring of \<open>ExampleElement\<close> (\<open>example-element.tsx\<close>). Its three
  \<open>useState\<close> hooks are the record \<open>el_state\<close>. Objects are compared by identity, so
  every array and every Fuse index carries an \<open>obj_id\<close>: the arrays of the props carry the
  identity the parent gave them, and every \<open>new Fuse(...)\<close> and every \<open>.map\<close> allocates a
  fresh one from a counter. Fuse.js is a library: its search over the indexed examples is
  the parameter \<open>search\<close>. The hook \<open>useDebounce\<close> is imported from
  \<open>$hooks/debounce/debounce\<close>, a module that is not in the repository; its value, the
  debounced search phrase, is an input of the model that the environment changes.

  A commit is one render followed by the two passive effects, in the order of the source,
  each running when its dependency list differs from the one of its last run; their
  \<open>setState\<close> calls are applied in order, and a further render is pending when a hook
  changed. \<open>searchForExamples\<close> is a \<open>useCallback\<close> on \<open>[fuse]\<close>: its identity is the
  identity of the Fuse index it closes over.
\<close>

subsection \<open>Data\<close>

record grammar_example =
  ex_name :: js_string
  ex_code :: js_string

datatype obj_id = PropObj nat | NewObj nat

type_synonym 'a js_array = "obj_id \<times> 'a list"

record fuse =
  fuse_id :: obj_id
  fuse_docs :: "grammar_example list"

record el_props =
  el_examples :: "grammar_example js_array"
  el_is_loading :: bool

record el_state =
  el_fuse :: fuse
  search_phrase :: js_string
  current_examples :: "grammar_example js_array"

datatype el_update =
    SetFuse fuse
  | SetSearchPhrase js_string
  | SetCurrentExamples "grammar_example js_array"

datatype el_output = ScrollToTop | ExampleClicked grammar_example

type_synonym el_search = "grammar_example list \<Rightarrow> js_string \<Rightarrow> grammar_example list"

type_synonym el_deps1 = "obj_id \<times> obj_id \<times> js_string"
type_synonym el_deps2 = "js_string \<times> obj_id \<times> obj_id"

record el_sys =
  el_props_of :: el_props
  el_st :: el_state
  el_debounced :: js_string
  el_next :: nat
  el_last_deps1 :: "el_deps1 option"
  el_last_deps2 :: "el_deps2 option"
  el_pending :: bool

subsection \<open>Operations\<close>

fun apply_el_update :: "el_state \<Rightarrow> el_update \<Rightarrow> el_state" where
  "apply_el_update s (SetFuse f) = s\<lparr>el_fuse := f\<rparr>"
| "apply_el_update s (SetSearchPhrase p) = s\<lparr>search_phrase := p\<rparr>"
| "apply_el_update s (SetCurrentExamples xs) = s\<lparr>current_examples := xs\<rparr>"

definition apply_el_updates :: "el_update list \<Rightarrow> el_state \<Rightarrow> el_state" where
  "apply_el_updates us s = fold (\<lambda>u s. apply_el_update s u) us s"

text \<open>\<open>searchForExamples\<close> (lines 31--34): the search of the index it closes over; the
  \<open>.map\<close> allocates a new array.\<close>

definition search_for_examples :: "el_search \<Rightarrow> fuse \<Rightarrow> nat \<Rightarrow> js_string \<Rightarrow> grammar_example js_array" where
  "search_for_examples search f n pattern = (NewObj n, search (fuse_docs f) pattern)"

text \<open>The first effect (lines 36--44): a new index over the examples, and the search of
  the not yet debounced phrase with the index of the render.\<close>

definition examples_effect ::
  "el_search \<Rightarrow> el_props \<Rightarrow> el_state \<Rightarrow> nat \<Rightarrow> el_update list \<times> nat" where
  "examples_effect search p s n =
     (if snd (el_examples p) = [] then ([], n)
      else ([SetFuse \<lparr>fuse_id = NewObj n, fuse_docs = snd (el_examples p)\<rparr>,
             SetCurrentExamples (search_for_examples search (el_fuse s) (Suc n) (search_phrase s))],
            n + 2))"

text \<open>The second effect (lines 51--63), on the debounced phrase.\<close>

definition debounced_search_effect ::
  "el_search \<Rightarrow> el_props \<Rightarrow> el_state \<Rightarrow> js_string \<Rightarrow> nat \<Rightarrow> el_update list \<times> nat" where
  "debounced_search_effect search p s debouncedSearchPhrase n =
     (if snd (el_examples p) = [] then ([], n)
      else if debouncedSearchPhrase = [] then ([SetCurrentExamples (el_examples p)], n)
      else ([SetCurrentExamples (search_for_examples search (el_fuse s) n debouncedSearchPhrase)], Suc n))"

definition el_deps1_of :: "el_props \<Rightarrow> el_state \<Rightarrow> el_deps1" where
  "el_deps1_of p s = (fst (el_examples p), fuse_id (el_fuse s), search_phrase s)"

definition el_deps2_of :: "el_props \<Rightarrow> el_state \<Rightarrow> js_string \<Rightarrow> el_deps2" where
  "el_deps2_of p s d = (d, fst (el_examples p), fuse_id (el_fuse s))"

text \<open>One commit: the render with the system's props, state and debounced phrase, then the
  effects whose dependencies changed, then their updates.\<close>

definition el_commit :: "el_search \<Rightarrow> el_sys \<Rightarrow> el_sys" where
  "el_commit search S =
     (let p = el_props_of S; s = el_st S; d = el_debounced S;
          deps1 = el_deps1_of p s; deps2 = el_deps2_of p s d;
          (u1, n1) = (if el_last_deps1 S = Some deps1 then ([], el_next S)
                      else examples_effect search p s (el_next S));
          (u2, n2) = (if el_last_deps2 S = Some deps2 then ([], n1)
                      else debounced_search_effect search p s d n1);
          s' = apply_el_updates (u1 @ u2) s
      in S\<lparr>el_st := s', el_next := n2, el_last_deps1 := Some deps1, el_last_deps2 := Some deps2,
           el_pending := (s' \<noteq> s)\<rparr>)"

text \<open>Mounting (lines 26--29): an empty index, an empty phrase and the examples of the
  first props; the debounced value starts as the phrase.\<close>

definition el_mount :: "el_search \<Rightarrow> el_props \<Rightarrow> el_sys" where
  "el_mount search p =
     el_commit search
       \<lparr>el_props_of = p,
        el_st = \<lparr>el_fuse = \<lparr>fuse_id = NewObj 0, fuse_docs = []\<rparr>, search_phrase = [],
                 current_examples = el_examples p\<rparr>,
        el_debounced = [], el_next = 1, el_last_deps1 = None, el_last_deps2 = None, el_pending = False\<rparr>"

text \<open>\<open>handleExampleClick\<close> (lines 46--49), called by the list item of a shown example
  (lines 83--90 and \<open>example-element.tsx\<close>, line 15).\<close>

definition handle_example_click :: "grammar_example \<Rightarrow> el_output list" where
  "handle_example_click example = [ScrollToTop, ExampleClicked example]"

datatype el_event =
    ElNewProps el_props
  | ElSearchInput js_string
  | ElDebounced js_string
  | ElFrame
  | ElClick nat

text \<open>The input's \<open>onChange\<close> (line 74) stores the phrase; a new value of the debounce hook
  or new props render; a pending render is a frame; a click reaches a shown example only.\<close>

fun el_step :: "el_search \<Rightarrow> el_sys \<Rightarrow> el_event \<Rightarrow> el_sys \<times> el_output list" where
  "el_step search S (ElNewProps p) = (el_commit search (S\<lparr>el_props_of := p\<rparr>), [])"
| "el_step search S (ElSearchInput v) =
     (if v = search_phrase (el_st S) then (S, [])
      else (el_commit search (S\<lparr>el_st := apply_el_update (el_st S) (SetSearchPhrase v)\<rparr>), []))"
| "el_step search S (ElDebounced v) =
     (if v = el_debounced S then (S, []) else (el_commit search (S\<lparr>el_debounced := v\<rparr>), []))"
| "el_step search S ElFrame = (if el_pending S then (el_commit search S, []) else (S, []))"
| "el_step search S (ElClick i) =
     (if \<not> el_is_loading (el_props_of S) \<and> i < length (snd (current_examples (el_st S)))
      then (S, handle_example_click (snd (current_examples (el_st S)) ! i))
      else (S, []))"

fun el_run :: "el_search \<Rightarrow> el_sys \<Rightarrow> el_event list \<Rightarrow> el_sys \<times> el_output list" where
  "el_run search S [] = (S, [])"
| "el_run search S (e # es) =
     (let (S', out) = el_step search S e; (S'', out') = el_run search S' es in (S'', out @ out'))"

text \<open>Events of the user and of React that leave the props alone.\<close>

fun el_user_event :: "el_event \<Rightarrow> bool" where
  "el_user_event (ElNewProps p) = False"
| "el_user_event e = True"

subsection \<open>The render loop\<close>

text \<open>
  The state of the loop: the index holds the examples, it is younger than the allocation
  counter, and both effects last ran with another index than the current one.
\<close>

definition el_loop_inv :: "el_sys \<Rightarrow> bool" where
  "el_loop_inv S \<longleftrightarrow>
     snd (el_examples (el_props_of S)) \<noteq> [] \<and>
     fuse_docs (el_fuse (el_st S)) = snd (el_examples (el_props_of S)) \<and>
     (\<forall>k. fuse_id (el_fuse (el_st S)) = NewObj k \<longrightarrow> k < el_next S) \<and>
     (\<forall>d. el_last_deps1 S = Some d \<longrightarrow> fst (snd d) \<noteq> fuse_id (el_fuse (el_st S))) \<and>
     (\<forall>d. el_last_deps2 S = Some d \<longrightarrow> snd (snd d) \<noteq> fuse_id (el_fuse (el_st S)))"

definition el_shown_ok :: "el_search \<Rightarrow> el_sys \<Rightarrow> bool" where
  "el_shown_ok search S \<longleftrightarrow>
     snd (current_examples (el_st S)) =
       (if el_debounced S = [] then snd (el_examples (el_props_of S))
        else search (snd (el_examples (el_props_of S))) (el_debounced S))"

lemma el_commit_loop:
  assumes "snd (el_examples (el_props_of S)) \<noteq> []"
    and "\<forall>k. fuse_id (el_fuse (el_st S)) = NewObj k \<longrightarrow> k < el_next S"
    and "\<forall>d. el_last_deps1 S = Some d \<longrightarrow> fst (snd d) \<noteq> fuse_id (el_fuse (el_st S))"
    and "\<forall>d. el_last_deps2 S = Some d \<longrightarrow> snd (snd d) \<noteq> fuse_id (el_fuse (el_st S))"
  shows "el_loop_inv (el_commit search S) \<and> el_pending (el_commit search S) \<and>
         el_props_of (el_commit search S) = el_props_of S \<and> el_debounced (el_commit search S) = el_debounced S \<and>
         snd (current_examples (el_st (el_commit search S))) =
           (if el_debounced S = [] then snd (el_examples (el_props_of S))
            else search (fuse_docs (el_fuse (el_st S))) (el_debounced S))"
proof -
  have "fuse_id (el_fuse (el_st S)) \<noteq> NewObj (el_next S)" using assms(2) by auto
  moreover have "el_last_deps1 S \<noteq> Some (el_deps1_of (el_props_of S) (el_st S))"
    using assms(3) by (auto simp: el_deps1_of_def)
  moreover have "el_last_deps2 S \<noteq> Some (el_deps2_of (el_props_of S) (el_st S) (el_debounced S))"
    using assms(4) by (auto simp: el_deps2_of_def)
  ultimately show ?thesis
    using assms
    by (simp add: el_commit_def examples_effect_def debounced_search_effect_def search_for_examples_def
        apply_el_updates_def el_loop_inv_def el_deps1_of_def el_deps2_of_def Let_def)
      (auto dest: arg_cong [where f = "\<lambda>s. fuse_id (el_fuse s)"])
qed

lemma el_mount_loop:
  assumes "snd (el_examples p) \<noteq> []"
  shows "el_loop_inv (el_mount search p) \<and> el_pending (el_mount search p) \<and>
         el_shown_ok search (el_mount search p) \<and> el_props_of (el_mount search p) = p"
  using el_commit_loop [of "\<lparr>el_props_of = p,
        el_st = \<lparr>el_fuse = \<lparr>fuse_id = NewObj 0, fuse_docs = []\<rparr>, search_phrase = [],
                 current_examples = el_examples p\<rparr>,
        el_debounced = [], el_next = 1, el_last_deps1 = None, el_last_deps2 = None, el_pending = False\<rparr>" search]
    assms
  by (simp add: el_mount_def el_shown_ok_def)

lemma el_step_loop:
  assumes "el_loop_inv S" and "el_pending S" and "el_shown_ok search S" and "el_user_event e"
  shows "el_loop_inv (fst (el_step search S e)) \<and> el_pending (fst (el_step search S e)) \<and>
         el_shown_ok search (fst (el_step search S e)) \<and> el_props_of (fst (el_step search S e)) = el_props_of S"
proof -
  have commit: "el_loop_inv (el_commit search S') \<and> el_pending (el_commit search S') \<and>
                el_shown_ok search (el_commit search S') \<and> el_props_of (el_commit search S') = el_props_of S"
    if "el_props_of S' = el_props_of S" and "el_fuse (el_st S') = el_fuse (el_st S)"
      and "el_next S' = el_next S" and "el_last_deps1 S' = el_last_deps1 S" and "el_last_deps2 S' = el_last_deps2 S"
    for S'
    using el_commit_loop [of S' search] assms(1) that by (simp add: el_loop_inv_def el_shown_ok_def)
  show ?thesis
    using assms(4)
  proof (cases e)
    case (ElSearchInput v)
    then show ?thesis using assms(1-3) commit [of "S\<lparr>el_st := apply_el_update (el_st S) (SetSearchPhrase v)\<rparr>"] by simp
  next
    case (ElDebounced v)
    then show ?thesis using assms(1-3) commit [of "S\<lparr>el_debounced := v\<rparr>"] by simp
  next
    case ElFrame
    then show ?thesis using assms(2) commit [of S] by simp
  qed (use assms in simp_all)
qed

lemma el_commit_pending: "el_pending (el_commit search S) \<longleftrightarrow> el_st (el_commit search S) \<noteq> el_st S"
  by (simp add: el_commit_def Let_def split: prod.splits)

lemma el_run_Cons_fst [simp]:
  "fst (el_run search S (e # es)) = fst (el_run search (fst (el_step search S e)) es)"
  by (simp split: prod.splits)

lemma el_run_loop:
  assumes "el_loop_inv S" and "el_pending S" and "el_shown_ok search S" and "\<forall>e\<in>set es. el_user_event e"
  shows "el_loop_inv (fst (el_run search S es)) \<and> el_pending (fst (el_run search S es)) \<and>
         el_shown_ok search (fst (el_run search S es)) \<and> el_props_of (fst (el_run search S es)) = el_props_of S"
  using assms
proof (induction es arbitrary: S)
  case Nil
  then show ?case by simp
next
  case (Cons e es)
  obtain S' out where st: "el_step search S e = (S', out)" by fastforce
  have "el_loop_inv S' \<and> el_pending S' \<and> el_shown_ok search S' \<and> el_props_of S' = el_props_of S"
    using el_step_loop [of S search e] Cons.prems st by simp
  then show ?case
    using Cons.IH [of S'] Cons.prems(4) st by (simp del: el_run.simps(2))
qed

subsection \<open>Properties of the examples list\<close>

text \<open>
  Claim C29: the examples list never settles. With examples to show, whatever the user
  types, whatever the debounce hook yields and however many frames pass (the props
  unchanged), another render is always pending, and the next frame changes the state
  again: the first effect stores a new Fuse index at every run, which gives
  \<open>searchForExamples\<close> a new identity, which runs the effect again.
\<close>

theorem examples_list_never_settles:
  assumes "snd (el_examples p) \<noteq> []" and "\<forall>e\<in>set es. el_user_event e"
  shows "el_pending (fst (el_run search (el_mount search p) es)) \<and>
         el_st (fst (el_step search (fst (el_run search (el_mount search p) es)) ElFrame)) \<noteq>
           el_st (fst (el_run search (el_mount search p) es))"
proof -
  let ?S = "fst (el_run search (el_mount search p) es)"
  have S: "el_loop_inv ?S \<and> el_pending ?S \<and> el_shown_ok search ?S"
    using el_run_loop [of "el_mount search p" search es] el_mount_loop [OF assms(1), of search] assms(2) by simp
  then have "el_pending (fst (el_step search ?S ElFrame))"
    using el_step_loop [of ?S search ElFrame] by simp
  then show ?thesis
    using S el_commit_pending [of search ?S] by simp
qed

lemma examples_list_never_settles_witness:
  "el_pending (fst (el_run (\<lambda>xs q. filter (\<lambda>e. ex_name e = q) xs)
      (el_mount (\<lambda>xs q. filter (\<lambda>e. ex_name e = q) xs)
         \<lparr>el_examples = (PropObj 0, [\<lparr>ex_name = ''a'', ex_code = ''x''\<rparr>]), el_is_loading = False\<rparr>)
      [ElSearchInput ''a'', ElFrame, ElDebounced ''a'', ElFrame]))"
proof -
  have h1: "snd (el_examples \<lparr>el_examples = (PropObj 0, [\<lparr>ex_name = ''a'', ex_code = ''x''\<rparr>]), el_is_loading = False\<rparr>) \<noteq> []"
    by simp
  have h2: "\<forall>e\<in>set [ElSearchInput ''a'', ElFrame, ElDebounced ''a'', ElFrame]. el_user_event e" by simp
  show ?thesis
    by (rule conjunct1 [OF examples_list_never_settles [OF h1 h2]])
qed

text \<open>
  With examples to show and the props unchanged, after any events the list holds all the
  examples while the debounced phrase is empty, and otherwise their search for it.
\<close>

lemma el_run_shown:
  assumes "snd (el_examples p) \<noteq> []" and "\<forall>e\<in>set es. el_user_event e"
  shows "snd (current_examples (el_st (fst (el_run search (el_mount search p) es)))) =
           (if el_debounced (fst (el_run search (el_mount search p) es)) = [] then snd (el_examples p)
            else search (snd (el_examples p)) (el_debounced (fst (el_run search (el_mount search p) es))))"
  using el_run_loop [of "el_mount search p" search es] el_mount_loop [OF assms(1), of search] assms(2)
  by (simp add: el_shown_ok_def)

end
