(* ===== verification/Button.thy ===== *)
theory Button
  imports Prelude
begin

text \<open>
  The button: \<open>Button\<close> of \<open>src/src/components/button/button.component.tsx\<close>, a pure
  function of its props. Its rendering is modelled as the structure it returns: the
  wrapper's test id and the list of its children, each a label wrapper with the text it
  shows or an icon wrapper with the icon element it shows, each with its test id.
  \<open>Button.defaultProps\<close> (lines 98--103) fill in the props left \<open>undefined\<close>. The enum
  \<open>ButtonIconPlacement\<close> is imported from \<open>enums/button-icon-placement\<close>, a module that is
  not in the repository; its uses (\<open>Left\<close>, \<open>Right\<close>, and the test's \<open>-1\<close>) give the
  three cases of the datatype. Icons are the elements the code passes: the spinner, the
  success icon and the share icon, each with its own props, and any other element.
\<close>

subsection \<open>Data\<close>

datatype button_icon_placement = PlacementLeft | PlacementRight | PlacementOther

datatype icon_element =
    SpinnerIcon js_string
  | CopySuccessIcon js_string
  | ShareIconElement
  | OtherIcon js_string

record button_props =
  bp_label :: js_string
  bp_icon :: "icon_element option"
  bp_icon_placement :: "button_icon_placement option"
  bp_is_loading :: "bool option"
  bp_is_copied :: "bool option"
  bp_test_id :: "js_string option"

datatype content_child =
    LabelWrapper (label_test_id: js_string) (label_text: js_string)
  | IconWrapper (icon_test_id: js_string) (wrapped_icon: "icon_element option")

record button_content =
  content_test_id :: js_string
  content_children :: "content_child list"

record button_view =
  button_test_id :: js_string
  button_inner :: button_content

subsection \<open>Operations\<close>

definition button_default_props :: "button_props \<Rightarrow> button_props" where
  "button_default_props p =
     p\<lparr>bp_icon_placement := Some (case bp_icon_placement p of None \<Rightarrow> PlacementLeft | Some x \<Rightarrow> x),
       bp_is_loading := Some (case bp_is_loading p of None \<Rightarrow> False | Some b \<Rightarrow> b),
       bp_is_copied := Some (case bp_is_copied p of None \<Rightarrow> False | Some b \<Rightarrow> b),
       bp_test_id := Some (case bp_test_id p of None \<Rightarrow> ''ti-button'' | Some t \<Rightarrow> t)\<rparr>"

text \<open>
  \<open>drawLabelWithIcon\<close> (lines 26--74). Its first test reads the prop \<open>icon\<close>, not its
  argument \<open>targetIcon\<close>; the template literals print the test id, which the default
  props make defined.
\<close>

definition draw_label_with_icon ::
  "button_props \<Rightarrow> js_string \<Rightarrow> icon_element option \<Rightarrow> button_content" where
  "draw_label_with_icon p targetLabel targetIcon =
     (let testId = js_to_string (bp_test_id p);
          wrapper = (\<lambda>cs. \<lparr>content_test_id = testId @ ''--btn-content'', content_children = cs\<rparr>);
          labelW = LabelWrapper (testId @ ''--btn-label'') targetLabel
      in if bp_icon p = None then wrapper [labelW]
         else (case bp_icon_placement p of
                 Some PlacementLeft \<Rightarrow> wrapper [IconWrapper (testId @ ''--btn-icon-left'') targetIcon, labelW]
               | Some PlacementRight \<Rightarrow> wrapper [labelW, IconWrapper (testId @ ''--btn-icon-right'') targetIcon]
               | _ \<Rightarrow> wrapper [labelW]))"

text \<open>\<open>drawButtonContent\<close> (lines 76--89).\<close>

definition draw_button_content :: "button_props \<Rightarrow> button_content" where
  "draw_button_content p =
     (if bp_is_loading p = Some True
      then draw_label_with_icon p [] (Some (SpinnerIcon ''ti-button-spinner-icon''))
      else if bp_is_copied p = Some True
      then draw_label_with_icon p ''Copied!'' (Some (CopySuccessIcon ''ti-button-copy-success-icon''))
      else draw_label_with_icon p (bp_label p) (bp_icon p))"

text \<open>The component (lines 17--25 and 91--96) with its default props.\<close>

definition button_render :: "button_props \<Rightarrow> button_view" where
  "button_render props =
     (let p = button_default_props props
      in \<lparr>button_test_id = js_to_string (bp_test_id p), button_inner = draw_button_content p\<rparr>)"

text \<open>What a user sees of a rendered button: its icons and its label texts, in order.\<close>

definition shown_icons :: "button_view \<Rightarrow> icon_element list" where
  "shown_icons v = [i. IconWrapper t (Some i) \<leftarrow> content_children (button_inner v)]"

definition shown_labels :: "button_view \<Rightarrow> js_string list" where
  "shown_labels v = [l. LabelWrapper t l \<leftarrow> content_children (button_inner v)]"

text \<open>Which children of the content wrapper are icon wrappers, in order: the sibling
  order the button's tests check.\<close>

fun is_icon_wrapper :: "content_child \<Rightarrow> bool" where
  "is_icon_wrapper (IconWrapper t i) = True"
| "is_icon_wrapper (LabelWrapper t l) = False"

subsection \<open>The share icon and the button group\<close>

text \<open>
  \<open>ShareIcon\<close> (\<open>src/src/icons/share-icon/share-icon.tsx\<close>) takes the props
  \<open>IconSharedProps\<close> of \<open>src/src/icons/types/icon-shared-props.ts\<close>; React fills each prop
  left \<open>undefined\<close> from \<open>ShareIcon.defaultProps\<close>, a copy of \<open>defaultIconSharedProps\<close>. A
  width or height is a number or a string. The icon is what its \<open><svg>\<close> element shows.
  \<open>ButtonGroup\<close> (\<open>src/src/components/button-group/button-group.tsx\<close>) wraps its children
  in a \<open><div>\<close> with the CSS module's class \<open>buttonGroup\<close> (the parameter \<open>css_button_group\<close>).
\<close>

datatype css_length = LengthNum nat | LengthStr js_string

record icon_shared_props =
  icon_width :: "css_length option"
  icon_height :: "css_length option"
  icon_test_id :: "js_string option"

definition default_icon_shared_props :: icon_shared_props where
  "default_icon_shared_props =
     \<lparr>icon_width = Some (LengthNum 16), icon_height = Some (LengthNum 16), icon_test_id = Some ''ti-icon''\<rparr>"

definition with_default_icon_props :: "icon_shared_props \<Rightarrow> icon_shared_props" where
  "with_default_icon_props p =
     \<lparr>icon_width = (case icon_width p of None \<Rightarrow> icon_width default_icon_shared_props | Some w \<Rightarrow> Some w),
      icon_height = (case icon_height p of None \<Rightarrow> icon_height default_icon_shared_props | Some h \<Rightarrow> Some h),
      icon_test_id = (case icon_test_id p of None \<Rightarrow> icon_test_id default_icon_shared_props | Some t \<Rightarrow> Some t)\<rparr>"

record svg_view =
  svg_width :: "css_length option"
  svg_height :: "css_length option"
  svg_test_id :: "js_string option"
  svg_fill :: js_string
  svg_class :: js_string
  svg_view_box :: js_string
  svg_path :: js_string

definition share_icon_path :: js_string where
  "share_icon_path = ''M11 2.5a2.5 2.5 0 1 1 .603 1.628l-6.718 3.12a2.499 2.499 0 0 1 0 1.504l6.718 3.12a2.5 2.5 0 1 1-.488.876l-6.718-3.12a2.5 2.5 0 1 1 0-3.256l6.718-3.12A2.5 2.5 0 0 1 11 2.5z''"

definition share_icon :: "icon_shared_props \<Rightarrow> svg_view" where
  "share_icon props =
     (let p = with_default_icon_props props
      in \<lparr>svg_width = icon_width p, svg_height = icon_height p, svg_test_id = icon_test_id p,
          svg_fill = ''currentColor'', svg_class = ''bi bi-share-fill'', svg_view_box = ''0 0 16 16'',
          svg_path = share_icon_path\<rparr>)"

record 'a button_group_view =
  bg_class :: js_string
  bg_test_id :: js_string
  bg_children :: "'a list"

definition button_group :: "js_string \<Rightarrow> 'a list \<Rightarrow> 'a button_group_view" where
  "button_group css_button_group children =
     \<lparr>bg_class = css_button_group, bg_test_id = ''ti-btn-group'', bg_children = children\<rparr>"

subsection \<open>Properties of the button\<close>

text \<open>
  Claim C31: a button with an icon shows its status in the icon's place. Given the prop
  \<open>icon\<close>, the button shows, while loading, the spinner and an empty label; once copied,
  the success icon and \<open>Copied!\<close>; otherwise the given icon and its label. The icon comes
  before the label for the default placement \<open>Left\<close>, after it for \<open>Right\<close>, and is not
  shown for any other placement (the cases of \<open>src/test/components/button.component.spec.tsx\<close>).
\<close>

theorem button_icon_status_layout:
  assumes "bp_icon p = Some ic"
  shows "shown_icons (button_render p) =
           (if bp_icon_placement p = Some PlacementOther then []
            else [if bp_is_loading p = Some True then SpinnerIcon ''ti-button-spinner-icon''
                  else if bp_is_copied p = Some True then CopySuccessIcon ''ti-button-copy-success-icon''
                  else ic]) \<and>
         shown_labels (button_render p) =
           [if bp_is_loading p = Some True then [] else if bp_is_copied p = Some True then ''Copied!'' else bp_label p] \<and>
         map is_icon_wrapper (content_children (button_inner (button_render p))) =
           (case bp_icon_placement p of
              Some PlacementRight \<Rightarrow> [False, True]
            | Some PlacementOther \<Rightarrow> [False]
            | _ \<Rightarrow> [True, False])"
  using assms
  by (simp add: button_render_def draw_button_content_def draw_label_with_icon_def button_default_props_def
      shown_icons_def shown_labels_def Let_def split: option.splits button_icon_placement.splits)

lemma button_icon_status_layout_witness:
  "shown_icons (button_render \<lparr>bp_label = ''Test Button'', bp_icon = Some (OtherIcon ''test-icon''),
       bp_icon_placement = None, bp_is_loading = None, bp_is_copied = Some True, bp_test_id = None\<rparr>) =
     [CopySuccessIcon ''ti-button-copy-success-icon''] \<and>
   map is_icon_wrapper (content_children (button_inner (button_render \<lparr>bp_label = ''Test Button'',
       bp_icon = Some (OtherIcon ''test-icon''), bp_icon_placement = None, bp_is_loading = None,
       bp_is_copied = Some True, bp_test_id = None\<rparr>))) = [True, False]"
  using button_icon_status_layout [of "\<lparr>bp_label = ''Test Button'', bp_icon = Some (OtherIcon ''test-icon''),
       bp_icon_placement = None, bp_is_loading = None, bp_is_copied = Some True, bp_test_id = None\<rparr>"
       "OtherIcon ''test-icon''"]
  by simp

text \<open>
  A button without an icon never shows the loading or copied icon: \<open>drawLabelWithIcon\<close>
  tests the prop \<open>icon\<close>, not its argument, so while loading it shows only an empty label
  and once copied only \<open>Copied!\<close>. The button's tests expect the spinner and the success
  icon for exactly such buttons.
\<close>

lemma button_no_icon_hides_status:
  assumes "bp_icon p = None"
  shows "shown_icons (button_render p) = [] \<and>
         shown_labels (button_render p) =
           [if bp_is_loading p = Some True then [] else if bp_is_copied p = Some True then ''Copied!'' else bp_label p]"
  using assms
  by (simp add: button_render_def draw_button_content_def draw_label_with_icon_def button_default_props_def
      shown_icons_def shown_labels_def Let_def split: option.splits)

text \<open>
  The default props leave no prop of a share icon undefined, and the icon the share button
  passes (\<open><ShareIcon width="0.8rem" height="0.8rem" />\<close>, \<open>share-button.tsx\<close>, line 55)
  keeps its size and takes the default test id.
\<close>

lemma share_icon_props_defined:
  "svg_width (share_icon p) \<noteq> None \<and> svg_height (share_icon p) \<noteq> None \<and> svg_test_id (share_icon p) \<noteq> None"
  by (simp add: share_icon_def with_default_icon_props_def default_icon_shared_props_def split: option.splits)

lemma share_button_icon:
  "share_icon \<lparr>icon_width = Some (LengthStr ''0.8rem''), icon_height = Some (LengthStr ''0.8rem''), icon_test_id = None\<rparr> =
     \<lparr>svg_width = Some (LengthStr ''0.8rem''), svg_height = Some (LengthStr ''0.8rem''), svg_test_id = Some ''ti-icon'',
      svg_fill = ''currentColor'', svg_class = ''bi bi-share-fill'', svg_view_box = ''0 0 16 16'',
      svg_path = share_icon_path\<rparr>"
  by (simp add: share_icon_def with_default_icon_props_def default_icon_shared_props_def)

end
