(* ===== verification/Widgets.thy ===== *)
theory Widgets
  imports Prelude
begin

text \<open>
  Two presentational components with logic of their own. \<open>WorkerSelect\<close>
  (\<open>src/src/components/worker-select/worker-select.tsx\<close>) offers the grammar workers in a
  \<open><select>\<close>: the model gives each option's value attribute and text, the select's value,
  and what \<open>onChange\<close> passes to its callback when an option is chosen (the browser gives
  the chosen option's value attribute as \<open>event.currentTarget.value\<close>). \<open>ErrorsList\<close> and
  \<open>ErrorsListItem\<close> (\<open>src/src/components/errors-list/\<close>) show the parser's status and
  errors: the model gives the status shown and the text of each item. \<open>WorkerInfo\<close> and
  \<open>GrammarParsingError\<close> are types of the library \<open>@syntaxica/lib\<close>; only their fields the
  code reads are modelled. Reading \<open>versions[0]\<close> of a worker without versions yields
  \<open>undefined\<close>, and reading a property of it throws: the error value \<open>TypeError\<close>.
\<close>

subsection \<open>Data\<close>

record worker_version =
  wv_name :: js_string
  wv_url :: js_string

record worker_info =
  wi_name :: js_string
  wi_versions :: "worker_version list"

datatype widget_error = WidgetTypeError

record select_option =
  option_value :: js_string
  option_text :: js_string

record grammar_parsing_error =
  gpe_line_index :: int
  gpe_char_position :: int
  gpe_message :: js_string

datatype errors_status =
    StatusInitializing
  | StatusParsing
  | StatusNoErrors
  | StatusErrors js_string "js_string list"

subsection \<open>The worker select\<close>

definition first_version :: "worker_info \<Rightarrow> worker_version option" where
  "first_version w = js_at (wi_versions w) 0"

text \<open>\<open>getOptions\<close> (lines 12--22): the value attribute \<open>worker.versions[0].name\<close> and the
  text \<open>value?.name ?? ''\<close> of every option.\<close>

definition get_options :: "worker_info option \<Rightarrow> worker_info list \<Rightarrow> widget_error + select_option list" where
  "get_options value workers =
     (if \<forall>w\<in>set workers. first_version w \<noteq> None
      then Inr (map (\<lambda>w. \<lparr>option_value = wv_name (the (first_version w)),
                          option_text = (case value of None \<Rightarrow> [] | Some v \<Rightarrow> wi_name v)\<rparr>) workers)
      else Inl WidgetTypeError)"

text \<open>The select's value (line 29).\<close>

definition select_value :: "worker_info option \<Rightarrow> js_string" where
  "select_value value =
     (case value of None \<Rightarrow> [] | Some v \<Rightarrow> (case first_version v of None \<Rightarrow> [] | Some ver \<Rightarrow> wv_url ver))"

text \<open>\<open>getInfoByUrl\<close> (line 24): \<open>find\<close> tests the workers in order.\<close>

fun get_info_by_url :: "worker_info list \<Rightarrow> js_string \<Rightarrow> widget_error + worker_info option" where
  "get_info_by_url [] url = Inr None"
| "get_info_by_url (w # ws) url =
     (case first_version w of
        None \<Rightarrow> Inl WidgetTypeError
      | Some ver \<Rightarrow> if wv_url ver = url then Inr (Some w) else get_info_by_url ws url)"

text \<open>\<open>onChange\<close> (line 30): the worker passed to the callback for the select's new value,
  \<open>undefined\<close> (\<open>None\<close>) when the fallback \<open>workers[0]\<close> does not exist.\<close>

definition worker_select_change :: "worker_info list \<Rightarrow> js_string \<Rightarrow> widget_error + worker_info option" where
  "worker_select_change workers eventValue =
     (case get_info_by_url workers eventValue of
        Inl e \<Rightarrow> Inl e
      | Inr (Some w) \<Rightarrow> Inr (Some w)
      | Inr None \<Rightarrow> Inr (js_at workers 0))"

text \<open>Choosing the \<open>i\<close>-th option: the browser reports that option's value attribute.\<close>

definition worker_select_choose :: "worker_info option \<Rightarrow> worker_info list \<Rightarrow> nat \<Rightarrow> widget_error + worker_info option" where
  "worker_select_choose value workers i =
     (case get_options value workers of
        Inl e \<Rightarrow> Inl e
      | Inr opts \<Rightarrow> worker_select_change workers (option_value (opts ! i)))"

subsection \<open>The errors list\<close>

text \<open>\<open>Number.prototype.toString\<close> on an integer: its decimal digits, after a minus sign
  when it is negative.\<close>

fun nat_to_decimal :: "nat \<Rightarrow> js_string" where
  "nat_to_decimal n =
     (if n < 10 then [char_of (48 + n)] else nat_to_decimal (n div 10) @ [char_of (48 + n mod 10)])"

definition js_int_to_string :: "int \<Rightarrow> js_string" where
  "js_int_to_string i = (if i < 0 then ''-'' @ nat_to_decimal (nat (- i)) else nat_to_decimal (nat i))"

text \<open>\<open>parserErrorToString\<close> of \<open>ErrorsListItem\<close> (\<open>errors-list-item.tsx\<close>, lines 11--12).\<close>

definition parser_error_to_string :: "grammar_parsing_error \<Rightarrow> js_string" where
  "parser_error_to_string e =
     ''[line '' @ js_int_to_string (gpe_line_index e) @ '':'' @ js_int_to_string (gpe_char_position e) @
     ''] '' @ gpe_message e"

text \<open>\<open>ErrorsList\<close> (\<open>errors-list.tsx\<close>, lines 15--65): the status it shows.\<close>

definition errors_list_status :: "grammar_parsing_error list \<Rightarrow> bool \<Rightarrow> bool \<Rightarrow> errors_status" where
  "errors_list_status errors isParsing isInitializing =
     (if isInitializing then StatusInitializing
      else if isParsing then StatusParsing
      else if errors = [] then StatusNoErrors
      else StatusErrors (''Found '' @ [CHR 0x27] @ js_int_to_string (int (length errors)) @ [CHR 0x27] @
                         '' parser errors'')
             (map parser_error_to_string errors))"

subsection \<open>The workers hook\<close>

text \<open>
  \<open>useWorkers\<close> (\<open>src/src/hooks/workers/workers.hook.ts\<close>): two \<open>useState\<close> hooks and an
  effect with no dependencies, so it runs once, after the first commit. Its \<open>async\<close> body
  sets \<open>isLoading\<close> before its first \<open>await\<close>; the fetch of the workers list then
  answers with the parsed list (\<open>WhResponse\<close>) or rejects (\<open>WhFailure\<close>), a rejection
  nothing catches. \<open>console.log\<close> is kept as the list of values logged.
\<close>

datatype wh_fetch = FetchNotStarted | FetchPending | FetchSettled

record workers_hook =
  wh_loading :: bool
  wh_workers :: "worker_info list"
  wh_fetch :: wh_fetch
  wh_log :: "worker_info list list"

datatype wh_event = WhCommit | WhResponse "worker_info list" | WhFailure

definition wh_init :: workers_hook where
  "wh_init = \<lparr>wh_loading = False, wh_workers = [], wh_fetch = FetchNotStarted, wh_log = []\<rparr>"

fun wh_step :: "workers_hook \<Rightarrow> wh_event \<Rightarrow> workers_hook" where
  "wh_step S WhCommit =
     (if wh_fetch S = FetchNotStarted then S\<lparr>wh_loading := True, wh_fetch := FetchPending\<rparr> else S)"
| "wh_step S (WhResponse receivedWorkers) =
     (if wh_fetch S = FetchPending
      then S\<lparr>wh_log := wh_log S @ [receivedWorkers], wh_workers := receivedWorkers, wh_loading := False,
             wh_fetch := FetchSettled\<rparr>
      else S)"
| "wh_step S WhFailure = (if wh_fetch S = FetchPending then S\<lparr>wh_fetch := FetchSettled\<rparr> else S)"

definition wh_run :: "workers_hook \<Rightarrow> wh_event list \<Rightarrow> workers_hook" where
  "wh_run S es = fold (\<lambda>e S. wh_step S e) es S"

subsection \<open>Lemmas\<close>

lemma first_version_hd: "wi_versions w \<noteq> [] \<Longrightarrow> first_version w = Some (hd (wi_versions w))"
  by (simp add: first_version_def js_at_def hd_conv_nth)

lemma get_info_by_url_none:
  assumes "\<forall>w\<in>set ws. wi_versions w \<noteq> [] \<and> wv_url (hd (wi_versions w)) \<noteq> url"
  shows "get_info_by_url ws url = Inr None"
  using assms by (induction ws) (simp_all add: first_version_hd)

lemma get_info_by_url_found:
  assumes "\<forall>w\<in>set ws. wi_versions w \<noteq> []"
    and "distinct (map (\<lambda>w. wv_url (hd (wi_versions w))) ws)" and "k < length ws"
  shows "get_info_by_url ws (wv_url (hd (wi_versions (ws ! k)))) = Inr (Some (ws ! k))"
  using assms
proof (induction ws arbitrary: k)
  case (Cons w ws)
  show ?case
  proof (cases k)
    case (Suc j)
    with Cons.prems have "wv_url (hd (wi_versions (ws ! j))) \<in> set (map (\<lambda>w. wv_url (hd (wi_versions w))) ws)"
      by simp
    with Cons.prems have "wv_url (hd (wi_versions w)) \<noteq> wv_url (hd (wi_versions (ws ! j)))"
      by auto
    with Cons.IH [of j] Cons.prems Suc show ?thesis by (simp add: first_version_hd)
  qed (use Cons.prems in \<open>simp add: first_version_hd\<close>)
qed simp

subsection \<open>Properties of the worker select\<close>

text \<open>
  Claim C32: \<open>onChange\<close> passes the worker whose first version has the reported url. When
  every worker has a version and the first version urls are distinct, the value of the
  \<open>k\<close>-th worker's url passes the \<open>k\<close>-th worker to the callback, and a value that is no
  worker's url passes \<open>workers[0]\<close> (the cases of \<open>src/test/components/worker-select.spec.tsx\<close>).
\<close>

theorem worker_select_change_by_url:
  assumes "\<forall>w\<in>set workers. wi_versions w \<noteq> []"
    and "distinct (map (\<lambda>w. wv_url (hd (wi_versions w))) workers)" and "k < length workers"
  shows "worker_select_change workers (wv_url (hd (wi_versions (workers ! k)))) = Inr (Some (workers ! k)) \<and>
         (v \<notin> set (map (\<lambda>w. wv_url (hd (wi_versions w))) workers) \<longrightarrow>
            worker_select_change workers v = Inr (Some (workers ! 0)))"
proof (intro conjI impI)
  show "worker_select_change workers (wv_url (hd (wi_versions (workers ! k)))) = Inr (Some (workers ! k))"
    using get_info_by_url_found [OF assms] by (simp add: worker_select_change_def)
next
  assume "v \<notin> set (map (\<lambda>w. wv_url (hd (wi_versions w))) workers)"
  with assms(1) have "get_info_by_url workers v = Inr None"
    by (intro get_info_by_url_none) auto
  moreover have "workers \<noteq> []" using assms(3) by auto
  ultimately show "worker_select_change workers v = Inr (Some (workers ! 0))"
    by (simp add: worker_select_change_def js_at_def)
qed

lemma worker_select_change_by_url_witness:
  "worker_select_change
     [\<lparr>wi_name = ''worker0'', wi_versions = [\<lparr>wv_name = ''latest'', wv_url = ''https://test0.pl''\<rparr>]\<rparr>,
      \<lparr>wi_name = ''worker1'', wi_versions = [\<lparr>wv_name = ''latest'', wv_url = ''https://test1.pl''\<rparr>]\<rparr>]
     ''https://test1.pl'' =
   Inr (Some \<lparr>wi_name = ''worker1'', wi_versions = [\<lparr>wv_name = ''latest'', wv_url = ''https://test1.pl''\<rparr>]\<rparr>) \<and>
   worker_select_change
     [\<lparr>wi_name = ''worker0'', wi_versions = [\<lparr>wv_name = ''latest'', wv_url = ''https://test0.pl''\<rparr>]\<rparr>,
      \<lparr>wi_name = ''worker1'', wi_versions = [\<lparr>wv_name = ''latest'', wv_url = ''https://test1.pl''\<rparr>]\<rparr>]
     ''non-existent-file-name'' =
   Inr (Some \<lparr>wi_name = ''worker0'', wi_versions = [\<lparr>wv_name = ''latest'', wv_url = ''https://test0.pl''\<rparr>]\<rparr>)"
  using worker_select_change_by_url [of
      "[\<lparr>wi_name = ''worker0'', wi_versions = [\<lparr>wv_name = ''latest'', wv_url = ''https://test0.pl''\<rparr>]\<rparr>,
        \<lparr>wi_name = ''worker1'', wi_versions = [\<lparr>wv_name = ''latest'', wv_url = ''https://test1.pl''\<rparr>]\<rparr>]"
      1 "''non-existent-file-name''"]
  by simp

text \<open>
  The options cannot report a url. Each option's value attribute is its worker's first
  version name, but \<open>onChange\<close> looks the chosen value up among the first version urls:
  when no version name is also a version url, choosing any option in the browser passes
  \<open>workers[0]\<close> to the callback. Every option shows the name of the current worker, not
  its own.
\<close>

lemma worker_select_always_first:
  assumes "i < length workers" and "\<forall>w\<in>set workers. wi_versions w \<noteq> []"
    and "\<forall>w\<in>set workers. \<forall>w'\<in>set workers. wv_name (hd (wi_versions w)) \<noteq> wv_url (hd (wi_versions w'))"
  shows "worker_select_choose value workers i = Inr (Some (workers ! 0)) \<and>
         get_options value workers =
           Inr (map (\<lambda>w. \<lparr>option_value = wv_name (hd (wi_versions w)),
                           option_text = (case value of None \<Rightarrow> [] | Some v \<Rightarrow> wi_name v)\<rparr>) workers)"
proof -
  have opts: "get_options value workers =
           Inr (map (\<lambda>w. \<lparr>option_value = wv_name (hd (wi_versions w)),
                           option_text = (case value of None \<Rightarrow> [] | Some v \<Rightarrow> wi_name v)\<rparr>) workers)"
    using assms(2) by (simp add: get_options_def first_version_hd)
  have "get_info_by_url workers (wv_name (hd (wi_versions (workers ! i)))) = Inr None"
    using assms nth_mem [OF assms(1)] by (intro get_info_by_url_none) metis
  then have "worker_select_choose value workers i = Inr (js_at workers 0)"
    using opts assms(1) by (simp add: worker_select_choose_def worker_select_change_def)
  moreover have "workers \<noteq> []" using assms(1) by auto
  ultimately show ?thesis
    using opts by (simp add: js_at_def)
qed

lemma worker_select_always_first_example:
  "worker_select_choose (Some \<lparr>wi_name = ''Cypher'', wi_versions = [\<lparr>wv_name = ''v1'', wv_url = ''https://a/w1.js''\<rparr>]\<rparr>)
     [\<lparr>wi_name = ''Cypher'', wi_versions = [\<lparr>wv_name = ''v1'', wv_url = ''https://a/w1.js''\<rparr>]\<rparr>,
      \<lparr>wi_name = ''SQL'', wi_versions = [\<lparr>wv_name = ''v2'', wv_url = ''https://a/w2.js''\<rparr>]\<rparr>] 1 =
   Inr (Some \<lparr>wi_name = ''Cypher'', wi_versions = [\<lparr>wv_name = ''v1'', wv_url = ''https://a/w1.js''\<rparr>]\<rparr>)"
  using worker_select_always_first [of 1
      "[\<lparr>wi_name = ''Cypher'', wi_versions = [\<lparr>wv_name = ''v1'', wv_url = ''https://a/w1.js''\<rparr>]\<rparr>,
        \<lparr>wi_name = ''SQL'', wi_versions = [\<lparr>wv_name = ''v2'', wv_url = ''https://a/w2.js''\<rparr>]\<rparr>]"
      "Some \<lparr>wi_name = ''Cypher'', wi_versions = [\<lparr>wv_name = ''v1'', wv_url = ''https://a/w1.js''\<rparr>]\<rparr>"]
  by simp

text \<open>
  Claim C33: a failed workers request is final. When the fetch of the workers list
  rejects, nothing catches it: \<open>isLoading\<close> stays true and the list stays empty under
  every later event, so the worker select offers no option.
\<close>

theorem workers_failure_no_options:
  assumes "wh_fetch S = FetchPending" and "wh_workers S = []" and "wh_loading S"
  shows "wh_loading (wh_run (wh_step S WhFailure) es) \<and> wh_workers (wh_run (wh_step S WhFailure) es) = [] \<and>
         get_options value (wh_workers (wh_run (wh_step S WhFailure) es)) = Inr []"
proof -
  have "wh_fetch (wh_run T es) = FetchSettled \<and> wh_loading (wh_run T es) \<and> wh_workers (wh_run T es) = []"
    if "wh_fetch T = FetchSettled" "wh_loading T" "wh_workers T = []" for T
    using that
  proof (induction es arbitrary: T)
    case (Cons e es)
    then show ?case by (cases e) (simp_all add: wh_run_def)
  qed (simp add: wh_run_def)
  then show ?thesis using assms by (simp add: get_options_def)
qed

lemma workers_failure_no_options_witness:
  "wh_loading (wh_run (wh_step (wh_step wh_init WhCommit) WhFailure) [WhCommit, WhResponse []]) \<and>
   get_options None (wh_workers (wh_run (wh_step (wh_step wh_init WhCommit) WhFailure) [WhCommit, WhResponse []])) = Inr []"
proof -
  have "wh_fetch (wh_step wh_init WhCommit) = FetchPending" "wh_workers (wh_step wh_init WhCommit) = []"
       "wh_loading (wh_step wh_init WhCommit)"
    by (simp_all add: wh_init_def)
  from workers_failure_no_options [OF this, of "[WhCommit, WhResponse []]" None] show ?thesis by blast
qed

end
