(* ===== verification/ShareButton.thy ===== *)
theory ShareButton
  imports Sharing Button
begin

text \<open>
  The share button: \<open>ShareButton\<close> of \<open>src/src/components/share-button/share-button.tsx\<close>
  as a component under React's render and effect semantics, with its asynchronous click
  handler. Its two \<open>useState\<close> hooks are the fields \<open>sb_loading\<close> and \<open>sb_copied\<close>.
  \<open>handleClick\<close> is an \<open>async\<close> function: it runs to its first \<open>await\<close> when the button is
  clicked and is then suspended until the network or the clipboard answers. Every call
  still suspended is a flow, identified by the order of the click that started it, at the
  \<open>await\<close> it waits on: the shortener's answer (\<open>shortenLink\<close>, a \<open>fetch\<close> and its
  \<open>response.json()\<close>) or the clipboard's (\<open>navigator.clipboard.writeText\<close>). Answers
  arrive in any order, as events naming their flow; a rejected promise ends its flow with
  no state update, as nothing catches it. The effect on \<open>[isCopied]\<close> arms a one-second
  timer that clears \<open>isCopied\<close> and is never cancelled: the pending timers are a count,
  all of them alike. A frame commits the current state: the effect runs when
  \<open>isCopied\<close> differs from its value at the effect's last run (React batches the updates
  of one task, so the values between two frames are never seen by the effect).
  \<open>encode\<close> and \<open>encodeURIComponent\<close> are library calls, kept as the record
  \<open>share_lib\<close>; the URL is \<open>share_url\<close> of \<open>Sharing\<close>. The rendering is the \<open>Button\<close>
  of \<open>Button\<close> with the share icon. Strict mode's second effect run in development
  builds is not modelled.
\<close>

subsection \<open>Data\<close>

record share_lib =
  lib_encode :: "js_string \<Rightarrow> js_string"
  lib_uri_escape :: "js_string \<Rightarrow> js_string"

datatype sb_stage = AwaitShorten js_string | AwaitClipboard js_string

record sb_sys =
  sb_loading :: bool
  sb_copied :: bool
  sb_flows :: "(nat \<times> sb_stage) list"
  sb_next_flow :: nat
  sb_timers :: nat
  sb_deps :: "bool option"
  sb_clipboard :: "js_string option"
  sb_requests :: "js_string list"

datatype sb_event =
    SbClick js_string js_string
  | SbShortenOk nat js_string
  | SbShortenFail nat
  | SbClipboardOk nat
  | SbClipboardFail nat
  | SbTimer
  | SbFrame

subsection \<open>Operations\<close>

definition sb_init :: sb_sys where
  "sb_init = \<lparr>sb_loading = False, sb_copied = False, sb_flows = [], sb_next_flow = 0, sb_timers = 0,
              sb_deps = None, sb_clipboard = None, sb_requests = []\<rparr>"

text \<open>A commit: the effect on \<open>[isCopied]\<close> (lines 49--51) runs when its dependency
  changed, and arms one more timer.\<close>

definition sb_commit :: "sb_sys \<Rightarrow> sb_sys" where
  "sb_commit S =
     (if sb_deps S = Some (sb_copied S) then S
      else S\<lparr>sb_deps := Some (sb_copied S), sb_timers := Suc (sb_timers S)\<rparr>)"

definition sb_mount :: sb_sys where
  "sb_mount = sb_commit sb_init"

definition sb_drop_flow :: "nat \<Rightarrow> sb_sys \<Rightarrow> sb_sys" where
  "sb_drop_flow i S = S\<lparr>sb_flows := filter (\<lambda>f. fst f \<noteq> i) (sb_flows S)\<rparr>"

text \<open>
  \<open>handleClick\<close> (lines 27--47): up to \<open>await shortenLink(targetUrl)\<close> on a click, on to
  \<open>await navigator.clipboard.writeText\<close> when the shortener answers, and to its end when
  the clipboard does. The code passed is the \<open>code\<close> prop of the rendered button.
\<close>

fun sb_step :: "share_lib \<Rightarrow> sb_sys \<Rightarrow> sb_event \<Rightarrow> sb_sys" where
  "sb_step L S (SbClick href code) =
     (let targetUrl = share_url (lib_encode L) (lib_uri_escape L) href code
      in S\<lparr>sb_loading := True, sb_flows := sb_flows S @ [(sb_next_flow S, AwaitShorten targetUrl)],
           sb_next_flow := Suc (sb_next_flow S), sb_requests := sb_requests S @ [targetUrl]\<rparr>)"
| "sb_step L S (SbShortenOk i shortUrl) =
     (case map_of (sb_flows S) i of
        Some (AwaitShorten _) \<Rightarrow>
          S\<lparr>sb_flows := map (\<lambda>f. if fst f = i then (i, AwaitClipboard shortUrl) else f) (sb_flows S)\<rparr>
      | _ \<Rightarrow> S)"
| "sb_step L S (SbShortenFail i) =
     (case map_of (sb_flows S) i of Some (AwaitShorten _) \<Rightarrow> sb_drop_flow i S | _ \<Rightarrow> S)"
| "sb_step L S (SbClipboardOk i) =
     (case map_of (sb_flows S) i of
        Some (AwaitClipboard shortUrl) \<Rightarrow>
          (sb_drop_flow i S)\<lparr>sb_clipboard := Some shortUrl, sb_loading := False, sb_copied := True\<rparr>
      | _ \<Rightarrow> S)"
| "sb_step L S (SbClipboardFail i) =
     (case map_of (sb_flows S) i of Some (AwaitClipboard _) \<Rightarrow> sb_drop_flow i S | _ \<Rightarrow> S)"
| "sb_step L S SbTimer =
     (if sb_timers S = 0 then S else S\<lparr>sb_timers := sb_timers S - 1, sb_copied := False\<rparr>)"
| "sb_step L S SbFrame = sb_commit S"

fun sb_run :: "share_lib \<Rightarrow> sb_sys \<Rightarrow> sb_event list \<Rightarrow> sb_sys" where
  "sb_run L S [] = S"
| "sb_run L S (e # es) = sb_run L (sb_step L S e) es"

fun is_click :: "sb_event \<Rightarrow> bool" where
  "is_click (SbClick _ _) = True"
| "is_click _ = False"

text \<open>What the component renders (lines 53--62): the button with the share icon.\<close>

definition sb_button_props :: "sb_sys \<Rightarrow> button_props" where
  "sb_button_props S =
     \<lparr>bp_label = ''Share'', bp_icon = Some ShareIconElement, bp_icon_placement = None,
      bp_is_loading = Some (sb_loading S), bp_is_copied = Some (sb_copied S),
      bp_test_id = Some ''ti-share-button''\<rparr>"

definition sb_view :: "sb_sys \<Rightarrow> button_view" where
  "sb_view S = button_render (sb_button_props S)"

text \<open>
  Two clicks whose second copy completes after a reset timer cleared \<open>isCopied\<close> and
  before the next frame: the effect then sees \<open>isCopied\<close> at the value of its last run.
\<close>

definition sb_stuck_events :: "js_string \<Rightarrow> js_string \<Rightarrow> js_string \<Rightarrow> sb_event list" where
  "sb_stuck_events href code u =
     [SbTimer, SbClick href code, SbFrame, SbShortenOk 0 u, SbClipboardOk 0, SbFrame,
      SbClick href code, SbFrame, SbShortenOk 1 u, SbTimer, SbClipboardOk 1, SbFrame]"

text \<open>A state with nothing in flight, no timer armed and the effect current keeps its
  \<open>isCopied\<close> under every event but a click.\<close>

definition sb_quiet :: "sb_sys \<Rightarrow> bool" where
  "sb_quiet S \<longleftrightarrow> sb_flows S = [] \<and> sb_timers S = 0 \<and> sb_deps S = Some (sb_copied S)"

subsection \<open>Lemmas\<close>

text \<open>The share button always has an icon, so it shows the spinner while loading, the
  success icon once copied, and the share icon otherwise, with the matching label.\<close>

lemma sb_view_shown:
  "shown_icons (sb_view S) =
     [if sb_loading S then SpinnerIcon ''ti-button-spinner-icon''
      else if sb_copied S then CopySuccessIcon ''ti-button-copy-success-icon'' else ShareIconElement] \<and>
   shown_labels (sb_view S) =
     [if sb_loading S then [] else if sb_copied S then ''Copied!'' else ''Share'']"
  by (simp add: sb_view_def sb_button_props_def button_render_def draw_button_content_def
      draw_label_with_icon_def button_default_props_def shown_icons_def shown_labels_def Let_def)

lemma sb_step_no_flows:
  assumes "sb_flows S = []" and "\<not> is_click e"
  shows "sb_flows (sb_step L S e) = [] \<and> sb_loading (sb_step L S e) = sb_loading S"
  using assms by (cases e) (simp_all add: sb_commit_def)

lemma sb_run_no_flows:
  assumes "sb_flows S = []" and "\<forall>e\<in>set es. \<not> is_click e"
  shows "sb_flows (sb_run L S es) = [] \<and> sb_loading (sb_run L S es) = sb_loading S"
  using assms
proof (induction es arbitrary: S)
  case (Cons e es)
  then show ?case using sb_step_no_flows [of S e L] by simp
qed simp

lemma sb_step_quiet:
  assumes "sb_quiet S" and "\<not> is_click e"
  shows "sb_quiet (sb_step L S e) \<and> sb_copied (sb_step L S e) = sb_copied S \<and>
         sb_loading (sb_step L S e) = sb_loading S"
  using assms by (cases e) (simp_all add: sb_quiet_def sb_commit_def)

lemma sb_run_quiet:
  assumes "sb_quiet S" and "\<forall>e\<in>set es. \<not> is_click e"
  shows "sb_quiet (sb_run L S es) \<and> sb_copied (sb_run L S es) = sb_copied S \<and>
         sb_loading (sb_run L S es) = sb_loading S"
  using assms
proof (induction es arbitrary: S)
  case (Cons e es)
  then show ?case using sb_step_quiet [of S e L] by simp
qed simp

subsection \<open>Properties of the share button\<close>

text \<open>
  Claim C24: from any quiet state with \<open>isCopied\<close> false (nothing in flight, no timer armed,
  the effect current), a click runs the share cycle. After the click and a frame the button
  shows the spinner and has posted the URL \<open>share_url\<close> builds from the current URL and
  the code; once the shortener and the clipboard answer the click's flow, the clipboard
  holds the short URL and the button shows the success icon with \<open>Copied!\<close>; after the reset
  timer it shows the share icon and \<open>Share\<close> again, and once the timer the effect re-armed
  has fired too the component is quiet again with \<open>isCopied\<close> false.
\<close>

theorem share_click_cycle:
  assumes "sb_quiet S" and "\<not> sb_copied S"
  shows "sb_requests (sb_run L S [SbClick href code, SbFrame]) =
           sb_requests S @ [share_url (lib_encode L) (lib_uri_escape L) href code] \<and>
         shown_icons (sb_view (sb_run L S [SbClick href code, SbFrame])) =
           [SpinnerIcon ''ti-button-spinner-icon''] \<and>
         sb_clipboard (sb_run L S [SbClick href code, SbFrame, SbShortenOk (sb_next_flow S) u,
           SbClipboardOk (sb_next_flow S), SbFrame]) = Some u \<and>
         shown_icons (sb_view (sb_run L S [SbClick href code, SbFrame, SbShortenOk (sb_next_flow S) u,
           SbClipboardOk (sb_next_flow S), SbFrame])) = [CopySuccessIcon ''ti-button-copy-success-icon''] \<and>
         shown_labels (sb_view (sb_run L S [SbClick href code, SbFrame, SbShortenOk (sb_next_flow S) u,
           SbClipboardOk (sb_next_flow S), SbFrame])) = [''Copied!''] \<and>
         shown_icons (sb_view (sb_run L S [SbClick href code, SbFrame, SbShortenOk (sb_next_flow S) u,
           SbClipboardOk (sb_next_flow S), SbFrame, SbTimer, SbFrame])) = [ShareIconElement] \<and>
         shown_labels (sb_view (sb_run L S [SbClick href code, SbFrame, SbShortenOk (sb_next_flow S) u,
           SbClipboardOk (sb_next_flow S), SbFrame, SbTimer, SbFrame])) = [''Share''] \<and>
         sb_quiet (sb_run L S [SbClick href code, SbFrame, SbShortenOk (sb_next_flow S) u,
           SbClipboardOk (sb_next_flow S), SbFrame, SbTimer, SbFrame, SbTimer, SbFrame]) \<and>
         \<not> sb_copied (sb_run L S [SbClick href code, SbFrame, SbShortenOk (sb_next_flow S) u,
           SbClipboardOk (sb_next_flow S), SbFrame, SbTimer, SbFrame, SbTimer, SbFrame])"
  using assms
  by (simp add: sb_view_shown sb_quiet_def sb_commit_def sb_drop_flow_def Let_def)

lemma share_click_cycle_witness:
  "sb_clipboard (sb_run \<lparr>lib_encode = id, lib_uri_escape = id\<rparr>
      (sb_run \<lparr>lib_encode = id, lib_uri_escape = id\<rparr> sb_mount [SbTimer])
      [SbClick ''https://s/'' ''MATCH'', SbFrame, SbShortenOk 0 ''https://t/1'', SbClipboardOk 0, SbFrame]) =
     Some ''https://t/1''"
proof -
  define S where "S = sb_run \<lparr>lib_encode = id, lib_uri_escape = id\<rparr> sb_mount [SbTimer]"
  have q: "sb_quiet S" and c: "\<not> sb_copied S" and n: "sb_next_flow S = 0"
    unfolding S_def by (simp_all add: sb_quiet_def sb_mount_def sb_init_def sb_commit_def)
  from share_click_cycle [OF q c, where L = "\<lparr>lib_encode = id, lib_uri_escape = id\<rparr>"
      and href = "''https://s/''" and code = "''MATCH''" and u = "''https://t/1''"] n
  show ?thesis unfolding S_def [symmetric] by simp
qed

text \<open>
  Claim C25: a failed request leaves the spinner on for good. When the only request in
  flight fails, at the shortener or at the clipboard, the rejected promise is never
  caught and \<open>setIsLoading(false)\<close> is never called: under every later event but a
  click the button keeps the spinner and an empty label.
\<close>

theorem share_failure_keeps_spinner:
  assumes "sb_loading S" and "sb_flows S = [(i, st)]"
    and "e = (case st of AwaitShorten _ \<Rightarrow> SbShortenFail i | AwaitClipboard _ \<Rightarrow> SbClipboardFail i)"
    and "\<forall>e'\<in>set es. \<not> is_click e'"
  shows "sb_flows (sb_run L (sb_step L S e) es) = [] \<and>
         shown_icons (sb_view (sb_run L (sb_step L S e) es)) = [SpinnerIcon ''ti-button-spinner-icon''] \<and>
         shown_labels (sb_view (sb_run L (sb_step L S e) es)) = [[]]"
proof -
  have "sb_flows (sb_step L S e) = [] \<and> sb_loading (sb_step L S e)"
    using assms(1-3) by (cases st) (simp_all add: sb_drop_flow_def Let_def)
  then show ?thesis
    using sb_run_no_flows [OF _ assms(4), of "sb_step L S e" L] sb_view_shown by simp
qed


lemma share_failure_keeps_spinner_witness:
  "shown_icons (sb_view (sb_run \<lparr>lib_encode = id, lib_uri_escape = id\<rparr>
     (sb_step \<lparr>lib_encode = id, lib_uri_escape = id\<rparr>
       (sb_run \<lparr>lib_encode = id, lib_uri_escape = id\<rparr> sb_mount [SbTimer, SbClick ''https://s/'' ''MATCH'', SbFrame])
       (SbShortenFail 0))
     [SbFrame, SbTimer, SbFrame])) = [SpinnerIcon ''ti-button-spinner-icon'']"
proof -
  define S where "S = sb_run \<lparr>lib_encode = id, lib_uri_escape = id\<rparr> sb_mount [SbTimer, SbClick ''https://s/'' ''MATCH'', SbFrame]"
  have l: "sb_loading S"
    unfolding S_def by (simp add: sb_mount_def sb_init_def sb_commit_def Let_def)
  have f: "sb_flows S = [(0, AwaitShorten (share_url id id ''https://s/'' ''MATCH''))]"
    unfolding S_def by (simp add: sb_mount_def sb_init_def sb_commit_def Let_def)
  have "SbShortenFail 0 = (case AwaitShorten (share_url id id ''https://s/'' ''MATCH'') of
          AwaitShorten _ \<Rightarrow> SbShortenFail 0 | AwaitClipboard _ \<Rightarrow> SbClipboardFail 0)"
    by simp
  note p = share_failure_keeps_spinner [OF l f this, of "[SbFrame, SbTimer, SbFrame]" "\<lparr>lib_encode = id, lib_uri_escape = id\<rparr>"]
  show ?thesis unfolding S_def [symmetric] using p by simp
qed

text \<open>
  Claim C26: \<open>Copied!\<close> can stay forever. If the reset timer of a first copy fires after
  a second click and the second copy completes before the next frame, \<open>isCopied\<close> is
  true again at the frame, as it was at the effect's last run, so no new timer is armed:
  under every later event but a click the button shows the success icon and \<open>Copied!\<close>.
\<close>

theorem share_copied_stuck:
  assumes "\<forall>e\<in>set es. \<not> is_click e"
  shows "sb_copied (sb_run L (sb_run L sb_mount (sb_stuck_events href code u)) es) \<and>
         shown_icons (sb_view (sb_run L (sb_run L sb_mount (sb_stuck_events href code u)) es)) =
           [CopySuccessIcon ''ti-button-copy-success-icon''] \<and>
         shown_labels (sb_view (sb_run L (sb_run L sb_mount (sb_stuck_events href code u)) es)) = [''Copied!'']"
proof -
  have q: "sb_quiet (sb_run L sb_mount (sb_stuck_events href code u)) \<and>
           sb_copied (sb_run L sb_mount (sb_stuck_events href code u)) \<and>
           \<not> sb_loading (sb_run L sb_mount (sb_stuck_events href code u))"
    by (simp add: sb_stuck_events_def sb_quiet_def sb_mount_def sb_init_def sb_commit_def sb_drop_flow_def Let_def)
  then show ?thesis
    using sb_run_quiet [OF conjunct1 [OF q] assms, of L] sb_view_shown by simp
qed

lemma share_copied_stuck_witness:
  "shown_labels (sb_view (sb_run \<lparr>lib_encode = id, lib_uri_escape = id\<rparr>
     (sb_run \<lparr>lib_encode = id, lib_uri_escape = id\<rparr> sb_mount (sb_stuck_events ''https://s/'' ''MATCH'' ''https://t/x''))
     [SbFrame, SbTimer, SbFrame, SbTimer])) = [''Copied!'']"
  using share_copied_stuck [of "[SbFrame, SbTimer, SbFrame, SbTimer]" "\<lparr>lib_encode = id, lib_uri_escape = id\<rparr>"
      "''https://s/''" "''MATCH''" "''https://t/x''"] by simp

end
