(* ===== verification/ExampleCode.thy ===== *)
theory ExampleCode
  imports Highlights ExamplesList
begin

text \<open>
  The code of an example: \<open>ExampleCode\<close> of
  \<open>src/src/components/examples-list/example-code.tsx\<close>, which \<open>ExampleElement\<close> renders for
  every example of the list. It highlights the trimmed code with Prism (library code, the
  parameter \<open>prism\<close>), splits multi-line tokens with the same regular expression as
  \<open>useHighlights\<close>, and renders one table row per line. A row is what its \<open><tr>\<close> shows:
  its key index, the line number and the line's HTML.
\<close>

subsection \<open>Data and operations\<close>

record example_row =
  ex_row_key :: nat
  ex_row_number :: int
  ex_row_html :: js_string

text \<open>\<open>assemblyLine\<close> (lines 17--22).\<close>

definition example_assembly_line :: "js_string \<Rightarrow> nat \<Rightarrow> example_row" where
  "example_assembly_line line index = \<lparr>ex_row_key = index, ex_row_number = int index + 1, ex_row_html = line\<rparr>"

text \<open>\<open>splitMultilineNode\<close> of this file (lines 24--35), with the body of the one of
  \<open>useHighlights\<close>.\<close>

definition example_split_multiline_node :: "js_string \<Rightarrow> js_string \<Rightarrow> js_string \<Rightarrow> js_string" where
  "example_split_multiline_node openingTag content closingTag =
     join_with NEW_LINE (map (\<lambda>lineContent. openingTag @ lineContent @ closingTag) (js_split NEW_LINE content))"

text \<open>\<open>getCodeLines\<close> (lines 37--38).\<close>

definition get_code_lines :: "(js_string \<Rightarrow> js_string) \<Rightarrow> js_string \<Rightarrow> example_row list" where
  "get_code_lines prism input =
     map (\<lambda>(index, line). example_assembly_line line index)
       (enumerate 0 (js_split NEW_LINE (replace_nodes example_split_multiline_node (prism input))))"

text \<open>The component (lines 40--51): the rows of the example's trimmed code.\<close>

definition example_code_rows :: "(js_string \<Rightarrow> js_string) \<Rightarrow> grammar_example \<Rightarrow> example_row list" where
  "example_code_rows prism example = get_code_lines prism (js_trim (ex_code example))"

subsection \<open>The examples list's items\<close>

text \<open>What an \<open>ExampleElement\<close> (\<open>example-element.tsx\<close>, lines 13--22) renders: its React key,
  the title with the example's name, and the table of its code. Its \<open><li>\<close>'s click handler
  passes the example to the list's \<open>handleExampleClick\<close>, the event \<open>ElClick\<close> of
  \<open>el_step\<close>.\<close>

record example_element_view =
  ee_key :: js_string
  ee_title :: js_string
  ee_rows :: "example_row list"

datatype examples_list_body =
  ExamplesSpinner js_string js_string js_string
| ExamplesItems "example_element_view list"

definition example_element :: "(js_string \<Rightarrow> js_string) \<Rightarrow> js_string \<Rightarrow> grammar_example \<Rightarrow> example_element_view" where
  "example_element prism key example =
     \<lparr>ee_key = key, ee_title = ex_name example, ee_rows = example_code_rows prism example\<rparr>"

text \<open>The list's \<open>currentExamples.map\<close> (\<open>examples-list.tsx\<close>, lines 83--90) with the key
  \<open>example-${index + 1}\<close>, and the spinner or the list (lines 76--92).\<close>

definition example_key :: "nat \<Rightarrow> js_string" where
  "example_key index = ''example-'' @ js_nat_str (index + 1)"

definition examples_list_items :: "(js_string \<Rightarrow> js_string) \<Rightarrow> grammar_example list \<Rightarrow> example_element_view list" where
  "examples_list_items prism examples =
     map (\<lambda>(index, example). example_element prism (example_key index) example) (enumerate 0 examples)"

definition examples_list_view :: "(js_string \<Rightarrow> js_string) \<Rightarrow> el_sys \<Rightarrow> examples_list_body" where
  "examples_list_view prism S =
     (if el_is_loading (el_props_of S) then ExamplesSpinner ''ti-loading-examples'' ''64'' ''64''
      else ExamplesItems (examples_list_items prism (snd (current_examples (el_st S)))))"

subsection \<open>Lemmas\<close>

lemma example_split_multiline_node_eq: "example_split_multiline_node = split_multiline_node"
  by (simp add: fun_eq_iff example_split_multiline_node_def split_multiline_node_def)

lemma get_code_lines_numbers:
  "map ex_row_number (get_code_lines prism input) =
     map (\<lambda>k. int k + 1) [0..<length (js_split NEW_LINE (replace_nodes split_multiline_node (prism input)))]"
  by (simp add: get_code_lines_def example_split_multiline_node_eq example_assembly_line_def
      enumerate_eq_zip split_def o_def) (intro nth_equalityI; simp)

subsection \<open>Properties of the code tables\<close>

text \<open>
  Claim C27: one row per line in both code tables. For Prism output whose tags hold no
  line feed, the editor's table (\<open>highlightCallback\<close>) and an example's table
  (\<open>ExampleCode\<close>) have one row per line of Prism's output, numbered from 1: the
  multi-line token split and the class-name rewrite neither add nor remove line feeds.
\<close>

theorem code_tables_rows_per_line:
  assumes "tags_single_line (prism code)" and "NEW_LINE \<notin> set tokenClass"
    and "tags_single_line (prism' (js_trim (ex_code example)))"
  shows "map row_number (highlight_callback prism tokenClass pr code) =
           map (\<lambda>k. int k + 1) [0..<Suc (count_list (prism code) NEW_LINE)] \<and>
         map ex_row_number (example_code_rows prism' example) =
           map (\<lambda>k. int k + 1) [0..<Suc (count_list (prism' (js_trim (ex_code example))) NEW_LINE)]"
proof -
  have "count_list (js_replace_all (token_class_prefix @ ''token'') (token_class_prefix @ tokenClass)
          (replace_nodes split_multiline_node (prism code))) NEW_LINE = count_list (prism code) NEW_LINE"
    using assms(1,2) count_replace_nodes count_js_replace_all [of NEW_LINE]
    by (simp add: token_class_prefix_def NEW_LINE_def)
  then show ?thesis
    using count_replace_nodes [OF assms(3)]
    by (simp add: highlight_callback_def highlight_rows_nth assembly_line_def Let_def o_def
        example_code_rows_def get_code_lines_numbers length_js_split)
qed

lemma code_tables_rows_per_line_witness:
  "map row_number (highlight_callback id ''tok'' None ''<span>a\<newline>b</span>\<newline>c'') = [1, 2, 3] \<and>
   map ex_row_number (example_code_rows id \<lparr>ex_name = ''e'', ex_code = '' x\<newline>y\<newline>''\<rparr>) = [1, 2]"
proof -
  have a: "tags_single_line (id ''<span>a\<newline>b</span>\<newline>c'')" by (simp add: NEW_LINE_def)
  have b: "NEW_LINE \<notin> set ''tok''" by (simp add: NEW_LINE_def)
  have c: "tags_single_line (id (js_trim (ex_code \<lparr>ex_name = ''e'', ex_code = '' x\<newline>y\<newline>''\<rparr>)))"
    by (simp add: js_trim_def js_trim_chars_def)
  note p = code_tables_rows_per_line [where prism = id and prism' = id and code = "''<span>a\<newline>b</span>\<newline>c''"
      and tokenClass = "''tok''" and example = "\<lparr>ex_name = ''e'', ex_code = '' x\<newline>y\<newline>''\<rparr>" and pr = None, OF a b c]
  have d: "js_trim '' x\<newline>y\<newline>'' = ''x\<newline>y''" by (simp add: js_trim_def js_trim_chars_def)
  show ?thesis using p d by (simp add: NEW_LINE_def upt_rec)
qed

lemma examples_list_items_keys_distinct: "distinct (map ee_key (examples_list_items prism xs))"
proof -
  have "map ee_key (examples_list_items prism xs) = map example_key [0..<length xs]"
    by (simp add: examples_list_items_def example_element_def enumerate_eq_zip split_def o_def)
      (intro nth_equalityI; simp)
  moreover have "inj_on example_key A" for A by (rule inj_onI) (simp add: example_key_def js_nat_str_inj)
  ultimately show ?thesis by (simp add: distinct_map)
qed

lemma examples_list_items_nth:
  "i < length xs \<Longrightarrow> examples_list_items prism xs ! i = example_element prism (example_key i) (xs ! i)"
  by (simp add: examples_list_items_def enumerate_eq_zip)

text \<open>
  Claim C30: the list shows the debounced search. With examples to show, not loading, and
  the props unchanged, after any events the list renders one \<open>ExampleElement\<close> per example
  of all the examples while the debounced phrase is empty and otherwise of the Fuse search
  for the debounced phrase (the search of the phrase not yet debounced, made by the first
  effect, is always overwritten by the second); the elements' keys are distinct, and a
  click on the element at position \<open>i\<close> scrolls to the top and reports the example shown
  there.
\<close>

theorem examples_list_shown:
  assumes "snd (el_examples p) \<noteq> []" and "\<forall>e\<in>set es. el_user_event e" and "\<not> el_is_loading p"
    and "R = fst (el_run search (el_mount search p) es)"
  shows "snd (current_examples (el_st R)) =
           (if el_debounced R = [] then snd (el_examples p) else search (snd (el_examples p)) (el_debounced R)) \<and>
         examples_list_view prism R = ExamplesItems (examples_list_items prism (snd (current_examples (el_st R)))) \<and>
         distinct (map ee_key (examples_list_items prism (snd (current_examples (el_st R))))) \<and>
         (\<forall>i < length (snd (current_examples (el_st R))).
            ee_title (examples_list_items prism (snd (current_examples (el_st R))) ! i) =
              ex_name (snd (current_examples (el_st R)) ! i) \<and>
            snd (el_step search R (ElClick i)) =
              [ScrollToTop, ExampleClicked (snd (current_examples (el_st R)) ! i)])"
proof -
  have R: "el_shown_ok search R \<and> el_props_of R = p"
    using el_run_loop [of "el_mount search p" search es] el_mount_loop [OF assms(1), of search] assms(2,4)
    by simp
  then show ?thesis
    using assms(3) examples_list_items_keys_distinct
    by (simp add: el_shown_ok_def examples_list_view_def examples_list_items_nth example_element_def
        handle_example_click_def)
qed

lemma examples_list_shown_witness:
  "examples_list_view id (fst (el_run (\<lambda>xs q. filter (\<lambda>e. ex_name e = q) xs)
      (el_mount (\<lambda>xs q. filter (\<lambda>e. ex_name e = q) xs)
         \<lparr>el_examples = (PropObj 0, [\<lparr>ex_name = ''a'', ex_code = ''x''\<rparr>, \<lparr>ex_name = ''b'', ex_code = ''y''\<rparr>]),
          el_is_loading = False\<rparr>)
      [ElSearchInput ''b'', ElDebounced ''b'', ElFrame])) =
   ExamplesItems [example_element id (example_key 0) \<lparr>ex_name = ''b'', ex_code = ''y''\<rparr>]"
proof -
  let ?p = "\<lparr>el_examples = (PropObj 0, [\<lparr>ex_name = ''a'', ex_code = ''x''\<rparr>, \<lparr>ex_name = ''b'', ex_code = ''y''\<rparr>]),
          el_is_loading = False\<rparr>"
  let ?f = "\<lambda>xs q. filter (\<lambda>e. ex_name e = q) xs"
  let ?R = "fst (el_run ?f (el_mount ?f ?p) [ElSearchInput ''b'', ElDebounced ''b'', ElFrame])"
  have h1: "snd (el_examples ?p) \<noteq> []" by simp
  have h2: "\<forall>e\<in>set [ElSearchInput ''b'', ElDebounced ''b'', ElFrame]. el_user_event e" by simp
  have h3: "\<not> el_is_loading ?p" by simp
  have d: "el_debounced ?R = ''b''" by code_simp
  show ?thesis
    using examples_list_shown [where prism = id, OF h1 h2 h3 refl] d
    by (simp add: examples_list_items_def del: el_run.simps)
qed

end
