(* ===== verification/Views.thy ===== *)
theory Views
  imports EditorApp ParseTree
begin

text \<open>
  The two views' chrome: \<open>ViewSelect\<close> (\<open>src/src/components/view-select/view-select.tsx\<close>),
  the pair of buttons that switches the editor between its views, and \<open>ParseTreeView\<close>
  (\<open>src/src/components/parse-tree/parse-tree-view.tsx\<close>), which draws the converted parse
  tree with a \<open>vis-network\<close> \<open>Network\<close>.

  A rendered view-select button is its label, test id, whether it carries the selected
  class, whether it is disabled, and the view its click handler passes on; the browser
  dispatches no click to a disabled button. \<open>CodeEditor\<close> disables the parse-tree
  button while the grammar initialises or parses (\<open>code-editor.tsx\<close>, line 139).

  \<open>ParseTreeView\<close> is modelled as a component under React's semantics: the
  converter hook's state (\<open>ParseTree\<close>'s \<open>converter_state\<close>, with the identity of the
  \<open>convertResult\<close> object as a counter, renewed by every \<open>setConvertResult\<close>), the
  \<open>networkRef\<close>, and the networks created and not yet destroyed, each with the data it
  draws. A commit renders the hook's current values and runs the passive effects in
  order: the converter's effect on \<open>[parseTree]\<close> when the parent passed a new array,
  whose updates the next render sees, and the view's effect on
  \<open>[isParsing, convertResult]\<close>, after the cleanup of its previous run. The container
  \<open>div\<close> is always rendered, so \<open>containerRef.current\<close> is set when the effect runs.
  The drawing library is not modelled: a network is its identity and its data.
\<close>

subsection \<open>The view select\<close>

record view_button =
  vb_label :: js_string
  vb_test_id :: js_string
  vb_selected :: bool
  vb_disabled :: bool
  vb_target :: code_editor_view_type

text \<open>\<open>ViewSelect\<close> (lines 11--39): \<open>getClassName\<close> marks the button of the current view.\<close>

definition view_select_render :: "code_editor_view_type \<Rightarrow> bool \<Rightarrow> view_button list" where
  "view_select_render value isParseTreeViewDisabled =
     [\<lparr>vb_label = ''Editor'', vb_test_id = ''ti-view-select--editor-button'',
       vb_selected = (value = ViewEditor), vb_disabled = False, vb_target = ViewEditor\<rparr>,
      \<lparr>vb_label = ''Parse Tree'', vb_test_id = ''ti-view-select--wrapper--parse-tree'',
       vb_selected = (value = ViewParseTree), vb_disabled = isParseTreeViewDisabled, vb_target = ViewParseTree\<rparr>]"

definition view_select_click :: "view_button \<Rightarrow> code_editor_view_type option" where
  "view_select_click b = (if vb_disabled b then None else Some (vb_target b))"

text \<open>A click on the \<open>i\<close>-th button of the editor's view select (lines 137--141): the
  view passed on becomes an event of the mounted editor.\<close>

definition ce_view_select_click :: "'w ce_sys \<Rightarrow> bool \<Rightarrow> bool \<Rightarrow> nat \<Rightarrow> 'w ce_sys" where
  "ce_view_select_click S isInitializing isParsing i =
     (case view_select_click (view_select_render (ce_view S) (isInitializing \<or> isParsing) ! i) of
        None \<Rightarrow> S
      | Some v \<Rightarrow> ce_step S (CeSelectView v))"

subsection \<open>The parse tree view\<close>

record ptv_sys =
  ptv_conv :: converter_state
  ptv_conv_id :: nat
  ptv_seen :: "converter_state \<times> nat"
  ptv_network :: "nat option"
  ptv_live :: "(nat \<times> convert_result) list"
  ptv_next :: nat
  ptv_deps :: "(bool \<times> nat) option"
  ptv_pending :: bool
  ptv_mounted :: bool

definition ptv_init :: ptv_sys where
  "ptv_init = \<lparr>ptv_conv = converter_init, ptv_conv_id = 0, ptv_seen = (converter_init, 0), ptv_network = None,
               ptv_live = [], ptv_next = 0, ptv_deps = None, ptv_pending = False, ptv_mounted = True\<rparr>"

text \<open>The cleanup the effect returns (lines 123--126) and \<open>networkRef.current?.destroy()\<close>.\<close>

definition ptv_destroy :: "ptv_sys \<Rightarrow> ptv_sys" where
  "ptv_destroy S =
     (case ptv_network S of
        None \<Rightarrow> S
      | Some n \<Rightarrow> S\<lparr>ptv_live := filter (\<lambda>x. fst x \<noteq> n) (ptv_live S)\<rparr>)"

definition ptv_cleanup :: "ptv_sys \<Rightarrow> ptv_sys" where
  "ptv_cleanup S = (ptv_destroy S)\<lparr>ptv_network := None\<rparr>"

text \<open>The effect's body (lines 112--121) with the convert result of the render.\<close>

definition ptv_effect :: "convert_result \<Rightarrow> ptv_sys \<Rightarrow> ptv_sys" where
  "ptv_effect r S =
     (let S' = ptv_destroy S
      in S'\<lparr>ptv_network := Some (ptv_next S'), ptv_live := ptv_live S' @ [(ptv_next S', r)],
            ptv_next := Suc (ptv_next S')\<rparr>)"

text \<open>A commit with the props \<open>isParsing\<close> and, when the parent passed a new
  \<open>parseTree\<close> array, its content.\<close>

definition ptv_commit :: "bool \<Rightarrow> parse_tree option \<Rightarrow> ptv_sys \<Rightarrow> ptv_sys" where
  "ptv_commit isParsing newTree S =
     (let seen = (ptv_conv S, ptv_conv_id S);
          S1 = (case newTree of
                  None \<Rightarrow> S
                | Some pt \<Rightarrow> S\<lparr>ptv_conv := converter_commit (ptv_conv S) pt, ptv_conv_id := Suc (ptv_conv_id S)\<rparr>);
          S2 = (if ptv_deps S1 = Some (isParsing, snd seen) then S1
                else (ptv_effect (convert_res (fst seen)) (ptv_cleanup S1))\<lparr>ptv_deps := Some (isParsing, snd seen)\<rparr>)
      in S2\<lparr>ptv_seen := seen, ptv_pending := ((ptv_conv S2, ptv_conv_id S2) \<noteq> seen)\<rparr>)"

datatype ptv_event = PtvRender bool "parse_tree option" | PtvFrame bool | PtvUnmount

fun ptv_step :: "ptv_sys \<Rightarrow> ptv_event \<Rightarrow> ptv_sys" where
  "ptv_step S (PtvRender isParsing newTree) =
     (if ptv_mounted S then ptv_commit isParsing newTree S else S)"
| "ptv_step S (PtvFrame isParsing) =
     (if ptv_mounted S \<and> ptv_pending S then ptv_commit isParsing None S else S)"
| "ptv_step S PtvUnmount =
     (if ptv_mounted S then (ptv_cleanup S)\<lparr>ptv_mounted := False\<rparr> else S)"

fun ptv_run :: "ptv_sys \<Rightarrow> ptv_event list \<Rightarrow> ptv_sys" where
  "ptv_run S [] = S"
| "ptv_run S (e # es) = ptv_run (ptv_step S e) es"

text \<open>What the view displays (lines 129--141): whether the spinner and the network's
  container are shown, from the props and the hook values of the last render.\<close>

definition ptv_display :: "bool \<Rightarrow> ptv_sys \<Rightarrow> bool \<times> bool" where
  "ptv_display isParsing S =
     (let busy = isParsing \<or> is_converting (fst (ptv_seen S)) in (busy, \<not> busy))"

text \<open>The network invariant: the live networks are exactly the one in the ref, while
  mounted, and there are none after unmounting; ids are below the counter.\<close>

definition ptv_inv :: "ptv_sys \<Rightarrow> bool" where
  "ptv_inv S \<longleftrightarrow>
     map fst (ptv_live S) = (case ptv_network S of None \<Rightarrow> [] | Some n \<Rightarrow> [n]) \<and>
     (\<forall>n\<in>set (map fst (ptv_live S)). n < ptv_next S) \<and>
     (\<not> ptv_mounted S \<longrightarrow> ptv_live S = []) \<and>
     \<not> is_converting (ptv_conv S) \<and> \<not> is_converting (fst (ptv_seen S))"

subsection \<open>Lemmas\<close>

lemma view_select_click_disabled:
  "ce_view_select_click S isInitializing isParsing 1 =
     (if isInitializing \<or> isParsing then S else ce_step S (CeSelectView ViewParseTree))"
  by (simp add: ce_view_select_click_def view_select_render_def view_select_click_def)

lemma ptv_inv_init: "ptv_inv ptv_init"
  by (simp add: ptv_inv_def ptv_init_def converter_init_def)

lemma ptv_cleanup_inv:
  "ptv_inv S \<Longrightarrow> ptv_live (ptv_cleanup S) = [] \<and> ptv_network (ptv_cleanup S) = None"
  by (auto simp: ptv_inv_def ptv_cleanup_def ptv_destroy_def filter_empty_conv split: option.splits)

lemma ptv_commit_inv:
  assumes "ptv_inv S" and "ptv_mounted S"
  shows "ptv_inv (ptv_commit isParsing newTree S)"
proof -
  have conv: "\<not> is_converting (ptv_conv S) \<Longrightarrow> \<not> is_converting (converter_commit (ptv_conv S) pt)" for pt
    by (simp add: converter_commit_result)
  show ?thesis
    using assms ptv_cleanup_inv [OF assms(1)] conv
    by (auto simp: ptv_commit_def ptv_effect_def ptv_inv_def ptv_cleanup_def ptv_destroy_def Let_def
        split: option.splits)
qed

lemma ptv_cleanup_fields [simp]:
  "ptv_conv (ptv_cleanup S) = ptv_conv S" "ptv_seen (ptv_cleanup S) = ptv_seen S"
  "ptv_next (ptv_cleanup S) = ptv_next S" "ptv_mounted (ptv_cleanup S) = ptv_mounted S"
  by (simp_all add: ptv_cleanup_def ptv_destroy_def split: option.splits)

lemma ptv_step_inv:
  assumes "ptv_inv S"
  shows "ptv_inv (ptv_step S e)"
proof (cases e)
  case PtvUnmount
  then show ?thesis using assms ptv_cleanup_inv [OF assms] by (auto simp: ptv_inv_def)
qed (use assms in \<open>simp_all add: ptv_commit_inv\<close>)

lemma ptv_run_inv: "ptv_inv S \<Longrightarrow> ptv_inv (ptv_run S es)"
  by (induction es arbitrary: S) (simp_all add: ptv_step_inv)

lemma ptv_run_append: "ptv_run S (es @ fs) = ptv_run (ptv_run S es) fs"
  by (induction es arbitrary: S) simp_all

lemma ptv_commit_mounted [simp]: "ptv_mounted (ptv_commit p t S) = ptv_mounted S"
  by (simp add: ptv_commit_def Let_def ptv_effect_def ptv_cleanup_def ptv_destroy_def split: option.splits)

lemma ptv_run_mounted:
  "PtvUnmount \<notin> set es \<Longrightarrow> ptv_mounted S \<Longrightarrow> ptv_mounted (ptv_run S es)"
proof (induction es arbitrary: S)
  case (Cons e es)
  have "ptv_mounted (ptv_step S e)"
    using Cons.prems by (cases e) auto
  then show ?case using Cons by simp
qed simp

lemma ptv_new_tree_frame:
  assumes "ptv_inv S" and "ptv_mounted S"
  shows "map snd (ptv_live (ptv_run S [PtvRender p (Some pt), PtvFrame p])) =
           [\<lparr>cr_nodes = fst (load_data_from_parse_tree [] [] pt), cr_edges = snd (load_data_from_parse_tree [] [] pt)\<rparr>] \<and>
         ptv_display p (ptv_run S [PtvRender p (Some pt), PtvFrame p]) = (p, \<not> p)"
proof -
  define S1 where "S1 = ptv_commit p (Some pt) S"
  have i1: "ptv_inv S1" and m1: "ptv_mounted S1"
    using ptv_commit_inv [OF assms] assms(2) by (simp_all add: S1_def)
  have c1: "ptv_conv S1 = converter_commit (ptv_conv S) pt" "ptv_conv_id S1 = Suc (ptv_conv_id S)"
      "ptv_deps S1 = Some (p, ptv_conv_id S)" "ptv_pending S1"
    by (simp_all add: S1_def ptv_commit_def Let_def ptv_effect_def ptv_cleanup_def ptv_destroy_def
        split: option.splits)
  have nc0: "\<not> is_converting (ptv_conv S)" using assms(1) by (simp add: ptv_inv_def)
  then have nc: "\<not> is_converting (ptv_conv S1)" using c1 by (simp add: converter_commit_result)
  have "ptv_run S [PtvRender p (Some pt), PtvFrame p] = ptv_commit p None S1"
    using assms(2) m1 c1 by (simp add: S1_def)
  then show ?thesis
    using ptv_cleanup_inv [OF i1] c1 nc nc0
    by (simp add: ptv_commit_def Let_def ptv_effect_def ptv_display_def converter_commit_result
        ptv_destroy_def)
qed

subsection \<open>Properties of the parse tree view\<close>

text \<open>
  Claim C21: the parse tree view holds one network and draws the latest tree. While
  mounted, at most one \<open>Network\<close> exists, the one in \<open>networkRef\<close>; after the parent
  passes a new parse tree and one more frame, the only network draws that tree's
  conversion, and the spinner is shown exactly while parsing, since the converter's flag is
  never seen set; after unmounting no network is left.
\<close>

theorem parse_tree_view_draws_latest_tree:
  assumes "PtvUnmount \<notin> set es"
  shows "length (ptv_live (ptv_run ptv_init es)) \<le> 1 \<and>
         map snd (ptv_live (ptv_run ptv_init (es @ [PtvRender p (Some pt), PtvFrame p]))) =
           [\<lparr>cr_nodes = fst (load_data_from_parse_tree [] [] pt), cr_edges = snd (load_data_from_parse_tree [] [] pt)\<rparr>] \<and>
         ptv_display p (ptv_run ptv_init (es @ [PtvRender p (Some pt), PtvFrame p])) = (p, \<not> p) \<and>
         ptv_live (ptv_run ptv_init (es @ [PtvUnmount])) = []"
proof -
  have i: "ptv_inv (ptv_run ptv_init es)" by (rule ptv_run_inv [OF ptv_inv_init])
  have m: "ptv_mounted (ptv_run ptv_init es)"
    using ptv_run_mounted [OF assms] by (simp add: ptv_init_def)
  have "length (map fst (ptv_live (ptv_run ptv_init es))) \<le> 1"
    using i unfolding ptv_inv_def by (cases "ptv_network (ptv_run ptv_init es)") simp_all
  then have "length (ptv_live (ptv_run ptv_init es)) \<le> 1" by simp
  moreover have "ptv_live (ptv_run ptv_init (es @ [PtvUnmount])) = []"
    using ptv_cleanup_inv [OF i] m by (simp add: ptv_run_append)
  ultimately show ?thesis
    using ptv_new_tree_frame [OF i m, of p pt] by (simp add: ptv_run_append)
qed

lemma parse_tree_view_draws_latest_tree_witness:
  "ptv_display True (ptv_run ptv_init ([] @ [PtvRender True (Some converter_test_tree), PtvFrame True])) = (True, False)"
  using parse_tree_view_draws_latest_tree [of "[]" True converter_test_tree] by simp

end
