(* ===== verification/JsRegex.thy ===== *)
theory JsRegex
  imports Prelude "HOL-Library.Sublist"
begin

text \<open>
  The regular expressions the configuration files hand to webpack, Jest and ESLint, and
  \<open>RegExp.prototype.test\<close> on them. A pattern is a regular expression over code units
  (\<open>rexp\<close>: character classes, alternation, concatenation, star) with the flags and
  anchors that the configuration uses: \<open>^\<close> at the start, \<open>$\<close> at the end, and \<open>i\<close>.
  The meaning of a pattern is the inductive predicate \<open>rmatch\<close>; \<open>js_test_spec\<close> says that
  some substring of the input, at the anchored ends where there are anchors, matches.
  \<open>js_test\<close> decides it with Brzozowski derivatives, and \<open>js_test_iff\<close> shows the two
  agree on every pattern and input. Under \<open>i\<close>, ECMAScript compares code units after
  \<open>Canonicalize\<close>, which is \<open>toUpperCase\<close> (ASCII here, \<open>js_upper_char\<close>); \<open>.\<close> is every code
  unit but the line terminators (the 16-bit separators U+2028 and U+2029 are not code
  units of the model's 8-bit strings).
\<close>

subsection \<open>Patterns\<close>

datatype rexp =
  Zero
| One
| Chars "char list"
| NotChars "char list"
| Plus rexp rexp
| Times rexp rexp
| Star rexp

record js_regex =
  re_start :: bool
  re_body :: rexp
  re_end :: bool
  re_icase :: bool

text \<open>The pieces of pattern syntax the configuration files write.\<close>

fun lit :: "js_string \<Rightarrow> rexp" where
  "lit [] = One"
| "lit (c # cs) = Times (Chars [c]) (lit cs)"

definition dot :: rexp where
  "dot = NotChars [CHR 0x0A, CHR 0x0D]"

definition opt :: "rexp \<Rightarrow> rexp" where
  "opt r = Plus One r"

definition plus1 :: "rexp \<Rightarrow> rexp" where
  "plus1 r = Times r (Star r)"

fun alts :: "rexp list \<Rightarrow> rexp" where
  "alts [] = Zero"
| "alts [r] = r"
| "alts (r # rs) = Plus r (alts rs)"

text \<open>An unanchored literal pattern without flags, as a string in a Jest option is read.\<close>

definition literal_regex :: "js_string \<Rightarrow> js_regex" where
  "literal_regex w = \<lparr>re_start = False, re_body = lit w, re_end = False, re_icase = False\<rparr>"

subsection \<open>Semantics\<close>

inductive rmatch :: "rexp \<Rightarrow> char list \<Rightarrow> bool" where
  one: "rmatch One []"
| chars: "c \<in> set cs \<Longrightarrow> rmatch (Chars cs) [c]"
| not_chars: "c \<notin> set cs \<Longrightarrow> rmatch (NotChars cs) [c]"
| plus_l: "rmatch r w \<Longrightarrow> rmatch (Plus r s) w"
| plus_r: "rmatch s w \<Longrightarrow> rmatch (Plus r s) w"
| times: "rmatch r u \<Longrightarrow> rmatch s v \<Longrightarrow> rmatch (Times r s) (u @ v)"
| star_nil: "rmatch (Star r) []"
| star_app: "rmatch r u \<Longrightarrow> rmatch (Star r) v \<Longrightarrow> rmatch (Star r) (u @ v)"

text \<open>\<open>Canonicalize\<close> applied to the pattern's character classes.\<close>

primrec canon_rexp :: "rexp \<Rightarrow> rexp" where
  "canon_rexp Zero = Zero"
| "canon_rexp One = One"
| "canon_rexp (Chars cs) = Chars (js_upper cs)"
| "canon_rexp (NotChars cs) = NotChars (js_upper cs)"
| "canon_rexp (Plus r s) = Plus (canon_rexp r) (canon_rexp s)"
| "canon_rexp (Times r s) = Times (canon_rexp r) (canon_rexp s)"
| "canon_rexp (Star r) = Star (canon_rexp r)"

definition re_pattern :: "js_regex \<Rightarrow> rexp" where
  "re_pattern re = (if re_icase re then canon_rexp (re_body re) else re_body re)"

definition js_canon :: "js_regex \<Rightarrow> js_string \<Rightarrow> js_string" where
  "js_canon re s = (if re_icase re then js_upper s else s)"

definition js_test_spec :: "js_regex \<Rightarrow> js_string \<Rightarrow> bool" where
  "js_test_spec re s \<longleftrightarrow>
     (\<exists>p m q. s = p @ m @ q \<and> (re_start re \<longrightarrow> p = []) \<and> (re_end re \<longrightarrow> q = []) \<and>
              rmatch (re_pattern re) (js_canon re m))"

subsection \<open>The matcher\<close>

primrec nullable :: "rexp \<Rightarrow> bool" where
  "nullable Zero = False"
| "nullable One = True"
| "nullable (Chars cs) = False"
| "nullable (NotChars cs) = False"
| "nullable (Plus r s) = (nullable r \<or> nullable s)"
| "nullable (Times r s) = (nullable r \<and> nullable s)"
| "nullable (Star r) = True"

primrec deriv :: "char \<Rightarrow> rexp \<Rightarrow> rexp" where
  "deriv c Zero = Zero"
| "deriv c One = Zero"
| "deriv c (Chars cs) = (if c \<in> set cs then One else Zero)"
| "deriv c (NotChars cs) = (if c \<in> set cs then Zero else One)"
| "deriv c (Plus r s) = Plus (deriv c r) (deriv c s)"
| "deriv c (Times r s) =
     (if nullable r then Plus (Times (deriv c r) s) (deriv c s) else Times (deriv c r) s)"
| "deriv c (Star r) = Times (deriv c r) (Star r)"

definition matcher :: "rexp \<Rightarrow> char list \<Rightarrow> bool" where
  "matcher r s = nullable (fold deriv s r)"

definition any_char :: rexp where
  "any_char = NotChars []"

definition js_test :: "js_regex \<Rightarrow> js_string \<Rightarrow> bool" where
  "js_test re s =
     matcher (Times (if re_start re then One else Star any_char)
                    (Times (re_pattern re) (if re_end re then One else Star any_char)))
             (js_canon re s)"

text \<open>A string without the line terminators that \<open>.\<close> does not match.\<close>

definition no_line_break :: "js_string \<Rightarrow> bool" where
  "no_line_break p \<longleftrightarrow> CHR 0x0A \<notin> set p \<and> CHR 0x0D \<notin> set p"

text \<open>The last segment of a slash-separated path.\<close>

definition base_name :: "js_string \<Rightarrow> js_string" where
  "base_name p = rev (takeWhile (\<lambda>c. c \<noteq> CHR ''/'') (rev p))"

subsection \<open>Correctness of the matcher\<close>

inductive_simps rmatch_Zero [simp]: "rmatch Zero w"
inductive_simps rmatch_One [simp]: "rmatch One w"
inductive_simps rmatch_Chars [simp]: "rmatch (Chars cs) w"
inductive_simps rmatch_NotChars [simp]: "rmatch (NotChars cs) w"
inductive_simps rmatch_Plus [simp]: "rmatch (Plus r s) w"
inductive_simps rmatch_Times [simp]: "rmatch (Times r s) w"
inductive_cases rmatch_StarE: "rmatch (Star r) w"


lemma nullable_iff: "nullable r \<longleftrightarrow> rmatch r []"
  by (induction r) (auto intro: rmatch.star_nil)

lemma star_cons_split:
  assumes "rmatch (Star r) w" and "w = c # cs"
  shows "\<exists>u v. cs = u @ v \<and> rmatch r (c # u) \<and> rmatch (Star r) v"
  using assms
proof (induction "Star r" w arbitrary: cs rule: rmatch.induct)
  case (star_app u v)
  show ?case
  proof (cases u)
    case Nil
    then show ?thesis using star_app by simp
  next
    case (Cons a u')
    then show ?thesis using star_app by auto
  qed
qed simp

lemma rmatch_deriv: "rmatch (deriv c r) w \<longleftrightarrow> rmatch r (c # w)"
proof (induction r arbitrary: w)
  case (Times r s)
  show ?case
  proof
    assume d: "rmatch (deriv c (Times r s)) w"
    show "rmatch (Times r s) (c # w)"
    proof (cases "nullable r")
      case True
      with d consider (l) u v where "w = u @ v" "rmatch (deriv c r) u" "rmatch s v"
        | (r) "rmatch (deriv c s) w" by auto
      then show ?thesis
      proof cases
        case l
        then show ?thesis using Times.IH(1) [of u] rmatch.times [of r "c # u" s v] by simp
      next
        case r
        then show ?thesis using Times.IH(2) [of w] True rmatch.times [of r "[]" s "c # w"]
          by (simp add: nullable_iff)
      qed
    next
      case False
      with d obtain u v where "w = u @ v" "rmatch (deriv c r) u" "rmatch s v" by auto
      then show ?thesis using Times.IH(1) [of u] rmatch.times [of r "c # u" s v] by simp
    qed
  next
    assume "rmatch (Times r s) (c # w)"
    then obtain u v where uv: "c # w = u @ v" "rmatch r u" "rmatch s v" by auto
    show "rmatch (deriv c (Times r s)) w"
    proof (cases u)
      case Nil
      then show ?thesis using uv Times.IH(2) [of w] by (simp add: nullable_iff)
    next
      case (Cons a u')
      then show ?thesis using uv Times.IH(1) [of u'] by auto
    qed
  qed
next
  case (Star r)
  show ?case
  proof
    assume "rmatch (deriv c (Star r)) w"
    then obtain u v where "w = u @ v" "rmatch r (c # u)" "rmatch (Star r) v"
      using Star by auto
    then show "rmatch (Star r) (c # w)" using rmatch.star_app [of r "c # u" v] by simp
  next
    assume "rmatch (Star r) (c # w)"
    then obtain u v where "w = u @ v" "rmatch r (c # u)" "rmatch (Star r) v"
      using star_cons_split [of r "c # w" c w] by blast
    then show "rmatch (deriv c (Star r)) w" using Star by auto
  qed
qed auto

lemma matcher_iff: "matcher r s \<longleftrightarrow> rmatch r s"
  by (induction s arbitrary: r) (simp_all add: matcher_def nullable_iff rmatch_deriv)

lemma rmatch_star_any [simp]: "rmatch (Star any_char) w"
proof (induction w)
  case (Cons c w)
  then show ?case using rmatch.star_app [of any_char "[c]" w] by (simp add: any_char_def)
qed (rule rmatch.star_nil)

lemma js_test_canon:
  "js_test re s \<longleftrightarrow>
     (\<exists>p m q. js_canon re s = p @ m @ q \<and> (re_start re \<longrightarrow> p = []) \<and> (re_end re \<longrightarrow> q = []) \<and>
              rmatch (re_pattern re) m)"
proof -
  have a: "\<And>b a. rmatch (if b then One else Star any_char) a \<longleftrightarrow> (b \<longrightarrow> a = [])" by simp
  show ?thesis unfolding js_test_def matcher_iff rmatch_Times a by blast
qed

lemma map_eq_append3:
  "map f s = p @ m @ q \<longleftrightarrow>
     (\<exists>p' m' q'. s = p' @ m' @ q' \<and> map f p' = p \<and> map f m' = m \<and> map f q' = q)"
proof
  assume "map f s = p @ m @ q"
  then obtain p' r where pr: "s = p' @ r" "p = map f p'" "m @ q = map f r"
    using map_eq_append_conv [of f s p "m @ q"] by blast
  moreover from pr(3) obtain m' q' where "r = m' @ q'" "m = map f m'" "q = map f q'"
    using map_eq_append_conv [of f r m q] by metis
  ultimately show "\<exists>p' m' q'. s = p' @ m' @ q' \<and> map f p' = p \<and> map f m' = m \<and> map f q' = q"
    by blast
qed auto

lemma js_canon_append_eq:
  "js_canon re s = p @ m @ q \<longleftrightarrow>
     (\<exists>p' m' q'. s = p' @ m' @ q' \<and> js_canon re p' = p \<and> js_canon re m' = m \<and> js_canon re q' = q)"
  by (simp add: js_canon_def js_upper_def map_eq_append3)

lemma js_canon_Nil_iff [simp]: "js_canon re p = [] \<longleftrightarrow> p = []"
  by (simp add: js_canon_def js_upper_def)

lemma js_test_iff: "js_test re s \<longleftrightarrow> js_test_spec re s"
  unfolding js_test_canon js_canon_append_eq js_test_spec_def by (metis js_canon_Nil_iff)

lemma rmatch_lit [simp]: "rmatch (lit w) m \<longleftrightarrow> m = w"
  by (induction w arbitrary: m) auto

lemma canon_rexp_lit [simp]: "canon_rexp (lit w) = lit (js_upper w)"
  by (induction w) (simp_all add: js_upper_def)

lemma js_test_end_anchored:
  "\<not> re_start re \<Longrightarrow> re_end re \<Longrightarrow>
   js_test re s \<longleftrightarrow> (\<exists>m. suffix m (js_canon re s) \<and> rmatch (re_pattern re) m)"
  by (auto simp: js_test_canon suffix_def)

lemma js_test_unanchored:
  "\<not> re_start re \<Longrightarrow> \<not> re_end re \<Longrightarrow>
   js_test re s \<longleftrightarrow> (\<exists>m. sublist m (js_canon re s) \<and> rmatch (re_pattern re) m)"
  by (auto simp: js_test_canon sublist_def)

lemma js_test_literal_regex: "js_test (literal_regex w) s \<longleftrightarrow> sublist w s"
  by (simp add: js_test_unanchored literal_regex_def re_pattern_def js_canon_def)

lemma rmatch_star_not_chars: "rmatch (Star (NotChars cs)) w \<longleftrightarrow> set w \<inter> set cs = {}"
proof
  show "rmatch (Star (NotChars cs)) w \<Longrightarrow> set w \<inter> set cs = {}"
  proof (induction "Star (NotChars cs)" w rule: rmatch.induct)
    case (star_app u v)
    then show ?case by auto
  qed simp
  show "set w \<inter> set cs = {} \<Longrightarrow> rmatch (Star (NotChars cs)) w"
  proof (induction w)
    case Nil
    show ?case by (rule rmatch.star_nil)
  next
    case (Cons c w)
    then show ?case using rmatch.star_app [of "NotChars cs" "[c]" w] by simp
  qed
qed

lemma rmatch_TimesI: "rmatch r u \<Longrightarrow> rmatch s v \<Longrightarrow> w = u @ v \<Longrightarrow> rmatch (Times r s) w"
  using rmatch.times by blast

lemma rmatch_TimesE:
  assumes "rmatch (Times r s) w"
  obtains u v where "w = u @ v" "rmatch r u" "rmatch s v"
  using assms by auto

lemma rmatch_star_dot: "rmatch (Star dot) p \<longleftrightarrow> no_line_break p"
  by (auto simp: dot_def rmatch_star_not_chars no_line_break_def)

lemma suffix_append_sep:
  assumes "suffix x (y @ q)" and "y \<noteq> []" and "last y \<notin> set x"
  shows "suffix x q"
proof -
  from assms(1) consider "suffix x q" | x' where "x = x' @ q" "suffix x' y"
    by (auto simp: suffix_append)
  then show ?thesis
  proof cases
    case 2
    show ?thesis
    proof (cases "x' = []")
      case False
      then have "last x' = last y" using 2(2) by (auto simp: suffix_def)
      then show ?thesis using False assms(3) 2(1) last_in_set [OF False] by simp
    qed (use 2 in simp)
  qed
qed

lemma suffix_base_name:
  assumes "suffix x p" and "CHR ''/'' \<notin> set x"
  shows "suffix x (base_name p)"
proof -
  obtain zs where p: "p = zs @ x" using assms(1) by (auto simp: suffix_def)
  have "takeWhile (\<lambda>c. c \<noteq> CHR ''/'') (rev x @ rev zs) = rev x @ takeWhile (\<lambda>c. c \<noteq> CHR ''/'') (rev zs)"
    by (rule takeWhile_append2) (use assms(2) in auto)
  then show ?thesis by (simp add: base_name_def suffix_def p)
qed

end
