(* ===== verification/Webpack.thy ===== *)
theory Webpack
  imports JsRegex
begin

text \<open>
  The webpack configuration (\<open>src/webpack.config.js\<close>): \<open>getConfig\<close> as a record of
  what the configuration object holds, the exported configuration with its mode taken
  from \<open>NODE_ENV\<close>, and the two decisions webpack takes from it for every module: the
  loaders that process a file and its module type. A module rule applies to a file when
  its \<open>test\<close> condition holds of the file's absolute path and none of its \<open>exclude\<close>
  conditions does; a regular expression condition is \<open>RegExp.prototype.test\<close> on the path,
  a string condition holds of the paths that start with it. The loaders of all applying
  rules are concatenated in the order of the rules (webpack runs them from the last to the
  first), and the module type is the type of the last applying rule that sets one. The
  plugin objects are recorded with the options the configuration passes them; what they do
  is library code.
\<close>

subsection \<open>The configuration object\<close>

datatype loader_option =
  OptString js_string js_string
| OptNat js_string nat
| OptBool js_string bool

record loader =
  loader_name :: js_string
  loader_options :: "loader_option list"

datatype condition =
  CondRegex js_regex
| CondPrefix js_string

record module_rule =
  rule_test :: condition
  rule_exclude :: "condition list"
  rule_use :: "loader list"
  rule_type :: "js_string option"

datatype webpack_plugin =
  TsconfigPathsPlugin "js_string list"
| HtmlWebpackPlugin js_string
| MiniCssExtractPlugin
| CopyPlugin "(js_string \<times> js_string) list"

record terser_options =
  parse_ecma :: nat
  compress_ecma :: nat
  compress_warnings :: bool
  compress_comparisons :: bool
  mangle_safari10 :: bool
  output_ecma :: nat
  output_comments :: bool
  output_ascii_only :: bool

datatype minimizer = TerserPlugin terser_options bool

datatype webpack_mode = Production | Development

record webpack_config =
  wp_entry :: js_string
  wp_output_path :: js_string
  wp_output_filename :: js_string
  wp_dev_open :: bool
  wp_dev_host :: js_string
  wp_resolve_plugins :: "webpack_plugin list"
  wp_resolve_extensions :: "js_string list"
  wp_plugins :: "webpack_plugin list"
  wp_rules :: "module_rule list"
  wp_minimize :: bool
  wp_minimizer :: "minimizer list"
  wp_mode :: "webpack_mode option"

text \<open>\<open>path.resolve\<close> of an absolute directory and relative segments without dots.\<close>

definition path_resolve :: "js_string \<Rightarrow> js_string list \<Rightarrow> js_string" where
  "path_resolve dir segs = dir @ concat (map (\<lambda>s. ''/'' @ s) segs)"

text \<open>A regular expression literal \<open>/\<dots>$/i\<close>.\<close>

definition suffix_regex_i :: "rexp \<Rightarrow> js_regex" where
  "suffix_regex_i body = \<lparr>re_start = False, re_body = body, re_end = True, re_icase = True\<rparr>"

definition ts_rule_test :: js_regex where
  "ts_rule_test = suffix_regex_i (Times (lit ''.'') (Plus (lit ''ts'') (lit ''tsx'')))"

definition css_rule_test :: js_regex where
  "css_rule_test = suffix_regex_i (lit ''.css'')"

definition css_module_rule_test :: js_regex where
  "css_module_rule_test = suffix_regex_i (lit ''.module.css'')"

definition asset_extensions :: "js_string list" where
  "asset_extensions = [''eot'', ''svg'', ''ttf'', ''woff'', ''woff2'', ''png'', ''jpg'', ''gif'']"

definition asset_rule_test :: js_regex where
  "asset_rule_test = suffix_regex_i (Times (lit ''.'') (alts (map lit asset_extensions)))"

definition ts_loader :: loader where
  "ts_loader = \<lparr>loader_name = ''ts-loader'', loader_options = [OptString ''configFile'' ''tsconfig.json'']\<rparr>"

definition style_loader :: loader where
  "style_loader = \<lparr>loader_name = ''style-loader'', loader_options = []\<rparr>"

definition css_loader :: loader where
  "css_loader = \<lparr>loader_name = ''css-loader'', loader_options = []\<rparr>"

definition css_module_loader :: loader where
  "css_module_loader =
     \<lparr>loader_name = ''css-loader'', loader_options = [OptNat ''importLoaders'' 1, OptBool ''modules'' True]\<rparr>"

definition webpack_module_rules :: "module_rule list" where
  "webpack_module_rules =
     [\<lparr>rule_test = CondRegex ts_rule_test, rule_exclude = [CondPrefix ''/node_modules/''],
       rule_use = [ts_loader], rule_type = None\<rparr>,
      \<lparr>rule_test = CondRegex css_rule_test, rule_exclude = [CondRegex css_module_rule_test],
       rule_use = [style_loader, css_loader], rule_type = None\<rparr>,
      \<lparr>rule_test = CondRegex css_module_rule_test, rule_exclude = [],
       rule_use = [style_loader, css_module_loader], rule_type = None\<rparr>,
      \<lparr>rule_test = CondRegex asset_rule_test, rule_exclude = [], rule_use = [],
       rule_type = Some ''asset''\<rparr>]"

definition webpack_terser :: terser_options where
  "webpack_terser =
     \<lparr>parse_ecma = 8, compress_ecma = 5, compress_warnings = False, compress_comparisons = False,
      mangle_safari10 = True, output_ecma = 5, output_comments = False, output_ascii_only = True\<rparr>"

definition get_config :: "js_string \<Rightarrow> webpack_config" where
  "get_config dirname =
     \<lparr>wp_entry = path_resolve dirname [''src'', ''index.tsx''],
      wp_output_path = path_resolve dirname [''build''],
      wp_output_filename = ''editor.js'',
      wp_dev_open = True,
      wp_dev_host = ''localhost'',
      wp_resolve_plugins = [TsconfigPathsPlugin [''.ts'', ''.tsx'', ''.json'']],
      wp_resolve_extensions = [''.tsx'', ''.ts'', ''.jsx'', ''.js''],
      wp_plugins = [HtmlWebpackPlugin ''public/index.html'', MiniCssExtractPlugin,
                    CopyPlugin [(''public/fonts'', ''fonts''), (''public/static'', ''static'')]],
      wp_rules = webpack_module_rules,
      wp_minimize = True,
      wp_minimizer = [TerserPlugin webpack_terser True],
      wp_mode = None\<rparr>"

definition is_production :: "js_string option \<Rightarrow> bool" where
  "is_production node_env \<longleftrightarrow> node_env = Some ''production''"

definition webpack_export :: "js_string \<Rightarrow> js_string option \<Rightarrow> webpack_config" where
  "webpack_export dirname node_env =
     (let config = get_config dirname
      in if is_production node_env then config\<lparr>wp_mode := Some Production\<rparr>
         else config\<lparr>wp_mode := Some Development\<rparr>)"

text \<open>
  The entry module, \<open>src/src/index.tsx\<close>: it looks up the element with id \<open>root\<close> and, when
  there is one, renders \<open>App\<close> into it inside \<open>StrictMode\<close>; otherwise it renders nothing.
  The page's elements by id are the parameter \<open>get_element_by_id\<close>.
\<close>

datatype 'e app_root = NotMounted | MountedApp 'e bool

definition index_main :: "(js_string \<Rightarrow> 'e option) \<Rightarrow> 'e app_root" where
  "index_main get_element_by_id =
     (case get_element_by_id ''root'' of None \<Rightarrow> NotMounted | Some root_element \<Rightarrow> MountedApp root_element True)"

subsection \<open>What webpack does with it\<close>

fun cond_matches :: "condition \<Rightarrow> js_string \<Rightarrow> bool" where
  "cond_matches (CondRegex re) p = js_test re p"
| "cond_matches (CondPrefix s) p = prefix s p"

definition rule_applies :: "module_rule \<Rightarrow> js_string \<Rightarrow> bool" where
  "rule_applies r p \<longleftrightarrow>
     cond_matches (rule_test r) p \<and> \<not> list_ex (\<lambda>c. cond_matches c p) (rule_exclude r)"

definition webpack_loaders :: "webpack_config \<Rightarrow> js_string \<Rightarrow> loader list" where
  "webpack_loaders cfg p = concat (map rule_use (filter (\<lambda>r. rule_applies r p) (wp_rules cfg)))"

definition webpack_module_type :: "webpack_config \<Rightarrow> js_string \<Rightarrow> js_string option" where
  "webpack_module_type cfg p =
     fold (\<lambda>r t. if rule_applies r p \<and> rule_type r \<noteq> None then rule_type r else t) (wp_rules cfg) None"

text \<open>
  \<open>resolve.extensions\<close>: a request is the file itself when it exists, and otherwise the
  request with the first extension of the list that names an existing file.
\<close>

definition resolve_request :: "js_string list \<Rightarrow> (js_string \<Rightarrow> bool) \<Rightarrow> js_string \<Rightarrow> js_string option" where
  "resolve_request exts exists req =
     (if exists req then Some req
      else map_option (\<lambda>e. req @ e) (find (\<lambda>e. exists (req @ e)) exts))"

text \<open>A file name ends with a suffix, compared as the \<open>i\<close> flag compares.\<close>

definition ends_ci :: "js_string \<Rightarrow> js_string \<Rightarrow> bool" where
  "ends_ci x p \<longleftrightarrow> suffix (js_upper x) (js_upper p)"

subsection \<open>Properties\<close>

lemma rmatch_alts_lits:
  "rmatch (canon_rexp (alts (map lit ws))) m \<longleftrightarrow> (\<exists>w\<in>set ws. m = js_upper w)"
  by (induction ws rule: induct_list012) auto

lemma js_test_suffix_regex_i:
  "js_test (suffix_regex_i body) p \<longleftrightarrow> (\<exists>m. suffix m (js_upper p) \<and> rmatch (canon_rexp body) m)"
  by (simp add: js_test_end_anchored suffix_regex_i_def re_pattern_def js_canon_def)

lemma js_test_suffix_lit: "js_test (suffix_regex_i (lit w)) p \<longleftrightarrow> ends_ci w p"
  by (auto simp: js_test_suffix_regex_i ends_ci_def)

lemma js_test_suffix_lits:
  "js_test (suffix_regex_i (Times (lit a) (alts (map lit ws)))) p \<longleftrightarrow>
   list_ex (\<lambda>w. ends_ci (a @ w) p) ws"
  by (auto simp: js_test_suffix_regex_i ends_ci_def rmatch_alts_lits list_ex_iff)

lemma ts_rule_test_iff: "js_test ts_rule_test p \<longleftrightarrow> ends_ci ''.ts'' p \<or> ends_ci ''.tsx'' p"
  using js_test_suffix_lits [of "''.''" "[''ts'', ''tsx'']" p]
  by (simp add: ts_rule_test_def del: lit.simps)

lemma css_rule_test_iff: "js_test css_rule_test p \<longleftrightarrow> ends_ci ''.css'' p"
  unfolding css_rule_test_def by (rule js_test_suffix_lit)

lemma css_module_rule_test_iff: "js_test css_module_rule_test p \<longleftrightarrow> ends_ci ''.module.css'' p"
  unfolding css_module_rule_test_def by (rule js_test_suffix_lit)

lemma asset_rule_test_iff:
  "js_test asset_rule_test p \<longleftrightarrow> list_ex (\<lambda>e. ends_ci (''.'' @ e) p) asset_extensions"
  unfolding asset_rule_test_def by (rule js_test_suffix_lits)

lemma ends_ci_trans: "ends_ci (x @ y) p \<Longrightarrow> ends_ci y p"
  by (auto simp: ends_ci_def intro: suffix_order.trans suffix_appendI)

lemma ends_ci_distinct:
  assumes "ends_ci x p" "ends_ci y p" "\<not> suffix (js_upper x) (js_upper y)" "\<not> suffix (js_upper y) (js_upper x)"
  shows False
  using assms suffix_same_cases unfolding ends_ci_def by blast

lemma js_upper_exts:
  "js_upper ''.ts'' = ''.TS''" "js_upper ''.tsx'' = ''.TSX''" "js_upper ''.css'' = ''.CSS''"
  by (simp_all add: js_upper_def js_upper_char_def ascii_lower_def ascii_upper_def)

lemma ts_not_css:
  assumes "ends_ci ''.ts'' p \<or> ends_ci ''.tsx'' p"
  shows "\<not> ends_ci ''.css'' p"
proof
  assume c: "ends_ci ''.css'' p"
  have n: "\<not> suffix (js_upper x) (js_upper ''.css'')" "\<not> suffix (js_upper ''.css'') (js_upper x)"
    if "x = ''.ts'' \<or> x = ''.tsx''" for x
    using that by (auto simp: js_upper_exts suffix_to_prefix)
  from assms show False
    using ends_ci_distinct [OF _ c n] by blast
qed

lemma wp_rules_export [simp]: "wp_rules (webpack_export d env) = webpack_module_rules"
  by (simp add: webpack_export_def get_config_def Let_def)

lemma module_css_is_css: "ends_ci ''.module.css'' p \<Longrightarrow> ends_ci ''.css'' p"
  using ends_ci_trans [of "''.module''" "''.css''" p] by simp

text \<open>
  Claim C35: the loaders webpack applies to a module. A CSS module (a name ending in
  \<open>.module.css\<close>, in any case) goes through \<open>style-loader\<close> and \<open>css-loader\<close> with CSS
  modules on, any other CSS file through the two loaders without options, a TypeScript file
  through \<open>ts-loader\<close> unless its absolute path starts with \<open>/node_modules/\<close>, and every other
  file through none; a file with one of the image and font extensions is an asset module.
  The \<open>exclude\<close> string of the TypeScript rule is an absolute path prefix, so it keeps
  \<open>ts-loader\<close> only from a \<open>node_modules\<close> directory at the root of the file system.
\<close>

theorem webpack_module_loaders:
  "webpack_loaders (webpack_export d env) p =
     (if ends_ci ''.module.css'' p then [style_loader, css_module_loader]
      else if ends_ci ''.css'' p then [style_loader, css_loader]
      else if (ends_ci ''.ts'' p \<or> ends_ci ''.tsx'' p) \<and> \<not> prefix ''/node_modules/'' p then [ts_loader]
      else []) \<and>
   webpack_module_type (webpack_export d env) p =
     (if list_ex (\<lambda>e. ends_ci (''.'' @ e) p) asset_extensions then Some ''asset'' else None)"
proof
  show "webpack_module_type (webpack_export d env) p =
     (if list_ex (\<lambda>e. ends_ci (''.'' @ e) p) asset_extensions then Some ''asset'' else None)"
    by (simp add: webpack_module_type_def webpack_module_rules_def rule_applies_def asset_rule_test_iff)
  show "webpack_loaders (webpack_export d env) p =
     (if ends_ci ''.module.css'' p then [style_loader, css_module_loader]
      else if ends_ci ''.css'' p then [style_loader, css_loader]
      else if (ends_ci ''.ts'' p \<or> ends_ci ''.tsx'' p) \<and> \<not> prefix ''/node_modules/'' p then [ts_loader]
      else [])"
    using ts_not_css [of p] module_css_is_css [of p]
    by (auto simp: webpack_loaders_def webpack_module_rules_def rule_applies_def ts_rule_test_iff
                   css_rule_test_iff css_module_rule_test_iff)
qed

lemma webpack_module_loaders_witness:
  "webpack_loaders (webpack_export ''/home/dev/syntaxica'' None) ''/home/dev/syntaxica/node_modules/lib/index.ts'' = [ts_loader]"
  using conjunct1 [OF webpack_module_loaders [of "''/home/dev/syntaxica''" None "''/home/dev/syntaxica/node_modules/lib/index.ts''"]]
  by (simp add: ends_ci_def js_upper_def js_upper_char_def ascii_lower_def ascii_upper_def suffix_to_prefix)

lemma webpack_mode_export:
  "wp_mode (webpack_export d env) = Some (if env = Some ''production'' then Production else Development)"
  by (simp add: webpack_export_def get_config_def is_production_def Let_def)

lemma resolve_request_prefers_tsx:
  assumes "\<not> exists req" and "exists (req @ ''.tsx'')"
  shows "resolve_request (wp_resolve_extensions (webpack_export d env)) exists req = Some (req @ ''.tsx'')"
  using assms by (simp add: resolve_request_def webpack_export_def get_config_def Let_def)

lemma webpack_entry_index:
  "wp_entry (webpack_export d env) = d @ ''/src/index.tsx''"
  by (simp add: webpack_export_def get_config_def path_resolve_def Let_def)

end
