(* ===== verification/Jest.thy ===== *)
theory Jest
  imports JsRegex
begin

text \<open>
  The Jest configuration (\<open>src/jest.config.js\<close>) and the two decisions Jest takes from it:
  which files run as tests and which transformer compiles a file. The configuration object
  is the record \<open>jest_config_js\<close>; Jest normalises it by replacing a leading \<open><rootDir>\<close>
  in its paths with the directory of the configuration (\<open>jest_normalize\<close>). A file is a test
  when it lies under one of the roots, its extension is one of \<open>moduleFileExtensions\<close>, its
  path passes \<open>testRegex\<close> and none of \<open>testPathIgnorePatterns\<close>; the patterns are strings
  that Jest compiles with \<open>new RegExp\<close> and no flags. A file whose path passes one of
  \<open>transformIgnorePatterns\<close>, which the configuration leaves at Jest's default
  \<open>["/node_modules/", "\\.pnp\\.[^\\/]+$"]\<close>, is not transformed; any other file is compiled
  by the transformer of the first \<open>transform\<close> pattern its path passes. A file's extension is the text after the last dot of
  its base name (\<open>path.extname\<close>; for a base name whose only dot is its first character,
  such as \<open>.ts\<close>, Node reports no extension and the model reads one). \<open>moduleNameMapper\<close> is built from the
  \<open>paths\<close> of \<open>tsconfig.json\<close>, which is not part of the repository: it is a parameter.
\<close>

subsection \<open>The configuration object\<close>

record jest_config =
  jest_roots :: "js_string list"
  jest_transform :: "(js_regex \<times> js_string) list"
  jest_transform_ignore :: "js_regex list"
  jest_test_regex :: js_regex
  jest_module_name_mapper :: "(js_string \<times> js_string) list"
  jest_test_path_ignore :: "js_regex list"
  jest_test_environment :: js_string
  jest_module_file_extensions :: "js_string list"
  jest_setup_files_after_env :: "js_string list"

text \<open>\<open>"^.+\\.tsx?$"\<close>\<close>

definition ts_transform_regex :: js_regex where
  "ts_transform_regex =
     \<lparr>re_start = True, re_body = Times (plus1 dot) (Times (lit ''.ts'') (opt (lit ''x''))),
      re_end = True, re_icase = False\<rparr>"

text \<open>\<open>"\\.css$"\<close>\<close>

definition css_transform_regex :: js_regex where
  "css_transform_regex = \<lparr>re_start = False, re_body = lit ''.css'', re_end = True, re_icase = False\<rparr>"

text \<open>\<open>"(/test/.*|(\\.|/)(test|spec))\\.tsx?$"\<close>\<close>

definition jest_test_regex_js :: js_regex where
  "jest_test_regex_js =
     \<lparr>re_start = False,
      re_body = Times (Plus (Times (lit ''/test/'') (Star dot))
                            (Times (Plus (lit ''.'') (lit ''/'')) (Plus (lit ''test'') (lit ''spec''))))
                      (Times (lit ''.ts'') (opt (lit ''x''))),
      re_end = True, re_icase = False\<rparr>"

text \<open>Jest's default \<open>transformIgnorePatterns\<close>: \<open>"/node_modules/"\<close> and
  \<open>"\\.pnp\\.[^\\/]+$"\<close>.\<close>

definition pnp_transform_ignore_regex :: js_regex where
  "pnp_transform_ignore_regex =
     \<lparr>re_start = False, re_body = Times (lit ''.pnp.'') (plus1 (NotChars ''/'')), re_end = True, re_icase = False\<rparr>"

definition jest_default_transform_ignore :: "js_regex list" where
  "jest_default_transform_ignore = [literal_regex ''/node_modules/'', pnp_transform_ignore_regex]"

definition jest_ignored_paths :: "js_string list" where
  "jest_ignored_paths = [''/node_modules/'', ''/dist/'', ''/test/__helpers__/'', ''/test/__mocks__'']"

definition jest_config_js :: "(js_string \<times> js_string) list \<Rightarrow> jest_config" where
  "jest_config_js mapper =
     \<lparr>jest_roots = [''<rootDir>/src'', ''<rootDir>/test''],
      jest_transform = [(ts_transform_regex, ''ts-jest''),
                        (css_transform_regex, ''<rootDir>/test/__helpers__/css-module.transformer.js'')],
      jest_transform_ignore = jest_default_transform_ignore,
      jest_test_regex = jest_test_regex_js,
      jest_module_name_mapper = mapper,
      jest_test_path_ignore = map literal_regex jest_ignored_paths,
      jest_test_environment = ''jsdom'',
      jest_module_file_extensions = [''ts'', ''tsx'', ''js'', ''jsx'', ''json'', ''node''],
      jest_setup_files_after_env = [''<rootDir>/test/__helpers__/jest.setup.ts'']\<rparr>"

subsection \<open>What Jest does with it\<close>

definition root_dir_token :: js_string where
  "root_dir_token = ''<rootDir>''"

definition replace_root_dir :: "js_string \<Rightarrow> js_string \<Rightarrow> js_string" where
  "replace_root_dir rd s =
     (if prefix root_dir_token s then rd @ drop (length root_dir_token) s else s)"

definition jest_normalize :: "js_string \<Rightarrow> jest_config \<Rightarrow> jest_config" where
  "jest_normalize rd cfg =
     cfg\<lparr>jest_roots := map (replace_root_dir rd) (jest_roots cfg),
         jest_transform := map (\<lambda>(re, t). (re, replace_root_dir rd t)) (jest_transform cfg),
         jest_module_name_mapper := map (\<lambda>(k, v). (k, replace_root_dir rd v)) (jest_module_name_mapper cfg),
         jest_setup_files_after_env := map (replace_root_dir rd) (jest_setup_files_after_env cfg)\<rparr>"

definition file_extension :: "js_string \<Rightarrow> js_string" where
  "file_extension p =
     (if CHR ''.'' \<in> set (base_name p) then rev (takeWhile (\<lambda>c. c \<noteq> CHR ''.'') (rev p)) else [])"

definition jest_is_test :: "jest_config \<Rightarrow> js_string \<Rightarrow> bool" where
  "jest_is_test cfg p \<longleftrightarrow>
     list_ex (\<lambda>r. prefix (r @ ''/'') p) (jest_roots cfg) \<and>
     file_extension p \<in> set (jest_module_file_extensions cfg) \<and>
     js_test (jest_test_regex cfg) p \<and>
     \<not> list_ex (\<lambda>re. js_test re p) (jest_test_path_ignore cfg)"

definition jest_transformer :: "jest_config \<Rightarrow> js_string \<Rightarrow> js_string option" where
  "jest_transformer cfg p =
     (if list_ex (\<lambda>re. js_test re p) (jest_transform_ignore cfg) then None
      else map_option snd (find (\<lambda>(re, t). js_test re p) (jest_transform cfg)))"

subsection \<open>Properties\<close>

lemma jest_test_alt_nonempty:
  "rmatch (Plus (Times (lit ''/test/'') (Star dot))
                (Times (Plus (lit ''.'') (lit ''/'')) (Plus (lit ''test'') (lit ''spec'')))) u \<Longrightarrow> u \<noteq> []"
  by auto

lemma rmatch_ts_x: "rmatch (Times (lit ''.ts'') (opt (lit ''x''))) v \<longleftrightarrow> v = ''.ts'' \<or> v = ''.tsx''"
  by (auto simp: opt_def)

lemma jest_test_regex_end:
  assumes "js_test jest_test_regex_js p"
  shows "\<exists>a. a \<noteq> [] \<and> (p = a @ ''.ts'' \<or> p = a @ ''.tsx'')"
proof -
  have r: "\<not> re_start jest_test_regex_js" "re_end jest_test_regex_js"
    "re_pattern jest_test_regex_js = re_body jest_test_regex_js" "js_canon jest_test_regex_js p = p"
    by (simp_all add: jest_test_regex_js_def re_pattern_def js_canon_def)
  from assms obtain pre m where p: "p = pre @ m" and mm: "rmatch (re_body jest_test_regex_js) m"
    unfolding js_test_end_anchored [OF r(1,2)] r(3,4) suffix_def by blast
  from mm obtain u v where uv: "m = u @ v"
    "rmatch (Plus (Times (lit ''/test/'') (Star dot))
                  (Times (Plus (lit ''.'') (lit ''/'')) (Plus (lit ''test'') (lit ''spec'')))) u"
    "rmatch (Times (lit ''.ts'') (opt (lit ''x''))) v"
    unfolding jest_test_regex_js_def js_regex.select_convs by (rule rmatch_TimesE)
  have "u \<noteq> []" by (rule jest_test_alt_nonempty [OF uv(2)])
  moreover have "v = ''.ts'' \<or> v = ''.tsx''" using uv(3) rmatch_ts_x by blast
  ultimately show ?thesis using p uv(1) by (intro exI [of _ "pre @ u"]) auto
qed

lemma jest_test_regex_under_test:
  assumes "no_line_break q" and "suffix ''.ts'' q \<or> suffix ''.tsx'' q"
  shows "js_test jest_test_regex_js (rd @ ''/test/'' @ q)"
proof -
  have r: "\<not> re_start jest_test_regex_js" "re_end jest_test_regex_js"
    "re_pattern jest_test_regex_js = re_body jest_test_regex_js"
    "js_canon jest_test_regex_js (rd @ ''/test/'' @ q) = rd @ ''/test/'' @ q"
    by (simp_all add: jest_test_regex_js_def re_pattern_def js_canon_def)
  from assms(2) obtain q' v where q: "q = q' @ v" and v: "v = ''.ts'' \<or> v = ''.tsx''"
    by (auto simp: suffix_def)
  have "no_line_break q'" using assms(1) q by (simp add: no_line_break_def)
  then have "rmatch (Plus (Times (lit ''/test/'') (Star dot))
                  (Times (Plus (lit ''.'') (lit ''/'')) (Plus (lit ''test'') (lit ''spec'')))) (''/test/'' @ q')"
    by (intro rmatch.plus_l rmatch_TimesI [of _ "''/test/''" _ q']) (simp_all add: rmatch_star_dot)
  moreover have "rmatch (Times (lit ''.ts'') (opt (lit ''x''))) v" using v rmatch_ts_x by blast
  ultimately have "rmatch (re_body jest_test_regex_js) ((''/test/'' @ q') @ v)"
    unfolding jest_test_regex_js_def js_regex.select_convs by (rule rmatch.times)
  then show ?thesis
    unfolding js_test_end_anchored [OF r(1,2)] r(3,4) suffix_def using q by auto
qed

lemma ts_transform_regex_ts:
  assumes "no_line_break (a @ v)" and "a \<noteq> []" and "v = ''.ts'' \<or> v = ''.tsx''"
  shows "js_test ts_transform_regex (a @ v)"
proof -
  obtain c a' where a: "a = c # a'" using assms(2) by (cases a) auto
  have "rmatch (plus1 dot) a"
    using assms(1) unfolding a plus1_def
    by (intro rmatch_TimesI [of _ "[c]" _ a']) (auto simp: dot_def rmatch_star_not_chars no_line_break_def)
  moreover have "rmatch (Times (lit ''.ts'') (opt (lit ''x''))) v" using assms(3) rmatch_ts_x by blast
  ultimately show ?thesis
    unfolding js_test_canon by (auto simp: ts_transform_regex_def re_pattern_def js_canon_def intro: rmatch.times)
qed

lemma file_extension_ts:
  "file_extension (a @ ''.ts'') = ''ts''" "file_extension (a @ ''.tsx'') = ''tsx''"
  by (simp_all add: file_extension_def base_name_def)

lemma jest_config_normalized:
  "jest_roots (jest_normalize rd (jest_config_js m)) = [rd @ ''/src'', rd @ ''/test'']"
  "jest_transform (jest_normalize rd (jest_config_js m)) =
     [(ts_transform_regex, ''ts-jest''), (css_transform_regex, rd @ ''/test/__helpers__/css-module.transformer.js'')]"
  "jest_transform_ignore (jest_normalize rd (jest_config_js m)) = jest_default_transform_ignore"
  "jest_test_regex (jest_normalize rd (jest_config_js m)) = jest_test_regex_js"
  "jest_test_path_ignore (jest_normalize rd (jest_config_js m)) = map literal_regex jest_ignored_paths"
  "jest_module_file_extensions (jest_normalize rd (jest_config_js m)) = [''ts'', ''tsx'', ''js'', ''jsx'', ''json'', ''node'']"
  "jest_setup_files_after_env (jest_normalize rd (jest_config_js m)) = [rd @ ''/test/__helpers__/jest.setup.ts'']"
  by (simp_all add: jest_normalize_def jest_config_js_def replace_root_dir_def root_dir_token_def)

lemma jest_ignored_iff:
  "list_ex (\<lambda>re. js_test re p) (map literal_regex ds) \<longleftrightarrow> list_ex (\<lambda>d. sublist d p) ds"
  by (induction ds) (simp_all add: js_test_literal_regex)

lemma suffix_ts_under_dir:
  assumes "suffix v (rd @ ''/test/'' @ q)" and "v = ''.ts'' \<or> v = ''.tsx''"
  shows "suffix v q"
  using suffix_append_sep [of v "rd @ ''/test/''" q] assms by auto

lemma jest_is_test_under_test:
  assumes "no_line_break q"
  shows "jest_is_test (jest_normalize rd (jest_config_js m)) (rd @ ''/test/'' @ q) \<longleftrightarrow>
           (suffix ''.ts'' q \<or> suffix ''.tsx'' q) \<and>
           \<not> list_ex (\<lambda>d. sublist d (rd @ ''/test/'' @ q)) jest_ignored_paths"
proof
  assume t: "jest_is_test (jest_normalize rd (jest_config_js m)) (rd @ ''/test/'' @ q)"
  then have "js_test jest_test_regex_js (rd @ ''/test/'' @ q)"
    by (simp add: jest_is_test_def jest_config_normalized)
  then obtain a where "rd @ ''/test/'' @ q = a @ ''.ts'' \<or> rd @ ''/test/'' @ q = a @ ''.tsx''"
    using jest_test_regex_end by blast
  then have "suffix ''.ts'' (rd @ ''/test/'' @ q) \<or> suffix ''.tsx'' (rd @ ''/test/'' @ q)"
    by (auto simp: suffix_def)
  then have "suffix ''.ts'' q \<or> suffix ''.tsx'' q"
    using suffix_ts_under_dir [of _ rd q] by blast
  then show "(suffix ''.ts'' q \<or> suffix ''.tsx'' q) \<and>
           \<not> list_ex (\<lambda>d. sublist d (rd @ ''/test/'' @ q)) jest_ignored_paths"
    using t by (simp add: jest_is_test_def jest_config_normalized jest_ignored_iff)
next
  assume r: "(suffix ''.ts'' q \<or> suffix ''.tsx'' q) \<and>
           \<not> list_ex (\<lambda>d. sublist d (rd @ ''/test/'' @ q)) jest_ignored_paths"
  then obtain q' v where q: "q = q' @ v" "v = ''.ts'' \<or> v = ''.tsx''" by (auto simp: suffix_def)
  then have "file_extension (rd @ ''/test/'' @ q) \<in> set [''ts'', ''tsx'', ''js'', ''jsx'', ''json'', ''node'']"
    using file_extension_ts [of "rd @ ''/test/'' @ q'"] by auto
  then show "jest_is_test (jest_normalize rd (jest_config_js m)) (rd @ ''/test/'' @ q)"
    using r assms jest_test_regex_under_test [of q rd]
    by (simp add: jest_is_test_def jest_config_normalized jest_ignored_iff)
qed

lemma jest_test_transformed:
  assumes "no_line_break p" and "jest_is_test (jest_normalize rd (jest_config_js m)) p"
  shows "jest_transformer (jest_normalize rd (jest_config_js m)) p =
           (if js_test pnp_transform_ignore_regex p then None else Some ''ts-jest'')"
proof -
  have "js_test jest_test_regex_js p" and nm: "\<not> sublist ''/node_modules/'' p"
    using assms(2) by (simp_all add: jest_is_test_def jest_config_normalized jest_ignored_paths_def js_test_literal_regex)
  then obtain a v where "a \<noteq> []" "p = a @ v" "v = ''.ts'' \<or> v = ''.tsx''"
    using jest_test_regex_end by blast
  then have "js_test ts_transform_regex p" using assms(1) ts_transform_regex_ts by blast
  with nm show ?thesis
    by (simp add: jest_transformer_def jest_config_normalized jest_default_transform_ignore_def js_test_literal_regex)
qed

lemma jest_test_name: 
  assumes "jest_is_test (jest_normalize rd (jest_config_js m)) q"
  shows "suffix ''.ts'' (base_name q) \<or> suffix ''.tsx'' (base_name q)"
proof -
  have "js_test jest_test_regex_js q"
    using assms by (simp add: jest_is_test_def jest_config_normalized)
  then obtain a where "q = a @ ''.ts'' \<or> q = a @ ''.tsx''" using jest_test_regex_end by blast
  then show ?thesis using suffix_base_name [of "''.ts''" q] suffix_base_name [of "''.tsx''" q]
    by (auto simp: suffix_def)
qed

text \<open>
  Claim C36: the files Jest runs as tests. A file under \<open><rootDir>/test\<close> whose path has
  no line break runs as a test exactly when its name ends in \<open>.ts\<close> or \<open>.tsx\<close> and its
  path contains none of the ignored directories; every test file is compiled by
  \<open>ts-jest\<close>, except one whose name has a \<open>.pnp.\<close> part, which Jest's default
  \<open>transformIgnorePatterns\<close> leave untransformed; and the setup file \<open>test/__helpers__/jest.setup.ts\<close>, which Jest loads
  before the tests, is not itself run as a test.
\<close>

theorem jest_test_files:
  assumes "no_line_break q" and "no_line_break p"
  shows "(jest_is_test (jest_normalize rd (jest_config_js m)) (rd @ ''/test/'' @ q) \<longleftrightarrow>
           (suffix ''.ts'' q \<or> suffix ''.tsx'' q) \<and>
           \<not> list_ex (\<lambda>d. sublist d (rd @ ''/test/'' @ q)) jest_ignored_paths) \<and>
         (jest_is_test (jest_normalize rd (jest_config_js m)) p \<longrightarrow>
           jest_transformer (jest_normalize rd (jest_config_js m)) p =
             (if js_test pnp_transform_ignore_regex p then None else Some ''ts-jest'')) \<and>
         jest_setup_files_after_env (jest_normalize rd (jest_config_js m)) = [rd @ ''/test/__helpers__/jest.setup.ts''] \<and>
         \<not> jest_is_test (jest_normalize rd (jest_config_js m)) (rd @ ''/test/__helpers__/jest.setup.ts'')"
proof (intro conjI impI)
  show "jest_is_test (jest_normalize rd (jest_config_js m)) (rd @ ''/test/'' @ q) \<longleftrightarrow>
           (suffix ''.ts'' q \<or> suffix ''.tsx'' q) \<and>
           \<not> list_ex (\<lambda>d. sublist d (rd @ ''/test/'' @ q)) jest_ignored_paths"
    using assms(1) by (rule jest_is_test_under_test)
  show "jest_transformer (jest_normalize rd (jest_config_js m)) p =
             (if js_test pnp_transform_ignore_regex p then None else Some ''ts-jest'')"
    if "jest_is_test (jest_normalize rd (jest_config_js m)) p"
    using assms(2) that by (rule jest_test_transformed)
  show "jest_setup_files_after_env (jest_normalize rd (jest_config_js m)) = [rd @ ''/test/__helpers__/jest.setup.ts'']"
    by (simp add: jest_config_normalized)
  have "sublist ''/test/__helpers__/'' (rd @ ''/test/__helpers__/jest.setup.ts'')"
    using sublist_appendI [of "''/test/__helpers__/''" rd "''jest.setup.ts''"] by simp
  then show "\<not> jest_is_test (jest_normalize rd (jest_config_js m)) (rd @ ''/test/__helpers__/jest.setup.ts'')"
    by (simp add: jest_is_test_def jest_config_normalized jest_ignored_paths_def js_test_literal_regex)
qed

lemma jest_test_files_witness:
  "no_line_break ''components/button.component.spec.tsx'' \<and> no_line_break ''/app/test/x.spec.tsx'' \<and>
   jest_is_test (jest_normalize ''/app'' (jest_config_js [])) (''/app'' @ ''/test/'' @ ''components/button.component.spec.tsx'')"
  using jest_test_files [of "''components/button.component.spec.tsx''" "''/app/test/x.spec.tsx''" "''/app''" "[]"]
  by (simp add: no_line_break_def jest_ignored_paths_def suffix_to_prefix sublist_code)

end
