(* ===== verification/Eslint.thy ===== *)
theory Eslint
  imports JsRegex
begin

text \<open>
  The ESLint configuration (\<open>src/.eslintrc.js\<close>): a root configuration with two
  \<open>overrides\<close>, one for TypeScript files and one for JavaScript files, and the
  configuration ESLint computes from it for a file. An override applies to a file when one
  of its \<open>files\<close> globs matches; a glob without a slash is matched against the file's base
  name, \<open>*\<close> stands for any run of characters but the slash, dots included, and \<open>?\<close> for
  one such character (minimatch with \<open>matchBase\<close> and \<open>dot\<close>, as ESLint calls it; the
  configuration's globs use no other glob syntax). The applying overrides are merged in
  order over the empty root configuration: lists of environments, shared configurations
  and plugins are concatenated, a parser replaces the earlier one, and a rule setting
  replaces the earlier setting of the same rule. The shared configurations named in
  \<open>extends\<close> are library code and are kept as names. When ESLint is pointed at a directory it
  lints the \<open>.js\<close> files and the files that an override's globs match, except the files its
  built-in ignore patterns exclude (\<open>eslint_ignored\<close>). Paths are relative to the project
  directory \<open>src/\<close>, which holds \<open>.eslintrc.js\<close> and is ESLint's working directory, and are
  normalised (no empty, \<open>.\<close> or \<open>..\<close> segment).
\<close>

subsection \<open>The configuration object\<close>

record prettier_options =
  trailing_comma :: js_string
  tab_width :: nat
  semi :: bool
  single_quote :: bool
  print_width :: nat

datatype rule_setting = RuleOff | RuleError prettier_options

record parser_options =
  ecma_version :: nat
  source_type :: js_string
  ts_project :: js_string

record eslint_override =
  ov_files :: "js_string list"
  ov_env :: "js_string list"
  ov_extends :: "js_string list"
  ov_plugins :: "js_string list"
  ov_parser :: "js_string option"
  ov_parser_options :: "parser_options option"
  ov_rules :: "(js_string \<times> rule_setting) list"

record eslint_config =
  es_root :: bool
  es_overrides :: "eslint_override list"

definition eslint_prettier_options :: prettier_options where
  "eslint_prettier_options =
     \<lparr>trailing_comma = ''all'', tab_width = 2, semi = True, single_quote = True, print_width = 120\<rparr>"

definition ts_override :: eslint_override where
  "ts_override =
     \<lparr>ov_files = [''*.ts'', ''*.tsx''],
      ov_env = [''es2021'', ''browser'', ''jest''],
      ov_extends = [''airbnb'', ''airbnb-typescript'', ''airbnb/hooks'',
                    ''plugin:@typescript-eslint/recommended'', ''prettier''],
      ov_plugins = [''prettier''],
      ov_parser = Some ''@typescript-eslint/parser'',
      ov_parser_options = Some \<lparr>ecma_version = 12, source_type = ''module'', ts_project = ''./tsconfig.json''\<rparr>,
      ov_rules = [(''prettier/prettier'', RuleError eslint_prettier_options),
                  (''max-nested-callbacks'', RuleOff),
                  (''import/prefer-default-export'', RuleOff),
                  (''no-underscore-dangle'', RuleOff),
                  (''class-methods-use-this'', RuleOff),
                  (''jsx-a11y/no-noninteractive-element-interactions'', RuleOff),
                  (''jsx-a11y/click-events-have-key-events'', RuleOff),
                  (''import/extensions'', RuleOff),
                  (''react/jsx-props-no-spreading'', RuleOff)]\<rparr>"

definition js_override :: eslint_override where
  "js_override =
     \<lparr>ov_files = [''*.js''],
      ov_env = [''node''],
      ov_extends = [''airbnb-base'', ''prettier''],
      ov_plugins = [''prettier''],
      ov_parser = None,
      ov_parser_options = None,
      ov_rules = [(''prettier/prettier'', RuleError eslint_prettier_options),
                  (''import/extensions'', RuleOff)]\<rparr>"

definition eslintrc :: eslint_config where
  "eslintrc = \<lparr>es_root = True, es_overrides = [ts_override, js_override]\<rparr>"

subsection \<open>What ESLint does with it\<close>

fun glob_rexp :: "js_string \<Rightarrow> rexp" where
  "glob_rexp [] = One"
| "glob_rexp (c # g) =
     (if c = CHR ''*'' then Times (Star (NotChars ''/'')) (glob_rexp g)
      else if c = CHR ''?'' then Times (NotChars ''/'') (glob_rexp g)
      else Times (Chars [c]) (glob_rexp g))"

definition glob_matches :: "js_string \<Rightarrow> js_string \<Rightarrow> bool" where
  "glob_matches g p =
     matcher (glob_rexp g) (if CHR ''/'' \<in> set g then p else base_name p)"

definition override_applies :: "eslint_override \<Rightarrow> js_string \<Rightarrow> bool" where
  "override_applies ov p \<longleftrightarrow> list_ex (\<lambda>g. glob_matches g p) (ov_files ov)"

record resolved_config =
  rc_env :: "js_string list"
  rc_extends :: "js_string list"
  rc_plugins :: "js_string list"
  rc_parser :: "js_string option"
  rc_parser_options :: "parser_options option"
  rc_rules :: "js_string \<Rightarrow> rule_setting option"

definition empty_resolved :: resolved_config where
  "empty_resolved =
     \<lparr>rc_env = [], rc_extends = [], rc_plugins = [], rc_parser = None, rc_parser_options = None,
      rc_rules = Map.empty\<rparr>"

definition merge_override :: "eslint_override \<Rightarrow> resolved_config \<Rightarrow> resolved_config" where
  "merge_override ov rc =
     \<lparr>rc_env = rc_env rc @ ov_env ov,
      rc_extends = rc_extends rc @ ov_extends ov,
      rc_plugins = rc_plugins rc @ ov_plugins ov,
      rc_parser = (case ov_parser ov of None \<Rightarrow> rc_parser rc | Some p \<Rightarrow> Some p),
      rc_parser_options = (case ov_parser_options ov of None \<Rightarrow> rc_parser_options rc | Some p \<Rightarrow> Some p),
      rc_rules = rc_rules rc ++ map_of (rev (ov_rules ov))\<rparr>"

definition config_for_file :: "eslint_config \<Rightarrow> js_string \<Rightarrow> resolved_config" where
  "config_for_file cfg p =
     fold merge_override (filter (\<lambda>ov. override_applies ov p) (es_overrides cfg)) empty_resolved"

text \<open>
  ESLint's built-in ignore patterns for an \<open>.eslintrc\<close> configuration, applied relative to
  the working directory: \<open>/**/node_modules/*\<close> ignores everything below a \<open>node_modules\<close>
  directory at any depth, and the dot patterns \<open>.*\<close>, \<open>!.eslintrc.*\<close> ignore every file or
  directory whose name starts with a dot, everything below such a directory, and re-admit a
  dot-file named \<open>.eslintrc.*\<close> that is not inside an ignored directory.
\<close>

definition eslint_ignored :: "js_string \<Rightarrow> bool" where
  "eslint_ignored p \<longleftrightarrow>
     list_ex (\<lambda>d. d = ''node_modules'' \<or> take 1 d = ''.'') (butlast (js_split CHR ''/'' p)) \<or>
     (take 1 (base_name p) = ''.'' \<and> \<not> prefix ''.eslintrc.'' (base_name p))"

definition eslint_lints :: "eslint_config \<Rightarrow> js_string \<Rightarrow> bool" where
  "eslint_lints cfg p \<longleftrightarrow>
     \<not> eslint_ignored p \<and>
     (glob_matches ''*.js'' p \<or> list_ex (\<lambda>ov. override_applies ov p) (es_overrides cfg))"

subsection \<open>Properties\<close>

lemma slash_not_in_base_name [simp]: "CHR ''/'' \<notin> set (base_name p)"
  by (auto simp: base_name_def dest: set_takeWhileD)

lemma glob_rexp_lit: "CHR ''*'' \<notin> set x \<Longrightarrow> CHR ''?'' \<notin> set x \<Longrightarrow> glob_rexp x = lit x"
  by (induction x) auto

lemma glob_star_suffix:
  assumes "CHR ''*'' \<notin> set x" "CHR ''?'' \<notin> set x" "CHR ''/'' \<notin> set x"
  shows "glob_matches (CHR ''*'' # x) p \<longleftrightarrow> suffix x (base_name p)"
proof -
  have "rmatch (Times (Star (NotChars ''/'')) (lit x)) b \<longleftrightarrow> suffix x b" if "CHR ''/'' \<notin> set b" for b
    using that by (auto simp: rmatch_star_not_chars suffix_def simp del: lit.simps)
  then have "rmatch (Times (Star (NotChars ''/'')) (lit x)) (base_name p) \<longleftrightarrow> suffix x (base_name p)"
    by simp
  then show ?thesis using assms by (simp add: glob_matches_def matcher_iff glob_rexp_lit del: lit.simps)
qed

lemma glob_ext_iff:
  "glob_matches ''*.ts'' p \<longleftrightarrow> suffix ''.ts'' (base_name p)"
  "glob_matches ''*.tsx'' p \<longleftrightarrow> suffix ''.tsx'' (base_name p)"
  "glob_matches ''*.js'' p \<longleftrightarrow> suffix ''.js'' (base_name p)"
  using glob_star_suffix [of "''.ts''" p] glob_star_suffix [of "''.tsx''" p]
    glob_star_suffix [of "''.js''" p]
  by simp_all

lemma ts_not_js: "suffix ''.ts'' b \<or> suffix ''.tsx'' b \<Longrightarrow> \<not> suffix ''.js'' b"
  by (auto simp: suffix_def)

lemma suffix_base_name_iff:
  assumes "CHR ''/'' \<notin> set x"
  shows "suffix x (base_name p) \<longleftrightarrow> suffix x p"
proof
  assume "suffix x (base_name p)"
  moreover have "p = rev (dropWhile (\<lambda>c. c \<noteq> CHR ''/'') (rev p)) @ base_name p"
    unfolding base_name_def
    by (metis rev_append rev_rev_ident takeWhile_dropWhile_id)
  then have "suffix (base_name p) p" by (metis suffix_def)
  ultimately show "suffix x p" by (rule suffix_order.trans)
qed (rule suffix_base_name [OF _ assms])

lemma suffix_after_sep:
  assumes "c \<notin> set x" and "suffix x (a @ c # r)"
  shows "suffix x r"
  using assms by (auto simp: suffix_append suffix_Cons)

text \<open>
  The configuration ESLint uses for a file. A file whose name ends in \<open>.ts\<close>
  or \<open>.tsx\<close> is parsed by \<open>@typescript-eslint/parser\<close>, every other file by the default
  parser; the \<open>prettier/prettier\<close> rule is an error with the same Prettier options for
  the TypeScript and the JavaScript files and is unset for every other file; and a
  directory run lints exactly the \<open>.ts\<close>, \<open>.tsx\<close> and \<open>.js\<close> files that the built-in patterns
  do not ignore, so a \<open>.jsx\<close> file, which webpack and Jest both accept, is never linted.
\<close>

lemma eslint_file_config:
  "rc_rules (config_for_file eslintrc p) ''prettier/prettier'' =
     (if suffix ''.ts'' (base_name p) \<or> suffix ''.tsx'' (base_name p) \<or> suffix ''.js'' (base_name p)
      then Some (RuleError eslint_prettier_options) else None) \<and>
   rc_parser (config_for_file eslintrc p) =
     (if suffix ''.ts'' (base_name p) \<or> suffix ''.tsx'' (base_name p)
      then Some ''@typescript-eslint/parser'' else None) \<and>
   (eslint_lints eslintrc p \<longleftrightarrow> \<not> eslint_ignored p \<and>
     (suffix ''.ts'' (base_name p) \<or> suffix ''.tsx'' (base_name p) \<or> suffix ''.js'' (base_name p)))"
  using ts_not_js [of "base_name p"]
  by (auto simp: config_for_file_def eslintrc_def override_applies_def ts_override_def js_override_def
                 glob_ext_iff merge_override_def empty_resolved_def eslint_lints_def)

end
