(* ===== verification/Spec2Isabelle.thy ===== *)
theory Spec2Isabelle
  imports EditorApp ParseTree Sharing Highlights Parsing ExamplesList Button Widgets ShareButton ExampleCode Views
    Webpack Jest Eslint
begin

text \<open>
  \<^bold>\<open>A verification library for the syntaxica editor\<close> (\<open>src/src/\<close>: a React and
  TypeScript web application).

  \<^bold>\<open>The program.\<close> \<open>App\<close> (\<open>app.tsx\<close>) holds the editor text as its \<open>query\<close> state and
  renders \<open>CodeEditor\<close> (\<open>components/code-editor/code-editor.tsx\<close>). The editor tracks
  the caret of its text area, sends the text to a grammar worker (\<open>hooks/parsing\<close>),
  highlights it (\<open>hooks/highlights\<close>), shows the parse tree (\<open>components/parse-tree\<close>
  with \<open>hooks/parse-tree-converter\<close>), loads shared code from the URL
  (\<open>hooks/code-loader\<close>, \<open>hooks/encoding\<close>), builds share links
  (\<open>components/share-button\<close>, drawn by \<open>components/button\<close>), lists the grammar's
  examples (\<open>components/examples-list\<close>), the parser's errors
  (\<open>components/errors-list\<close>) and the workers (\<open>components/worker-select\<close>), and renders
  the \<open>Autocomplete\<close> popup (\<open>components/autocomplete/autocomplete.component.tsx\<close>). The
  popup extracts the word before the caret, ranks the grammar's keywords against it,
  recomputes after a debounce (\<open>hooks/debounce/debounced-effect.ts\<close>), and handles the
  keyboard; an accepted suggestion is passed back to the editor's
  \<open>handleSuggestionAccept\<close>. Beside the program, the repository holds its entry module
  (\<open>src/src/index.tsx\<close>) and the configuration of the tools that build, lint and test it
  (\<open>src/webpack.config.js\<close>, \<open>src/.eslintrc.js\<close>, \<open>src/jest.config.js\<close>).

  \<^bold>\<open>The theories.\<close>
  \<^item> \<open>Prelude\<close>: the JavaScript primitives the code relies on (indexing that yields
    \<open>undefined\<close>, \<open>String(undefined)\<close>, \<open>substring\<close> with its clamping and argument
    swap, ASCII \<open>toUpperCase\<close>, \<open>split\<close> and \<open>join\<close> on one character, \<open>trim\<close>,
    \<open>replaceAll\<close>) and the generic lemmas on lists and on \<open>fold\<close> with a potential,
    shared by the components.
  \<^item> \<open>WordExtract\<close>: \<open>isWhiteSpace\<close> and \<open>getWordBackwards\<close>; the backward loop is
    structural recursion on its index. Its lemmas compare it with \<open>word_before\<close>, the
    white-space-free suffix of the text before the caret (claims C1--C3). White space is
    the set \<open>\s\<close> matches in the range U+0000--U+00FF, no-break space included.
  \<^item> \<open>Similarity\<close>: \<open>calculateAccuracy\<close>, \<open>assemblySuggestionForWords\<close> and
    \<open>findSimilarWords\<close>; the lemmas bound the scores, relate the Jaccard branch to the
    Jaccard index of the character sets, and show that the engine's stable sort is
    determined by its specification \<open>stable_desc_sort_of\<close> (C4--C6).
  \<^item> \<open>Debounce\<close>: \<open>useDebouncedEffect\<close> as a step function over renders (with their
    dependency lists), timer elapses and unmount (C7).
  \<^item> \<open>Autocomplete\<close>: the component's state, its recompute callback, key handlers with
    their memoised closures, the option click and the word-data effect, and the mounted
    component as a step function \<open>ac_step\<close> over props changes, timer ticks, key presses and
    clicks, with reachability \<open>ac_reachable\<close> as an inductive predicate. The invariant
    \<open>ac_invariant\<close> is preserved by every step (C8); the other claims are the functional
    behaviour of the steps and a concrete reachable run that exhibits a stale closure (C9--C13).
    \<open>handleEnterKey\<close> sets its suppression flag only when the editor's accept handler
    returns (\<open>accept_throws\<close>).
    \<open>ac_render\<close> is what the component renders: the popup's hidden flag, its position from
    \<open>getModalStyles\<close> (the text area's bounding rectangle an argument, CSS lengths as exact
    rationals) and its options with their selected mark.
  \<^item> \<open>CodeEditor\<close>: \<open>getCaretCoordinates\<close>, \<open>handleCaretChange\<close>,
    \<open>handleValueChange\<close>, \<open>handleSuggestionAccept\<close> and \<open>handleSelectCapture\<close> as lists of
    queued state updates, applied in order by \<open>apply_updates\<close> (C14).
  \<^item> \<open>EditorApp\<close>: the mounted editor inside \<open>App\<close>: its hooks, the DOM text areas by
    identity, the effects of lines 88--126 with their dependency lists, and the events that
    reach it (typing, caret events, an example click, the view buttons, the loaded code,
    the workers, frames). Switching views replays the loaded code over the user's text
    (C15), an example click leaves the popup a stale caret (C16), the editor settles
    within two frames after any event (C17), and a caret move places the popup under the
    caret's line (C18).
  \<^item> \<open>ParseTree\<close>: \<open>loadDataFromParseTree\<close>'s stack-driven loop as a terminating
    \<open>function\<close> over explicit node, edge and stack state, and the converter's effect.
    Reading the graph back with \<open>decode_graph\<close> gives the parse tree's top-level rules
    (C19); the invariant \<open>convert_ok\<close> (node ids are positions, edges point one level
    down from a non-terminal, one parent per non-root node) is preserved by every visited
    tree node (C20); the effect never shows \<open>isConverting\<close>.
  \<^item> \<open>Views\<close>: \<open>ViewSelect\<close>'s buttons and the click they pass to the mounted editor,
    and \<open>ParseTreeView\<close> with the converter hook, its \<open>networkRef\<close> and the networks it
    creates and destroys: at most one network exists and it draws the latest tree (C21).
  \<^item> \<open>Sharing\<close>: \<open>decode\<close>'s padding repair and base64 length check, the code loader's
    effect, and the URL \<open>ShareButton\<close> builds with its regular-expression replace
    (C22--C23).
  \<^item> \<open>ShareButton\<close>: the share button with its asynchronous click handler, answers and
    rejections in any order, the reset timers of its \<open>isCopied\<close> effect, and the
    \<open>Button\<close> it renders: a click's full cycle from any quiet state (C24), a rejection
    that leaves the spinner on (C25), and an interleaving that leaves \<open>Copied!\<close> on (C26).
  \<^item> \<open>Highlights\<close>: \<open>hasLineAnyError\<close>, the rows \<open>assemblyLine\<close> builds, the Prism grammar
    assembled from the specification, \<open>splitMultilineNode\<close> and the replace with
    \<open>NODE_REGEX\<close> (a scan with the regular expression's lazy, case-insensitive matching),
    and \<open>highlightCallback\<close>'s rows; the rows number the lines and flag exactly the lines
    with errors.
  \<^item> \<open>ExampleCode\<close>: the table of an example's trimmed code, and what the examples list
    renders: an \<open>ExampleElement\<close> per shown example with its key, title and code table.
    Both code tables have one row per line of Prism's output (C27); the list renders the
    search of the debounced phrase, with distinct keys, and a click on an element reports
    its example (C30).
  \<^item> \<open>Parsing\<close>: \<open>useParsing\<close>, the hook that talks to the grammar worker, as a step
    function over props, timer elapses and the worker's replies, with the worker as the
    environment (messages posted, workers terminated). From a settled hook with a ready
    worker, every elapse-and-reply round posts another parse of the unchanged text (C28).
  \<^item> \<open>ExamplesList\<close>: the examples list as a step function over commits, with Fuse
    indexes and arrays compared by identity: its render loop never settles (C29).
  \<^item> \<open>Button\<close>: the structure \<open>Button\<close> renders from its props; with an icon it shows
    the spinner, the success icon or the icon in the icon's place, before or after the
    label by the placement (C31); without an icon it never shows the spinner or the
    success icon. The theory also holds \<open>ShareIcon\<close> with
    its default props (\<open>src/src/icons\<close>) and \<open>ButtonGroup\<close>.
  \<^item> \<open>Widgets\<close>: \<open>WorkerSelect\<close>'s options and change handler, which passes the worker
    with the reported url or the first one (C32), although the options' values are
    version names, so that choosing an option selects the first worker; the status and
    items of \<open>ErrorsList\<close>, and \<open>useWorkers\<close>, whose failed request is final (C33).
  \<^item> \<open>JsRegex\<close>: the regular expressions the configuration files write, their meaning as
    an inductive predicate, and \<open>RegExp.prototype.test\<close> as a Brzozowski-derivative
    matcher proved equal to it (\<open>js_test_iff\<close>), with the \<open>i\<close> flag's canonicalisation.
  \<^item> \<open>Webpack\<close>: \<open>src/webpack.config.js\<close> as a record, its mode from \<open>NODE_ENV\<close>, the
    loaders and module type webpack derives from its rules for every file (C35), and the
    entry module \<open>src/src/index.tsx\<close>, which mounts \<open>App\<close> when the page has a root element.
  \<^item> \<open>Jest\<close>: \<open>src/jest.config.js\<close>, its \<open><rootDir>\<close> normalisation, the files Jest runs as
    tests and the transformer of each, with Jest's default \<open>transformIgnorePatterns\<close> (C36).
  \<^item> \<open>Eslint\<close>: \<open>src/.eslintrc.js\<close>, its overrides selected by base-name globs and
    merged into the configuration of a file, and ESLint's built-in ignores
    (\<open>node_modules\<close>, dot-files and dot-directories).

  The root theory connects the popup and the editor: \<open>editor_react\<close> is the editor's
  reaction to an output of the popup, and claim C34 follows an Enter key press from the
  popup's step function through \<open>handleSuggestionAccept\<close> to the editor's text. It also
  connects the three tools: claim C37 compares the files ESLint lints and parses as
  TypeScript with the files Jest runs and webpack compiles.

  \<^bold>\<open>Modelling choices.\<close> Strings are lists of characters, one per UTF-16 code unit; the
  keywords and texts of interest are ASCII, and \<open>toUpperCase\<close> is modelled on ASCII
  letters only. A read past the end of a string is \<open>None\<close> and prints as
  \<open>undefined\<close>, as in JavaScript. Scores are JavaScript doubles, modelled as rationals:
  the only comparisons are with the literal \<open>0.6\<close> and between scores, and the prefix
  scores \<open>2 m / n\<close> and Jaccard quotients that reach the threshold are exactly
  representable or round on the same side, so every comparison agrees with the double
  computation (for instance \<open>2 * 0.3\<close> and \<open>0.6\<close> are the same double); the one
  exception is \<open>0 / 0\<close> for two empty words, \<open>NaN\<close> in JavaScript and 0 here, a call the
  program never makes (C4 excludes it). The
  arithmetic of \<open>decode\<close> is exact in doubles as well: a length over 4 has a fractional
  part that is a multiple of 1/4. Caret indices are natural numbers.

  React is modelled as it behaves: a handler or effect reads the values of the render that
  created it; its \<open>setState\<close> calls are queued and applied in order after it returns, so the
  last write to a hook wins; a render happens when a hook value changed, and arrays and
  objects are compared by identity (a generation counter or an allocated id); a
  \<open>useCallback\<close> is re-created only when one of its dependencies changed; an effect runs
  after a render whose dependency list differs from the previous one, after the previous
  run's cleanup. A render caused by an effect's update is a separate frame, an explicit
  event of the models that need it (\<open>EditorApp\<close>, \<open>ExamplesList\<close>, \<open>ShareButton\<close>,
  \<open>Views\<close>). An \<open>async\<close> function runs to its first \<open>await\<close> and is then a pending flow;
  the answer or rejection of what it awaits is an event, in any order with the others.
  A thrown exception is
  an error value returned with the updates queued before it. Library calls (pako,
  base64-js, \<open>TextDecoder\<close>, \<open>encodeURIComponent\<close>, Fuse.js's search, Prism's
  \<open>highlight\<close>, \<open>fetch\<close>, the clipboard) are
  parameters of the definitions that call them, or their results are inputs. Some modules
  the sources import are not in the repository (\<open>useDebounce\<close>, the enums
  \<open>ButtonIconPlacement\<close> and \<open>CodeEditorViewType\<close>, type and style modules): the
  debounced value is an input of the examples list, and the enums are datatypes with the
  members the code uses.

  \<^bold>\<open>Termination and fuel.\<close> No definition uses fuel. The loops of \<open>getWordBackwards\<close>
  and the event runs are structural recursion or \<open>fold\<close>; \<open>load_loop\<close> terminates because
  the number of tree nodes still on the stack (plus the number of frames) decreases at every
  pop, \<open>decode_node\<close> because it follows edges to larger ids only, \<open>pad_loop\<close> because
  its index approaches the ceiling of the bound, and the scans \<open>replace_nodes\<close> and
  \<open>js_replace_all\<close> because every call is on a shorter suffix of the text (a match is
  never empty). React's render cascades are not loops of the model but sequences of frame
  events: C17 shows the editor's cascade ends within two frames, and C29 that the examples
  list's never ends. The repetition claim C9 is stated for every reachable state, and a
  tick leads to a reachable state, so it holds at every tick; C28 is stated for any number
  of rounds, and C25, C26 and C33 for every later sequence of events. \<open>js_nat_str\<close>
  recurses on \<open>n div 10\<close>, and the regular-expression matcher folds over its input, one
  derivative per code unit.

  \<^bold>\<open>Not modelled.\<close> The rendering of JSX and CSS beyond the structure named above
  (class names, the highlighted table's markup and the icons other than \<open>ShareIcon\<close>,
  which are not in the repository), the \<open>vis-network\<close> drawing, the network and the
  clipboard themselves (their answers are events), the grammar worker itself (a script
  outside the repository), Prism's tokenizer, the HTML parsing of
  \<open>html-react-parser\<close> and the libraries named above. Of the tools, what their plugins
  and loaders do with a file is library code, as are the shared ESLint configurations
  named in \<open>extends\<close>; \<open>tsconfig.json\<close>, from which Jest's \<open>moduleNameMapper\<close> is built, is
  not in the repository. Strict mode's second effect run in development builds is not
  modelled.
\<close>

subsection \<open>The popup and the editor together\<close>

text \<open>
  \<open>CodeEditor\<close> passes \<open>handleSuggestionAccept\<close> to \<open>Autocomplete\<close> as
  \<open>onSuggestionAccept\<close> (\<open>code-editor.tsx\<close>, lines 165--171); the popup's Enter handler
  calls it with the highlighted suggestion, the stored span and, through its closure, the
  editor text of the render that created it. The editor's reaction to one output of the
  popup is the list of updates that call queues.
\<close>

definition editor_react :: "text_area option \<Rightarrow> ac_output \<Rightarrow> editor_update list \<times> js_error option" where
  "editor_react ta out =
     (case out of
        AcceptSuggestion suggestion wordData value \<Rightarrow> handle_suggestion_accept ta value suggestion wordData
      | _ \<Rightarrow> ([], None))"

text \<open>
  Claim C34: end to end, an accepted suggestion never reaches the editor. Pressing Enter
  on the shown popup with a highlighted suggestion and a span inside the text makes the
  editor text, once the queued updates are applied, the text the Enter handler's closure
  captured (the current text, or an older one if the user typed since the handler was
  created), not the text with the suggestion; only the caret index moves to where the
  suggestion would end. Nothing is thrown.
\<close>

theorem accept_end_to_end:
  assumes "should_show_modal (sys_state S)"
    and "js_at (current_suggestions (sys_state S)) (selected_option (sys_state S)) = Some sug"
    and "current_word_data (sys_state S) = Some wd"
    and "start_index wd = int a" and "wd_length wd = int l" and "a + l \<le> length (enter_code (sys_memo S))"
  shows "query (apply_updates e (fst (editor_react (Some t)
            (last (snd (ac_step S (KeyDown \<lparr>ev_key = KeyEnter, ev_ctrl = c\<rparr>))))))) = enter_code (sys_memo S) \<and>
         new_caret_index (apply_updates e (fst (editor_react (Some t)
            (last (snd (ac_step S (KeyDown \<lparr>ev_key = KeyEnter, ev_ctrl = c\<rparr>))))))) = int (a + length sug + 1) \<and>
         snd (editor_react (Some t) (last (snd (ac_step S (KeyDown \<lparr>ev_key = KeyEnter, ev_ctrl = c\<rparr>))))) = None"
proof -
  have out: "last (snd (ac_step S (KeyDown \<lparr>ev_key = KeyEnter, ev_ctrl = c\<rparr>))) =
               AcceptSuggestion (Some sug) (Some wd) (enter_code (sys_memo S))"
    using ac_step_enter_output [OF assms(1), of c] assms(2,3) by (simp add: handle_enter_key_def)
  show ?thesis
    unfolding out using accept_span_nat [OF assms(4-6)] assms(4-6)
    by (simp add: editor_react_def handle_suggestion_accept_def handle_value_change_def
        handle_caret_change_def Let_def)
qed

lemma accept_end_to_end_witness:
  "query (apply_updates \<lparr>query = ''app'', ed_caret_data = default_caret_data, new_caret_index = -1\<rparr>
     (fst (editor_react (Some \<lparr>ta_value = ''app'', ta_selection_start = 3\<rparr>)
       (last (snd (ac_step (fst (ac_step (ac_mount (demo_props ''app'' 3)) Tick))
          (KeyDown \<lparr>ev_key = KeyEnter, ev_ctrl = False\<rparr>))))))) = ''app''"
proof -
  let ?S = "fst (ac_step (ac_mount (demo_props ''app'' 3)) Tick)"
  have v: "should_show_modal (sys_state ?S)" by code_simp
  have j: "js_at (current_suggestions (sys_state ?S)) (selected_option (sys_state ?S)) = Some ''apple''"
    by code_simp
  have w: "current_word_data (sys_state ?S) = Some \<lparr>start_index = int 0, wd_length = int 3\<rparr>" by code_simp
  have c: "enter_code (sys_memo ?S) = ''app''" by code_simp
  have "0 + 3 \<le> length (enter_code (sys_memo ?S))" using c by simp
  from accept_end_to_end [OF v j w _ _ this] c show ?thesis by simp
qed

text \<open>
  Claim C37: the three tools agree on the TypeScript files, except in case and in ESLint's
  built-in ignores. For a path \<open>r\<close> relative to the project directory, ESLint parses the
  file with \<open>@typescript-eslint/parser\<close> exactly when its name ends in \<open>.ts\<close> or \<open>.tsx\<close>,
  applies the Prettier rule to the \<open>.ts\<close>, \<open>.tsx\<close> and \<open>.js\<close> files only, and lints exactly
  those that its built-in patterns do not ignore; every file Jest runs as a test is parsed
  with the TypeScript parser and is linted unless it lies in a dot-directory or
  \<open>node_modules\<close> or is a dot-file. Webpack's rule is case-insensitive and ESLint's globs are
  not: \<open>src/Widget.TSX\<close> is compiled by \<open>ts-loader\<close> and never linted.
\<close>

theorem tooling_lint_coverage:
  "(rc_parser (config_for_file eslintrc r) =
      (if suffix ''.ts'' (base_name r) \<or> suffix ''.tsx'' (base_name r)
       then Some ''@typescript-eslint/parser'' else None) \<and>
    rc_rules (config_for_file eslintrc r) ''prettier/prettier'' =
      (if suffix ''.ts'' (base_name r) \<or> suffix ''.tsx'' (base_name r) \<or> suffix ''.js'' (base_name r)
       then Some (RuleError eslint_prettier_options) else None) \<and>
    (eslint_lints eslintrc r \<longleftrightarrow> \<not> eslint_ignored r \<and>
      (suffix ''.ts'' (base_name r) \<or> suffix ''.tsx'' (base_name r) \<or> suffix ''.js'' (base_name r)))) \<and>
   (jest_is_test (jest_normalize rd (jest_config_js m)) (rd @ ''/'' @ q) \<longrightarrow>
      rc_parser (config_for_file eslintrc q) = Some ''@typescript-eslint/parser'' \<and>
      (eslint_lints eslintrc q \<longleftrightarrow> \<not> eslint_ignored q)) \<and>
   webpack_loaders (webpack_export d env) ''/app/src/Widget.TSX'' = [ts_loader] \<and>
   \<not> eslint_lints eslintrc ''src/Widget.TSX''"
proof (intro conjI impI)
  show "rc_parser (config_for_file eslintrc r) =
      (if suffix ''.ts'' (base_name r) \<or> suffix ''.tsx'' (base_name r)
       then Some ''@typescript-eslint/parser'' else None)"
    "rc_rules (config_for_file eslintrc r) ''prettier/prettier'' =
      (if suffix ''.ts'' (base_name r) \<or> suffix ''.tsx'' (base_name r) \<or> suffix ''.js'' (base_name r)
       then Some (RuleError eslint_prettier_options) else None)"
    "eslint_lints eslintrc r \<longleftrightarrow> \<not> eslint_ignored r \<and>
      (suffix ''.ts'' (base_name r) \<or> suffix ''.tsx'' (base_name r) \<or> suffix ''.js'' (base_name r))"
    using eslint_file_config [of r] by blast+
next
  assume "jest_is_test (jest_normalize rd (jest_config_js m)) (rd @ ''/'' @ q)"
  then have "suffix ''.ts'' (base_name (rd @ ''/'' @ q)) \<or> suffix ''.tsx'' (base_name (rd @ ''/'' @ q))"
    by (rule jest_test_name)
  then have "suffix ''.ts'' (rd @ CHR ''/'' # q) \<or> suffix ''.tsx'' (rd @ CHR ''/'' # q)"
    using suffix_base_name_iff [of "''.ts''"] suffix_base_name_iff [of "''.tsx''"] by simp
  then have "suffix ''.ts'' q \<or> suffix ''.tsx'' q"
    using suffix_after_sep [of "CHR ''/''" "''.ts''" rd q] suffix_after_sep [of "CHR ''/''" "''.tsx''" rd q]
    by auto
  then have "suffix ''.ts'' (base_name q) \<or> suffix ''.tsx'' (base_name q)"
    using suffix_base_name_iff [of "''.ts''" q] suffix_base_name_iff [of "''.tsx''" q] by simp
  then show "rc_parser (config_for_file eslintrc q) = Some ''@typescript-eslint/parser''"
    "eslint_lints eslintrc q \<longleftrightarrow> \<not> eslint_ignored q"
    using eslint_file_config [of q] by auto
next
  have u: "ends_ci ''.tsx'' ''/app/src/Widget.TSX''" "\<not> ends_ci ''.css'' ''/app/src/Widget.TSX''"
    "\<not> ends_ci ''.module.css'' ''/app/src/Widget.TSX''"
    by (simp_all add: ends_ci_def js_upper_def js_upper_char_def ascii_lower_def ascii_upper_def suffix_to_prefix)
  then show "webpack_loaders (webpack_export d env) ''/app/src/Widget.TSX'' = [ts_loader]"
    by (simp add: webpack_loaders_def webpack_module_rules_def rule_applies_def ts_rule_test_iff
        css_rule_test_iff css_module_rule_test_iff)
  have b: "base_name ''src/Widget.TSX'' = ''Widget.TSX''" by (simp add: base_name_def)
  have "\<not> suffix ''.ts'' ''Widget.TSX''" "\<not> suffix ''.tsx'' ''Widget.TSX''" "\<not> suffix ''.js'' ''Widget.TSX''"
    by (simp_all add: suffix_to_prefix)
  with b show "\<not> eslint_lints eslintrc ''src/Widget.TSX''"
    using eslint_file_config [of "''src/Widget.TSX''"] by simp
qed

lemma tooling_lint_coverage_witness:
  "jest_is_test (jest_normalize ''/app'' (jest_config_js [])) ''/app/test/a.spec.tsx'' \<and>
   rc_parser (config_for_file eslintrc ''test/a.spec.tsx'') = Some ''@typescript-eslint/parser'' \<and>
   eslint_lints eslintrc ''test/a.spec.tsx''"
proof -
  have t: "jest_is_test (jest_normalize ''/app'' (jest_config_js [])) ''/app/test/a.spec.tsx''"
    using jest_is_test_under_test [of "''a.spec.tsx''" "''/app''" "[]"]
    by (simp add: no_line_break_def jest_ignored_paths_def suffix_to_prefix sublist_code)
  have i: "\<not> eslint_ignored ''test/a.spec.tsx''" by code_simp
  have e: "''/app'' @ ''/'' @ ''test/a.spec.tsx'' = ''/app/test/a.spec.tsx''" by simp
  from t i show ?thesis
    using tooling_lint_coverage [where r = "''test/a.spec.tsx''" and rd = "''/app''" and m = "[]"
        and q = "''test/a.spec.tsx''"] unfolding e
    by blast
qed

end
